(* ===== verification/Go_Base.thy ===== *)
theory Go_Base
  imports Main "HOL-Library.Sublist"
begin

text \<open>
  Prelude of the development: the parts of Go and of its standard library that every component
  uses.
  \<^item> A Go string is a sequence of bytes, here a \<^typ>\<open>string\<close> (a list of 8-bit characters).
  \<^item> An \<open>error\<close> value is its message (\<open>go_error\<close>); a function that returns a value and an
    error returns a sum, with \<^const>\<open>Inl\<close> for the error.
  \<^item> A run-time panic (nil dereference, \<open>regexp.MustCompile\<close> on a bad pattern) is the value
    \<open>Panic\<close> of \<open>go_result\<close>, and \<open>go_bind\<close> is sequencing: a panic ends the computation.
  \<^item> A nil-able pointer is an \<^typ>\<open>'a option\<close>; a map read by key is a partial function, and a
    read of a missing key gives the zero value (\<open>map_get\<close>).
  \<^item> The functions of \<open>strings\<close>, \<open>slices\<close> and \<open>fmt\<close> that the program calls, with the
    lemmas on them that the components share.
\<close>

named_theorems go_defs \<open>definitions of Go library functions, to be unfolded\<close>
named_theorems hook_defs \<open>definitions of a webhook's methods, to be unfolded\<close>

section \<open>Errors, panics, sequencing\<close>

type_synonym go_error = string

datatype 'a go_result = Return (returned: 'a) | Panic string

fun go_bind :: "'a go_result \<Rightarrow> ('a \<Rightarrow> 'b go_result) \<Rightarrow> 'b go_result" where
  "go_bind (Return x) k = k x"
| "go_bind (Panic m) k = Panic m"

abbreviation nil_deref :: "'a go_result" where
  "nil_deref \<equiv> Panic ''invalid memory address or nil pointer dereference''"

lemma go_bind_eq_Return [simp]:
  "go_bind r k = Return y \<longleftrightarrow> (\<exists>x. r = Return x \<and> k x = Return y)"
  by (cases r) auto

lemma go_bind_assoc: "go_bind (go_bind r f) g = go_bind r (\<lambda>x. go_bind (f x) g)"
  by (cases r) auto

lemma go_bind_Return_right [simp]: "go_bind r Return = r"
  by (cases r) auto

lemma go_sum_cases [case_names failed gave panicked]:
  obtains err where "r = Return (Inl err)" | x where "r = Return (Inr x)" | m where "r = Panic m"
  by (cases r) (metis sumE)+

section \<open>slices.Contains and map reads\<close>

abbreviation slices_Contains :: "'a list \<Rightarrow> 'a \<Rightarrow> bool" where
  "slices_Contains xs x \<equiv> x \<in> set xs"

definition map_get :: "('k \<rightharpoonup> string) \<Rightarrow> 'k \<Rightarrow> string" where
  "map_get m k = (case m k of None \<Rightarrow> [] | Some v \<Rightarrow> v)"

lemma map_get_simps [simp]:
  "m k = None \<Longrightarrow> map_get m k = []"
  "m k = Some v \<Longrightarrow> map_get m k = v"
  by (simp_all add: map_get_def)

lemma map_get_nonempty: "map_get m k \<noteq> [] \<Longrightarrow> m k = Some (map_get m k)"
  by (auto simp: map_get_def split: option.splits)

section \<open>Package strings\<close>

abbreviation strings_HasPrefix :: "string \<Rightarrow> string \<Rightarrow> bool" where
  "strings_HasPrefix s p \<equiv> prefix p s"

abbreviation strings_HasSuffix :: "string \<Rightarrow> string \<Rightarrow> bool" where
  "strings_HasSuffix s p \<equiv> suffix p s"

fun strings_Contains :: "string \<Rightarrow> string \<Rightarrow> bool" where
  "strings_Contains [] t \<longleftrightarrow> t = []"
| "strings_Contains (c # s) t \<longleftrightarrow> prefix t (c # s) \<or> strings_Contains s t"

lemma strings_Contains_iff: "strings_Contains s t \<longleftrightarrow> (\<exists>u v. s = u @ t @ v)"
proof (induction s)
  case Nil
  then show ?case by auto
next
  case (Cons c s)
  show ?case
  proof
    assume "strings_Contains (c # s) t"
    then consider "prefix t (c # s)" | "strings_Contains s t" by auto
    then show "\<exists>u v. c # s = u @ t @ v"
    proof cases
      case 1
      then show ?thesis by (auto simp: prefix_def intro: exI [of _ "[]"])
    next
      case 2
      then obtain u v where "s = u @ t @ v" using Cons by auto
      then have "c # s = (c # u) @ t @ v" by simp
      then show ?thesis by blast
    qed
  next
    assume "\<exists>u v. c # s = u @ t @ v"
    then obtain u v where eq: "c # s = u @ t @ v" by auto
    show "strings_Contains (c # s) t"
    proof (cases u)
      case Nil
      with eq have "prefix t (c # s)" by (simp add: prefix_def)
      then show ?thesis by simp
    next
      case (Cons d u')
      with eq have "s = u' @ t @ v" by simp
      with Cons.IH show ?thesis by auto
    qed
  qed
qed

text \<open>A string that starts with a word and goes on with something of a given shape.\<close>

fun starts_then :: "string \<Rightarrow> (string \<Rightarrow> bool) \<Rightarrow> string \<Rightarrow> bool" where
  "starts_then [] P s \<longleftrightarrow> P s"
| "starts_then (c # cs) P [] \<longleftrightarrow> False"
| "starts_then (c # cs) P (d # s) \<longleftrightarrow> c = d \<and> starts_then cs P s"

lemma starts_then_iff: "starts_then p P s \<longleftrightarrow> (\<exists>t. s = p @ t \<and> P t)"
  by (induction p P s rule: starts_then.induct) auto

lemma starts_then_Cons: "starts_then (c # cs) P s \<longleftrightarrow> (\<exists>t. s = c # t \<and> starts_then cs P t)"
  by (cases s) auto

lemma prefix_starts_then: "prefix p s \<longleftrightarrow> starts_then p (\<lambda>_. True) s"
  by (auto simp: starts_then_iff prefix_def)

lemma strings_Contains_starts:
  "strings_Contains s t \<longleftrightarrow> (\<exists>u v. s = u @ v \<and> starts_then t (\<lambda>_. True) v)"
  by (auto simp: strings_Contains_iff starts_then_iff)

fun first_chars :: "nat \<Rightarrow> (char \<Rightarrow> bool) \<Rightarrow> string \<Rightarrow> bool" where
  "first_chars 0 P s \<longleftrightarrow> True"
| "first_chars (Suc n) P [] \<longleftrightarrow> False"
| "first_chars (Suc n) P (c # s) \<longleftrightarrow> P c \<and> first_chars n P s"

lemma first_chars_Suc: "first_chars (Suc n) P s \<longleftrightarrow> (\<exists>c t. s = c # t \<and> P c \<and> first_chars n P t)"
  by (cases s) auto

lemma first_chars_iff: "first_chars n P s \<longleftrightarrow> n \<le> length s \<and> (\<forall>c\<in>set (take n s). P c)"
  by (induction n P s rule: first_chars.induct) auto

text \<open>\<open>strings.Split\<close> for a separator of one byte; the empty string splits into one empty field.\<close>

fun strings_Split :: "string \<Rightarrow> char \<Rightarrow> string list" where
  "strings_Split [] c = [[]]"
| "strings_Split (x # xs) c =
     (if x = c then [] # strings_Split xs c
      else (case strings_Split xs c of [] \<Rightarrow> [[x]] | y # ys \<Rightarrow> (x # y) # ys))"

fun strings_Join :: "string list \<Rightarrow> string \<Rightarrow> string" where
  "strings_Join [] sep = []"
| "strings_Join [x] sep = x"
| "strings_Join (x # y # zs) sep = x @ sep @ strings_Join (y # zs) sep"

lemma strings_Split_nonempty [simp]: "strings_Split s c \<noteq> []"
  by (cases s) (auto split: list.splits)

lemma strings_Join_Cons:
  "ys \<noteq> [] \<Longrightarrow> strings_Join (y # ys) sep = y @ sep @ strings_Join ys sep"
  by (cases ys) auto

lemma strings_Join_Cons_Cons:
  "strings_Join ((x # y) # ys) sep = x # strings_Join (y # ys) sep"
  by (cases ys) auto

lemma strings_Join_Split [simp]: "strings_Join (strings_Split s c) [c] = s"
proof (induction s)
  case Nil
  then show ?case by simp
next
  case (Cons x s)
  obtain y ys where sp: "strings_Split s c = y # ys"
    using strings_Split_nonempty [of s c] by (cases "strings_Split s c") auto
  have "strings_Join (strings_Split (x # s) c) [c] = x # strings_Join (y # ys) [c]"
    by (cases "x = c") (simp_all add: sp strings_Join_Cons_Cons)
  then show ?case using Cons sp by simp
qed

lemma strings_Split_no_sep: "x \<in> set (strings_Split s c) \<Longrightarrow> c \<notin> set x"
proof (induction s arbitrary: x)
  case Nil
  then show ?case by simp
next
  case (Cons a s)
  then show ?case by (auto split: if_splits list.splits)
qed

lemma strings_Split_plain: "c \<notin> set s \<Longrightarrow> strings_Split s c = [s]"
  by (induction s) auto

lemma strings_Split_append:
  "c \<notin> set s \<Longrightarrow> strings_Split (s @ c # t) c = s # strings_Split t c"
  by (induction s) auto

lemma strings_Split_Join:
  assumes "xs \<noteq> []" and "\<forall>x\<in>set xs. c \<notin> set x"
  shows "strings_Split (strings_Join xs [c]) c = xs"
  using assms
proof (induction xs rule: induct_list012)
  case (3 x y zs)
  then show ?case by (simp add: strings_Split_append)
qed (simp_all add: strings_Split_plain)

section \<open>Package fmt\<close>

text \<open>\<open>%v\<close> and \<open>%s\<close> of a slice of strings: the elements in brackets, separated by blanks.\<close>

definition fmt_slice :: "string list \<Rightarrow> string" where
  [go_defs]: "fmt_slice xs = ''['' @ strings_Join xs '' '' @ '']''"

text \<open>\<open>%+v\<close> of an error value; nil prints as \<open><nil>\<close>.\<close>

definition fmt_error :: "go_error option \<Rightarrow> string" where
  [go_defs]: "fmt_error e = (case e of None \<Rightarrow> ''<nil>'' | Some m \<Rightarrow> m)"

text \<open>The single quote, which a string literal cannot end in, and the backslash.\<close>

abbreviation quote :: char where "quote \<equiv> CHR 0x27"
abbreviation bslash :: char where "bslash \<equiv> CHR 0x5C"
abbreviation newline :: char where "newline \<equiv> CHR 0x0A"

end
