(* ===== verification/Go_Regexp.thy ===== *)
theory Go_Regexp
  imports Go_Base
begin

text \<open>
  The part of Go's package \<open>regexp\<close> the program uses: the syntax its patterns are written in,
  \<open>MustCompile\<close>, \<open>Match\<close> / \<open>MatchString\<close> and \<open>FindStringSubmatch\<close>.
  \<^item> \<open>regex\<close> is the abstract syntax and \<open>rmatch\<close> its meaning: \<open>rmatch r l w t\<close> says that
    \<open>r\<close> matches the piece \<open>w\<close> of the text \<open>l @ w @ t\<close>, with what is left and right of it as
    the context the anchors look at (no \<open>(?m)\<close> flag: \<open>^\<close> and \<open>$\<close> are the ends of the text).
  \<^item> \<open>runs\<close> is the matching engine: all ways to match a prefix of the remaining text, in the
    order of preference of a leftmost-first (Perl-like) matcher, with the captured groups.
    \<open>runs_sound\<close> and \<open>runs_complete\<close> tie it to \<open>rmatch\<close>.
  \<^item> \<open>regexp_compile\<close> reads a pattern: literals, escapes, \<open>.\<close>, \<open>^\<close>, \<open>$\<close>, character classes,
    groups (numbered and named), \<open>|\<close>, \<open>*\<close>, \<open>+\<close>, \<open>?\<close>, \<open>{n}\<close>. It answers \<^const>\<open>None\<close> for a
    pattern that is malformed or uses syntax outside of this list.
  Matching is on bytes. The classes the patterns use contain either no byte or all bytes of the
  encoding of a non-ASCII character, so Go's matching by characters accepts the same texts and
  captures the same pieces.
\<close>

section \<open>Syntax and meaning\<close>

datatype regex =
    RChr char
  | RCls bool "(char \<times> char) list" \<comment> \<open>negated?, ranges\<close>
  | RBol
  | REol
  | REps
  | RCat regex regex
  | RAlt regex regex
  | ROpt regex
  | RStar regex
  | RGroup nat regex

fun in_range :: "char \<Rightarrow> char \<times> char \<Rightarrow> bool" where
  "in_range c (a, b) \<longleftrightarrow> of_char a \<le> (of_char c :: nat) \<and> (of_char c :: nat) \<le> of_char b"

definition cls_mem :: "bool \<Rightarrow> (char \<times> char) list \<Rightarrow> char \<Rightarrow> bool" where
  [go_defs]: "cls_mem neg rs c \<longleftrightarrow> (list_ex (in_range c) rs \<noteq> neg)"

inductive rmatch :: "regex \<Rightarrow> string \<Rightarrow> string \<Rightarrow> string \<Rightarrow> bool" where
  chr: "rmatch (RChr c) l [c] t"
| cls: "cls_mem neg rs c \<Longrightarrow> rmatch (RCls neg rs) l [c] t"
| bol: "rmatch RBol [] [] t"
| eol: "rmatch REol l [] []"
| eps: "rmatch REps l [] t"
| cat: "rmatch a l u (v @ t) \<Longrightarrow> rmatch b (l @ u) v t \<Longrightarrow> rmatch (RCat a b) l (u @ v) t"
| alt1: "rmatch a l w t \<Longrightarrow> rmatch (RAlt a b) l w t"
| alt2: "rmatch b l w t \<Longrightarrow> rmatch (RAlt a b) l w t"
| opt1: "rmatch a l w t \<Longrightarrow> rmatch (ROpt a) l w t"
| opt2: "rmatch (ROpt a) l [] t"
| star1: "rmatch (RStar a) l [] t"
| star2: "rmatch a l u (v @ t) \<Longrightarrow> u \<noteq> [] \<Longrightarrow> rmatch (RStar a) (l @ u) v t \<Longrightarrow>
    rmatch (RStar a) l (u @ v) t"
| group: "rmatch a l w t \<Longrightarrow> rmatch (RGroup k a) l w t"

inductive_simps rmatch_chr [simp]: "rmatch (RChr c) l w t"
inductive_simps rmatch_cls [simp]: "rmatch (RCls neg rs) l w t"
inductive_simps rmatch_bol [simp]: "rmatch RBol l w t"
inductive_simps rmatch_eol [simp]: "rmatch REol l w t"
inductive_simps rmatch_eps [simp]: "rmatch REps l w t"
inductive_simps rmatch_cat: "rmatch (RCat a b) l w t"
inductive_simps rmatch_alt [simp]: "rmatch (RAlt a b) l w t"
inductive_simps rmatch_opt [simp]: "rmatch (ROpt a) l w t"
inductive_simps rmatch_group [simp]: "rmatch (RGroup k a) l w t"
inductive_simps rmatch_star: "rmatch (RStar a) l w t"

lemma rmatch_cat_chr [simp]:
  "rmatch (RCat (RChr c) r) l w t \<longleftrightarrow> (\<exists>v. w = c # v \<and> rmatch r (l @ [c]) v t)"
  by (auto simp: rmatch_cat)

lemma rmatch_cat_cls [simp]:
  "rmatch (RCat (RCls neg rs) r) l w t \<longleftrightarrow>
     (\<exists>c v. w = c # v \<and> cls_mem neg rs c \<and> rmatch r (l @ [c]) v t)"
  unfolding rmatch_cat rmatch_cls by (metis append_Cons append_Nil)

lemma rmatch_cat_bol [simp]:
  "rmatch (RCat RBol r) l w t \<longleftrightarrow> l = [] \<and> rmatch r [] w t"
  by (auto simp: rmatch_cat)

lemma rmatch_cat_eps [simp]: "rmatch (RCat REps r) l w t \<longleftrightarrow> rmatch r l w t"
  by (auto simp: rmatch_cat)

lemma rmatch_cat_eps_right [simp]: "rmatch (RCat r REps) l w t \<longleftrightarrow> rmatch r l w t"
  by (auto simp: rmatch_cat)

lemma rmatch_cat_eol: "rmatch (RCat r REol) l w t \<longleftrightarrow> t = [] \<and> rmatch r l w []"
  by (auto simp: rmatch_cat)

text \<open>A starred class matches exactly the pieces all of whose bytes are in the class.\<close>

lemma rmatch_star_cls [simp]:
  "rmatch (RStar (RCls neg rs)) l w t \<longleftrightarrow> (\<forall>c\<in>set w. cls_mem neg rs c)"
proof
  show "rmatch (RStar (RCls neg rs)) l w t \<Longrightarrow> \<forall>c\<in>set w. cls_mem neg rs c"
    by (induction "RStar (RCls neg rs)" l w t rule: rmatch.induct) auto
next
  show "\<forall>c\<in>set w. cls_mem neg rs c \<Longrightarrow> rmatch (RStar (RCls neg rs)) l w t"
  proof (induction w arbitrary: l)
    case Nil
    then show ?case by (rule_tac star1)
  next
    case (Cons c w)
    then have "rmatch (RStar (RCls neg rs)) (l @ [c]) w t" by simp
    with Cons.prems show ?case
      using star2 [of "RCls neg rs" l "[c]" w t] by simp
  qed
qed

section \<open>The matching engine\<close>

text \<open>
  A state is: is this the start of the text, what remains of the text, the groups captured so
  far (latest first). \<open>star_runs\<close> repeats as long as an iteration consumes something; its
  fuel is the length of what remains, and every iteration shortens that.
\<close>

type_synonym rstate = "bool \<times> string \<times> (nat \<times> string) list"

fun star_runs :: "(rstate \<Rightarrow> rstate list) \<Rightarrow> nat \<Rightarrow> rstate \<Rightarrow> rstate list" where
  "star_runs f 0 st = [st]"
| "star_runs f (Suc n) st =
     concat (map (star_runs f n)
       (filter (\<lambda>st'. length (fst (snd st')) < length (fst (snd st))) (f st))) @ [st]"

primrec runs :: "regex \<Rightarrow> rstate \<Rightarrow> rstate list" where
  "runs (RChr d) = (\<lambda>(b, s, cs). case s of [] \<Rightarrow> []
     | c # s' \<Rightarrow> if c = d then [(False, s', cs)] else [])"
| "runs (RCls neg rs) = (\<lambda>(b, s, cs). case s of [] \<Rightarrow> []
     | c # s' \<Rightarrow> if cls_mem neg rs c then [(False, s', cs)] else [])"
| "runs RBol = (\<lambda>(b, s, cs). if b then [(b, s, cs)] else [])"
| "runs REol = (\<lambda>(b, s, cs). if s = [] then [(b, s, cs)] else [])"
| "runs REps = (\<lambda>st. [st])"
| "runs (RCat r1 r2) = (\<lambda>st. concat (map (runs r2) (runs r1 st)))"
| "runs (RAlt r1 r2) = (\<lambda>st. runs r1 st @ runs r2 st)"
| "runs (ROpt r) = (\<lambda>st. runs r st @ [st])"
| "runs (RStar r) = (\<lambda>st. star_runs (runs r) (length (fst (snd st))) st)"
| "runs (RGroup k r) = (\<lambda>(b, s, cs).
     map (\<lambda>(b', s', cs'). (b', s', (k, take (length s - length s') s) # cs')) (runs r (b, s, cs)))"

lemma star_runs_sound:
  assumes f: "\<And>b s cs b' s' cs'. (b', s', cs') \<in> set (f (b, s, cs)) \<Longrightarrow>
      \<exists>w. s = w @ s' \<and> b' = (b \<and> w = []) \<and> (\<forall>l. (l = []) = b \<longrightarrow> rmatch r l w s')"
    and run: "(b', s', cs') \<in> set (star_runs f n (b, s, cs))"
  shows "\<exists>w. s = w @ s' \<and> b' = (b \<and> w = []) \<and> (\<forall>l. (l = []) = b \<longrightarrow> rmatch (RStar r) l w s')"
  using run
proof (induction n arbitrary: b s cs)
  case 0
  then show ?case by (auto intro: star1)
next
  case (Suc n)
  from Suc.prems consider "(b', s', cs') = (b, s, cs)"
    | b1 s1 c1 where "(b1, s1, c1) \<in> set (f (b, s, cs))" "length s1 < length s"
      "(b', s', cs') \<in> set (star_runs f n (b1, s1, c1))"
    by fastforce
  then show ?case
  proof cases
    case 1
    then show ?thesis by (auto intro: star1)
  next
    case 2
    from f [OF 2(1)] obtain u where u: "s = u @ s1" "b1 = (b \<and> u = [])"
      "\<And>l. (l = []) = b \<Longrightarrow> rmatch r l u s1" by blast
    with 2(2) have "u \<noteq> []" by auto
    from Suc.IH [OF 2(3)] obtain v where v: "s1 = v @ s'" "b' = (b1 \<and> v = [])"
      "\<And>l. (l = []) = b1 \<Longrightarrow> rmatch (RStar r) l v s'" by blast
    have "rmatch (RStar r) l (u @ v) s'" if "(l = []) = b" for l
      using star2 [of r l u v s'] u v that \<open>u \<noteq> []\<close> by auto
    with u v \<open>u \<noteq> []\<close> show ?thesis by (intro exI [of _ "u @ v"]) auto
  qed
qed

lemma runs_sound:
  "(b', s', cs') \<in> set (runs r (b, s, cs)) \<Longrightarrow>
     \<exists>w. s = w @ s' \<and> b' = (b \<and> w = []) \<and> (\<forall>l. (l = []) = b \<longrightarrow> rmatch r l w s')"
proof (induction r arbitrary: b s cs b' s' cs')
  case (RCat r1 r2)
  from RCat.prems obtain b1 s1 c1 where "(b1, s1, c1) \<in> set (runs r1 (b, s, cs))"
    and "(b', s', cs') \<in> set (runs r2 (b1, s1, c1))" by auto
  note one = this
  from RCat.IH(1) [OF one(1)] obtain u where
    u: "s = u @ s1" "b1 = (b \<and> u = [])" "\<And>l. (l = []) = b \<Longrightarrow> rmatch r1 l u s1"
    by blast
  from RCat.IH(2) [OF one(2)] obtain v where
    v: "s1 = v @ s'" "b' = (b1 \<and> v = [])" "\<And>l. (l = []) = b1 \<Longrightarrow> rmatch r2 l v s'"
    by blast
  have "rmatch (RCat r1 r2) l (u @ v) s'" if "(l = []) = b" for l
    using rmatch.cat [of r1 l u v s' r2] u v that by auto
  with u v show ?case by (intro exI [of _ "u @ v"]) auto
next
  case (RStar r)
  then show ?case using star_runs_sound [of "runs r" r b' s' cs' "length s" b s cs] by simp
next
  case (RAlt r1 r2)
  then consider "(b', s', cs') \<in> set (runs r1 (b, s, cs))" | "(b', s', cs') \<in> set (runs r2 (b, s, cs))"
    by auto
  then show ?case
  proof cases
    case 1
    from RAlt.IH(1) [OF 1] show ?thesis by (blast intro: alt1)
  next
    case 2
    from RAlt.IH(2) [OF 2] show ?thesis by (blast intro: alt2)
  qed
next
  case (ROpt r)
  then consider "(b', s', cs') \<in> set (runs r (b, s, cs))" | "(b', s', cs') = (b, s, cs)" by auto
  then show ?case
  proof cases
    case 1
    from ROpt.IH [OF 1] show ?thesis by (blast intro: opt1)
  qed (auto intro: opt2)
next
  case (RGroup k r)
  then obtain c1 where "(b', s', c1) \<in> set (runs r (b, s, cs))" by auto
  from RGroup.IH [OF this] show ?case by (blast intro: rmatch.group)
qed (auto split: list.splits if_splits)

lemma star_runs_complete:
  assumes "rmatch (RStar r) l w t"
    and f: "\<And>l u t cs. rmatch r l u t \<Longrightarrow>
      \<exists>cs'. (l = [] \<and> u = [], t, cs') \<in> set (f (l = [], u @ t, cs))"
    and "length w \<le> n"
  shows "\<exists>cs'. (l = [] \<and> w = [], t, cs') \<in> set (star_runs f n (l = [], w @ t, cs))"
  using assms(1,3)
proof (induction "RStar r" l w t arbitrary: n cs rule: rmatch.induct)
  case (star1 l t)
  show ?case by (cases n) auto
next
  case (star2 l u v t)
  then obtain m where n: "n = Suc m" by (cases n) auto
  from f [OF star2.hyps(1)] obtain c1 where
    c1: "(False, v @ t, c1) \<in> set (f (l = [], u @ v @ t, cs))"
    using \<open>u \<noteq> []\<close> by auto
  have "length v \<le> m" using star2.prems n \<open>u \<noteq> []\<close> by (cases u) auto
  from star2.hyps(5) [OF this] obtain c2 where
    c2: "(False, t, c2) \<in> set (star_runs f m (False, v @ t, c1))"
    using \<open>u \<noteq> []\<close> by fastforce
  have "\<exists>st\<in>set (f (l = [], u @ v @ t, cs)). length (fst (snd st)) < length (u @ v @ t) \<and>
      (False, t, c2) \<in> set (star_runs f m st)"
    using c1 c2 \<open>u \<noteq> []\<close> by (intro bexI [OF _ c1]) auto
  then have "(False, t, c2) \<in> set (star_runs f n (l = [], (u @ v) @ t, cs))"
    by (auto simp: n)
  then show ?case using \<open>u \<noteq> []\<close> by auto
qed

lemma runs_complete:
  "rmatch r l w t \<Longrightarrow> \<exists>cs'. (l = [] \<and> w = [], t, cs') \<in> set (runs r (l = [], w @ t, cs))"
proof (induction r arbitrary: l w t cs)
  case (RCat r1 r2)
  from RCat.prems obtain u v where w: "w = u @ v" and "rmatch r1 l u (v @ t)"
    and "rmatch r2 (l @ u) v t" by (auto simp: rmatch_cat)
  with RCat.IH obtain c1 c2 where
    "(l = [] \<and> u = [], v @ t, c1) \<in> set (runs r1 (l = [], u @ v @ t, cs))"
    "(l @ u = [] \<and> v = [], t, c2) \<in> set (runs r2 (l @ u = [], v @ t, c1))" by blast
  then show ?case by (force simp: w)
next
  case (RStar r)
  have f: "\<exists>cs'. (l = [] \<and> u = [], t, cs') \<in> set (runs r (l = [], u @ t, cs))"
    if "rmatch r l u t" for l u t cs
    using RStar.IH that by blast
  show ?case
    using star_runs_complete [OF RStar.prems f, of "length (w @ t)" cs] by simp
next
  case (RAlt r1 r2)
  then show ?case by fastforce
next
  case (ROpt r)
  then show ?case by fastforce
next
  case (RGroup k r)
  then obtain cs' where "(l = [] \<and> w = [], t, cs') \<in> set (runs r (l = [], w @ t, cs))"
    by fastforce
  then show ?case by (force simp: image_iff)
qed auto

text \<open>A starred class takes as much as it can in its preferred run.\<close>

lemma star_runs_cls_greedy:
  assumes "\<forall>c\<in>set a. cls_mem neg rs c" and "case rest of [] \<Rightarrow> True | c # _ \<Rightarrow> \<not> cls_mem neg rs c"
    and "length a \<le> n"
  shows "\<exists>sts. star_runs (runs (RCls neg rs)) n (b, a @ rest, cs) = (b \<and> a = [], rest, cs) # sts"
  using assms(1,3)
proof (induction a arbitrary: n b)
  case Nil
  then show ?case using assms(2) by (cases n) (auto split: list.splits)
next
  case (Cons c a)
  then obtain m where n: "n = Suc m" and m: "length a \<le> m" by (cases n) auto
  have "star_runs (runs (RCls neg rs)) n (b, (c # a) @ rest, cs) =
      star_runs (runs (RCls neg rs)) m (False, a @ rest, cs) @ [(b, (c # a) @ rest, cs)]"
    using Cons.prems by (simp add: n)
  then show ?case using Cons.IH [of m False] Cons.prems m by auto
qed

text \<open>All runs of a starred class, around the one that leaves a given suffix.\<close>

lemma star_cls_Cons:
  "star_runs (runs (RCls neg rs)) (Suc n) (p, c # s, cs) =
     (if cls_mem neg rs c then star_runs (runs (RCls neg rs)) n (False, s, cs) else []) @ [(p, c # s, cs)]"
  by simp

lemma star_cls_Nil: "star_runs (runs (RCls neg rs)) n (p, [], cs) = [(p, [], cs)]"
  by (cases n) auto

lemma star_cls_states:
  "st \<in> set (star_runs (runs (RCls neg rs)) n (p, s, cs)) \<Longrightarrow> \<exists>q s'. st = (q, s', cs) \<and> suffix s' s"
proof (induction n arbitrary: p s)
  case (Suc n)
  show ?case
  proof (cases s)
    case Nil
    with Suc.prems show ?thesis unfolding Nil star_cls_Nil by auto
  next
    case (Cons c t)
    then consider "st = (p, s, cs)" | "st \<in> set (star_runs (runs (RCls neg rs)) n (False, t, cs))"
      using Suc.prems unfolding Cons star_cls_Cons by (auto split: if_splits simp del: runs.simps)
    then show ?thesis
    proof cases
      case 2
      from Suc.IH [OF this] Cons show ?thesis by (auto intro: suffix_ConsI)
    qed auto
  qed
qed simp

lemma star_runs_cls_split:
  assumes "\<forall>c\<in>set (a @ b). cls_mem neg rs c" and "length (a @ b) \<le> n"
  shows "\<exists>xs ys. star_runs (runs (RCls neg rs)) n (p, a @ b, cs) = xs @ (p \<and> a = [], b, cs) # ys \<and>
     (\<forall>st\<in>set xs. \<exists>q b'. st = (q, b', cs) \<and> strict_suffix b' b)"
  using assms
proof (induction a arbitrary: n p)
  case Nil
  show ?case
  proof (cases b)
    case (Cons c b')
    with Nil obtain m where n: "n = Suc m" by (cases n) auto
    have "star_runs (runs (RCls neg rs)) n (p, b, cs) =
        star_runs (runs (RCls neg rs)) m (False, b', cs) @ [(p, b, cs)]"
      using Nil Cons unfolding n Cons star_cls_Cons by simp
    moreover have "\<exists>q d. st = (q, d, cs) \<and> strict_suffix d b"
      if "st \<in> set (star_runs (runs (RCls neg rs)) m (False, b', cs))" for st
      using star_cls_states [OF that] Cons by (auto simp: strict_suffix_def suffix_def)
    ultimately show ?thesis by auto
  next
    case bNil: Nil
    show ?thesis unfolding bNil append_Nil star_cls_Nil by (intro exI [of _ "[]"]) auto
  qed
next
  case (Cons c a)
  then obtain m where n: "n = Suc m" and m: "length (a @ b) \<le> m" by (cases n) auto
  have "star_runs (runs (RCls neg rs)) n (p, (c # a) @ b, cs) =
      star_runs (runs (RCls neg rs)) m (False, a @ b, cs) @ [(p, (c # a) @ b, cs)]"
    using Cons.prems unfolding n append_Cons star_cls_Cons by simp
  with Cons.IH [of m False] Cons.prems m show ?case by fastforce
qed

lemma in_range_single: "in_range c (a, a) \<longleftrightarrow> c = a"
  using of_char_eq_iff [of c a, where 'a = nat] by auto

text \<open>
  \<open>FindStringSubmatch\<close> on a compiled program: the leftmost start that matches, its most
  preferred run. Group 0 is the whole match; a group that took no part reads as empty.
\<close>

fun find_from :: "regex \<Rightarrow> bool \<Rightarrow> string \<Rightarrow> (nat \<times> string) list option" where
  "find_from r b s =
     (case runs r (b, s, []) of
        (b', s', cs) # _ \<Rightarrow> Some ((0, take (length s - length s') s) # cs)
      | [] \<Rightarrow> (case s of [] \<Rightarrow> None | c # s' \<Rightarrow> find_from r False s'))"

declare find_from.simps [simp del]

definition regex_Match :: "regex \<Rightarrow> string \<Rightarrow> bool" where
  "regex_Match r s \<longleftrightarrow> find_from r True s \<noteq> None"

definition submatch :: "(nat \<times> string) list \<Rightarrow> nat \<Rightarrow> string" where
  [go_defs]: "submatch cs k = (case map_of cs k of None \<Rightarrow> [] | Some v \<Rightarrow> v)"

lemma runs_nonempty_iff:
  "runs r (l = [], s, []) \<noteq> [] \<longleftrightarrow> (\<exists>w t. s = w @ t \<and> rmatch r l w t)"
proof
  assume "runs r (l = [], s, []) \<noteq> []"
  then obtain st where "st \<in> set (runs r (l = [], s, []))" by (meson list.set_sel(1))
  then obtain b' s' cs' where "(b', s', cs') \<in> set (runs r (l = [], s, []))"
    by (metis prod_cases3)
  from runs_sound [OF this] show "\<exists>w t. s = w @ t \<and> rmatch r l w t" by blast
next
  assume "\<exists>w t. s = w @ t \<and> rmatch r l w t"
  then obtain w t where "s = w @ t" "rmatch r l w t" by blast
  then show "runs r (l = [], s, []) \<noteq> []"
    using runs_complete [of r l w t "[]"] by force
qed

lemma find_from_iff:
  "find_from r (l = []) s \<noteq> None \<longleftrightarrow> (\<exists>u w t. s = u @ w @ t \<and> rmatch r (l @ u) w t)"
proof (induction s arbitrary: l)
  case Nil
  then show ?case
    using runs_nonempty_iff [of r l "[]"]
    by (subst find_from.simps) (auto split: list.splits)
next
  case (Cons c s)
  have IH: "find_from r False s \<noteq> None \<longleftrightarrow> (\<exists>u w t. s = u @ w @ t \<and> rmatch r (l @ c # u) w t)"
    using Cons.IH [of "l @ [c]"] by simp
  show ?case
  proof (cases "runs r (l = [], c # s, []) = []")
    case True
    then have no: "\<not> (\<exists>w t. c # s = w @ t \<and> rmatch r l w t)"
      using runs_nonempty_iff [of r l "c # s"] by blast
    have "find_from r (l = []) (c # s) \<noteq> None \<longleftrightarrow> find_from r False s \<noteq> None"
      using True by (subst find_from.simps) simp
    also have "\<dots> \<longleftrightarrow> (\<exists>u w t. c # s = u @ w @ t \<and> rmatch r (l @ u) w t)"
    proof
      assume "find_from r False s \<noteq> None"
      then obtain u w t where "s = u @ w @ t" "rmatch r (l @ c # u) w t" using IH by blast
      then have "c # s = (c # u) @ w @ t \<and> rmatch r (l @ (c # u)) w t" by simp
      then show "\<exists>u w t. c # s = u @ w @ t \<and> rmatch r (l @ u) w t" by blast
    next
      assume "\<exists>u w t. c # s = u @ w @ t \<and> rmatch r (l @ u) w t"
      then obtain u w t where eq: "c # s = u @ w @ t" and m: "rmatch r (l @ u) w t" by blast
      show "find_from r False s \<noteq> None"
      proof (cases u)
        case Nil
        with eq m no show ?thesis by auto
      next
        case (Cons d u')
        with eq m have "s = u' @ w @ t \<and> rmatch r (l @ c # u') w t" by simp
        then show ?thesis using IH by blast
      qed
    qed
    finally show ?thesis .
  next
    case False
    then obtain w t where "c # s = [] @ w @ t \<and> rmatch r (l @ []) w t"
      using runs_nonempty_iff [of r l "c # s"] by auto
    moreover have "find_from r (l = []) (c # s) \<noteq> None"
      using False by (subst find_from.simps) (auto split: list.splits)
    ultimately show ?thesis by blast
  qed
qed

text \<open>The engine decides the declarative meaning: a text matches iff some piece of it does.\<close>

lemma regex_Match_iff: "regex_Match r s \<longleftrightarrow> (\<exists>u w t. s = u @ w @ t \<and> rmatch r u w t)"
  using find_from_iff [of r "[]" s] by (simp add: regex_Match_def)

lemma regex_Match_anchored:
  "regex_Match (RCat RBol r) s \<longleftrightarrow> (\<exists>w t. s = w @ t \<and> rmatch r [] w t)"
  by (auto simp: regex_Match_iff)

lemma regex_Match_alt: "regex_Match (RAlt a b) s \<longleftrightarrow> regex_Match a s \<or> regex_Match b s"
  by (auto simp: regex_Match_iff)

lemma regex_Match_group [simp]: "regex_Match (RGroup k a) s \<longleftrightarrow> regex_Match a s"
  by (auto simp: regex_Match_iff)

section \<open>Rewriting a match into a plain condition\<close>

text \<open>
  \<open>then_match r k l s\<close>: to the right of \<open>l\<close>, some match of \<open>r\<close> at the start of \<open>s\<close> leaves a
  rest that satisfies \<open>k\<close>. Its equations turn the match of a concrete pattern into a condition
  on the shape of the text.
\<close>

definition then_match :: "regex \<Rightarrow> (string \<Rightarrow> string \<Rightarrow> bool) \<Rightarrow> string \<Rightarrow> string \<Rightarrow> bool" where
  "then_match r k l s \<longleftrightarrow> (\<exists>w t. s = w @ t \<and> rmatch r l w t \<and> k (l @ w) t)"

lemma then_match_simps [simp]:
  "then_match (RChr c) k l s \<longleftrightarrow> (\<exists>t. s = c # t \<and> k (l @ [c]) t)"
  "then_match RBol k l s \<longleftrightarrow> l = [] \<and> k l s"
  "then_match REps k l s \<longleftrightarrow> k l s"
  "then_match (RAlt a b) k l s \<longleftrightarrow> then_match a k l s \<or> then_match b k l s"
  "then_match (ROpt a) k l s \<longleftrightarrow> then_match a k l s \<or> k l s"
  "then_match (RGroup n a) k l s \<longleftrightarrow> then_match a k l s"
  by (simp_all add: then_match_def conj_disj_distribL ex_disj_distrib conj_commute)

lemma then_match_eps: "then_match REps k = k"
  by (simp add: fun_eq_iff)

lemma then_match_eol [simp]: "then_match REol k l s \<longleftrightarrow> s = [] \<and> k l s"
  by (auto simp: then_match_def)

lemma then_match_cls [simp]:
  "then_match (RCls neg rs) k l s \<longleftrightarrow> (\<exists>c t. s = c # t \<and> cls_mem neg rs c \<and> k (l @ [c]) t)"
  unfolding then_match_def rmatch_cls by (metis append_Cons append_Nil)

lemma then_match_cat [simp]:
  "then_match (RCat a b) k l s \<longleftrightarrow> then_match a (then_match b k) l s" (is "?L \<longleftrightarrow> ?R")
proof
  assume ?L
  then obtain u v t where "s = (u @ v) @ t" "rmatch a l u (v @ t)" "rmatch b (l @ u) v t"
    "k (l @ (u @ v)) t"
    by (auto simp: then_match_def rmatch_cat)
  then show ?R unfolding then_match_def by (metis append_assoc)
next
  assume ?R
  then obtain u v t where "s = (u @ v) @ t" "rmatch a l u (v @ t)" "rmatch b (l @ u) v t"
    "k (l @ (u @ v)) t"
    by (auto simp: then_match_def)
  then have "s = (u @ v) @ t \<and> rmatch (RCat a b) l (u @ v) t \<and> k (l @ (u @ v)) t"
    using rmatch.cat [of a l u v t b] by simp
  then show ?L unfolding then_match_def by blast
qed

lemma any_char_mem: "cls_mem True [(newline, newline)] c \<longleftrightarrow> c \<noteq> newline"
  using in_range_single [of c newline] by (simp add: cls_mem_def)

lemma then_match_star_cls:
  "then_match (RStar (RCls neg rs)) k l s \<longleftrightarrow>
    (\<exists>w t. s = w @ t \<and> (\<forall>c\<in>set w. cls_mem neg rs c) \<and> k (l @ w) t)"
  by (simp add: then_match_def)

lemma then_match_star_True [simp]: "then_match (RStar r) (\<lambda>l s. True) l s"
  unfolding then_match_def using star1 by (metis append_Nil)

lemma regex_Match_then_anchored:
  "regex_Match (RCat RBol r) s \<longleftrightarrow> then_match r (\<lambda>l s. True) [] s"
  by (simp add: regex_Match_anchored then_match_def)

lemma regex_Match_then: "regex_Match r s \<longleftrightarrow> (\<exists>u v. s = u @ v \<and> then_match r (\<lambda>l s. True) u v)"
  unfolding regex_Match_iff then_match_def by metis

section \<open>Reading a pattern\<close>

text \<open>
  The reader keeps, like the one of \<open>regexp/syntax\<close>, a stack of open groups: for the group
  being read the finished alternatives and the items of the current one, both latest first.
  \<open>quantifiable\<close> says whether the last item may take a repetition operator.
\<close>

fun cat_list :: "regex list \<Rightarrow> regex" where
  "cat_list [] = REps"
| "cat_list [r] = r"
| "cat_list (r # r' # rs) = RCat r (cat_list (r' # rs))"

fun alt_list :: "regex list \<Rightarrow> regex" where
  "alt_list [] = REps"
| "alt_list [r] = r"
| "alt_list (r # r' # rs) = RAlt r (alt_list (r' # rs))"

lemma then_match_cat_list:
  "then_match (cat_list (r # rs)) k l s \<longleftrightarrow> then_match r (then_match (cat_list rs) k) l s"
  by (cases rs) (simp_all add: then_match_eps)

lemma runs_literal: "runs (cat_list (map RChr w)) (b, w @ s, cs) = [(b \<and> w = [], s, cs)]"
proof (induction w arbitrary: b)
  case (Cons c w)
  then show ?case by (cases w) auto
qed simp

datatype pmode =
    PTop bool \<comment> \<open>between items; did a group just open?\<close>
  | PEsc
  | PName nat string \<comment> \<open>in \<open>(?P<name>\<close>: characters of \<open>P<\<close> seen, the name so far\<close>
  | PCls "(char \<times> char) list" "char option" bool \<comment> \<open>ranges, last single character, dash seen?\<close>
  | PRep nat bool \<comment> \<open>the count so far, was there a digit?\<close>

datatype pstate = PState
  bool \<comment> \<open>quantifiable\<close>
  nat \<comment> \<open>groups opened so far\<close>
  "regex list" \<comment> \<open>finished alternatives\<close>
  "regex list" \<comment> \<open>items of the current alternative\<close>
  "(nat \<times> regex list \<times> regex list) list" \<comment> \<open>the groups still open\<close>
  "(string \<times> nat) list" \<comment> \<open>the named groups\<close>

definition pinit :: pstate where
  [go_defs]: "pinit = PState False 0 [] [] [] []"

fun push_item :: "regex \<Rightarrow> pstate \<Rightarrow> (pmode \<times> pstate) option" where
  "push_item r (PState q n as is os ns) = Some (PTop False, PState True n as (r # is) os ns)"

fun repeat_item :: "(regex \<Rightarrow> regex) \<Rightarrow> pstate \<Rightarrow> (pmode \<times> pstate) option" where
  "repeat_item f (PState True n as (r # is) os ns) =
     Some (PTop False, PState False n as (f r # is) os ns)"
| "repeat_item f _ = None"

fun open_group :: "pstate \<Rightarrow> (pmode \<times> pstate) option" where
  "open_group (PState q n as is os ns) =
     Some (PTop True, PState False (Suc n) [] [] ((Suc n, as, is) # os) ns)"

fun close_group :: "pstate \<Rightarrow> (pmode \<times> pstate) option" where
  "close_group (PState q n as is ((k, as', is') # os) ns) =
     Some (PTop False, PState True n as' (RGroup k (alt_list (rev (cat_list (rev is) # as))) # is') os ns)"
| "close_group _ = None"

fun next_alt :: "pstate \<Rightarrow> (pmode \<times> pstate) option" where
  "next_alt (PState q n as is os ns) =
     Some (PTop False, PState False n (cat_list (rev is) # as) [] os ns)"

fun name_group :: "string \<Rightarrow> pstate \<Rightarrow> (pmode \<times> pstate) option" where
  "name_group nm (PState q n as is os ns) =
     (if nm = [] then None else Some (PTop False, PState q n as is os (ns @ [(nm, n)])))"

abbreviation any_char :: regex where
  "any_char \<equiv> RCls True [(newline, newline)]"

abbreviation is_alnum :: "char \<Rightarrow> bool" where
  "is_alnum c \<equiv> cls_mem False [(CHR ''0'', CHR ''9''), (CHR ''A'', CHR ''Z''), (CHR ''a'', CHR ''z'')] c"

definition meta_chars :: string where
  [go_defs]: "meta_chars = bslash # ''.+*?()|[]{}^$''"

definition pstep_top :: "bool \<Rightarrow> char \<Rightarrow> pstate \<Rightarrow> (pmode \<times> pstate) option" where
  [go_defs]: "pstep_top fresh c st =
     (if c = CHR ''('' then open_group st
      else if c = CHR '')'' then close_group st
      else if c = CHR ''|'' then next_alt st
      else if c = CHR ''?'' \<and> fresh then Some (PName 0 [], st)
      else if c = CHR ''*'' then repeat_item RStar st
      else if c = CHR ''+'' then repeat_item (\<lambda>r. RCat r (RStar r)) st
      else if c = CHR ''?'' then repeat_item ROpt st
      else if c = CHR ''{'' then Some (PRep 0 False, st)
      else if c = CHR ''['' then Some (PCls [] None False, st)
      else if c = CHR ''^'' then push_item RBol st
      else if c = CHR ''$'' then push_item REol st
      else if c = CHR ''.'' then push_item any_char st
      else if c = bslash then Some (PEsc, st)
      else if c = CHR '']'' \<or> c = CHR ''}'' then None
      else push_item (RChr c) st)"

definition pstep_esc :: "char \<Rightarrow> pstate \<Rightarrow> (pmode \<times> pstate) option" where
  [go_defs]: "pstep_esc c st =
     (if c = CHR ''d'' then push_item (RCls False [(CHR ''0'', CHR ''9'')]) st
      else if c = CHR ''w'' then push_item (RCls False
        [(CHR ''0'', CHR ''9''), (CHR ''A'', CHR ''Z''), (CHR ''_'', CHR ''_''), (CHR ''a'', CHR ''z'')]) st
      else if c = CHR ''S'' then push_item (RCls True
        [(CHR 0x09, newline), (CHR 0x0C, CHR 0x0D), (CHR '' '', CHR '' '')]) st
      else if of_char c < (128 :: nat) \<and> \<not> is_alnum c then push_item (RChr c) st
      else None)"

definition pstep_name :: "nat \<Rightarrow> string \<Rightarrow> char \<Rightarrow> pstate \<Rightarrow> (pmode \<times> pstate) option" where
  [go_defs]: "pstep_name k nm c st =
     (if k = 0 then (if c = CHR ''P'' then Some (PName 1 [], st) else None)
      else if k = 1 then (if c = CHR ''<'' then Some (PName 2 [], st) else None)
      else if c = CHR ''>'' then name_group nm st
      else if is_alnum c \<or> c = CHR ''_'' then Some (PName k (nm @ [c]), st)
      else None)"

definition flush_cls :: "(char \<times> char) list \<Rightarrow> char option \<Rightarrow> (char \<times> char) list" where
  [go_defs]: "flush_cls rs p = (case p of None \<Rightarrow> rs | Some c \<Rightarrow> rs @ [(c, c)])"

definition pstep_cls ::
  "(char \<times> char) list \<Rightarrow> char option \<Rightarrow> bool \<Rightarrow> char \<Rightarrow> pstate \<Rightarrow> (pmode \<times> pstate) option" where
  [go_defs]: "pstep_cls rs p dash c st =
     (if c = CHR '']'' then
        (if dash \<or> flush_cls rs p = [] then None else push_item (RCls False (flush_cls rs p)) st)
      else if c = CHR ''['' \<or> c = bslash \<or> c = CHR ''^'' then None
      else if dash then (case p of None \<Rightarrow> None
        | Some a \<Rightarrow> if of_char a \<le> (of_char c :: nat) then Some (PCls (rs @ [(a, c)]) None False, st) else None)
      else if c = CHR ''-'' then (if p = None then None else Some (PCls rs p True, st))
      else Some (PCls (flush_cls rs p) (Some c) False, st))"

definition pstep_rep :: "nat \<Rightarrow> bool \<Rightarrow> char \<Rightarrow> pstate \<Rightarrow> (pmode \<times> pstate) option" where
  [go_defs]: "pstep_rep n seen c st =
     (if c = CHR ''}'' then
        (if seen then repeat_item (\<lambda>r. cat_list (replicate n r)) st else None)
      else if in_range c (CHR ''0'', CHR ''9'') \<and> n < 100
        then Some (PRep (10 * n + (of_char c - of_char CHR ''0'')) True, st)
      else None)"

fun pstep :: "pmode \<Rightarrow> char \<Rightarrow> pstate \<Rightarrow> (pmode \<times> pstate) option" where
  "pstep (PTop fresh) c st = pstep_top fresh c st"
| "pstep PEsc c st = pstep_esc c st"
| "pstep (PName k nm) c st = pstep_name k nm c st"
| "pstep (PCls rs p dash) c st = pstep_cls rs p dash c st"
| "pstep (PRep n seen) c st = pstep_rep n seen c st"

fun prun :: "pmode \<Rightarrow> pstate \<Rightarrow> string \<Rightarrow> (pmode \<times> pstate) option" where
  "prun m st [] = Some (m, st)"
| "prun m st (c # cs) = (case pstep m c st of None \<Rightarrow> None | Some (m', st') \<Rightarrow> prun m' st' cs)"

record regexp =
  prog :: regex
  subexps :: "(string \<times> nat) list"

definition regexp_compile :: "string \<Rightarrow> regexp option" where
  [go_defs]: "regexp_compile p =
     (case prun (PTop False) pinit p of
        Some (PTop _, PState q n as is os ns) \<Rightarrow>
          (if os = [] then Some \<lparr>prog = alt_list (rev (cat_list (rev is) # as)), subexps = ns\<rparr>
           else None)
      | _ \<Rightarrow> None)"

definition MustCompile :: "string \<Rightarrow> regexp go_result" where
  [go_defs]: "MustCompile p = (case regexp_compile p of
     None \<Rightarrow> Panic (''regexp: Compile('' @ p @ '')'') | Some re \<Rightarrow> Return re)"

text \<open>
  A package-level \<open>var re = regexp.MustCompile(p)\<close> and its uses: \<open>MatchPattern p\<close> is
  \<open>re.Match\<close> (or \<open>re.MatchString\<close>) and \<open>SubmatchPattern p\<close> is \<open>re.FindStringSubmatch\<close>. That none of
  these initialisers panics is a theorem of its own, so \<^const>\<open>None\<close> does not occur there.
\<close>

definition MatchPattern :: "string \<Rightarrow> string \<Rightarrow> bool" where
  "MatchPattern p s = (case regexp_compile p of None \<Rightarrow> False | Some re \<Rightarrow> regex_Match (prog re) s)"

definition SubmatchPattern :: "string \<Rightarrow> string \<Rightarrow> (nat \<times> string) list option" where
  "SubmatchPattern p s =
     (case regexp_compile p of None \<Rightarrow> None | Some re \<Rightarrow> find_from (prog re) True s)"

definition SubexpIndex :: "string \<Rightarrow> string \<Rightarrow> nat" where
  "SubexpIndex p nm = (case regexp_compile p of None \<Rightarrow> 0 | Some re \<Rightarrow>
     (case map_of (subexps re) nm of None \<Rightarrow> 0 | Some k \<Rightarrow> k))"

section \<open>Patterns around a literal word\<close>

definition plain_word :: "string \<Rightarrow> bool" where
  "plain_word w \<longleftrightarrow> list_all (\<lambda>c. c \<notin> set meta_chars) w"

lemma prun_append:
  "prun m st (xs @ ys) = (case prun m st xs of None \<Rightarrow> None | Some (m', st') \<Rightarrow> prun m' st' ys)"
  by (induction xs arbitrary: m st) (auto split: option.splits)

lemma pstep_plain:
  "c \<notin> set meta_chars \<Longrightarrow>
     pstep_top g c st = push_item (RChr c) st"
  by (auto simp: go_defs)

lemma prun_plain:
  "plain_word w \<Longrightarrow> prun (PTop False) (PState True n as is os ns) w =
     Some (PTop False, PState True n as (rev (map RChr w) @ is) os ns)"
proof (induction w arbitrary: "is")
  case Nil
  then show ?case by simp
next
  case (Cons c w)
  then have "c \<notin> set meta_chars" "plain_word w" by (simp_all add: plain_word_def)
  then show ?case using Cons by (simp add: pstep_plain)
qed

lemma rmatch_cat_list_Cons [simp]:
  "rmatch (cat_list (r # rs)) l w t \<longleftrightarrow> rmatch (RCat r (cat_list rs)) l w t"
  by (cases rs) (auto simp: rmatch_cat)

lemma rmatch_cat_list_chars:
  "rmatch (cat_list (map RChr w @ rs)) l u t \<longleftrightarrow> (\<exists>v. u = w @ v \<and> rmatch (cat_list rs) (l @ w) v t)"
  by (induction w arbitrary: l u) auto

lemma compile_caret_word:
  assumes "plain_word w"
    and "prun (PTop False) (PState True 0 [] (rev (map RChr w) @ [RBol]) [] []) p =
      Some (PTop False, PState q 0 [] (rev rs @ rev (map RChr w) @ [RBol]) [] [])"
  shows "regexp_compile (''^'' @ w @ p) = Some \<lparr>prog = cat_list (RBol # map RChr w @ rs), subexps = []\<rparr>"
proof -
  have "prun (PTop False) pinit (''^'' @ w @ p) =
      Some (PTop False, PState q 0 [] (rev rs @ rev (map RChr w) @ [RBol]) [] [])"
    using assms by (simp add: prun_append prun_plain go_defs)
  then show ?thesis by (simp add: regexp_compile_def)
qed

text \<open>\<open>^w$\<close> for a word \<open>w\<close> with no special character matches the text \<open>w\<close> and nothing else.\<close>

lemma compile_exact:
  "plain_word w \<Longrightarrow> regexp_compile (''^'' @ w @ ''$'') =
     Some \<lparr>prog = cat_list (RBol # map RChr w @ [REol]), subexps = []\<rparr>"
  by (rule compile_caret_word [where q = True]) (simp_all add: go_defs)

lemma regex_Match_exact [simp]:
  "regex_Match (cat_list (RBol # map RChr w @ [REol])) s \<longleftrightarrow> s = w"
  by (auto simp: regex_Match_iff rmatch_cat_list_chars simp del: cat_list.simps(2,3))

text \<open>\<open>^w.*\<close> matches exactly the texts that start with \<open>w\<close>.\<close>

lemma compile_prefix:
  "plain_word w \<Longrightarrow> regexp_compile (''^'' @ w @ ''.*'') =
     Some \<lparr>prog = cat_list (RBol # map RChr w @ [RStar any_char]), subexps = []\<rparr>"
  by (rule compile_caret_word [where q = False]) (simp_all add: go_defs)

lemma regex_Match_prefix [simp]:
  "regex_Match (cat_list (RBol # map RChr w @ [RStar any_char])) s \<longleftrightarrow> prefix w s"
proof
  assume "prefix w s"
  then obtain t where "s = [] @ w @ t" by (auto simp: prefix_def)
  moreover have "rmatch (cat_list (RBol # map RChr w @ [RStar any_char])) [] w t"
    by (simp add: rmatch_cat_list_chars rmatch_cat del: cat_list.simps(2,3))
  ultimately show "regex_Match (cat_list (RBol # map RChr w @ [RStar any_char])) s"
    unfolding regex_Match_iff by blast
qed (auto simp: regex_Match_iff rmatch_cat_list_chars simp del: cat_list.simps(2,3))

lemma MatchPattern_exact: "plain_word w \<Longrightarrow> MatchPattern (''^'' @ w @ ''$'') s \<longleftrightarrow> s = w"
  using compile_exact [of w] regex_Match_exact [of w s] by (simp add: MatchPattern_def)

lemma MatchPattern_prefix: "plain_word w \<Longrightarrow> MatchPattern (''^'' @ w @ ''.*'') s \<longleftrightarrow> prefix w s"
  using compile_prefix [of w] regex_Match_prefix [of w s] by (simp add: MatchPattern_def)

end
