(* ===== verification/Runtime_Scheme.thy ===== *)
theory Runtime_Scheme
  imports Go_Base
begin

text \<open>
  What the \<open>NewWebhook\<close> functions of the hooks share: they make a \<open>runtime.Scheme\<close> and add the types of
  some API packages to it.
  \<^item> \<open>scheme_builders\<close> is the parameter: what \<open>runtime.NewScheme\<close> gives, and what \<open>AddToScheme\<close> (or \<open>Install\<close>)
    of a package does to a scheme, with the error it returns.
  \<^item> \<open>add_to_scheme\<close> is the idiom of the code, one step per package: on an error, log the message of
    that step and call \<open>os.Exit(1)\<close>. \<open>Must\<close> is \<open>utilruntime.Must\<close>, which panics on an error.
  \<^item> A factory makes its hook, ends the process, or panics.
  The lemmas say when each happens, for any list of packages.
\<close>

named_theorems factory_defs \<open>the \<open>NewWebhook\<close> functions, to be unfolded\<close>

datatype scheme_package =
    AdmissionV1 | AdmissionregV1 | CoreV1 | ImagestreamV1 | RegistryV1 | NetworkV1 | OperatorV1
  | ClusterLoggingV1

record 's scheme_builders =
  NewScheme :: 's
  AddToScheme :: "scheme_package \<Rightarrow> 's \<Rightarrow> go_error option \<times> 's"

datatype 's factory_result =
    is_Made: Made 's
  | Exits string nat \<comment> \<open>the message logged, the argument of \<open>os.Exit\<close>\<close>
  | Panics go_error

fun and_then :: "'s factory_result \<Rightarrow> ('s \<Rightarrow> 't factory_result) \<Rightarrow> 't factory_result" where
  "and_then (Made s) f = f s"
| "and_then (Exits msg code) f = Exits msg code"
| "and_then (Panics err) f = Panics err"

fun add_to_scheme ::
  "'s scheme_builders \<Rightarrow> (scheme_package \<times> string) list \<Rightarrow> 's \<Rightarrow> 's factory_result" where
  "add_to_scheme api [] s = Made s"
| "add_to_scheme api ((package, message) # steps) s =
     (case AddToScheme api package s of
        (Some err, s') \<Rightarrow> Exits message 1
      | (None, s') \<Rightarrow> add_to_scheme api steps s')"

definition Must :: "go_error option \<times> 's \<Rightarrow> 's factory_result" where
  "Must result = (case result of (Some err, s) \<Rightarrow> Panics err | (None, s) \<Rightarrow> Made s)"

section \<open>When a scheme is made\<close>

text \<open>The scheme after some packages, errors left aside, and the error of adding one more.\<close>

definition scheme_with :: "'s scheme_builders \<Rightarrow> scheme_package list \<Rightarrow> 's \<Rightarrow> 's" where
  "scheme_with api packages s = foldl (\<lambda>s package. snd (AddToScheme api package s)) s packages"

definition step_error ::
  "'s scheme_builders \<Rightarrow> scheme_package list \<Rightarrow> 's \<Rightarrow> nat \<Rightarrow> go_error option" where
  "step_error api packages s i =
     fst (AddToScheme api (packages ! i) (scheme_with api (take i packages) s))"

lemma scheme_with_simps [simp]:
  "scheme_with api [] s = s"
  "scheme_with api (package # packages) s = scheme_with api packages (snd (AddToScheme api package s))"
  by (simp_all add: scheme_with_def)

lemma step_error_simps [simp]:
  "step_error api (package # packages) s 0 = fst (AddToScheme api package s)"
  "step_error api (package # packages) s (Suc i) =
     step_error api packages (snd (AddToScheme api package s)) i"
  by (simp_all add: step_error_def)

text \<open>The steps run until the first error.\<close>

lemma add_to_scheme_cases:
  obtains (made) "add_to_scheme api steps s = Made (scheme_with api (map fst steps) s)"
      and "\<And>i. i < length steps \<Longrightarrow> step_error api (map fst steps) s i = None"
  | (exits) i where "i < length steps" and "add_to_scheme api steps s = Exits (snd (steps ! i)) 1"
      and "step_error api (map fst steps) s i \<noteq> None"
      and "\<And>j. j < i \<Longrightarrow> step_error api (map fst steps) s j = None"
proof (induction api steps s arbitrary: thesis rule: add_to_scheme.induct)
  case (1 api s)
  then show ?case by simp
next
  case (2 api package message steps s)
  obtain e s' where added: "AddToScheme api package s = (e, s')" by fastforce
  show ?case
  proof (cases e)
    case (Some err)
    with added 2(3) [of 0] show ?thesis by simp
  next
    case None
    note [simp] = added None
    show ?thesis
    proof (rule 2(1) [of None s'])
      assume "add_to_scheme api steps s' = Made (scheme_with api (map fst steps) s')"
        and "\<And>i. i < length steps \<Longrightarrow> step_error api (map fst steps) s' i = None"
      then show ?thesis by (intro 2(2)) (auto simp: less_Suc_eq_0_disj)
    next
      fix i
      assume "i < length steps" and "add_to_scheme api steps s' = Exits (snd (steps ! i)) 1"
        and "step_error api (map fst steps) s' i \<noteq> None"
        and "\<And>j. j < i \<Longrightarrow> step_error api (map fst steps) s' j = None"
      then show ?thesis by (intro 2(3) [of "Suc i"]) (auto simp: less_Suc_eq_0_disj)
    qed auto
  qed
qed

lemma add_to_scheme_made:
  "add_to_scheme api steps s = Made t \<longleftrightarrow>
     t = scheme_with api (map fst steps) s \<and>
     (\<forall>i < length steps. step_error api (map fst steps) s i = None)"
  by (cases api steps s rule: add_to_scheme_cases) auto

lemma add_to_scheme_not_panic: "add_to_scheme api steps s \<noteq> Panics err"
  by (cases api steps s rule: add_to_scheme_cases) auto

lemma add_to_scheme_exits:
  assumes "add_to_scheme api steps s = Exits message code"
  shows "code = 1 \<and> message \<in> snd ` set steps"
  using assms by (cases api steps s rule: add_to_scheme_cases) auto

text \<open>Builders that never fail make every scheme.\<close>

definition builders_succeed :: "'s scheme_builders \<Rightarrow> bool" where
  "builders_succeed api \<longleftrightarrow> (\<forall>package s. fst (AddToScheme api package s) = None)"

lemma builders_succeed_made:
  assumes "builders_succeed api"
  shows "add_to_scheme api steps s = Made (scheme_with api (map fst steps) s)"
  using assms by (simp add: add_to_scheme_made builders_succeed_def step_error_def)

lemma Must_made: "builders_succeed api \<Longrightarrow> Must (AddToScheme api package s) = Made (snd (AddToScheme api package s))"
  by (auto simp: Must_def builders_succeed_def split: prod.split option.split) (metis fst_conv option.distinct(1))+

end
