(* ===== verification/Webhook_Api.thy ===== *)
theory Webhook_Api
  imports Go_Regexp Runtime_Scheme "HOL-Library.AList"
begin

text \<open>
  The interface between the webhooks and the rest of the program: \<open>pkg/webhooks/register.go\<close>, and
  the data it is stated over.
  \<^item> \<open>admission_request\<close> holds the fields of \<open>admissionv1.AdmissionRequest\<close> that the program
    reads. \<open>admissionctl.Request\<close> embeds it, so \<open>request.UserInfo\<close> and
    \<open>request.AdmissionRequest.UserInfo\<close> are one field.
  \<^item> The constructors of package \<open>admissionctl\<close> (\<open>Allowed\<close>, \<open>Denied\<close>, \<open>Errored\<close>,
    \<open>ValidationResponse\<close>, \<open>Patched\<close>, \<open>PatchResponseFromRaw\<close>) are not part of the repository: a
    response keeps the call that made it as its \<open>verdict\<close>, next to the fields the program
    assigns itself (the UID and the audit annotations). \<open>allows\<close>, \<open>refuses\<close> and \<open>errs\<close>
    sort the calls the way the section on building a response of the README does.
  \<^item> A \<open>decoder\<close> is what \<open>admissionctl.NewDecoder\<close> gives for the hook's scheme and one kind of
    object. It is a parameter of every hook that decodes.
  \<^item> \<open>world\<close> is what a hook can change: the calls made on the Prometheus counter of the node
    hook, in order, and whether the pod image hook has made its client.
  \<^item> \<open>webhook\<close> is the Go interface \<open>Webhook\<close>, one field per method.
  The locales \<open>webhook_meta\<close>, \<open>validating_webhook\<close>, \<open>authenticated_webhook\<close> and \<open>delete_guard\<close>
  state what the dispatcher, the server start-up and the resource generator rely on. Every hook
  theory interprets the ones its hook meets.
\<close>

section \<open>Admission requests\<close>

record user_info =
  Username :: string
  Groups :: "string list"

record group_version_kind =
  gvkGroup :: string
  gvkVersion :: string
  gvkKind :: string

type_synonym raw_extension = string \<comment> \<open>the bytes of \<open>runtime.RawExtension.Raw\<close>\<close>

record admission_request =
  reqUID :: string
  reqKind :: group_version_kind
  reqRequestKind :: "group_version_kind option" \<comment> \<open>a pointer\<close>
  reqOperation :: string
  reqName :: string
  reqNamespace :: string
  reqUserInfo :: user_info
  reqObject :: raw_extension
  reqOldObject :: raw_extension

abbreviation username :: "admission_request \<Rightarrow> string" where
  "username req \<equiv> Username (reqUserInfo req)"

abbreviation groups :: "admission_request \<Rightarrow> string list" where
  "groups req \<equiv> Groups (reqUserInfo req)"

abbreviation kind :: "admission_request \<Rightarrow> string" where
  "kind req \<equiv> gvkKind (reqKind req)"

abbreviation kindGroup :: "admission_request \<Rightarrow> string" where
  "kindGroup req \<equiv> gvkGroup (reqKind req)"

abbreviation Create :: string where "Create \<equiv> ''CREATE''"
abbreviation Update :: string where "Update \<equiv> ''UPDATE''"
abbreviation Delete :: string where "Delete \<equiv> ''DELETE''"

text \<open>The zero value of the request type.\<close>

definition zero_request :: admission_request where
  "zero_request = \<lparr>reqUID = [], reqKind = \<lparr>gvkGroup = [], gvkVersion = [], gvkKind = []\<rparr>,
     reqRequestKind = None, reqOperation = [], reqName = [], reqNamespace = [],
     reqUserInfo = \<lparr>Username = [], Groups = []\<rparr>, reqObject = [], reqOldObject = []\<rparr>"

text \<open>The part of \<open>metav1.ObjectMeta\<close> the hooks read.\<close>

record object_meta =
  metaName :: string
  metaNamespace :: string
  metaLabels :: "string \<rightharpoonup> string"
  metaAnnotations :: "string \<rightharpoonup> string"

definition zero_meta :: object_meta where
  "zero_meta = \<lparr>metaName = [], metaNamespace = [], metaLabels = Map.empty, metaAnnotations = Map.empty\<rparr>"

record 'obj decoder =
  Decode :: "admission_request \<Rightarrow> go_error + 'obj"
  DecodeRaw :: "raw_extension \<Rightarrow> go_error + 'obj"

section \<open>Responses\<close>

datatype patch_value = PVString string | PVMap "(string \<times> string) list"

record json_patch_operation =
  patchOp :: string
  patchPath :: string
  patchValue :: patch_value

datatype verdict =
    Allowed string
  | Denied string
  | Errored nat go_error
  | ValidationResponse bool string
  | Patched string "json_patch_operation list"
  | PatchResponseFromRaw raw_extension raw_extension

record response =
  respVerdict :: verdict
  respUID :: string
  respAudit :: "string \<rightharpoonup> string"

text \<open>A response as the library constructor returns it, with no UID.\<close>

definition new_response :: "verdict \<Rightarrow> response" where
  "new_response v = \<lparr>respVerdict = v, respUID = [], respAudit = Map.empty\<rparr>"

text \<open>The idiom \<open>ret = admissionctl.X(...); ret.UID = request.UID; return ret\<close>.\<close>

definition respond :: "admission_request \<Rightarrow> verdict \<Rightarrow> response" where
  "respond req v = (new_response v)\<lparr>respUID := reqUID req\<rparr>"

lemma new_response_simps [simp]:
  "respVerdict (new_response v) = v" "respUID (new_response v) = []"
  "respAudit (new_response v) = Map.empty"
  by (simp_all add: new_response_def)

lemma respond_simps [simp]:
  "respVerdict (respond req v) = v" "respUID (respond req v) = reqUID req"
  "respAudit (respond req v) = Map.empty"
  by (simp_all add: respond_def)

fun allows :: "verdict \<Rightarrow> bool" where
  "allows (Allowed _) \<longleftrightarrow> True"
| "allows (Denied _) \<longleftrightarrow> False"
| "allows (Errored _ _) \<longleftrightarrow> False"
| "allows (ValidationResponse b _) \<longleftrightarrow> b"
| "allows (Patched _ _) \<longleftrightarrow> True"
| "allows (PatchResponseFromRaw _ _) \<longleftrightarrow> True"

fun refuses :: "verdict \<Rightarrow> bool" where
  "refuses (Denied _) \<longleftrightarrow> True"
| "refuses (ValidationResponse b _) \<longleftrightarrow> \<not> b"
| "refuses _ \<longleftrightarrow> False"

fun errs :: "verdict \<Rightarrow> bool" where
  "errs (Errored _ _) \<longleftrightarrow> True"
| "errs _ \<longleftrightarrow> False"

lemma verdict_trichotomy: "allows v \<longleftrightarrow> \<not> refuses v \<and> \<not> errs v"
  by (cases v) auto

section \<open>What a webhook registers with\<close>

datatype scope_type = AllScopes | ClusterScope | NamespacedScope
datatype failure_policy = Ignore | Fail
datatype match_policy = Exact | Equivalent
datatype side_effect_class = SideEffectClassNone | SideEffectClassSome
datatype selector_operator = LabelSelectorOpIn | LabelSelectorOpNotIn

record rule_with_operations =
  Operations :: "string list"
  APIGroups :: "string list"
  APIVersions :: "string list"
  Resources :: "string list"
  Scope :: scope_type

record label_selector_requirement =
  selKey :: string
  selOperator :: selector_operator
  selValues :: "string list"

record label_selector =
  MatchLabels :: "(string \<times> string) list"
  MatchExpressions :: "label_selector_requirement list"

record world =
  nodeBlocked :: "string list" \<comment> \<open>users passed to \<open>IncrementNodeWebhookBlockedRequest\<close>\<close>
  kubeClientSet :: bool \<comment> \<open>has the pod image hook made its \<open>kubeClient\<close>?\<close>

definition initial_world :: world where
  "initial_world = \<lparr>nodeBlocked = [], kubeClientSet = False\<rparr>"

record webhook =
  Authorized :: "admission_request \<Rightarrow> world \<Rightarrow> response go_result \<times> world"
  GetURI :: string
  Validate :: "admission_request \<Rightarrow> bool"
  Name :: string
  FailurePolicy :: failure_policy
  MatchPolicy :: match_policy
  Rules :: "rule_with_operations list"
  ObjectSelector :: "label_selector option"
  SideEffects :: side_effect_class
  TimeoutSeconds :: int
  Doc :: string
  SyncSetLabelSelector :: label_selector
  ClassicEnabled :: bool
  HypershiftEnabled :: bool

text \<open>A handler that leaves the world alone.\<close>

definition stateless ::
  "(admission_request \<Rightarrow> response go_result) \<Rightarrow> admission_request \<Rightarrow> world \<Rightarrow> response go_result \<times> world" where
  "stateless f = (\<lambda>req w. (f req, w))"

lemma stateless_simp [simp]: "stateless f req w = (f req, w)"
  by (simp add: stateless_def)

text \<open>
  The registry: a Go map from names to factories, of which the program only ever uses the hook
  the factory makes. The list order stands for the (unspecified) order of iteration.
\<close>

type_synonym registered_webhooks = "(string \<times> webhook) list"

definition Register :: "string \<Rightarrow> webhook \<Rightarrow> registered_webhooks \<Rightarrow> registered_webhooks" where
  "Register name input ws = AList.update name input ws"

lemma Register_lookup:
  "map_of (Register name input ws) = (map_of ws)(name \<mapsto> input)"
  by (simp add: Register_def update_conv')

lemma Register_distinct:
  "distinct (map fst ws) \<Longrightarrow> distinct (map fst (Register name input ws))"
  by (simp add: Register_def distinct_update)

section \<open>Contracts\<close>

text \<open>Names and URIs are made of lower-case letters, digits and dashes.\<close>

abbreviation is_slug :: "string \<Rightarrow> bool" where
  "is_slug s \<equiv> s \<noteq> [] \<and> list_all (\<lambda>c. c = CHR ''-'' \<or>
     list_ex (in_range c) [(CHR ''0'', CHR ''9''), (CHR ''a'', CHR ''z'')]) s"

definition uri_slug :: "string \<Rightarrow> bool" where
  "uri_slug u \<longleftrightarrow> (case u of [] \<Rightarrow> False | c # p \<Rightarrow> c = CHR ''/'' \<and> is_slug p)"

text \<open>
  A hook described completely: it never panics and leaves the world alone, it answers with an error for
  the requests with the first property, refuses those with the second, allows all others, and
  every decision carries the UID of the request.
\<close>

definition decides_by :: "webhook \<Rightarrow> (admission_request \<Rightarrow> bool) \<Rightarrow> (admission_request \<Rightarrow> bool) \<Rightarrow> bool" where
  "decides_by hook failing bad \<longleftrightarrow> (\<forall>req w. \<exists>resp. Authorized hook req w = (Return resp, w) \<and>
     (errs (respVerdict resp) \<longleftrightarrow> failing req) \<and> (refuses (respVerdict resp) \<longleftrightarrow> bad req) \<and>
     (failing req \<or> respUID resp = reqUID req))"

text \<open>A hook that returns whatever the request is.\<close>

definition never_panics :: "webhook \<Rightarrow> bool" where
  "never_panics hook \<longleftrightarrow> (\<forall>req w. \<exists>resp w'. Authorized hook req w = (Return resp, w'))"

lemma decides_by_never_panics: "decides_by hook failing bad \<Longrightarrow> never_panics hook"
  unfolding decides_by_def never_panics_def by meson

text \<open>
  What the two RBAC hooks check: the deletion of a stored object, by anybody but the backplane
  administrator and the SRE group.
\<close>

definition checked_deletion :: "admission_request \<Rightarrow> bool" where
  "checked_deletion req \<longleftrightarrow> reqOperation req = Delete \<and> reqOldObject req \<noteq> [] \<and>
     username req \<noteq> ''backplane-cluster-admin'' \<and> ''system:serviceaccounts:openshift-backplane-srep'' \<notin> set (groups req)"

text \<open>A hook that looks at the request only.\<close>

abbreviation refuses_exactly :: "webhook \<Rightarrow> (admission_request \<Rightarrow> bool) \<Rightarrow> bool" where
  "refuses_exactly hook bad \<equiv> decides_by hook (\<lambda>req. False) bad"

locale webhook_meta =
  fixes hook :: webhook
  assumes uri_slug: "uri_slug (GetURI hook)"
    and name_slug: "is_slug (Name hook)"
    and timeout_range: "1 \<le> TimeoutSeconds hook \<and> TimeoutSeconds hook \<le> 30"
    and rules_nonempty: "Rules hook \<noteq> []"
    and side_effects_none: "SideEffects hook = SideEffectClassNone"
begin

lemma name_is_not_uri: "Name hook \<noteq> GetURI hook"
  using uri_slug name_slug by (auto simp: uri_slug_def split: list.splits)

end

locale validating_webhook = webhook_meta +
  assumes not_mutation: "\<not> strings_HasSuffix (Name hook) ''-mutation''"
    and uid_echo: "Authorized hook req w = (Return resp, w') \<Longrightarrow> \<not> errs (respVerdict resp) \<Longrightarrow>
      respUID resp = reqUID req"
    and no_audit: "Authorized hook req w = (Return resp, w') \<Longrightarrow> respAudit resp = Map.empty"
    and world_grows: "Authorized hook req w = (r, w') \<Longrightarrow> prefix (nodeBlocked w) (nodeBlocked w')"
begin

lemma decided_uid:
  assumes "Authorized hook req w = (Return resp, w')"
    and "allows (respVerdict resp) \<or> refuses (respVerdict resp)"
  shows "respUID resp = reqUID req"
  using assms uid_echo verdict_trichotomy by (cases "respVerdict resp") auto

end

text \<open>Hooks that answer an unauthenticated user, with anything but an admission.\<close>

locale authenticated_webhook = validating_webhook +
  assumes unauthenticated: "username req = ''system:unauthenticated'' \<Longrightarrow>
      \<exists>resp w'. Authorized hook req w = (Return resp, w') \<and> \<not> allows (respVerdict resp)"

text \<open>
  Hooks that guard the deletion of some objects: a request is refused exactly when it is a
  deletion of a guarded object by somebody who is not privileged, and nothing else changes the
  answer.
\<close>

locale delete_guard = validating_webhook +
  fixes guarded :: "admission_request \<Rightarrow> bool"
    and privileged :: "admission_request \<Rightarrow> bool"
  assumes decides: "\<exists>resp. Authorized hook req w = (Return resp, w) \<and>
      \<not> errs (respVerdict resp) \<and>
      (refuses (respVerdict resp) \<longleftrightarrow> reqOperation req = Delete \<and> guarded req \<and> \<not> privileged req)"
begin

lemma guard_exact: "refuses_exactly hook (\<lambda>req. reqOperation req = Delete \<and> guarded req \<and> \<not> privileged req)"
  unfolding decides_by_def using decides uid_echo by meson

lemma guard_total: "\<exists>resp. Authorized hook req w = (Return resp, w) \<and> respUID resp = reqUID req \<and>
    (allows (respVerdict resp) \<longleftrightarrow> (reqOperation req = Delete \<longrightarrow> guarded req \<longrightarrow> privileged req))"
  using decides [of req w] uid_echo [of req w] verdict_trichotomy by blast

lemma non_delete_allowed:
  assumes "reqOperation req \<noteq> Delete" and "Authorized hook req w = (Return resp, w')"
  shows "allows (respVerdict resp)"
  using assms guard_total [of req w] by auto

lemma delete_allowed_iff:
  assumes "reqOperation req = Delete" and "Authorized hook req w = (Return resp, w')"
  shows "allows (respVerdict resp) \<longleftrightarrow> (guarded req \<longrightarrow> privileged req)"
  using assms guard_total [of req w] by auto

end

end
