(* ===== verification/Webhook_Utils.thy ===== *)
theory Webhook_Utils
  imports Webhook_Api
begin

text \<open>
  The helpers every webhook uses: \<open>pkg/webhooks/utils/utils.go\<close>, and the list of managed
  namespaces of \<open>pkg/config\<close>. The generator of that list is in \<open>Namespace_Generator\<close>.
  The main facts: what the two families of patterns accept, as plain conditions on strings
  (\<open>IsPrivilegedNamespace_eq\<close>, \<open>privileged_sa_group_iff\<close>), which the hooks' lemmas rewrite with,
  and every branch of \<open>ParseHTTPRequest\<close>.
\<close>

section \<open>Package utils\<close>

definition validContentType :: string where
  "validContentType = ''application/json''"

definition PrivilegedServiceAccountGroups :: string where
  "PrivilegedServiceAccountGroups =
     ''^system:serviceaccounts:(kube-.*|openshift|openshift-.*|default|redhat-.*|osde2e-(h-)?[a-z0-9]{5})''"

definition RequestMatchesGroupKind :: "admission_request \<Rightarrow> string \<Rightarrow> string \<Rightarrow> bool" where
  "RequestMatchesGroupKind req k g \<longleftrightarrow> kind req = k \<and> kindGroup req = g"

definition DefaultLabelSelector :: label_selector where
  "DefaultLabelSelector =
     \<lparr>MatchLabels = [(''api.openshift.com/managed'', ''true'')], MatchExpressions = []\<rparr>"

definition protectedNames :: "string list" where
  "protectedNames =
    [''alertmanagerconfigs.monitoring.coreos.com'',
     ''alertmanagers.monitoring.coreos.com'',
     ''prometheuses.monitoring.coreos.com'',
     ''thanosrulers.monitoring.coreos.com'',
     ''podmonitors.monitoring.coreos.com'',
     ''probes.monitoring.coreos.com'',
     ''prometheusrules.monitoring.coreos.com'',
     ''servicemonitors.monitoring.coreos.com'',
     ''prometheusagents.monitoring.coreos.com'',
     ''scrapeconfigs.monitoring.coreos.com'']"

definition IsProtectedByResourceName :: "string \<Rightarrow> bool" where
  "IsProtectedByResourceName name \<longleftrightarrow> slices_Contains protectedNames name"

fun RegexSliceContains :: "string \<Rightarrow> string list \<Rightarrow> bool go_result" where
  "RegexSliceContains needle [] = Return False"
| "RegexSliceContains needle (check # haystack) =
     go_bind (MustCompile check) (\<lambda>checkRe.
       if regex_Match (prog checkRe) needle then Return True
       else RegexSliceContains needle haystack)"

text \<open>
  A request as \<open>net/http\<close> hands it over: the body is nil, or reading it fails, or it gives bytes.
\<close>

record http_request =
  RequestURI :: string
  Body :: "(go_error + string) option"
  ContentType :: string

text \<open>
  \<open>ParseHTTPRequest decodeReview r\<close>: the universal deserializer for \<open>AdmissionReview\<close> is a
  parameter; it gives the review's \<open>Request\<close> pointer. On failure the result is the response
  and the error; on success the request and the UID put on the (otherwise zero) response.
\<close>

definition ParseHTTPRequest ::
  "(string \<Rightarrow> go_error + admission_request option) \<Rightarrow> http_request \<Rightarrow>
     (response \<times> go_error) + (admission_request \<times> string)" where
  "ParseHTTPRequest decodeReview r =
     (let fail = (\<lambda>err. Inl (new_response (Errored 400 err), err)) in
      case Body r of
        None \<Rightarrow> fail ''request body is nil''
      | Some (Inl err) \<Rightarrow> fail err
      | Some (Inr body) \<Rightarrow>
          (if body = [] then fail ''request body is empty''
           else if ContentType r \<noteq> validContentType
           then fail (''contentType='' @ ContentType r @ '', expected application/json'')
           else (case decodeReview body of
                   Inl err \<Rightarrow> fail err
                 | Inr None \<Rightarrow> fail ''No request in request body''
                 | Inr (Some req) \<Rightarrow> Inr (req, reqUID req))))"

definition WebhookResponse :: "admission_request \<Rightarrow> bool \<Rightarrow> string \<Rightarrow> response" where
  "WebhookResponse request allowed reason = respond request (ValidationResponse allowed reason)"

lemma WebhookResponse_simps [simp]:
  "respVerdict (WebhookResponse req b m) = ValidationResponse b m"
  "respUID (WebhookResponse req b m) = reqUID req"
  "respAudit (WebhookResponse req b m) = Map.empty"
  by (simp_all add: WebhookResponse_def)

text \<open>The scheme of the deserializer is filled when the package is initialised.\<close>

definition utils_init :: "'s scheme_builders \<Rightarrow> 's factory_result" where
  [factory_defs]: "utils_init api = Must (AddToScheme api AdmissionV1 (NewScheme api))"

section \<open>The managed namespaces\<close>

definition ConfigMapSources :: "string list" where
  "ConfigMapSources = [''openshift-monitoring/managed-namespaces'', ''openshift-monitoring/ocp-namespaces'']"

definition PrivilegedNamespaces :: "string list" where
  "PrivilegedNamespaces =
    [''^default$'', ''^openshift$'', ''^kube-.*'', ''^redhat-.*'', ''^dedicated-admin$'',
     ''^openshift-addon-operator$'', ''^openshift-aqua$'', ''^openshift-aws-vpce-operator$'',
     ''^openshift-backplane$'', ''^openshift-backplane-cee$'', ''^openshift-backplane-csa$'',
     ''^openshift-backplane-cse$'', ''^openshift-backplane-csm$'',
     ''^openshift-backplane-managed-scripts$'', ''^openshift-backplane-mobb$'',
     ''^openshift-backplane-srep$'', ''^openshift-backplane-srep-ro$'',
     ''^openshift-backplane-tam$'', ''^openshift-cloud-ingress-operator$'',
     ''^openshift-codeready-workspaces$'', ''^openshift-compliance$'',
     ''^openshift-compliance-monkey$'', ''^openshift-container-security$'',
     ''^openshift-custom-domains-operator$'', ''^openshift-customer-monitoring$'',
     ''^openshift-deployment-validation-operator$'',
     ''^openshift-managed-node-metadata-operator$'', ''^openshift-file-integrity$'',
     ''^openshift-logging$'', ''^openshift-managed-upgrade-operator$'',
     ''^openshift-must-gather-operator$'', ''^openshift-observability-operator$'',
     ''^openshift-ocm-agent-operator$'', ''^openshift-operators-redhat$'',
     ''^openshift-osd-metrics$'', ''^openshift-rbac-permissions$'',
     ''^openshift-route-monitor-operator$'', ''^openshift-scanning$'', ''^openshift-security$'',
     ''^openshift-splunk-forwarder-operator$'', ''^openshift-sre-pruning$'',
     ''^openshift-suricata$'', ''^openshift-validation-webhook$'', ''^openshift-velero$'',
     ''^openshift-monitoring$'', ''^openshift$'', ''^openshift-cluster-version$'', ''^goalert$'',
     ''^keycloak$'', ''^configure-goalert-operator$'', ''^kube-system$'',
     ''^openshift-apiserver$'', ''^openshift-apiserver-operator$'',
     ''^openshift-authentication$'', ''^openshift-authentication-operator$'',
     ''^openshift-cloud-controller-manager$'', ''^openshift-cloud-controller-manager-operator$'',
     ''^openshift-cloud-credential-operator$'', ''^openshift-cloud-network-config-controller$'',
     ''^openshift-cluster-api$'', ''^openshift-cluster-csi-drivers$'',
     ''^openshift-cluster-machine-approver$'', ''^openshift-cluster-node-tuning-operator$'',
     ''^openshift-cluster-samples-operator$'', ''^openshift-cluster-storage-operator$'',
     ''^openshift-config$'', ''^openshift-config-managed$'', ''^openshift-config-operator$'',
     ''^openshift-console$'', ''^openshift-console-operator$'',
     ''^openshift-console-user-settings$'', ''^openshift-controller-manager$'',
     ''^openshift-controller-manager-operator$'', ''^openshift-dns$'',
     ''^openshift-dns-operator$'', ''^openshift-etcd$'', ''^openshift-etcd-operator$'',
     ''^openshift-host-network$'', ''^openshift-image-registry$'', ''^openshift-ingress$'',
     ''^openshift-ingress-canary$'', ''^openshift-ingress-operator$'', ''^openshift-insights$'',
     ''^openshift-kni-infra$'', ''^openshift-kube-apiserver$'',
     ''^openshift-kube-apiserver-operator$'', ''^openshift-kube-controller-manager$'',
     ''^openshift-kube-controller-manager-operator$'', ''^openshift-kube-scheduler$'',
     ''^openshift-kube-scheduler-operator$'', ''^openshift-kube-storage-version-migrator$'',
     ''^openshift-kube-storage-version-migrator-operator$'', ''^openshift-machine-api$'',
     ''^openshift-machine-config-operator$'', ''^openshift-marketplace$'',
     ''^openshift-monitoring$'', ''^openshift-multus$'', ''^openshift-network-diagnostics$'',
     ''^openshift-network-operator$'', ''^openshift-nutanix-infra$'',
     ''^openshift-oauth-apiserver$'', ''^openshift-openstack-infra$'',
     ''^openshift-operator-lifecycle-manager$'', ''^openshift-operators$'',
     ''^openshift-ovirt-infra$'', ''^openshift-sdn$'', ''^openshift-ovn-kubernetes$'',
     ''^openshift-platform-operators$'', ''^openshift-route-controller-manager$'',
     ''^openshift-service-ca$'', ''^openshift-service-ca-operator$'',
     ''^openshift-user-workload-monitoring$'', ''^openshift-vsphere-infra$'']"

definition IsPrivilegedNamespace :: "string \<Rightarrow> bool go_result" where
  "IsPrivilegedNamespace ns = RegexSliceContains ns PrivilegedNamespaces"

text \<open>The names the list writes out in full, in its order.\<close>

definition managed_namespace_names :: "string list" where
  "managed_namespace_names =
    [''dedicated-admin'', ''openshift-addon-operator'', ''openshift-aqua'',
     ''openshift-aws-vpce-operator'', ''openshift-backplane'', ''openshift-backplane-cee'',
     ''openshift-backplane-csa'', ''openshift-backplane-cse'', ''openshift-backplane-csm'',
     ''openshift-backplane-managed-scripts'', ''openshift-backplane-mobb'',
     ''openshift-backplane-srep'', ''openshift-backplane-srep-ro'', ''openshift-backplane-tam'',
     ''openshift-cloud-ingress-operator'', ''openshift-codeready-workspaces'',
     ''openshift-compliance'', ''openshift-compliance-monkey'', ''openshift-container-security'',
     ''openshift-custom-domains-operator'', ''openshift-customer-monitoring'',
     ''openshift-deployment-validation-operator'', ''openshift-managed-node-metadata-operator'',
     ''openshift-file-integrity'', ''openshift-logging'', ''openshift-managed-upgrade-operator'',
     ''openshift-must-gather-operator'', ''openshift-observability-operator'',
     ''openshift-ocm-agent-operator'', ''openshift-operators-redhat'', ''openshift-osd-metrics'',
     ''openshift-rbac-permissions'', ''openshift-route-monitor-operator'',
     ''openshift-scanning'', ''openshift-security'', ''openshift-splunk-forwarder-operator'',
     ''openshift-sre-pruning'', ''openshift-suricata'', ''openshift-validation-webhook'',
     ''openshift-velero'', ''openshift-monitoring'', ''openshift'',
     ''openshift-cluster-version'', ''goalert'', ''keycloak'', ''configure-goalert-operator'',
     ''kube-system'', ''openshift-apiserver'', ''openshift-apiserver-operator'',
     ''openshift-authentication'', ''openshift-authentication-operator'',
     ''openshift-cloud-controller-manager'', ''openshift-cloud-controller-manager-operator'',
     ''openshift-cloud-credential-operator'', ''openshift-cloud-network-config-controller'',
     ''openshift-cluster-api'', ''openshift-cluster-csi-drivers'',
     ''openshift-cluster-machine-approver'', ''openshift-cluster-node-tuning-operator'',
     ''openshift-cluster-samples-operator'', ''openshift-cluster-storage-operator'',
     ''openshift-config'', ''openshift-config-managed'', ''openshift-config-operator'',
     ''openshift-console'', ''openshift-console-operator'', ''openshift-console-user-settings'',
     ''openshift-controller-manager'', ''openshift-controller-manager-operator'',
     ''openshift-dns'', ''openshift-dns-operator'', ''openshift-etcd'',
     ''openshift-etcd-operator'', ''openshift-host-network'', ''openshift-image-registry'',
     ''openshift-ingress'', ''openshift-ingress-canary'', ''openshift-ingress-operator'',
     ''openshift-insights'', ''openshift-kni-infra'', ''openshift-kube-apiserver'',
     ''openshift-kube-apiserver-operator'', ''openshift-kube-controller-manager'',
     ''openshift-kube-controller-manager-operator'', ''openshift-kube-scheduler'',
     ''openshift-kube-scheduler-operator'', ''openshift-kube-storage-version-migrator'',
     ''openshift-kube-storage-version-migrator-operator'', ''openshift-machine-api'',
     ''openshift-machine-config-operator'', ''openshift-marketplace'', ''openshift-monitoring'',
     ''openshift-multus'', ''openshift-network-diagnostics'', ''openshift-network-operator'',
     ''openshift-nutanix-infra'', ''openshift-oauth-apiserver'', ''openshift-openstack-infra'',
     ''openshift-operator-lifecycle-manager'', ''openshift-operators'',
     ''openshift-ovirt-infra'', ''openshift-sdn'', ''openshift-ovn-kubernetes'',
     ''openshift-platform-operators'', ''openshift-route-controller-manager'',
     ''openshift-service-ca'', ''openshift-service-ca-operator'',
     ''openshift-user-workload-monitoring'', ''openshift-vsphere-infra'']"

definition managed_namespace :: "string \<Rightarrow> bool" where
  "managed_namespace ns \<longleftrightarrow> ns = ''default'' \<or> ns = ''openshift'' \<or>
     prefix ''kube-'' ns \<or> prefix ''redhat-'' ns \<or> ns \<in> set managed_namespace_names"

subsection \<open>The generator\<close>

text \<open>The patterns that the generator starts from.\<close>

definition baseNamespaces :: "string list" where
  "baseNamespaces = [''^default$'', ''^openshift$'', ''^kube-.*'', ''^redhat-.*'']"

section \<open>What the patterns accept\<close>

lemma MustCompile_Some [simp]: "regexp_compile p = Some re \<Longrightarrow> MustCompile p = Return re"
  by (simp add: MustCompile_def)

lemma RegexSliceContains_eq:
  "\<forall>p\<in>set haystack. regexp_compile p \<noteq> None \<Longrightarrow>
     RegexSliceContains needle haystack = Return (\<exists>p\<in>set haystack. MatchPattern p needle)"
proof (induction haystack)
  case Nil
  then show ?case by simp
next
  case (Cons p ps)
  then obtain re where "regexp_compile p = Some re" by auto
  with Cons show ?case by (simp add: MatchPattern_def)
qed

lemma base_patterns_compile:
  "p \<in> set baseNamespaces \<Longrightarrow> regexp_compile p \<noteq> None"
  by (auto simp: baseNamespaces_def go_defs)

lemma base_patterns_match:
  "(\<exists>p\<in>set baseNamespaces. MatchPattern p ns) \<longleftrightarrow>
     ns = ''default'' \<or> ns = ''openshift'' \<or> prefix ''kube-'' ns \<or> prefix ''redhat-'' ns"
  using MatchPattern_exact [of "''default''" ns] MatchPattern_exact [of "''openshift''" ns]
    MatchPattern_prefix [of "''kube-''" ns] MatchPattern_prefix [of "''redhat-''" ns]
  by (simp add: baseNamespaces_def plain_word_def go_defs)

lemma exact_patterns_match:
  "\<forall>w\<in>set ws. plain_word w \<Longrightarrow>
     (\<exists>p\<in>set (map (\<lambda>n. ''^'' @ n @ ''$'') ws). MatchPattern p ns) \<longleftrightarrow> ns \<in> set ws"
  using MatchPattern_exact by auto

lemma PrivilegedNamespaces_eq:
  "PrivilegedNamespaces = baseNamespaces @ map (\<lambda>n. ''^'' @ n @ ''$'') managed_namespace_names"
  by (simp add: PrivilegedNamespaces_def baseNamespaces_def managed_namespace_names_def)

lemma managed_names_list_all: "list_all plain_word managed_namespace_names"
  by code_simp

lemma managed_names_plain: "\<forall>w\<in>set managed_namespace_names. plain_word w"
  using managed_names_list_all by (simp add: list_all_iff)

lemma IsPrivilegedNamespace_eq [simp]:
  "IsPrivilegedNamespace ns = Return (managed_namespace ns)"
proof -
  have "regexp_compile p \<noteq> None" if "p \<in> set PrivilegedNamespaces" for p
    using that base_patterns_compile managed_names_plain compile_exact
    by (auto simp: PrivilegedNamespaces_eq)
  moreover have "(\<exists>p\<in>set PrivilegedNamespaces. MatchPattern p ns) \<longleftrightarrow> managed_namespace ns"
    using base_patterns_match [of ns] exact_patterns_match [OF managed_names_plain, of ns]
    by (simp add: PrivilegedNamespaces_eq managed_namespace_def bex_Un)
  ultimately show ?thesis
    by (simp add: IsPrivilegedNamespace_def RegexSliceContains_eq)
qed

subsection \<open>The groups of privileged service accounts\<close>

text \<open>
  The pattern has no \<open>$\<close>: what follows one of its words does not matter, so the alternatives
  \<open>openshift\<close> and \<open>openshift-.*\<close> both stand for every name that starts with \<open>openshift\<close>.
\<close>

definition lower_alnum :: "char \<Rightarrow> bool" where
  "lower_alnum c \<longleftrightarrow> list_ex (in_range c) [(CHR ''a'', CHR ''z''), (CHR ''0'', CHR ''9'')]"

definition privileged_sa_namespace :: "string \<Rightarrow> bool" where
  "privileged_sa_namespace ns \<longleftrightarrow>
     prefix ''kube-'' ns \<or> prefix ''openshift'' ns \<or> prefix ''default'' ns \<or> prefix ''redhat-'' ns \<or>
     starts_then ''osde2e-'' (first_chars 5 lower_alnum) ns \<or>
     starts_then ''osde2e-h-'' (first_chars 5 lower_alnum) ns"

definition privileged_sa_group :: "string \<Rightarrow> bool" where
  "privileged_sa_group = starts_then ''system:serviceaccounts:'' privileged_sa_namespace"

lemma PrivilegedServiceAccountGroups_shape:
  "MatchPattern PrivilegedServiceAccountGroups g \<longleftrightarrow> starts_then ''system:serviceaccounts:''
     (\<lambda>s. prefix ''kube-'' s \<or> prefix ''openshift'' s \<or> prefix ''openshift-'' s \<or>
        prefix ''default'' s \<or> prefix ''redhat-'' s \<or>
        starts_then ''osde2e-'' (\<lambda>s. starts_then ''h-'' (first_chars 5 lower_alnum) s \<or>
          first_chars 5 lower_alnum s) s) g"
  unfolding prefix_starts_then
  by (simp add: MatchPattern_def PrivilegedServiceAccountGroups_def go_defs)
    (simp add: regex_Match_then_anchored then_match_cat_list eval_nat_numeral starts_then_Cons
      first_chars_Suc lower_alnum_def cls_mem_def)

lemma privileged_sa_group_iff [simp]:
  "MatchPattern PrivilegedServiceAccountGroups = privileged_sa_group"
  unfolding fun_eq_iff PrivilegedServiceAccountGroups_shape
  by (auto simp: privileged_sa_group_def privileged_sa_namespace_def starts_then_iff prefix_def)

lemma srep_group_privileged [simp]:
  "privileged_sa_group ''system:serviceaccounts:openshift-backplane-srep''"
  by (simp add: privileged_sa_group_def privileged_sa_namespace_def)

lemma privileged_group_srep:
  "''system:serviceaccounts:openshift-backplane-srep'' \<in> set gs \<Longrightarrow> list_ex privileged_sa_group gs"
  using srep_group_privileged by (auto simp only: list_ex_iff)

end
