(* ===== verification/Dispatcher.thy ===== *)
theory Dispatcher
  imports Webhook_Utils "HOL-Library.Multiset"
begin

text \<open>
  \<open>pkg/dispatcher/dispatcher.go\<close> and \<open>pkg/helpers/response.go\<close>: from an HTTP request to the
  AdmissionReview that answers it.
  \<^item> A \<open>writer\<close> is what the program does to an \<open>http.ResponseWriter\<close>: the status set (the first
    \<open>WriteHeader\<close> counts) and the reviews encoded onto it.
  \<^item> Parameters: \<open>parseURL\<close> is \<open>url.Parse\<close> followed by the selection of \<open>Path\<close>; \<open>decodeReview\<close> the
    deserializer of AdmissionReviews; \<open>encode n r\<close> the error, if any, of the attempt number \<open>n\<close> to
    encode the review with the response \<open>r\<close> onto the connection.
  \<^item> \<open>SendResponse\<close> calls itself when encoding fails, and there is no bound on how often: it is a
    partial function, with no result when it never returns.
  \<^item> The registry holds factories. \<open>hook()\<close> makes a new instance, so what an instance keeps between
    calls (\<open>kubeClientSet\<close>) starts afresh with every request.
  \<^item> The mutex of the dispatcher is the last section: requests arrive, wait, take the lock, are
    served and give it back, in any interleaving.
\<close>

section \<open>Sending a response\<close>

record admission_review =
  reviewAPIVersion :: string
  reviewKind :: string
  reviewResponse :: response

record writer =
  wStatus :: "nat option"
  wReviews :: "admission_review list"

definition new_writer :: writer where
  "new_writer = \<lparr>wStatus = None, wReviews = []\<rparr>"

definition WriteHeader :: "nat \<Rightarrow> writer \<Rightarrow> writer" where
  "WriteHeader code w = (if wStatus w = None then w\<lparr>wStatus := Some code\<rparr> else w)"

text \<open>A body written without a status is sent with 200.\<close>

definition status_code :: "writer \<Rightarrow> nat" where
  "status_code w = (case wStatus w of None \<Rightarrow> 200 | Some code \<Rightarrow> code)"

definition owned :: "response \<Rightarrow> response" where
  "owned resp = resp\<lparr>respAudit := [''owner'' \<mapsto> ''srep-managed-webhook'']\<rparr>"

definition review_of :: "response \<Rightarrow> admission_review" where
  "review_of resp = \<lparr>reviewAPIVersion = ''admission.k8s.io/v1'', reviewKind = ''AdmissionReview'', reviewResponse = resp\<rparr>"

type_synonym encoder = "nat \<Rightarrow> response \<Rightarrow> go_error option"

partial_function (option) SendResponse :: "encoder \<Rightarrow> nat \<Rightarrow> writer \<Rightarrow> response \<Rightarrow> writer option" where
  "SendResponse encode n w resp =
     (case encode n (owned resp) of
        None \<Rightarrow> Some (w\<lparr>wReviews := wReviews w @ [review_of (owned resp)]\<rparr>)
      | Some err \<Rightarrow> SendResponse encode (Suc n) w (new_response (Errored 500 err)))"

section \<open>Dispatching\<close>

text \<open>The map from URIs to hooks; a later hook with the same URI replaces the earlier one.\<close>

type_synonym dispatcher = "string \<rightharpoonup> webhook"

definition NewDispatcher :: "registered_webhooks \<Rightarrow> dispatcher" where
  "NewDispatcher hooks = foldl (\<lambda>hookMap (name, hook). hookMap(GetURI hook \<mapsto> hook)) Map.empty hooks"

definition new_instance :: "world \<Rightarrow> world" where
  "new_instance w = w\<lparr>kubeClientSet := False\<rparr>"

text \<open>
  The result is a panic of the hook, or what \<open>SendResponse\<close> leaves on the writer (\<^const>\<open>None\<close> when it
  does not return), and the world afterwards.
\<close>

definition HandleRequest ::
  "(string \<Rightarrow> go_error + string) \<Rightarrow> (string \<Rightarrow> go_error + admission_request option) \<Rightarrow> encoder \<Rightarrow>
     dispatcher \<Rightarrow> http_request \<Rightarrow> world \<Rightarrow> writer option go_result \<times> world" where
  "HandleRequest parseURL decodeReview encode d r w =
     (let send = (\<lambda>wr resp. SendResponse encode 0 wr resp) in
      case parseURL (RequestURI r) of
        Inl err \<Rightarrow> (Return (send (WriteHeader 400 new_writer) (new_response (Errored 400 err))), w)
      | Inr path \<Rightarrow>
          (case d path of
             Some hook \<Rightarrow>
               (case ParseHTTPRequest decodeReview r of
                  Inl (_, err) \<Rightarrow>
                    (Return (send (WriteHeader 400 new_writer) (new_response (Errored 400 err))), w)
                | Inr (request, _) \<Rightarrow>
                    (if \<not> Validate hook request
                     then (Return (send new_writer (new_response (Errored 400 ''not a valid webhook request''))), w)
                     else (case Authorized hook request (new_instance w) of
                             (Panic m, w') \<Rightarrow> (Panic m, w')
                           | (Return resp, w') \<Rightarrow> (Return (send new_writer resp), w'))))
           | None \<Rightarrow>
               (Return (send (WriteHeader 404 new_writer)
                 (new_response (Errored 400 ''request is not for a registered webhook''))), w)))"

section \<open>Properties of sending\<close>

lemma SendResponse_first:
  "encode n (owned resp) = None \<Longrightarrow>
     SendResponse encode n w resp = Some (w\<lparr>wReviews := wReviews w @ [review_of (owned resp)]\<rparr>)"
  by (subst SendResponse.simps) simp

lemma SendResponse_retry:
  "encode n (owned resp) = Some err \<Longrightarrow>
     SendResponse encode n w resp = SendResponse encode (Suc n) w (new_response (Errored 500 err))"
  by (subst SendResponse.simps) simp

text \<open>
  A result is one review, of the response itself or of an error with status 500, with the owner
  annotation, and the status of the writer untouched.
\<close>

lemmas SendResponse_induct = SendResponse.raw_induct [rotated, consumes 1, case_names step]

lemma SendResponse_result:
  assumes "SendResponse encode n w resp = Some w'"
  shows "wStatus w' = wStatus w \<and>
     (\<exists>r. wReviews w' = wReviews w @ [review_of (owned r)] \<and> (r = resp \<or> (\<exists>err. r = new_response (Errored 500 err))))"
  using assms
proof (induction rule: SendResponse_induct)
  case (step sendResponse encode n w resp w')
  show ?case
  proof (cases "encode n (owned resp)")
    case None
    with step show ?thesis by auto
  next
    case (Some err)
    with step show ?thesis by fastforce
  qed
qed

text \<open>
  The response that attempt number \<open>k\<close> from here sends, if it comes to that: the first one is the
  response given, each later one reports the error of the attempt before.
\<close>

fun attempted :: "encoder \<Rightarrow> nat \<Rightarrow> response \<Rightarrow> nat \<Rightarrow> response option" where
  "attempted encode n resp 0 = Some resp"
| "attempted encode n resp (Suc k) =
     (case encode n (owned resp) of
        None \<Rightarrow> None
      | Some err \<Rightarrow> attempted encode (Suc n) (new_response (Errored 500 err)) k)"

lemma SendResponse_attempt:
  assumes "attempted encode n resp k = Some r" and "encode (n + k) (owned r) = None"
  shows "SendResponse encode n w resp = Some (w\<lparr>wReviews := wReviews w @ [review_of (owned r)]\<rparr>)"
  using assms
proof (induction encode n resp k rule: attempted.induct)
  case (1 encode n resp)
  then show ?case by (simp add: SendResponse_first)
next
  case (2 encode n resp k)
  then show ?case by (auto simp: SendResponse_retry split: option.splits)
qed

lemma SendResponse_attempts:
  assumes "SendResponse encode n w resp = Some w'"
  shows "\<exists>k r. attempted encode n resp k = Some r \<and> encode (n + k) (owned r) = None"
  using assms
proof (induction rule: SendResponse_induct)
  case (step sendResponse encode n w resp w')
  show ?case
  proof (cases "encode n (owned resp)")
    case None
    then show ?thesis by (intro exI [of _ 0]) simp
  next
    case (Some err)
    with step obtain k r where "attempted encode (Suc n) (new_response (Errored 500 err)) k = Some r"
        "encode (Suc n + k) (owned r) = None"
      by fastforce
    with Some show ?thesis by (intro exI [of _ "Suc k"]) simp
  qed
qed

text \<open>
  (C5) \<open>SendResponse\<close> returns exactly when one of its attempts is encoded without an error: it tries the
  response it was given and then, after each failure, a response with status 500 for that failure.
  What it has then written is the one review of the attempt that succeeded, with the owner annotation;
  when every attempt fails, it recurses for ever.
\<close>

theorem SendResponse_terminates_iff:
  "SendResponse encode 0 w resp = Some w' \<longleftrightarrow>
     (\<exists>k r. attempted encode 0 resp k = Some r \<and> encode k (owned r) = None \<and>
        w' = w\<lparr>wReviews := wReviews w @ [review_of (owned r)]\<rparr>)"
  using SendResponse_attempts [of encode 0 w resp w'] SendResponse_attempt [of encode 0 resp _ _ w]
  by fastforce

section \<open>Properties of dispatching\<close>

lemma NewDispatcher_append:
  "NewDispatcher (hooks @ [(n, h)]) = (NewDispatcher hooks)(GetURI h \<mapsto> h)"
  by (simp add: NewDispatcher_def)

lemma NewDispatcher_Some:
  "NewDispatcher hooks u = Some h \<Longrightarrow> \<exists>n. (n, h) \<in> set hooks \<and> GetURI h = u"
proof (induction hooks rule: rev_induct)
  case (snoc x hooks)
  obtain n g where x: "x = (n, g)" by (cases x)
  show ?case
  proof (cases "GetURI g = u")
    case True
    with snoc.prems x show ?thesis by (auto simp: NewDispatcher_append)
  next
    case False
    with snoc.prems x have "NewDispatcher hooks u = Some h" by (simp add: NewDispatcher_append)
    with snoc.IH show ?thesis by auto
  qed
qed (simp add: NewDispatcher_def)

lemma NewDispatcher_lookup:
  "distinct (map (GetURI \<circ> snd) hooks) \<Longrightarrow> (n, h) \<in> set hooks \<Longrightarrow> NewDispatcher hooks (GetURI h) = Some h"
proof (induction hooks rule: rev_induct)
  case (snoc x hooks)
  obtain m g where x: "x = (m, g)" by (cases x)
  show ?case
  proof (cases "(n, h) = x")
    case True
    then show ?thesis by (simp add: x NewDispatcher_append)
  next
    case False
    with snoc.prems have "(n, h) \<in> set hooks" by auto
    moreover from this snoc.prems have "GetURI h \<noteq> GetURI g" by (force simp: x)
    ultimately show ?thesis using snoc by (simp add: x NewDispatcher_append)
  qed
qed simp

text \<open>A Go map is walked in an unspecified order; with distinct URIs that does not matter.\<close>

lemma NewDispatcher_order:
  assumes "distinct (map (GetURI \<circ> snd) hooks)" and "mset hooks' = mset hooks"
  shows "NewDispatcher hooks' = NewDispatcher hooks"
proof -
  have same: "set hooks' = set hooks" using assms(2) by (rule mset_eq_setD)
  have "mset (map (GetURI \<circ> snd) hooks') = mset (map (GetURI \<circ> snd) hooks)" using assms(2) by simp
  then have "distinct (map (GetURI \<circ> snd) hooks')" using assms(1) mset_eq_imp_distinct_iff by blast
  then have iff: "NewDispatcher hooks' u = Some h \<longleftrightarrow> NewDispatcher hooks u = Some h" for u h
    using NewDispatcher_Some [of hooks' u h] NewDispatcher_Some [of hooks u h]
      NewDispatcher_lookup [of hooks'] NewDispatcher_lookup [of hooks] assms(1) same by blast
  show ?thesis
  proof (rule ext)
    fix u
    show "NewDispatcher hooks' u = NewDispatcher hooks u"
      using iff [of u] by (cases "NewDispatcher hooks u"; cases "NewDispatcher hooks' u") auto
  qed
qed

lemma WriteHeader_simps [simp]:
  "wReviews (WriteHeader code w) = wReviews w"
  "wStatus (WriteHeader code new_writer) = Some code"
  "wStatus new_writer = None" "wReviews new_writer = []"
  by (simp_all add: new_writer_def WriteHeader_def)

lemma owned_simps [simp]:
  "respVerdict (owned resp) = respVerdict resp" "respUID (owned resp) = respUID resp"
  "respAudit (owned resp) = [''owner'' \<mapsto> ''srep-managed-webhook'']"
  by (simp_all add: owned_def)

definition one_owned_review :: "writer \<Rightarrow> bool" where
  "one_owned_review wr \<longleftrightarrow> (case wReviews wr of [review] \<Rightarrow>
     reviewKind review = ''AdmissionReview'' \<and> reviewAPIVersion review = ''admission.k8s.io/v1'' \<and>
     respAudit (reviewResponse review) = [''owner'' \<mapsto> ''srep-managed-webhook'']
   | _ \<Rightarrow> False)"

lemma sent_review:
  assumes "SendResponse encode 0 w resp = Some wr" and "wReviews w = []"
  shows "one_owned_review wr \<and> status_code wr = status_code w"
  using SendResponse_result [OF assms(1)] assms(2)
  by (auto simp: one_owned_review_def review_of_def status_code_def)

text \<open>What the handler does, on each of its paths, when the connection takes the first review.\<close>

definition answered :: "nat \<Rightarrow> response \<Rightarrow> writer" where
  "answered code resp = \<lparr>wStatus = (if code = 200 then None else Some code), wReviews = [review_of (owned resp)]\<rparr>"

lemma answered_simps [simp]:
  "status_code (answered code resp) = code" "one_owned_review (answered code resp)"
  "wReviews (answered code resp) = [review_of (owned resp)]"
  by (simp_all add: answered_def status_code_def one_owned_review_def review_of_def)

text \<open>
  (C2) When the connection takes the first encoding, a handler that does not panic answers with
  exactly one AdmissionReview that carries the owner annotation, and the HTTP status follows the rule
  in the comment of the handler: 400 when the URL does not parse, 404 when no hook has the path, 400
  when the body is not an AdmissionReview with a request, and 200 as soon as it is, whatever the hook
  says and even when its \<open>Validate\<close> rejects the request. A panic is one of the hook's \<open>Authorized\<close>,
  on a request that the hook's \<open>Validate\<close> accepted.
\<close>

theorem dispatch_status:
  assumes "\<forall>resp. encode 0 resp = None"
  shows "case HandleRequest parseURL decodeReview encode d r w of
     (Return (Some wr), w') \<Rightarrow>
       one_owned_review wr \<and>
       status_code wr =
         (case parseURL (RequestURI r) of
            Inl _ \<Rightarrow> 400
          | Inr path \<Rightarrow> (if d path = None then 404
              else case ParseHTTPRequest decodeReview r of Inl _ \<Rightarrow> 400 | Inr _ \<Rightarrow> 200))
   | (Return None, w') \<Rightarrow> False
   | (Panic m, w') \<Rightarrow> (\<exists>path hook request uid. parseURL (RequestURI r) = Inr path \<and> d path = Some hook \<and>
       ParseHTTPRequest decodeReview r = Inr (request, uid) \<and> Validate hook request \<and>
       Authorized hook request (new_instance w) = (Panic m, w'))"
proof -
  have sent: "SendResponse encode 0 wr resp = Some (wr\<lparr>wReviews := wReviews wr @ [review_of (owned resp)]\<rparr>)"
    for wr resp using assms by (simp add: SendResponse_first)
  show ?thesis
    by (auto simp: HandleRequest_def sent status_code_def one_owned_review_def review_of_def
        split: sum.split option.split prod.split go_result.split)
qed

text \<open>
  What can have come of sending a response, with the status that goes with a body: the review of the
  first attempt that is encoded, which is the response itself or an error with status 500; nothing, when
  no attempt is ever encoded.
\<close>

definition delivered :: "encoder \<Rightarrow> response \<Rightarrow> writer option \<Rightarrow> bool" where
  "delivered encode resp sent \<longleftrightarrow>
     (case sent of
        None \<Rightarrow> (\<forall>k r. attempted encode 0 resp k = Some r \<longrightarrow> encode k (owned r) \<noteq> None)
      | Some wr \<Rightarrow> status_code wr = 200 \<and> one_owned_review wr \<and>
          (\<exists>k r. attempted encode 0 resp k = Some r \<and> encode k (owned r) = None \<and>
             wReviews wr = [review_of (owned r)] \<and>
             (if k = 0 then r = resp else (\<exists>err. r = new_response (Errored 500 err)))))"

lemma attempted_response:
  "attempted encode n resp k = Some r \<Longrightarrow> if k = 0 then r = resp else (\<exists>err. r = new_response (Errored 500 err))"
proof (induction encode n resp k rule: attempted.induct)
  case (2 encode n resp k)
  then show ?case by (cases k) (auto split: option.splits)
qed simp

lemma SendResponse_delivered: "delivered encode resp (SendResponse encode 0 new_writer resp)"
proof (cases "SendResponse encode 0 new_writer resp")
  case None
  have "encode k (owned r) \<noteq> None" if "attempted encode 0 resp k = Some r" for k r
    using SendResponse_attempt [OF that, of new_writer] None by auto
  with None show ?thesis by (simp add: delivered_def)
next
  case (Some wr)
  then obtain k r where at: "attempted encode 0 resp k = Some r" "encode k (owned r) = None"
    using SendResponse_attempts by fastforce
  then have "wr = new_writer\<lparr>wReviews := [review_of (owned r)]\<rparr>"
    using SendResponse_attempt [of encode 0 resp k r new_writer] Some by simp
  moreover have "one_owned_review wr \<and> status_code wr = 200"
    using sent_review [OF Some] by (simp add: status_code_def)
  ultimately have "status_code wr = 200 \<and> one_owned_review wr \<and> attempted encode 0 resp k = Some r \<and>
      encode k (owned r) = None \<and> wReviews wr = [review_of (owned r)] \<and>
      (if k = 0 then r = resp else (\<exists>err. r = new_response (Errored 500 err)))"
    using at attempted_response [OF at(1)] by simp
  then show ?thesis unfolding delivered_def Some option.case by blast
qed

lemma delivered_review:
  assumes "delivered encode resp (Some wr)"
  shows "status_code wr = 200 \<and>
     (\<exists>r. wReviews wr = [review_of (owned r)] \<and>
        (if encode 0 (owned resp) = None then r = resp else (\<exists>err. r = new_response (Errored 500 err))))"
proof -
  obtain k r where at: "attempted encode 0 resp k = Some r" "encode k (owned r) = None"
    and review: "status_code wr = 200" "wReviews wr = [review_of (owned r)]"
    and shape: "if k = 0 then r = resp else (\<exists>err. r = new_response (Errored 500 err))"
    using assms unfolding delivered_def by auto
  have "k = 0 \<longleftrightarrow> encode 0 (owned resp) = None" using at by (cases k) (auto split: option.splits)
  with review shape show ?thesis by auto
qed

text \<open>
  What a client of a validating hook can rely on: a decision, for or against, has the UID of the
  request, as the API server requires, and is what the dispatcher sends. The lemma rests on the
  contract of the hook only.
\<close>

lemma HandleRequest_hook:
  assumes "parseURL (RequestURI r) = Inr path" and "d path = Some hook"
    and "ParseHTTPRequest decodeReview r = Inr (req, uid)"
  shows "HandleRequest parseURL decodeReview encode d r w =
     (if Validate hook req
      then map_prod (map_go_result (SendResponse encode 0 new_writer)) id (Authorized hook req (new_instance w))
      else (Return (SendResponse encode 0 new_writer (new_response (Errored 400 ''not a valid webhook request''))), w))"
  by (simp add: HandleRequest_def assms Let_def split: prod.split go_result.split)

context validating_webhook
begin

lemma dispatched:
  assumes "parseURL (RequestURI r) = Inr path" and "d path = Some hook"
    and "ParseHTTPRequest decodeReview r = Inr (req, uid)"
  shows "case HandleRequest parseURL decodeReview encode d r w of
     (Panic m, w') \<Rightarrow> Validate hook req \<and> Authorized hook req (new_instance w) = (Panic m, w')
   | (Return sent, w') \<Rightarrow> prefix (nodeBlocked w) (nodeBlocked w') \<and>
       (\<exists>resp. (if Validate hook req then Authorized hook req (new_instance w) = (Return resp, w')
                else resp = new_response (Errored 400 ''not a valid webhook request'') \<and> w' = w) \<and>
          (errs (respVerdict resp) \<or> respUID resp = reqUID req) \<and> delivered encode resp sent)"
proof -
  have grows: "prefix (nodeBlocked w) (nodeBlocked w')" if "Authorized hook req (new_instance w) = (x, w')" for x w'
    using world_grows [OF that] by (simp add: new_instance_def)
  show ?thesis
    using uid_echo [of req "new_instance w"] grows SendResponse_delivered [of encode]
    by (cases "Authorized hook req (new_instance w)"; cases "fst (Authorized hook req (new_instance w))")
      (auto simp: HandleRequest_hook [of parseURL r path d hook decodeReview req uid, OF assms])
qed

end

context authenticated_webhook
begin

lemma dispatched_unauthenticated:
  assumes "parseURL (RequestURI r) = Inr path" and "d path = Some hook"
    and "ParseHTTPRequest decodeReview r = Inr (req, uid)" and "username req = ''system:unauthenticated''"
  shows "\<exists>resp sent w'. HandleRequest parseURL decodeReview encode d r w = (Return sent, w') \<and>
     (if Validate hook req then Authorized hook req (new_instance w) = (Return resp, w')
      else resp = new_response (Errored 400 ''not a valid webhook request'')) \<and>
     (refuses (respVerdict resp) \<or> errs (respVerdict resp)) \<and> delivered encode resp sent"
proof -
  obtain resp w' where "Authorized hook req (new_instance w) = (Return resp, w')" "\<not> allows (respVerdict resp)"
    using unauthenticated [OF assms(4)] by blast
  then show ?thesis
    using verdict_trichotomy [of "respVerdict resp"] SendResponse_delivered [of encode]
    by (auto simp: HandleRequest_hook [of parseURL r path d hook decodeReview req uid, OF assms(1-3)])
qed

end

section \<open>The mutex\<close>

text \<open>
  \<open>net/http\<close> runs the handler of every request in a goroutine of its own; \<open>HandleRequest\<close> starts
  with \<open>d.mu.Lock()\<close> and unlocks when it returns or panics. The goroutine of a request is in one of
  four phases. What a handler reads and what it writes are separate steps, the lock being what keeps
  others out in between. \<open>served\<close> records in which order handlers finished.

  A handler that does not return (an endless \<open>SendResponse\<close>) never unlocks.
\<close>

type_synonym outcome = "writer option go_result"
type_synonym handler = "http_request \<Rightarrow> world \<Rightarrow> outcome \<times> world"

datatype phase =
    Waiting http_request
  | Inside http_request world \<comment> \<open>has the lock; the world it found\<close>
  | Leaving outcome \<comment> \<open>has the lock; finished\<close>
  | Answered outcome

record server =
  holder :: "nat option"
  goroutine :: "nat \<rightharpoonup> phase"
  shared :: world
  served :: "(nat \<times> http_request) list"

definition start_server :: "world \<Rightarrow> server" where
  "start_server w = \<lparr>holder = None, goroutine = Map.empty, shared = w, served = []\<rparr>"

inductive server_step :: "handler \<Rightarrow> server \<Rightarrow> server \<Rightarrow> bool" for handle where
  arrive: "goroutine s t = None \<Longrightarrow>
    server_step handle s (s\<lparr>goroutine := (goroutine s)(t \<mapsto> Waiting r)\<rparr>)"
| lock: "goroutine s t = Some (Waiting r) \<Longrightarrow> holder s = None \<Longrightarrow>
    server_step handle s (s\<lparr>holder := Some t, goroutine := (goroutine s)(t \<mapsto> Inside r (shared s))\<rparr>)"
| serve: "goroutine s t = Some (Inside r w) \<Longrightarrow> handle r w = (out, w') \<Longrightarrow>
    server_step handle s
      (s\<lparr>goroutine := (goroutine s)(t \<mapsto> Leaving out), shared := w', served := served s @ [(t, r)]\<rparr>)"
| unlock: "goroutine s t = Some (Leaving out) \<Longrightarrow> out \<noteq> Return None \<Longrightarrow>
    server_step handle s (s\<lparr>holder := None, goroutine := (goroutine s)(t \<mapsto> Answered out)\<rparr>)"

inductive server_reachable :: "handler \<Rightarrow> world \<Rightarrow> server \<Rightarrow> bool" for handle w where
  begin_empty: "server_reachable handle w (start_server w)"
| follow: "server_reachable handle w s \<Longrightarrow> server_step handle s s' \<Longrightarrow> server_reachable handle w s'"

text \<open>The specification: one request after the other.\<close>

fun one_by_one :: "handler \<Rightarrow> (nat \<times> http_request) list \<Rightarrow> world \<Rightarrow> (nat \<times> outcome) list \<times> world" where
  "one_by_one handle [] w = ([], w)"
| "one_by_one handle ((t, r) # rest) w =
     (let (out, w') = handle r w; (outs, w'') = one_by_one handle rest w' in ((t, out) # outs, w''))"

fun has_lock :: "phase \<Rightarrow> bool" where
  "has_lock (Inside _ _) \<longleftrightarrow> True"
| "has_lock (Leaving _) \<longleftrightarrow> True"
| "has_lock _ \<longleftrightarrow> False"

fun result_of :: "phase \<Rightarrow> outcome option" where
  "result_of (Leaving out) = Some out"
| "result_of (Answered out) = Some out"
| "result_of _ = None"

lemma one_by_one_snoc:
  "one_by_one handle (rs @ [(t, r)]) w =
     (case one_by_one handle rs w of (outs, w') \<Rightarrow> (case handle r w' of (out, w'') \<Rightarrow> (outs @ [(t, out)], w'')))"
  by (induction handle rs w rule: one_by_one.induct) (auto split: prod.splits)

definition exclusive :: "server \<Rightarrow> bool" where
  "exclusive s \<longleftrightarrow> (\<forall>t. (\<exists>p. goroutine s t = Some p \<and> has_lock p) \<longleftrightarrow> holder s = Some t)"

definition in_order :: "handler \<Rightarrow> world \<Rightarrow> server \<Rightarrow> bool" where
  "in_order handle w s \<longleftrightarrow>
     shared s = snd (one_by_one handle (served s) w) \<and>
     (\<forall>t r w0. goroutine s t = Some (Inside r w0) \<longrightarrow> w0 = shared s) \<and>
     (\<forall>t. Option.bind (goroutine s t) result_of = map_of (fst (one_by_one handle (served s) w)) t)"

lemma exclusive_holder:
  "exclusive s \<Longrightarrow> goroutine s t = Some p \<Longrightarrow> has_lock p \<longleftrightarrow> holder s = Some t"
  unfolding exclusive_def by (metis option.inject)

lemma exclusive_step:
  assumes "server_step handle s s'" and "exclusive s"
  shows "exclusive s'"
  using assms
proof (induction rule: server_step.induct)
  case (arrive s t r)
  then have "holder s \<noteq> Some t" unfolding exclusive_def by (metis option.distinct(1))
  with arrive show ?case by (auto simp: exclusive_def)
next
  case (serve s t r w out w')
  then have "holder s = Some t" using exclusive_holder by force
  with serve show ?case by (auto simp: exclusive_def)
next
  case (unlock s t out)
  then have "holder s = Some t" using exclusive_holder by force
  with unlock show ?case by (auto simp: exclusive_def)
qed (auto simp: exclusive_def)

text \<open>A step that does not run a handler keeps the order when it keeps the results.\<close>

lemma in_order_idle:
  assumes "in_order handle w s" and "shared s' = shared s" and "served s' = served s"
    and "\<And>t. Option.bind (goroutine s' t) result_of = Option.bind (goroutine s t) result_of"
    and "\<And>t r w0. goroutine s' t = Some (Inside r w0) \<Longrightarrow> goroutine s t = Some (Inside r w0) \<or> w0 = shared s"
  shows "in_order handle w s'"
  using assms unfolding in_order_def by metis

lemma in_order_step:
  assumes "server_step handle s s'" and "exclusive s" and "in_order handle w s"
  shows "in_order handle w s'"
  using assms
proof (induction rule: server_step.induct)
  case (arrive s t r)
  then show ?case by (auto intro!: in_order_idle [where s = s] split: if_splits)
next
  case (lock s t r)
  then show ?case by (auto intro!: in_order_idle [where s = s] split: if_splits)
next
  case (serve s t r w0 out w')
  obtain outs where seq: "one_by_one handle (served s) w = (outs, shared s)"
    using serve.prems(2) by (cases "one_by_one handle (served s) w") (simp add: in_order_def)
  have w0: "w0 = shared s" using serve.prems(2) serve.hyps(1) by (auto simp: in_order_def)
  have alone: "goroutine s u \<noteq> Some (Inside q v)" if "u \<noteq> t" for u q v
    using serve.prems(1) serve.hyps(1) that unfolding exclusive_def
    by (metis has_lock.simps(1) option.inject)
  have outs: "map_of outs u = Option.bind (goroutine s u) result_of" for u
    using serve.prems(2) by (simp add: in_order_def seq)
  have "map_of outs t = None" using serve.hyps(1) by (simp add: outs)
  then show ?case
    using serve.hyps(2) alone
    by (auto simp: in_order_def one_by_one_snoc seq w0 [symmetric] map_add_def outs split: option.split)
next
  case (unlock s t out)
  then show ?case by (auto intro!: in_order_idle [where s = s] split: if_splits)
qed

lemma server_invariant:
  assumes "server_reachable handle w s"
  shows "exclusive s \<and> in_order handle w s"
  using assms
proof (induction rule: server_reachable.induct)
  case begin_empty
  show ?case by (simp add: exclusive_def in_order_def start_server_def)
next
  case (follow s s')
  then show ?case using exclusive_step in_order_step by blast
qed

subsection \<open>No request waits for ever\<close>

abbreviation server_steps :: "handler \<Rightarrow> server \<Rightarrow> server \<Rightarrow> bool" where
  "server_steps handle \<equiv> (server_step handle)\<^sup>*\<^sup>*"

lemma reachable_steps:
  "server_steps handle s s' \<Longrightarrow> server_reachable handle w s \<Longrightarrow> server_reachable handle w s'"
  by (induction rule: rtranclp_induct) (auto intro: server_reachable.follow)

definition handler_returns :: "handler \<Rightarrow> bool" where
  "handler_returns handle \<longleftrightarrow> (\<forall>r v. fst (handle r v) \<noteq> Return None)"

lemma handler_returnsD: "handler_returns handle \<Longrightarrow> handle r v = (out, v') \<Longrightarrow> out \<noteq> Return None"
  unfolding handler_returns_def by (metis fst_conv)

definition all_return :: "server \<Rightarrow> bool" where
  "all_return s \<longleftrightarrow> (\<forall>t. goroutine s t \<noteq> Some (Leaving (Return None)))"

lemma all_return_reachable:
  assumes "server_reachable handle w s" and "handler_returns handle"
  shows "all_return s"
  using assms(1)
proof (induction rule: server_reachable.induct)
  case begin_empty
  show ?case by (simp add: all_return_def start_server_def)
next
  case (follow s s')
  from follow.hyps(2) follow.IH show ?case
    by (induction rule: server_step.induct) (auto simp: all_return_def dest: handler_returnsD [OF assms(2)])
qed

lemma unlocks:
  assumes "goroutine s t = Some (Leaving out)" and "out \<noteq> Return None"
  shows "\<exists>s'. server_steps handle s s' \<and> holder s' = None \<and> goroutine s' = (goroutine s)(t \<mapsto> Answered out)"
proof -
  let ?s = "s\<lparr>holder := None, goroutine := (goroutine s)(t \<mapsto> Answered out)\<rparr>"
  have "server_step handle s ?s" by (rule server_step.unlock [OF assms])
  then have "server_steps handle s ?s" by (rule r_into_rtranclp)
  then show ?thesis by (intro exI [of _ ?s]) simp
qed

lemma finishes:
  assumes "goroutine s t = Some (Inside r v)" and "handler_returns handle"
  shows "\<exists>s' out. server_steps handle s s' \<and> holder s' = None \<and> goroutine s' = (goroutine s)(t \<mapsto> Answered out)"
proof -
  obtain out v' where out: "handle r v = (out, v')" by fastforce
  let ?s = "s\<lparr>goroutine := (goroutine s)(t \<mapsto> Leaving out), shared := v', served := served s @ [(t, r)]\<rparr>"
  have "server_step handle s ?s" by (rule server_step.serve) (fact assms(1) out)+
  moreover have "out \<noteq> Return None" using handler_returnsD [OF assms(2) out] .
  with unlocks [of ?s t out handle] obtain s' where "server_steps handle ?s s'" "holder s' = None"
      "goroutine s' = (goroutine s)(t \<mapsto> Answered out)"
    by auto
  ultimately show ?thesis by (meson converse_rtranclp_into_rtranclp)
qed

text \<open>Whoever has the lock gives it back, and no other goroutine is touched.\<close>

lemma lock_comes_free:
  assumes "exclusive s" and "all_return s" and "handler_returns handle"
    and "goroutine s t = Some p" and "\<not> has_lock p"
  shows "\<exists>s'. server_steps handle s s' \<and> holder s' = None \<and> goroutine s' t = Some p"
proof (cases "holder s")
  case None
  with assms(4) show ?thesis by blast
next
  case (Some u)
  with assms(1) obtain q where q: "goroutine s u = Some q" "has_lock q" by (auto simp: exclusive_def)
  with assms(4,5) have "u \<noteq> t" by auto
  show ?thesis
  proof (cases q)
    case (Inside r v)
    with finishes [OF _ assms(3)] q(1) \<open>u \<noteq> t\<close> assms(4) show ?thesis by fastforce
  next
    case (Leaving out)
    with assms(2) q(1) have "out \<noteq> Return None" by (auto simp: all_return_def)
    with unlocks [of s u out handle] Leaving q(1) \<open>u \<noteq> t\<close> assms(4) show ?thesis by fastforce
  qed (use q in auto)
qed

lemma waiting_answered:
  assumes "server_reachable handle w s" and "handler_returns handle"
    and "goroutine s t = Some (Waiting r)"
  shows "\<exists>s' out. server_steps handle s s' \<and> goroutine s' t = Some (Answered out)"
proof -
  have "exclusive s" using server_invariant [OF assms(1)] by blast
  moreover have "all_return s" using all_return_reachable [OF assms(1,2)] by blast
  ultimately obtain s1 where s1: "server_steps handle s s1" "holder s1 = None" "goroutine s1 t = Some (Waiting r)"
    using lock_comes_free [OF _ _ assms(2,3)] by auto
  let ?s2 = "s1\<lparr>holder := Some t, goroutine := (goroutine s1)(t \<mapsto> Inside r (shared s1))\<rparr>"
  have "server_step handle s1 ?s2" by (rule server_step.lock [OF s1(3,2)])
  moreover obtain s3 out where "server_steps handle ?s2 s3" "goroutine s3 t = Some (Answered out)"
    using finishes [of ?s2 t r "shared s1" handle, OF _ assms(2)] by auto
  ultimately show ?thesis using s1(1) by (meson rtranclp.rtrancl_into_rtrancl rtranclp_trans)
qed

text \<open>A handler that does not return keeps everybody out.\<close>

lemma endless_handler_blocks:
  assumes "server_steps handle s s'" and "goroutine s t = Some (Leaving (Return None))" and "exclusive s"
    and "u \<noteq> t" and "goroutine s u = Some (Waiting r)"
  shows "goroutine s' u = Some (Waiting r) \<and> goroutine s' t = Some (Leaving (Return None)) \<and> exclusive s'"
  using assms(1)
proof (induction rule: rtranclp_induct)
  case base
  with assms show ?case by simp
next
  case (step y z)
  then have "holder y = Some t" using exclusive_holder [of y t] by simp
  with step.hyps(2) step.IH exclusive_step [OF step.hyps(2)] assms(4) show ?case
    by (auto elim!: server_step.cases)
qed

text \<open>
  (C6) Concurrent requests, in any interleaving of their goroutines: at most one handler is between
  \<open>Lock\<close> and \<open>Unlock\<close>; what the hooks have left behind is what serving the requests one by one, in
  the order in which their handlers finished, leaves behind; and every answer is the one that this
  sequential run gives.
\<close>

theorem mutex_serialises:
  assumes "server_reachable (HandleRequest parseURL decodeReview encode d) w s"
  shows "(\<forall>t u p q. goroutine s t = Some p \<and> has_lock p \<and> goroutine s u = Some q \<and> has_lock q \<longrightarrow> t = u) \<and>
     shared s = snd (one_by_one (HandleRequest parseURL decodeReview encode d) (served s) w) \<and>
     (\<forall>t out. goroutine s t = Some (Answered out) \<longrightarrow>
        map_of (fst (one_by_one (HandleRequest parseURL decodeReview encode d) (served s) w)) t = Some out)"
proof -
  have inv: "exclusive s" "in_order (HandleRequest parseURL decodeReview encode d) w s"
    using server_invariant [OF assms] by blast+
  from inv(1) have "\<forall>t u p q. goroutine s t = Some p \<and> has_lock p \<and> goroutine s u = Some q \<and> has_lock q \<longrightarrow> t = u"
    by (metis exclusive_holder option.inject)
  moreover from inv(2) have "Option.bind (goroutine s t) result_of =
      map_of (fst (one_by_one (HandleRequest parseURL decodeReview encode d) (served s) w)) t" for t
    by (simp add: in_order_def)
  then have "\<forall>t out. goroutine s t = Some (Answered out) \<longrightarrow>
      map_of (fst (one_by_one (HandleRequest parseURL decodeReview encode d) (served s) w)) t = Some out"
    by (metis Option.bind.bind_lunit result_of.simps(2))
  ultimately show ?thesis using inv(2) by (simp add: in_order_def)
qed

text \<open>
  (C31) As long as connections take the first encoding, no request is stuck behind the mutex: from
  every state the server can get into, a waiting request can be answered, whatever hooks panic.
\<close>

theorem mutex_no_deadlock:
  assumes "\<forall>resp. encode 0 resp = None"
    and "server_reachable (HandleRequest parseURL decodeReview encode d) w s"
    and "goroutine s t = Some (Waiting r)"
  shows "\<exists>s' out. server_steps (HandleRequest parseURL decodeReview encode d) s s' \<and>
     goroutine s' t = Some (Answered out)"
proof (rule waiting_answered [OF assms(2) _ assms(3)])
  show "handler_returns (HandleRequest parseURL decodeReview encode d)"
    using assms(1)
    by (auto simp: handler_returns_def HandleRequest_def SendResponse_first split: sum.split option.split prod.split go_result.split)
qed

end
