(* ===== verification/Hook_ClusterLogging.thy ===== *)
theory Hook_ClusterLogging
  imports Webhook_Utils "HOL-Library.Word"
begin

text \<open>
  \<open>pkg/webhooks/clusterlogging/clusterlogging.go\<close>: the retention of logs is bounded. A retention
  time is a number with a unit (\<open>7d\<close>, \<open>1h\<close>); the code compares two of them in seconds, in the
  64-bit arithmetic of \<open>uint64\<close>, which wraps around.
\<close>

section \<open>Model\<close>

definition ClusterLoggingKind :: string where
  [hook_defs]: "ClusterLoggingKind = ''ClusterLogging''"

definition clusterlogging_WebhookName :: string where
  [hook_defs]: "clusterlogging_WebhookName = ''clusterlogging-validation''"

definition reTimeUnit :: string where
  "reTimeUnit = ''^(?P<number>'' @ [bslash] @ ''d+)(?P<unit>[yMwdhHms])$''"

definition clusterlogging_rules :: "rule_with_operations list" where
  [hook_defs]: "clusterlogging_rules =
    [\<lparr>Operations = [Create, Update], APIGroups = [''logging.openshift.io''], APIVersions = [''v1''],
      Resources = [''clusterloggings''], Scope = NamespacedScope\<rparr>]"

text \<open>The fields of the API type \<open>ClusterLogging\<close> the hook reads, with its pointers.\<close>

type_synonym time_unit = string \<comment> \<open>\<open>TimeUnit\<close>\<close>

record retention_policy_spec =
  MaxAge :: time_unit

record retention_policies_spec =
  App :: "retention_policy_spec option"
  Infra :: "retention_policy_spec option"
  Audit :: "retention_policy_spec option"

record log_store_spec =
  RetentionPolicy :: "retention_policies_spec option"

record cluster_logging =
  LogStore :: "log_store_spec option"

text \<open>\<open>strconv.ParseUint(s, 10, 0)\<close>, on a platform with 64-bit integers.\<close>

definition is_digit :: "char \<Rightarrow> bool" where
  "is_digit c \<longleftrightarrow> in_range c (CHR ''0'', CHR ''9'')"

definition decimal :: "string \<Rightarrow> nat" where
  "decimal s = foldl (\<lambda>n c. 10 * n + (of_char c - of_char CHR ''0'')) 0 s"

definition ParseUint :: "string \<Rightarrow> 64 word option" where
  "ParseUint s =
     (if s \<noteq> [] \<and> list_all is_digit s \<and> decimal s < 2 ^ 64 then Some (of_nat (decimal s)) else None)"

definition parseTimeUnit :: "time_unit \<Rightarrow> go_error + (64 word \<times> string)" where
  "parseTimeUnit value =
     (case SubmatchPattern reTimeUnit value of
        None \<Rightarrow> Inl (''unable to parse timeunit '' @ [quote] @ value @ [quote] @ '' for invalid timeunit'')
      | Some match \<Rightarrow>
          (let n = submatch match 1 in
           case ParseUint n of
             None \<Rightarrow> Inl (''unable to parse uint '' @ [quote] @ n @ [quote] @ '' '')
           | Some number \<Rightarrow> Inr (number, submatch match 2)))"

text \<open>The cascade of the code: each unit is brought down to the next smaller one.\<close>

definition convertToSeconds :: "64 word \<Rightarrow> string \<Rightarrow> 64 word" where
  "convertToSeconds number unit =
     (let (number, unit) = (if unit = ''y'' then (number * 365, ''d'') else (number, unit));
          (number, unit) = (if unit = ''M'' then (number * 31, ''d'') else (number, unit));
          (number, unit) = (if unit = ''w'' then (number * 7, ''d'') else (number, unit));
          (number, unit) = (if unit = ''d'' then (number * 24, ''h'') else (number, unit));
          (number, unit) = (if unit = ''h'' \<or> unit = ''H'' then (number * 60, ''m'') else (number, unit))
      in if unit = ''m'' then number * 60 else number)"

definition le :: "time_unit \<Rightarrow> time_unit \<Rightarrow> go_error + bool" where
  "le lhs rhs =
     (case parseTimeUnit lhs of
        Inl err \<Rightarrow> Inl err
      | Inr (lhsNumber, lhsUnit) \<Rightarrow>
          (case parseTimeUnit rhs of
             Inl err \<Rightarrow> Inl err
           | Inr (rhsNumber, rhsUnit) \<Rightarrow>
               Inr (convertToSeconds lhsNumber lhsUnit \<le> convertToSeconds rhsNumber rhsUnit)))"

record retentionPolicyValidator =
  vName :: string
  vHint :: string
  lowerBound :: time_unit
  upperBound :: time_unit

definition validator_isAllowed ::
  "retentionPolicyValidator \<Rightarrow> retention_policy_spec option \<Rightarrow> go_error + (bool \<times> string)" where
  "validator_isAllowed r retentionPolicy =
     (case retentionPolicy of
        None \<Rightarrow> Inr (False, ''The entered retention policy is not allowed. '' @ vName r @
          '' must not be unset. Hint: '' @ vHint r)
      | Some policy \<Rightarrow>
          (case le (lowerBound r) (MaxAge policy) of
             Inl err \<Rightarrow> Inl err
           | Inr isAllowedRetentionDaysLower \<Rightarrow>
               (case le (MaxAge policy) (upperBound r) of
                  Inl err \<Rightarrow> Inl err
                | Inr isAllowedRetentionDaysUpper \<Rightarrow>
                    (if \<not> isAllowedRetentionDaysLower \<or> \<not> isAllowedRetentionDaysUpper
                     then Inr (False, ''The entered RetentionPolicy '' @ vName r @ '' is not allowed. '' @ vHint r)
                     else Inr (True, [])))))"

definition checkPolicy ::
  "retentionPolicyValidator \<Rightarrow> retention_policy_spec option \<Rightarrow> bool \<times> response" where
  "checkPolicy r retentionPolicy =
     (case validator_isAllowed r retentionPolicy of
        Inl err \<Rightarrow> (False, new_response (Errored 400 err))
      | Inr (allowed, deniedMessage) \<Rightarrow>
          (if \<not> allowed then (False, new_response (Denied deniedMessage))
           else (True, new_response (Allowed ''Allowed to create ClusterLogging''))))"

definition appValidator :: retentionPolicyValidator where
  "appValidator = \<lparr>vName = ''app'', vHint = ''Set MaxAge to a value <= 7d, >= 1h'',
     lowerBound = ''1h'', upperBound = ''7d''\<rparr>"

definition infraValidator :: retentionPolicyValidator where
  "infraValidator = \<lparr>vName = ''infra'', vHint = ''MaxAge must be 1h'',
     lowerBound = ''1h'', upperBound = ''1h''\<rparr>"

definition auditValidator :: retentionPolicyValidator where
  "auditValidator = \<lparr>vName = ''audit'', vHint = ''audit log must be 1h'',
     lowerBound = ''1h'', upperBound = ''1h''\<rparr>"

definition renderClusterLogging ::
  "cluster_logging decoder \<Rightarrow> admission_request \<Rightarrow> go_error + cluster_logging" where
  "renderClusterLogging decoder request =
     (if reqOldObject request \<noteq> [] then DecodeRaw decoder (reqOldObject request)
      else DecodeRaw decoder (reqObject request))"

definition clusterlogging_authorized ::
  "cluster_logging decoder \<Rightarrow> admission_request \<Rightarrow> response go_result" where
  "clusterlogging_authorized decoder request =
     (case renderClusterLogging decoder request of
        Inl err \<Rightarrow> Return (new_response (Errored 400 err))
      | Inr clusterLogging \<Rightarrow>
          (case LogStore clusterLogging of
             None \<Rightarrow> nil_deref
           | Some logStore \<Rightarrow>
               (case RetentionPolicy logStore of
                  None \<Rightarrow> nil_deref
                | Some retentionPolicy \<Rightarrow>
                    (let (ok, ret) = checkPolicy appValidator (App retentionPolicy) in
                     if \<not> ok then Return ret
                     else let (ok, ret) = checkPolicy infraValidator (Infra retentionPolicy) in
                     if \<not> ok then Return ret
                     else let (ok, ret) = checkPolicy auditValidator (Audit retentionPolicy) in
                     Return ret))))"

definition clusterlogging_Authorized ::
  "cluster_logging decoder \<Rightarrow> admission_request \<Rightarrow> response go_result" where
  "clusterlogging_Authorized decoder request =
     go_bind (clusterlogging_authorized decoder request) (\<lambda>r. Return (r\<lparr>respUID := reqUID request\<rparr>))"

definition clusterlogging_Validate :: "admission_request \<Rightarrow> bool" where
  [hook_defs]: "clusterlogging_Validate req \<longleftrightarrow> username req \<noteq> [] \<and> kind req = ClusterLoggingKind"

definition clusterlogging_SyncSetLabelSelector :: label_selector where
  "clusterlogging_SyncSetLabelSelector = DefaultLabelSelector
    \<lparr>MatchExpressions := MatchExpressions DefaultLabelSelector @
      [\<lparr>selKey = ''hive.openshift.io/version-major-minor'', selOperator = LabelSelectorOpIn,
        selValues = [''4.4'', ''4.5'', ''4.6'']\<rparr>]\<rparr>"

definition clusterlogging_NewWebhook :: "'s scheme_builders \<Rightarrow> 's factory_result" where
  [factory_defs]: "clusterlogging_NewWebhook api = add_to_scheme api
    [(ClusterLoggingV1, ''Fail adding cluster-logging scheme to ClusterloggingWebhook'')] (NewScheme api)"

definition clusterlogging_Webhook :: "cluster_logging decoder \<Rightarrow> webhook" where
  [hook_defs]: "clusterlogging_Webhook decoder =
    \<lparr>Authorized = stateless (clusterlogging_Authorized decoder),
     GetURI = ''/'' @ clusterlogging_WebhookName,
     Validate = clusterlogging_Validate,
     Name = clusterlogging_WebhookName,
     FailurePolicy = Ignore,
     MatchPolicy = Equivalent,
     Rules = clusterlogging_rules,
     ObjectSelector = None,
     SideEffects = SideEffectClassNone,
     TimeoutSeconds = 1,
     Doc = ''Managed OpenShift Customers may set log retention outside the allowed range of 0-7 days'',
     SyncSetLabelSelector = clusterlogging_SyncSetLabelSelector,
     ClassicEnabled = True,
     HypershiftEnabled = False\<rparr>"

section \<open>Properties\<close>

subsection \<open>Reading a retention time\<close>

definition unit_chars :: string where
  "unit_chars = ''yMwdhHms''"

abbreviation digit_cls :: regex where "digit_cls \<equiv> RCls False [(CHR ''0'', CHR ''9'')]"
abbreviation unit_cls :: regex where "unit_cls \<equiv> RCls False (map (\<lambda>c. (c, c)) unit_chars)"

lemma compile_reTimeUnit: "regexp_compile reTimeUnit =
   Some \<lparr>prog = RCat RBol (RCat (RGroup 1 (RCat digit_cls (RStar digit_cls))) (RCat (RGroup 2 unit_cls) REol)),
         subexps = [(''number'', 1), (''unit'', 2)]\<rparr>"
  by (simp add: reTimeUnit_def unit_chars_def go_defs numeral_2_eq_2)

lemma unit_cls_mem: "cls_mem False (map (\<lambda>c. (c, c)) unit_chars) u \<longleftrightarrow> u \<in> set unit_chars"
  by (simp add: cls_mem_def unit_chars_def in_range_single del: in_range.simps)

lemma digit_cls_mem: "cls_mem False [(CHR ''0'', CHR ''9'')] c \<longleftrightarrow> is_digit c"
  by (simp add: cls_mem_def is_digit_def)

lemma unit_not_digit: "u \<in> set unit_chars \<Longrightarrow> \<not> is_digit u"
  by (auto simp: unit_chars_def is_digit_def)

lemma submatch_time_unit:
  assumes "is_digit d" "\<forall>c\<in>set a. is_digit c" "u \<in> set unit_chars"
  shows "SubmatchPattern reTimeUnit (d # a @ [u]) = Some [(0, d # a @ [u]), (2, [u]), (1, d # a)]"
proof -
  have "\<exists>sts. runs (RStar digit_cls) (False, a @ [u], []) = (False, [u], []) # sts"
    using star_runs_cls_greedy [of a False "[(CHR ''0'', CHR ''9'')]" "[u]" "length (a @ [u])" False "[]"]
      assms unit_not_digit unfolding runs.simps(9) by (simp add: digit_cls_mem del: star_runs.simps runs.simps)
  then obtain sts where "runs (RStar digit_cls) (False, a @ [u], []) = (False, [u], []) # sts" ..
  then show ?thesis
    using assms unit_not_digit [OF assms(3)]
    by (simp add: SubmatchPattern_def compile_reTimeUnit find_from.simps digit_cls_mem unit_cls_mem
      del: runs.simps(9))
qed

lemma no_submatch_time_unit:
  "SubmatchPattern reTimeUnit v = None \<longleftrightarrow>
     (\<nexists>d a u. v = d # a @ [u] \<and> is_digit d \<and> (\<forall>c\<in>set a. is_digit c) \<and> u \<in> set unit_chars)"
proof -
  have "SubmatchPattern reTimeUnit v = None \<longleftrightarrow> \<not> regex_Match
      (RCat RBol (RCat (RGroup 1 (RCat digit_cls (RStar digit_cls))) (RCat (RGroup 2 unit_cls) REol))) v"
    by (simp add: SubmatchPattern_def compile_reTimeUnit regex_Match_def)
  also have "\<dots> \<longleftrightarrow> (\<nexists>d a u. v = d # a @ [u] \<and> is_digit d \<and> (\<forall>c\<in>set a. is_digit c) \<and> u \<in> set unit_chars)"
    by (simp add: regex_Match_then_anchored then_match_star_cls digit_cls_mem unit_cls_mem) blast
  finally show ?thesis .
qed

subsection \<open>Comparing in seconds\<close>

fun unit_seconds :: "char \<Rightarrow> nat" where
  "unit_seconds u =
     (if u = CHR ''y'' then 365 * 86400 else if u = CHR ''M'' then 31 * 86400
      else if u = CHR ''w'' then 7 * 86400 else if u = CHR ''d'' then 86400
      else if u = CHR ''h'' \<or> u = CHR ''H'' then 3600 else if u = CHR ''m'' then 60 else 1)"

lemma convertToSeconds_eq:
  "u \<in> set unit_chars \<Longrightarrow> convertToSeconds n [u] = n * of_nat (unit_seconds u)"
  by (auto simp: unit_chars_def convertToSeconds_def Let_def)

text \<open>
  The texts the parser takes: at least one digit, then one unit, the number below \<open>2 ^ 64\<close>; and the
  time they stand for.
\<close>

definition time_ok :: "time_unit \<Rightarrow> bool" where
  "time_ok v \<longleftrightarrow> 2 \<le> length v \<and> list_all is_digit (butlast v) \<and> last v \<in> set unit_chars \<and>
     decimal (butlast v) < 2 ^ 64"

definition seconds :: "time_unit \<Rightarrow> nat" where
  "seconds v = decimal (butlast v) * unit_seconds (last v)"

lemma time_shape:
  "2 \<le> length v \<and> list_all is_digit (butlast v) \<and> last v \<in> set unit_chars \<longleftrightarrow>
     (\<exists>d a u. v = d # a @ [u] \<and> is_digit d \<and> (\<forall>c\<in>set a. is_digit c) \<and> u \<in> set unit_chars)" (is "?L \<longleftrightarrow> ?R")
proof
  assume ?L
  then obtain w u where v: "v = w @ [u]" by (cases v rule: rev_cases) auto
  with \<open>?L\<close> obtain d a where "w = d # a" by (cases w) auto
  with v \<open>?L\<close> show ?R by (auto simp: list_all_iff)
qed (auto simp: list_all_iff butlast_append)

lemma parseTimeUnit_ok:
  assumes "time_ok v"
  shows "parseTimeUnit v = Inr (of_nat (decimal (butlast v)), [last v])"
proof -
  from assms obtain d a u where v: "v = d # a @ [u]" and du: "is_digit d" "\<forall>c\<in>set a. is_digit c" "u \<in> set unit_chars"
    using time_shape [of v] by (auto simp: time_ok_def)
  have "decimal (d # a) < 2 ^ 64" using assms v by (simp add: time_ok_def butlast_append)
  with submatch_time_unit [OF du] du v show ?thesis
    by (simp add: parseTimeUnit_def submatch_def ParseUint_def list_all_iff butlast_append)
qed

lemma parseTimeUnit_err:
  assumes "\<not> time_ok v"
  shows "\<exists>err. parseTimeUnit v = Inl err"
proof (cases "\<exists>d a u. v = d # a @ [u] \<and> is_digit d \<and> (\<forall>c\<in>set a. is_digit c) \<and> u \<in> set unit_chars")
  case True
  then obtain d a u where v: "v = d # a @ [u]" and du: "is_digit d" "\<forall>c\<in>set a. is_digit c" "u \<in> set unit_chars"
    by blast
  with assms time_shape [of v] have "\<not> decimal (d # a) < 2 ^ 64" by (auto simp: time_ok_def butlast_append)
  with submatch_time_unit [OF du] v show ?thesis
    by (simp add: parseTimeUnit_def submatch_def ParseUint_def)
next
  case False
  then show ?thesis using no_submatch_time_unit [of v] by (simp add: parseTimeUnit_def)
qed

lemma seconds_word: "time_ok v \<Longrightarrow>
   convertToSeconds (of_nat (decimal (butlast v))) [last v] = of_nat (seconds v)"
  by (simp add: time_ok_def convertToSeconds_eq seconds_def del: unit_seconds.simps)

lemma word_of_nat_le_mod: "(of_nat a :: 64 word) \<le> of_nat b \<longleftrightarrow> a mod 2 ^ 64 \<le> b mod 2 ^ 64"
  by (simp add: word_le_nat_alt unat_of_nat)

lemma le_eq:
  assumes "time_ok a" and "time_ok b"
  shows "le a b = Inr (seconds a mod 2 ^ 64 \<le> seconds b mod 2 ^ 64)"
  using assms by (simp add: le_def parseTimeUnit_ok seconds_word word_of_nat_le_mod)

lemma bounds_ok: "time_ok ''1h''" "time_ok ''7d''" "seconds ''1h'' = 3600" "seconds ''7d'' = 604800"
  by (simp_all add: time_ok_def seconds_def is_digit_def decimal_def unit_chars_def)

text \<open>
  A retention policy is set, reads well, and its time, as the code computes it, is in range.
\<close>

definition retained :: "nat \<Rightarrow> nat \<Rightarrow> retention_policy_spec option \<Rightarrow> bool" where
  "retained lo hi p \<longleftrightarrow> (\<exists>q. p = Some q \<and> time_ok (MaxAge q) \<and>
     lo \<le> seconds (MaxAge q) mod 2 ^ 64 \<and> seconds (MaxAge q) mod 2 ^ 64 \<le> hi)"

lemma checkPolicy_ok:
  assumes "lowerBound r = ''1h''" and "time_ok (upperBound r)" and "seconds (upperBound r) = hi" and "hi < 2 ^ 64"
  shows "fst (checkPolicy r p) \<longleftrightarrow> retained 3600 hi p"
    and "allows (respVerdict (snd (checkPolicy r p))) \<longleftrightarrow> retained 3600 hi p"
proof -
  have "fst (checkPolicy r p) = retained 3600 hi p \<and>
    allows (respVerdict (snd (checkPolicy r p))) = retained 3600 hi p"
  proof (cases p)
    case None
    then show ?thesis by (simp add: checkPolicy_def validator_isAllowed_def retained_def)
  next
    case (Some q)
    show ?thesis
    proof (cases "time_ok (MaxAge q)")
      case True
      with Some assms show ?thesis
        by (simp add: checkPolicy_def validator_isAllowed_def retained_def le_eq bounds_ok)
    next
      case False
      with parseTimeUnit_err obtain err where "parseTimeUnit (MaxAge q) = Inl err" by blast
      with Some False assms show ?thesis
        by (simp add: checkPolicy_def validator_isAllowed_def retained_def le_def parseTimeUnit_ok bounds_ok)
    qed
  qed
  then show "fst (checkPolicy r p) \<longleftrightarrow> retained 3600 hi p"
    and "allows (respVerdict (snd (checkPolicy r p))) \<longleftrightarrow> retained 3600 hi p" by simp_all
qed

lemma app_checked:
  "fst (checkPolicy appValidator p) \<longleftrightarrow> retained 3600 604800 p"
  "allows (respVerdict (snd (checkPolicy appValidator p))) \<longleftrightarrow> retained 3600 604800 p"
  by (rule checkPolicy_ok; simp add: appValidator_def bounds_ok)+

lemma infra_checked:
  "fst (checkPolicy infraValidator p) \<longleftrightarrow> retained 3600 3600 p"
  "allows (respVerdict (snd (checkPolicy infraValidator p))) \<longleftrightarrow> retained 3600 3600 p"
  by (rule checkPolicy_ok; simp add: infraValidator_def bounds_ok)+

lemma audit_checked:
  "fst (checkPolicy auditValidator p) \<longleftrightarrow> retained 3600 3600 p"
  "allows (respVerdict (snd (checkPolicy auditValidator p))) \<longleftrightarrow> retained 3600 3600 p"
  by (rule checkPolicy_ok; simp add: auditValidator_def bounds_ok)+

lemmas policies_checked = app_checked infra_checked audit_checked

lemma checkPolicy_audit: "respAudit (snd (checkPolicy r p)) = Map.empty"
  by (simp add: checkPolicy_def split: sum.split prod.split)

interpretation clusterlogging: validating_webhook "clusterlogging_Webhook d" for d
proof unfold_locales
  fix req w resp w'
  assume "Authorized (clusterlogging_Webhook d) req w = (Return resp, w')"
  then show "respAudit resp = Map.empty"
    using checkPolicy_audit
    by (auto simp: hook_defs clusterlogging_Authorized_def clusterlogging_authorized_def Let_def
        split: sum.splits option.splits prod.splits if_splits) (metis snd_conv)+
qed (auto simp: hook_defs clusterlogging_Authorized_def uri_slug_def suffix_def)

definition clusterlogging_policies :: "cluster_logging \<Rightarrow> retention_policies_spec option" where
  "clusterlogging_policies cl = (case LogStore cl of None \<Rightarrow> None | Some ls \<Rightarrow> RetentionPolicy ls)"

lemma clusterlogging_decided:
  assumes "renderClusterLogging d req = Inr cl" and "clusterlogging_policies cl = Some rp"
  shows "\<exists>resp. clusterlogging_Authorized d req = Return resp \<and>
     (allows (respVerdict resp) \<longleftrightarrow>
        retained 3600 604800 (App rp) \<and> retained 3600 3600 (Infra rp) \<and> retained 3600 3600 (Audit rp))"
  using assms app_checked [of "App rp"] infra_checked [of "Infra rp"] audit_checked [of "Audit rp"]
  by (auto simp: clusterlogging_Authorized_def clusterlogging_authorized_def clusterlogging_policies_def
      Let_def split: option.splits prod.splits if_splits)

text \<open>
  (C11) The log retention hook, on every request: an error when the object (the stored one when there
  is one) does not decode; a nil dereference when it decodes and has no log store or no retention
  policies; otherwise an answer with the UID of the request, which allows exactly when the three
  policies are set and readable, the time for application logs is, modulo \<open>2 ^ 64\<close> seconds, between
  an hour and seven days, and the times for infrastructure and audit logs are an hour. This is what the
  hints of the code ask for; the documentation of the hook speaks of a range of 0-7 days, with no lower
  bound of an hour and no difference between the three kinds of logs.
\<close>

theorem clusterlogging_guard:
  "case DecodeRaw d (if reqOldObject req \<noteq> [] then reqOldObject req else reqObject req) of
     Inl err \<Rightarrow> clusterlogging_Authorized d req = Return (respond req (Errored 400 err))
   | Inr cl \<Rightarrow>
       (case clusterlogging_policies cl of
          None \<Rightarrow> clusterlogging_Authorized d req = nil_deref
        | Some rp \<Rightarrow> (\<exists>resp. clusterlogging_Authorized d req = Return resp \<and> respUID resp = reqUID req \<and>
            (allows (respVerdict resp) \<longleftrightarrow> retained 3600 604800 (App rp) \<and>
               retained 3600 3600 (Infra rp) \<and> retained 3600 3600 (Audit rp))))"
proof (cases "renderClusterLogging d req")
  case (Inl err)
  then show ?thesis
    by (auto simp: clusterlogging_Authorized_def clusterlogging_authorized_def respond_def
        renderClusterLogging_def split: if_splits)
next
  case (Inr cl)
  then have obj: "DecodeRaw d (if reqOldObject req \<noteq> [] then reqOldObject req else reqObject req) = Inr cl"
    by (simp add: renderClusterLogging_def split: if_splits)
  show ?thesis
  proof (cases "clusterlogging_policies cl")
    case None
    with Inr show ?thesis
      unfolding obj by (auto simp: clusterlogging_Authorized_def clusterlogging_authorized_def
          clusterlogging_policies_def split: option.splits)
  next
    case (Some rp)
    with clusterlogging_decided [OF Inr Some] show ?thesis
      unfolding obj by (fastforce simp: clusterlogging_Authorized_def)
  qed
qed

subsection \<open>No wrap-around on short times\<close>

lemma decimal_append: "decimal (s @ [c]) = 10 * decimal s + (of_char c - of_char CHR ''0'')"
  by (simp add: decimal_def)

lemma decimal_bound: "list_all is_digit s \<Longrightarrow> decimal s < 10 ^ length s"
proof (induction s rule: rev_induct)
  case (snoc c s)
  then have "of_char c - (48 :: nat) \<le> 9" by (auto simp: is_digit_def)
  with snoc show ?case by (simp add: decimal_append)
qed (simp add: decimal_def)

lemma seconds_bound:
  assumes "time_ok v" and "length v \<le> 12"
  shows "seconds v < 2 ^ 64"
proof -
  have "decimal (butlast v) < 10 ^ length (butlast v)"
    using assms by (intro decimal_bound) (simp add: time_ok_def)
  also have "\<dots> \<le> 10 ^ 11" using assms by (intro power_increasing) auto
  finally have "decimal (butlast v) \<le> 10 ^ 11" by simp
  moreover have "unit_seconds (last v) \<le> 31536000" by simp
  ultimately have "seconds v \<le> 10 ^ 11 * 31536000"
    unfolding seconds_def by (rule mult_le_mono)
  then show ?thesis by simp
qed

text \<open>
  (C12) For a retention time of at most twelve characters nothing wraps around: the policy for application
  logs is accepted exactly when its text is a number with a unit and the time itself is at least
  an hour (3600 seconds) and at most seven days (604800 seconds). The lower bound is the one of the code;
  the documentation of the hook puts the allowed range at 0-7 days.
\<close>

theorem short_retention_exact:
  assumes "length age \<le> 12"
  shows "fst (checkPolicy appValidator (Some \<lparr>MaxAge = age\<rparr>)) \<longleftrightarrow>
    time_ok age \<and> 3600 \<le> seconds age \<and> seconds age \<le> 604800"
  using assms seconds_bound [of age] by (auto simp: policies_checked retained_def)

theorem short_retention_exact_witness:
  "fst (checkPolicy appValidator (Some \<lparr>MaxAge = ''168h''\<rparr>)) \<and> \<not> fst (checkPolicy appValidator (Some \<lparr>MaxAge = ''8d''\<rparr>))"
  using short_retention_exact [of "''168h''"] short_retention_exact [of "''8d''"]
  by (simp add: time_ok_def seconds_def is_digit_def decimal_def unit_chars_def)

text \<open>Half an hour, and a day for infrastructure logs, are in the documented range and not accepted.\<close>

lemma documented_range_refused:
  "\<not> fst (checkPolicy appValidator (Some \<lparr>MaxAge = ''30m''\<rparr>)) \<and> \<not> fst (checkPolicy infraValidator (Some \<lparr>MaxAge = ''1d''\<rparr>))"
  by (simp add: policies_checked retained_def time_ok_def seconds_def is_digit_def decimal_def unit_chars_def)

text \<open>
  A longer text can wrap around into the accepted range.
\<close>

lemma wrapped_retention_accepted:
  "seconds ''5124095576030433h'' > 2 ^ 64 \<and> fst (checkPolicy appValidator (Some \<lparr>MaxAge = ''5124095576030433h''\<rparr>))"
  by (simp add: policies_checked retained_def time_ok_def seconds_def is_digit_def decimal_def unit_chars_def)

end
