(* ===== verification/Hook_ClusterRole.thy ===== *)
theory Hook_ClusterRole
  imports Webhook_Utils
begin

text \<open>
  \<open>pkg/webhooks/clusterrole/clusterrole.go\<close>: customers may not delete the ClusterRoles the
  platform rests on. Of the stored ClusterRole the hook reads the name.
\<close>

section \<open>Model\<close>

definition clusterrole_WebhookName :: string where
  [hook_defs]: "clusterrole_WebhookName = ''clusterroles-validation''"

definition backplanePrefix :: string where
  "backplanePrefix = ''backplane-''"

definition clusterrole_docString :: string where
  "clusterrole_docString = ''Managed OpenShift Customers may not delete protected ClusterRoles including cluster-admin, view, edit, admin, specific system roles (system:admin, system:node, system:node-proxier, system:kube-scheduler, system:kube-controller-manager), and backplane-* roles''"

definition clusterrole_rules :: "rule_with_operations list" where
  [hook_defs]: "clusterrole_rules =
    [\<lparr>Operations = [''DELETE''], APIGroups = [''rbac.authorization.k8s.io''], APIVersions = [''v1''],
      Resources = [''clusterroles''], Scope = ClusterScope\<rparr>]"

definition protectedClusterRoles :: "string list" where
  "protectedClusterRoles =
    [''cluster-admin'', ''view'', ''edit'', ''admin'', ''system:admin'', ''system:node'',
     ''system:kube-scheduler'', ''system:kube-controller-manager'']"

definition clusterrole_allowedUsers :: "string list" where
  "clusterrole_allowedUsers = [''backplane-cluster-admin'']"

definition clusterrole_allowedGroups :: "string list" where
  "clusterrole_allowedGroups = [''system:serviceaccounts:openshift-backplane-srep'']"

definition clusterrole_renderClusterRole ::
  "object_meta decoder \<Rightarrow> admission_request \<Rightarrow> go_error + object_meta" where
  "clusterrole_renderClusterRole decoder request =
     (if reqOldObject request \<noteq> [] then DecodeRaw decoder (reqOldObject request) else Inr zero_meta)"

definition clusterrole_isAllowedUserGroup :: "admission_request \<Rightarrow> bool" where
  "clusterrole_isAllowedUserGroup request \<longleftrightarrow>
     slices_Contains clusterrole_allowedUsers (username request) \<or>
     list_ex (slices_Contains (groups request)) clusterrole_allowedGroups"

definition isProtectedClusterRole :: "object_meta \<Rightarrow> bool" where
  "isProtectedClusterRole clusterRole \<longleftrightarrow>
     slices_Contains protectedClusterRoles (metaName clusterRole) \<or>
     strings_HasPrefix (metaName clusterRole) backplanePrefix"

definition clusterrole_authorized :: "object_meta decoder \<Rightarrow> admission_request \<Rightarrow> response" where
  "clusterrole_authorized decoder request =
     (if username request = ''system:unauthenticated''
      then respond request (Denied ''Unauthenticated'')
      else if strings_HasPrefix (username request) ''system:'' \<and> username request \<noteq> ''system:admin''
      then respond request (Allowed ''authenticated system: users are allowed'')
      else if strings_HasPrefix (username request) ''kube:''
      then respond request (Allowed ''kube: users are allowed'')
      else (case clusterrole_renderClusterRole decoder request of
              Inl err \<Rightarrow> new_response (Errored 400 err)
            | Inr clusterRole \<Rightarrow>
                (if isProtectedClusterRole clusterRole \<and> \<not> clusterrole_isAllowedUserGroup request \<and>
                    reqOperation request = Delete
                 then respond request (Denied (''Deleting ClusterRole '' @ metaName clusterRole @ '' is not allowed''))
                 else respond request (Allowed ''Request is allowed''))))"

definition clusterrole_Validate :: "admission_request \<Rightarrow> bool" where
  [hook_defs]: "clusterrole_Validate request \<longleftrightarrow> username request \<noteq> [] \<and> kind request = ''ClusterRole''"

definition clusterrole_NewWebhook :: "'s scheme_builders \<Rightarrow> 's factory_result" where
  [factory_defs]: "clusterrole_NewWebhook api = add_to_scheme api
    [(AdmissionV1, ''Fail adding admissionsv1 scheme to ClusterRoleWebHook''),
     (CoreV1, ''Fail adding corev1 scheme to ClusterRoleWebHook'')] (NewScheme api)"

definition clusterrole_Webhook :: "object_meta decoder \<Rightarrow> webhook" where
  [hook_defs]: "clusterrole_Webhook decoder =
    \<lparr>Authorized = stateless (\<lambda>request. Return (clusterrole_authorized decoder request)),
     GetURI = ''/'' @ clusterrole_WebhookName,
     Validate = clusterrole_Validate,
     Name = clusterrole_WebhookName,
     FailurePolicy = Ignore,
     MatchPolicy = Equivalent,
     Rules = clusterrole_rules,
     ObjectSelector = None,
     SideEffects = SideEffectClassNone,
     TimeoutSeconds = 2,
     Doc = clusterrole_docString,
     SyncSetLabelSelector = DefaultLabelSelector,
     ClassicEnabled = True,
     HypershiftEnabled = True\<rparr>"

section \<open>Properties\<close>

interpretation clusterrole: authenticated_webhook "clusterrole_Webhook d" for d
  by unfold_locales
    (auto simp: hook_defs clusterrole_authorized_def uri_slug_def suffix_def split: sum.splits if_splits)

text \<open>The users the hook looks no further at.\<close>

definition system_or_kube_user :: "string \<Rightarrow> bool" where
  "system_or_kube_user user \<longleftrightarrow> (prefix ''system:'' user \<and>
     user \<notin> {''system:admin'', ''system:unauthenticated''}) \<or> prefix ''kube:'' user"

lemma clusterrole_exact:
  "decides_by (clusterrole_Webhook d)
     (\<lambda>req. \<not> system_or_kube_user (username req) \<and> username req \<noteq> ''system:unauthenticated'' \<and> reqOldObject req \<noteq> [] \<and>
        (\<exists>err. DecodeRaw d (reqOldObject req) = Inl err))
     (\<lambda>req. username req = ''system:unauthenticated'' \<or>
        (checked_deletion req \<and> \<not> system_or_kube_user (username req) \<and>
         (\<exists>cr. DecodeRaw d (reqOldObject req) = Inr cr \<and>
            (metaName cr \<in> set protectedClusterRoles \<or> prefix ''backplane-'' (metaName cr)))))"
  by (auto simp: decides_by_def checked_deletion_def clusterrole_Webhook_def clusterrole_authorized_def
      clusterrole_renderClusterRole_def system_or_kube_user_def isProtectedClusterRole_def clusterrole_isAllowedUserGroup_def
      clusterrole_allowedUsers_def clusterrole_allowedGroups_def backplanePrefix_def zero_meta_def
      protectedClusterRoles_def split: sum.splits if_splits)

text \<open>The documentation names \<open>system:node-proxier\<close> among the protected roles; the list does not.\<close>

lemma node_proxier_documented_not_protected:
  "strings_Contains clusterrole_docString ''system:node-proxier'' \<and>
   \<not> isProtectedClusterRole (zero_meta\<lparr>metaName := ''system:node-proxier''\<rparr>)"
  by (simp add: clusterrole_docString_def isProtectedClusterRole_def protectedClusterRoles_def
      backplanePrefix_def zero_meta_def)

end
