(* ===== verification/Hook_ClusterRoleBinding.thy ===== *)
theory Hook_ClusterRoleBinding
  imports Webhook_Utils
begin

text \<open>
  \<open>pkg/webhooks/clusterrolebinding/clusterrolebinding.go\<close>: customers may not delete a
  ClusterRoleBinding that gives a role to a service account of a managed namespace.
\<close>

section \<open>Model\<close>

definition crb_WebhookName :: string where
  [hook_defs]: "crb_WebhookName = ''clusterrolebindings-validation''"

definition managedNamespaces :: string where
  "managedNamespaces = ''(^openshift-.*|kube-system)''"

definition crb_rules :: "rule_with_operations list" where
  [hook_defs]: "crb_rules =
    [\<lparr>Operations = [''DELETE''], APIGroups = [''rbac.authorization.k8s.io''], APIVersions = [''v1''],
      Resources = [''clusterrolebindings''], Scope = ClusterScope\<rparr>]"

definition crb_exceptionNamespaces :: "string list" where
  "crb_exceptionNamespaces =
    [''openshift-logging'', ''openshift-user-workload-monitoring'', ''openshift-operators'',
     ''openshift-backplane-managed-scripts'', ''openshift-gitops'']"

definition crb_allowedUsers :: "string list" where
  "crb_allowedUsers = [''backplane-cluster-admin'']"

definition crb_allowedGroups :: "string list" where
  "crb_allowedGroups = [''system:serviceaccounts:openshift-backplane-srep'']"

text \<open>The fields of \<open>rbacv1.ClusterRoleBinding\<close> the hook reads.\<close>

record rbac_subject =
  subjKind :: string
  subjNamespace :: string

record cluster_role_binding =
  crbMeta :: object_meta
  Subjects :: "rbac_subject list"

definition crb_render ::
  "cluster_role_binding decoder \<Rightarrow> admission_request \<Rightarrow> go_error + cluster_role_binding" where
  "crb_render decoder request =
     (if reqOldObject request \<noteq> [] then DecodeRaw decoder (reqOldObject request)
      else Inr \<lparr>crbMeta = zero_meta, Subjects = []\<rparr>)"

definition crb_isAllowedUserGroup :: "admission_request \<Rightarrow> bool" where
  "crb_isAllowedUserGroup request \<longleftrightarrow>
     slices_Contains crb_allowedUsers (username request) \<or>
     list_ex (slices_Contains (groups request)) crb_allowedGroups"

definition crb_isProtectedNamespace :: "cluster_role_binding \<Rightarrow> bool" where
  "crb_isProtectedNamespace crb \<longleftrightarrow>
     list_ex (\<lambda>subject. subjKind subject = ''ServiceAccount'' \<and>
       MatchPattern managedNamespaces (subjNamespace subject) \<and>
       \<not> slices_Contains crb_exceptionNamespaces (subjNamespace subject)) (Subjects crb)"

definition crb_authorized :: "cluster_role_binding decoder \<Rightarrow> admission_request \<Rightarrow> response" where
  "crb_authorized decoder request =
     (if username request = ''system:unauthenticated''
      then respond request (Denied ''Unauthenticated'')
      else if strings_HasPrefix (username request) ''system:''
      then respond request (Allowed ''authenticated system: users are allowed'')
      else if strings_HasPrefix (username request) ''kube:''
      then respond request (Allowed ''kube: users are allowed'')
      else (case crb_render decoder request of
              Inl err \<Rightarrow> new_response (Errored 400 err)
            | Inr crb \<Rightarrow>
                (if crb_isProtectedNamespace crb \<and> \<not> crb_isAllowedUserGroup request \<and>
                    reqOperation request = Delete
                 then (if map_get (metaAnnotations (crbMeta crb)) ''oc.openshift.io/command'' = ''oc adm must-gather'' \<and>
                          username request = ''cluster-admin''
                       then respond request (Allowed ''cluster-admin: cluster-admin may manage must-gather resources'')
                       else respond request (Denied (''Deleting ClusterRoleBinding '' @
                         metaName (crbMeta crb) @ '' is not allowed'')))
                 else respond request (Allowed ''Request is allowed''))))"

definition crb_Validate :: "admission_request \<Rightarrow> bool" where
  [hook_defs]: "crb_Validate request \<longleftrightarrow> username request \<noteq> [] \<and> kind request = ''ClusterRoleBinding''"

definition crb_NewWebhook :: "'s scheme_builders \<Rightarrow> 's factory_result" where
  [factory_defs]: "crb_NewWebhook api = add_to_scheme api
    [(AdmissionV1, ''Fail adding admissionsv1 scheme to ClusterRoleBindingWebHook''),
     (CoreV1, ''Fail adding corev1 scheme to ClusterRoleBindingWebHook'')] (NewScheme api)"

definition crb_Webhook :: "cluster_role_binding decoder \<Rightarrow> webhook" where
  [hook_defs]: "crb_Webhook decoder =
    \<lparr>Authorized = stateless (\<lambda>request. Return (crb_authorized decoder request)),
     GetURI = ''/'' @ crb_WebhookName,
     Validate = crb_Validate,
     Name = crb_WebhookName,
     FailurePolicy = Ignore,
     MatchPolicy = Equivalent,
     Rules = crb_rules,
     ObjectSelector = None,
     SideEffects = SideEffectClassNone,
     TimeoutSeconds = 2,
     Doc = ''Managed OpenShift Customers may not delete the cluster role bindings under the managed namespaces: '' @
       managedNamespaces,
     SyncSetLabelSelector = DefaultLabelSelector,
     ClassicEnabled = True,
     HypershiftEnabled = True\<rparr>"

section \<open>Properties\<close>

interpretation crb: authenticated_webhook "crb_Webhook d" for d
  by unfold_locales
    (auto simp: hook_defs crb_authorized_def uri_slug_def suffix_def split: sum.splits if_splits)

text \<open>
  The second alternative of the pattern is not anchored: a name that contains \<open>kube-system\<close>
  anywhere is managed.
\<close>

lemma managedNamespaces_iff [simp]:
  "MatchPattern managedNamespaces ns \<longleftrightarrow> prefix ''openshift-'' ns \<or> strings_Contains ns ''kube-system''"
  unfolding prefix_starts_then strings_Contains_starts
  by (simp add: MatchPattern_def managedNamespaces_def go_defs regex_Match_alt)
    (simp add: regex_Match_then_anchored regex_Match_then starts_then_Cons)

definition protected_subject :: "rbac_subject \<Rightarrow> bool" where
  "protected_subject s \<longleftrightarrow> subjKind s = ''ServiceAccount'' \<and>
     (prefix ''openshift-'' (subjNamespace s) \<or> strings_Contains (subjNamespace s) ''kube-system'') \<and>
     subjNamespace s \<notin> set crb_exceptionNamespaces"

lemma crb_exact:
  "decides_by (crb_Webhook d)
     (\<lambda>req. \<not> prefix ''system:'' (username req) \<and> \<not> prefix ''kube:'' (username req) \<and> reqOldObject req \<noteq> [] \<and>
        (\<exists>err. DecodeRaw d (reqOldObject req) = Inl err))
     (\<lambda>req. username req = ''system:unauthenticated'' \<or>
        (checked_deletion req \<and> \<not> prefix ''system:'' (username req) \<and> \<not> prefix ''kube:'' (username req) \<and>
         (\<exists>crb. DecodeRaw d (reqOldObject req) = Inr crb \<and> list_ex protected_subject (Subjects crb) \<and>
            \<not> (username req = ''cluster-admin'' \<and>
               metaAnnotations (crbMeta crb) ''oc.openshift.io/command'' = Some ''oc adm must-gather''))))"
  by (auto simp: decides_by_def checked_deletion_def crb_Webhook_def crb_authorized_def crb_render_def
      crb_isProtectedNamespace_def protected_subject_def [abs_def] crb_isAllowedUserGroup_def crb_allowedUsers_def
      crb_allowedGroups_def map_get_def split: sum.splits if_splits option.splits)

end
