(* ===== verification/Hook_CustomResourceDefinitions.thy ===== *)
theory Hook_CustomResourceDefinitions
  imports Webhook_Utils
begin

text \<open>
  \<open>pkg/webhooks/customresourcedefinitions/customresourcedefinitions.go\<close>: the monitoring
  CustomResourceDefinitions of the platform are changed by its own accounts only.
\<close>

section \<open>Model\<close>

definition crd_WebhookName :: string where
  [hook_defs]: "crd_WebhookName = ''customresourcedefinitions-validation''"

definition crd_allowedUsers :: "string list" where
  "crd_allowedUsers = [''system:admin'', ''backplane-cluster-admin'']"

definition crd_sreAdminGroups :: "string list" where
  "crd_sreAdminGroups = [''system:serviceaccounts:openshift-backplane-srep'']"

definition crd_rules :: "rule_with_operations list" where
  [hook_defs]: "crd_rules =
    [\<lparr>Operations = [Create, Update, Delete], APIGroups = [''apiextensions.k8s.io''],
      APIVersions = [''*''], Resources = [''customresourcedefinitions''], Scope = ClusterScope\<rparr>]"

definition crd_isAllowedUser :: "admission_request \<Rightarrow> bool" where
  "crd_isAllowedUser request \<longleftrightarrow>
     slices_Contains crd_allowedUsers (username request) \<or>
     list_ex (slices_Contains (groups request)) crd_sreAdminGroups"

definition crd_renderCustomResourceDefinition ::
  "object_meta decoder \<Rightarrow> admission_request \<Rightarrow> go_error + object_meta" where
  "crd_renderCustomResourceDefinition decoder req =
     (if reqOldObject req \<noteq> [] then DecodeRaw decoder (reqOldObject req) else Decode decoder req)"

definition crd_authorized :: "object_meta decoder \<Rightarrow> admission_request \<Rightarrow> response" where
  "crd_authorized decoder request =
     (case crd_renderCustomResourceDefinition decoder request of
        Inl err \<Rightarrow> new_response (Errored 400 err)
      | Inr crd \<Rightarrow>
          (if IsProtectedByResourceName (metaName crd) then
             (if crd_isAllowedUser request
              then respond request (Allowed (''User '' @ [quote] @ username request @ [quote] @
                '' in group(s) '' @ [quote] @ strings_Join (groups request) '', '' @ [quote] @
                '' can operate on CustomResourceDefinitions''))
              else if list_ex (MatchPattern PrivilegedServiceAccountGroups) (groups request)
              then respond request (Allowed (''Privileged service accounts in group(s) '' @ [quote] @
                strings_Join (groups request) '', '' @ [quote] @
                '' can operate on CustomResourceDefinitions''))
              else respond request (Denied (''User '' @ [quote] @ username request @ [quote] @
                '' prevented from accessing Red Mat managed resources. This is in an effort to prevent harmful actions that may cause unintended consequences or affect the stability of the cluster. If you have any questions about this, please reach out to Red Hat support at https://access.redhat.com/support'')))
           else respond request (Allowed ''Non managed CustomResourceDefinition'')))"

definition crd_Validate :: "admission_request \<Rightarrow> bool" where
  [hook_defs]: "crd_Validate request \<longleftrightarrow>
     username request \<noteq> [] \<and> kind request = ''CustomResourceDefinition''"

definition crd_NewWebhook :: "'s scheme_builders \<Rightarrow> 's factory_result" where
  [factory_defs]: "crd_NewWebhook api = Made (NewScheme api)"

definition crd_Webhook :: "object_meta decoder \<Rightarrow> webhook" where
  [hook_defs]: "crd_Webhook decoder =
    \<lparr>Authorized = stateless (\<lambda>request. Return (crd_authorized decoder request)),
     GetURI = ''/'' @ crd_WebhookName,
     Validate = crd_Validate,
     Name = crd_WebhookName,
     FailurePolicy = Ignore,
     MatchPolicy = Equivalent,
     Rules = crd_rules,
     ObjectSelector = None,
     SideEffects = SideEffectClassNone,
     TimeoutSeconds = 2,
     Doc = ''Managed OpenShift Customers may not change CustomResourceDefinitions managed by Red Hat.'',
     SyncSetLabelSelector = DefaultLabelSelector,
     ClassicEnabled = True,
     HypershiftEnabled = False\<rparr>"

section \<open>Properties\<close>

interpretation crd: validating_webhook "crd_Webhook d" for d
  by unfold_locales
    (auto simp: hook_defs crd_authorized_def uri_slug_def suffix_def split: sum.splits if_splits)

text \<open>The group list is not needed: its only group matches the pattern.\<close>

lemma crd_privileged_iff:
  "crd_isAllowedUser req \<or> list_ex (MatchPattern PrivilegedServiceAccountGroups) (groups req) \<longleftrightarrow>
     username req \<in> set crd_allowedUsers \<or> list_ex privileged_sa_group (groups req)"
  using privileged_group_srep [of "groups req"]
  by (auto simp: crd_isAllowedUser_def crd_sreAdminGroups_def)

text \<open>The object is the stored one when there is one.\<close>

definition crd_object :: "object_meta decoder \<Rightarrow> admission_request \<Rightarrow> go_error + object_meta" where
  "crd_object d req = (if reqOldObject req \<noteq> [] then DecodeRaw d (reqOldObject req) else Decode d req)"

lemma crd_exact:
  "decides_by (crd_Webhook d) (\<lambda>req. \<exists>err. crd_object d req = Inl err)
     (\<lambda>req. (\<exists>crd. crd_object d req = Inr crd \<and> metaName crd \<in> set protectedNames) \<and>
        username req \<notin> set crd_allowedUsers \<and> \<not> list_ex privileged_sa_group (groups req))"
proof -
  have render: "crd_renderCustomResourceDefinition d req = crd_object d req" for req
    by (simp add: crd_renderCustomResourceDefinition_def crd_object_def)
  show ?thesis
    unfolding decides_by_def crd_Webhook_def crd_authorized_def render
    using crd_privileged_iff by (auto simp: IsProtectedByResourceName_def split: sum.splits)
qed

end
