(* ===== verification/Hook_HcpNamespace.thy ===== *)
theory Hook_HcpNamespace
  imports Webhook_Utils
begin

text \<open>
  \<open>pkg/webhooks/hcpnamespace/hcpnamespace.go\<close>: the namespaces of hosted control planes may be
  deleted by a fixed list of accounts only. The package-level variable
  \<open>protectedNamespaceRegexps\<close> is computed where it is used; that computing it does not panic is
  part of \<open>isProtectedNamespace_eq\<close>.
\<close>

section \<open>Model\<close>

definition hcpnamespace_WebhookName :: string where
  [hook_defs]: "hcpnamespace_WebhookName = ''hcpnamespace-validation''"

definition hcpnamespace_allowedUsers :: "string list" where
  "hcpnamespace_allowedUsers =
    [''system:admin'',
     ''system:serviceaccount:open-cluster-management-agent:klusterlet-work-sa'',
     ''system:serviceaccount:open-cluster-management-agent:klusterlet'',
     ''system:serviceaccount:hypershift:operator'',
     ''system:serviceaccount:ocm:ocm'',
     ''system:serviceaccount:kube-system:namespace-controller'']"

definition hcpnamespace_protectedNamespacePatterns :: "string list" where
  "hcpnamespace_protectedNamespacePatterns =
    [''^ocm-staging-.*'', ''^ocm-production-.*'', ''^ocm-integration-.*'', ''^klusterlet-.*'',
     ''^hs-mc-.*'']"

definition hcpnamespace_rules :: "rule_with_operations list" where
  [hook_defs]: "hcpnamespace_rules =
    [\<lparr>Operations = [''DELETE''], APIGroups = [''''], APIVersions = [''*''],
      Resources = [''namespaces''], Scope = ClusterScope\<rparr>]"

fun compileRegexps :: "string list \<Rightarrow> regexp list go_result" where
  "compileRegexps [] = Return []"
| "compileRegexps (pattern # patterns) =
     go_bind (MustCompile pattern) (\<lambda>re. go_bind (compileRegexps patterns) (\<lambda>res. Return (re # res)))"

definition hcpnamespace_isProtectedNamespace :: "string \<Rightarrow> bool go_result" where
  "hcpnamespace_isProtectedNamespace namespaceName =
     go_bind (compileRegexps hcpnamespace_protectedNamespacePatterns)
       (\<lambda>res. Return (list_ex (\<lambda>re. regex_Match (prog re) namespaceName) res))"

definition hcpnamespace_authorized :: "admission_request \<Rightarrow> response go_result" where
  "hcpnamespace_authorized request =
     (if slices_Contains hcpnamespace_allowedUsers (username request)
      then Return (respond request (Allowed ''User/ServiceAccount is authorized to delete HCP namespaces''))
      else go_bind (hcpnamespace_isProtectedNamespace (reqName request)) (\<lambda>protected.
        if \<not> protected then Return (respond request (Allowed ''Namespace is not protected''))
        else if reqOperation request \<noteq> Delete
        then Return (respond request (Allowed ''Only DELETE operations are restricted''))
        else Return (respond request
          (Denied (''Only authorized users/service accounts can delete this namespace '' @ reqName request)))))"

definition hcpnamespace_Validate :: "admission_request \<Rightarrow> bool" where
  [hook_defs]: "hcpnamespace_Validate req \<longleftrightarrow> username req \<noteq> [] \<and> kind req = ''Namespace''"

definition hcpnamespace_SyncSetLabelSelector :: label_selector where
  "hcpnamespace_SyncSetLabelSelector = DefaultLabelSelector
    \<lparr>MatchExpressions := MatchExpressions DefaultLabelSelector @
      [\<lparr>selKey = ''ext-hypershift.openshift.io/cluster-type'', selOperator = LabelSelectorOpIn,
        selValues = [''management-cluster'', ''service-cluster'']\<rparr>]\<rparr>"

definition hcpnamespace_NewWebhook :: "'s scheme_builders \<Rightarrow> 's factory_result" where
  [factory_defs]: "hcpnamespace_NewWebhook api = add_to_scheme api
    [(AdmissionV1, ''Fail adding admissionsv1 scheme to HCPNamespaceWebhook'')] (NewScheme api)"

definition hcpnamespace_Webhook :: webhook where
  [hook_defs]: "hcpnamespace_Webhook =
    \<lparr>Authorized = stateless hcpnamespace_authorized,
     GetURI = ''/hcpnamespace-validation'',
     Validate = hcpnamespace_Validate,
     Name = hcpnamespace_WebhookName,
     FailurePolicy = Ignore,
     MatchPolicy = Equivalent,
     Rules = hcpnamespace_rules,
     ObjectSelector = None,
     SideEffects = SideEffectClassNone,
     TimeoutSeconds = 2,
     Doc = ''Validates HCP namespace deletion operations are only performed by authorized service accounts'',
     SyncSetLabelSelector = hcpnamespace_SyncSetLabelSelector,
     ClassicEnabled = True,
     HypershiftEnabled = False\<rparr>"

section \<open>Properties\<close>

text \<open>The patterns accept the names that start with one of these words.\<close>

definition hcp_namespace_prefixes :: "string list" where
  "hcp_namespace_prefixes = [''ocm-staging-'', ''ocm-production-'', ''ocm-integration-'', ''klusterlet-'', ''hs-mc-'']"

definition hcp_protected_name :: "string \<Rightarrow> bool" where
  "hcp_protected_name ns \<longleftrightarrow> list_ex (\<lambda>p. prefix p ns) hcp_namespace_prefixes"

lemma compileRegexps_prefixes:
  "list_all plain_word ps \<Longrightarrow> compileRegexps (map (\<lambda>w. ''^'' @ w @ ''.*'') ps) =
     Return (map (\<lambda>w. \<lparr>prog = cat_list (RBol # map RChr w @ [RStar any_char]), subexps = []\<rparr>) ps)"
proof (induction ps)
  case (Cons w ps)
  then show ?case using compile_prefix [of w] by simp
qed simp

lemma hcpnamespace_patterns_eq:
  "hcpnamespace_protectedNamespacePatterns = map (\<lambda>w. ''^'' @ w @ ''.*'') hcp_namespace_prefixes"
  by (simp add: hcpnamespace_protectedNamespacePatterns_def hcp_namespace_prefixes_def)

lemma hcp_prefixes_plain: "list_all plain_word hcp_namespace_prefixes"
  by (simp add: hcp_namespace_prefixes_def plain_word_def go_defs)

lemma isProtectedNamespace_eq [simp]:
  "hcpnamespace_isProtectedNamespace ns = Return (hcp_protected_name ns)"
  using compileRegexps_prefixes [OF hcp_prefixes_plain]
  by (simp add: hcpnamespace_isProtectedNamespace_def hcpnamespace_patterns_eq hcp_protected_name_def
      list_ex_iff)

interpretation hcpnamespace: delete_guard hcpnamespace_Webhook
  "\<lambda>req. hcp_protected_name (reqName req)" "\<lambda>req. username req \<in> set hcpnamespace_allowedUsers"
  by unfold_locales (auto simp: hook_defs hcpnamespace_authorized_def uri_slug_def suffix_def split: if_splits)


end
