(* ===== verification/Hook_HiveOwnership.thy ===== *)
theory Hook_HiveOwnership
  imports Webhook_Utils
begin

text \<open>
  \<open>pkg/webhooks/hiveownership/hiveownership.go\<close>: resources labelled as managed by Hive. Which
  objects reach the hook is decided by its rules and its object selector; the hook itself looks
  at the user only.
\<close>

section \<open>Model\<close>

definition hiveownership_WebhookName :: string where
  [hook_defs]: "hiveownership_WebhookName = ''hiveownership-validation''"

definition hiveownership_privilegedUsers :: "string list" where
  "hiveownership_privilegedUsers =
    [''kube:admin'', ''system:admin'', ''system:serviceaccount:kube-system:generic-garbage-collector'',
     ''backplane-cluster-admin'']"

definition hiveownership_adminGroups :: "string list" where
  "hiveownership_adminGroups = [''system:serviceaccounts:openshift-backplane-srep'']"

definition hiveownership_rules :: "rule_with_operations list" where
  [hook_defs]: "hiveownership_rules =
    [\<lparr>Operations = [''UPDATE'', ''DELETE''], APIGroups = [''quota.openshift.io''],
      APIVersions = [''*''], Resources = [''clusterresourcequotas''], Scope = ClusterScope\<rparr>]"

definition hiveownership_Validate :: "admission_request \<Rightarrow> bool" where
  [hook_defs]: "hiveownership_Validate req \<longleftrightarrow> username req \<noteq> []"

definition hiveownership_ObjectSelector :: "label_selector option" where
  "hiveownership_ObjectSelector =
     Some \<lparr>MatchLabels = [(''hive.openshift.io/managed'', ''true'')], MatchExpressions = []\<rparr>"

definition hiveownership_authorized :: "admission_request \<Rightarrow> response" where
  "hiveownership_authorized request =
     (if slices_Contains hiveownership_privilegedUsers (username request)
      then respond request (Allowed ''Admin users may edit managed resources'')
      else if list_ex (slices_Contains hiveownership_adminGroups) (groups request)
      then respond request (Allowed ''Members of admin group may edit managed resources'')
      else respond request (Denied ''Prevented from accessing Red Hat managed resources. This is in an effort to prevent harmful actions that may cause unintended consequences or affect the stability of the cluster. If you have any questions about this, please reach out to Red Hat support at https://access.redhat.com/support''))"

definition hiveownership_NewWebhook :: "'s scheme_builders \<Rightarrow> 's factory_result" where
  [factory_defs]: "hiveownership_NewWebhook api = add_to_scheme api
    [(AdmissionV1, ''Fail adding admissionsv1 scheme to HiveOwnershipWebhook'')] (NewScheme api)"

definition hiveownership_Webhook :: webhook where
  [hook_defs]: "hiveownership_Webhook =
    \<lparr>Authorized = stateless (\<lambda>request. Return (hiveownership_authorized request)),
     GetURI = ''/'' @ hiveownership_WebhookName,
     Validate = hiveownership_Validate,
     Name = hiveownership_WebhookName,
     FailurePolicy = Ignore,
     MatchPolicy = Equivalent,
     Rules = hiveownership_rules,
     ObjectSelector = hiveownership_ObjectSelector,
     SideEffects = SideEffectClassNone,
     TimeoutSeconds = 2,
     Doc = ''Managed OpenShift customers may not edit certain managed resources. A managed resource has a \"hive.openshift.io/managed\": \"true\" label.'',
     SyncSetLabelSelector = DefaultLabelSelector,
     ClassicEnabled = True,
     HypershiftEnabled = False\<rparr>"

section \<open>Properties\<close>

interpretation hiveownership: validating_webhook hiveownership_Webhook
  by unfold_locales
    (auto simp: hook_defs hiveownership_authorized_def uri_slug_def suffix_def split: if_splits)

lemma hiveownership_exact:
  "refuses_exactly hiveownership_Webhook (\<lambda>req. username req \<notin> set hiveownership_privilegedUsers \<and>
     ''system:serviceaccounts:openshift-backplane-srep'' \<notin> set (groups req))"
  by (auto simp: decides_by_def hiveownership_Webhook_def hiveownership_authorized_def
      hiveownership_adminGroups_def list_ex_iff)

end
