(* ===== verification/Hook_HostedCluster.thy ===== *)
theory Hook_HostedCluster
  imports Webhook_Utils
begin

text \<open>
  \<open>pkg/webhooks/hostedcluster/hostedcluster.go\<close>: one service account alone deletes
  HostedClusters.
\<close>

section \<open>Model\<close>

definition hostedcluster_WebhookName :: string where
  [hook_defs]: "hostedcluster_WebhookName = ''hostedcluster-validation''"

definition allowedServiceAccount :: string where
  "allowedServiceAccount = ''system:serviceaccount:open-cluster-management-agent:klusterlet-work-sa''"

definition hostedcluster_rules :: "rule_with_operations list" where
  [hook_defs]: "hostedcluster_rules =
    [\<lparr>Operations = [''DELETE''], APIGroups = [''hypershift.openshift.io''], APIVersions = [''*''],
      Resources = [''hostedclusters''], Scope = NamespacedScope\<rparr>]"

definition hostedcluster_Validate :: "admission_request \<Rightarrow> bool" where
  [hook_defs]: "hostedcluster_Validate req \<longleftrightarrow> username req \<noteq> [] \<and>
     kind req = ''HostedCluster'' \<and> kindGroup req = ''hypershift.openshift.io''"

definition hostedcluster_authorized :: "admission_request \<Rightarrow> response" where
  "hostedcluster_authorized request =
     (if username request = allowedServiceAccount
      then respond request (Allowed ''Service account is authorized to delete HostedCluster resources'')
      else if reqOperation request \<noteq> Delete
      then respond request (Allowed ''Only DELETE operations are restricted'')
      else respond request (Denied (''Only '' @ allowedServiceAccount @
        '' is authorized to delete HostedCluster resources'')))"

definition hostedcluster_SyncSetLabelSelector :: label_selector where
  "hostedcluster_SyncSetLabelSelector = DefaultLabelSelector
    \<lparr>MatchExpressions := MatchExpressions DefaultLabelSelector @
      [\<lparr>selKey = ''ext-hypershift.openshift.io/cluster-type'', selOperator = LabelSelectorOpIn,
        selValues = [''management-cluster'']\<rparr>]\<rparr>"

definition hostedcluster_NewWebhook :: "'s scheme_builders \<Rightarrow> 's factory_result" where
  [factory_defs]: "hostedcluster_NewWebhook api = add_to_scheme api
    [(AdmissionV1, ''Fail adding admissionsv1 scheme to HostedClusterWebhook'')] (NewScheme api)"

definition hostedcluster_Webhook :: webhook where
  [hook_defs]: "hostedcluster_Webhook =
    \<lparr>Authorized = stateless (\<lambda>request. Return (hostedcluster_authorized request)),
     GetURI = ''/hostedcluster-validation'',
     Validate = hostedcluster_Validate,
     Name = hostedcluster_WebhookName,
     FailurePolicy = Ignore,
     MatchPolicy = Equivalent,
     Rules = hostedcluster_rules,
     ObjectSelector = None,
     SideEffects = SideEffectClassNone,
     TimeoutSeconds = 2,
     Doc = ''Validates HostedCluster deletion operations are only performed by authorized service accounts'',
     SyncSetLabelSelector = hostedcluster_SyncSetLabelSelector,
     ClassicEnabled = True,
     HypershiftEnabled = False\<rparr>"

section \<open>Properties\<close>

interpretation hostedcluster: delete_guard hostedcluster_Webhook
  "\<lambda>req. True" "\<lambda>req. username req = allowedServiceAccount"
  by unfold_locales
    (auto simp: hook_defs hostedcluster_authorized_def uri_slug_def suffix_def split: if_splits)


end
