(* ===== verification/Hook_HostedControlPlane.thy ===== *)
theory Hook_HostedControlPlane
  imports Webhook_Utils
begin

text \<open>
  \<open>pkg/webhooks/hostedcontrolplane/hostedcontrolplane.go\<close>: HostedControlPlanes are deleted by
  three accounts known by their full name, and by the accounts known by the last field of it.
\<close>

section \<open>Model\<close>

definition hostedcontrolplane_WebhookName :: string where
  [hook_defs]: "hostedcontrolplane_WebhookName = ''hostedcontrolplane-validation''"

definition allowedServiceAccountsUsernames :: "string list" where
  "allowedServiceAccountsUsernames =
    [''system:serviceaccount:open-cluster-management-agent:klusterlet-work-sa'',
     ''system:serviceaccount:kube-system:generic-garbage-collector'',
     ''system:serviceaccount:hypershift:operator'']"

definition allowedServiceAccountsNames :: "string list" where
  "allowedServiceAccountsNames = [''cluster-api'', ''control-plane-pki-operator'']"

definition hostedcontrolplane_rules :: "rule_with_operations list" where
  [hook_defs]: "hostedcontrolplane_rules =
    [\<lparr>Operations = [''DELETE''], APIGroups = [''hypershift.openshift.io''], APIVersions = [''*''],
      Resources = [''hostedcontrolplanes''], Scope = NamespacedScope\<rparr>]"

definition hostedcontrolplane_Validate :: "admission_request \<Rightarrow> bool" where
  [hook_defs]: "hostedcontrolplane_Validate req \<longleftrightarrow> username req \<noteq> [] \<and>
     kind req = ''HostedControlPlane'' \<and> kindGroup req = ''hypershift.openshift.io''"

definition hostedcontrolplane_authorized :: "admission_request \<Rightarrow> response" where
  "hostedcontrolplane_authorized request =
     (let saName = strings_Split (username request) (CHR '':'') in
      if list_ex (\<lambda>sa. username request = sa) allowedServiceAccountsUsernames
      then respond request (Allowed ''Service account is authorized to delete HostedControlPlane resources'')
      else if length saName > 0 \<and> slices_Contains allowedServiceAccountsNames (saName ! (length saName - 1))
      then respond request (Allowed ''Service account is authorized to delete HostedControlPlane resources'')
      else if reqOperation request \<noteq> Delete
      then respond request (Allowed ''Only DELETE operations are restricted'')
      else respond request (Denied (''Only authorized service accounts '' @
        strings_Join (allowedServiceAccountsUsernames @ allowedServiceAccountsNames) '', '' @
        '' can delete HostedControlPlane resources'')))"

definition hostedcontrolplane_SyncSetLabelSelector :: label_selector where
  "hostedcontrolplane_SyncSetLabelSelector = DefaultLabelSelector
    \<lparr>MatchExpressions := MatchExpressions DefaultLabelSelector @
      [\<lparr>selKey = ''ext-hypershift.openshift.io/cluster-type'', selOperator = LabelSelectorOpIn,
        selValues = [''management-cluster'']\<rparr>]\<rparr>"

definition hostedcontrolplane_NewWebhook :: "'s scheme_builders \<Rightarrow> 's factory_result" where
  [factory_defs]: "hostedcontrolplane_NewWebhook api = add_to_scheme api
    [(AdmissionV1, ''Fail adding admissionsv1 scheme to HostedControlPlaneWebhook'')] (NewScheme api)"

definition hostedcontrolplane_Webhook :: webhook where
  [hook_defs]: "hostedcontrolplane_Webhook =
    \<lparr>Authorized = stateless (\<lambda>request. Return (hostedcontrolplane_authorized request)),
     GetURI = ''/hostedcontrolplane-validation'',
     Validate = hostedcontrolplane_Validate,
     Name = hostedcontrolplane_WebhookName,
     FailurePolicy = Ignore,
     MatchPolicy = Equivalent,
     Rules = hostedcontrolplane_rules,
     ObjectSelector = None,
     SideEffects = SideEffectClassNone,
     TimeoutSeconds = 2,
     Doc = ''Validates HostedControlPlane deletion operations are only performed by authorized service accounts'',
     SyncSetLabelSelector = hostedcontrolplane_SyncSetLabelSelector,
     ClassicEnabled = True,
     HypershiftEnabled = False\<rparr>"

section \<open>Properties\<close>

text \<open>What the code's test on the last field means for the whole user name.\<close>

definition named_account :: "string \<Rightarrow> string \<Rightarrow> bool" where
  "named_account sa user \<longleftrightarrow> user = sa \<or> suffix ('':'' @ sa) user"

lemma strings_Split_last:
  "CHR '':'' \<notin> set sa \<Longrightarrow> last (strings_Split user (CHR '':'')) = sa \<longleftrightarrow> named_account sa user"
proof (induction user)
  case Nil
  then show ?case by (auto simp: named_account_def suffix_def)
next
  case (Cons c user)
  obtain y ys where sp: "strings_Split user (CHR '':'') = y # ys"
    using strings_Split_nonempty by (metis list.exhaust)
  have join: "user = strings_Join (y # ys) '':''" using sp strings_Join_Split by metis
  have noc: "CHR '':'' \<notin> set y" using strings_Split_no_sep sp by (metis list.set_intros(1))
  show ?case
  proof (cases "c = CHR '':''")
    case True
    then show ?thesis using Cons sp by (auto simp: named_account_def suffix_Cons)
  next
    case False
    show ?thesis
    proof (cases ys)
      case Nil
      then have "user = y" using join by simp
      moreover have "\<not> suffix ('':'' @ sa) (c # user)"
        using noc False \<open>user = y\<close> by (auto dest: set_mono_suffix)
      moreover have "\<not> suffix ('':'' @ sa) user"
        using noc \<open>user = y\<close> by (auto dest: set_mono_suffix)
      ultimately show ?thesis using False Nil sp by (auto simp: named_account_def)
    next
      case (Cons z zs)
      have "CHR '':'' \<in> set user" using join Cons by simp
      then have "user \<noteq> sa" "c # user \<noteq> sa" using \<open>CHR '':'' \<notin> set sa\<close> by auto
      then show ?thesis
        using Cons.IH Cons.prems sp Cons False
        by (auto simp: named_account_def suffix_Cons)
    qed
  qed
qed

definition hcp_deleter :: "string \<Rightarrow> bool" where
  "hcp_deleter user \<longleftrightarrow> user \<in> set allowedServiceAccountsUsernames \<or>
     named_account ''cluster-api'' user \<or> named_account ''control-plane-pki-operator'' user"

lemma hcp_split_names:
  "last (strings_Split user (CHR '':'')) \<in> set allowedServiceAccountsNames \<longleftrightarrow>
     named_account ''cluster-api'' user \<or> named_account ''control-plane-pki-operator'' user"
  using strings_Split_last [of "''cluster-api''" user]
    strings_Split_last [of "''control-plane-pki-operator''" user]
  by (simp add: allowedServiceAccountsNames_def)

lemma hostedcontrolplane_authorized_eq:
  "allows (respVerdict (hostedcontrolplane_authorized req)) \<longleftrightarrow>
     reqOperation req \<noteq> Delete \<or> hcp_deleter (username req)"
  using hcp_split_names [of "username req"]
  by (auto simp: hostedcontrolplane_authorized_def hcp_deleter_def list_ex_iff Let_def last_conv_nth)

lemma hostedcontrolplane_no_error: "\<not> errs (respVerdict (hostedcontrolplane_authorized req))"
  by (simp add: hostedcontrolplane_authorized_def Let_def)

interpretation hostedcontrolplane: delete_guard hostedcontrolplane_Webhook
  "\<lambda>req. True" "\<lambda>req. hcp_deleter (username req)"
proof unfold_locales
  fix req w
  show "\<exists>resp. Authorized hostedcontrolplane_Webhook req w = (Return resp, w) \<and>
      \<not> errs (respVerdict resp) \<and>
      refuses (respVerdict resp) = (reqOperation req = Delete \<and> True \<and> \<not> hcp_deleter (username req))"
    using hostedcontrolplane_authorized_eq [of req] hostedcontrolplane_no_error [of req]
      verdict_trichotomy [of "respVerdict (hostedcontrolplane_authorized req)"]
    by (auto simp: hostedcontrolplane_Webhook_def)
qed (auto simp: hook_defs hostedcontrolplane_authorized_def uri_slug_def suffix_def Let_def split: if_splits)


end
