(* ===== verification/Hook_ImageContentPolicies.thy ===== *)
theory Hook_ImageContentPolicies
  imports Webhook_Utils
begin

text \<open>
  \<open>pkg/webhooks/imagecontentpolicies/imagecontentpolicies.go\<close>: mirror configurations that would
  redirect the registries of the platform are rejected. Of each of the three kinds of objects the
  hook reads the list of sources, so a decoder gives that list. The two API groups are constants
  of \<open>github.com/openshift/api\<close>; their values are those the repository's \<open>docs/webhooks.json\<close>
  was generated with.
\<close>

section \<open>Model\<close>

definition icp_WebhookName :: string where
  [hook_defs]: "icp_WebhookName = ''imagecontentpolicies-validation''"

definition icp_WebhookDoc :: string where
  "icp_WebhookDoc = ''Managed OpenShift customers may not create ImageContentSourcePolicy, ImageDigestMirrorSet, or ImageTagMirrorSet resources that configure mirrors that would conflict with system registries (e.g. quay.io, registry.redhat.io, registry.access.redhat.com, etc). For more details, see https://docs.openshift.com/''"

definition unauthorizedRepositoryMirrors :: string where
  "unauthorizedRepositoryMirrors =
     ''(^registry'' @ [bslash] @ ''.redhat'' @ [bslash] @ ''.io$|^quay'' @ [bslash] @ ''.io(/.*)?$|^registry'' @
     [bslash] @ ''.access'' @ [bslash] @ ''.redhat'' @ [bslash] @ ''.com(/.*)?)''"

record mirror_decoders =
  decodeIDMS :: "string list decoder" \<comment> \<open>sources of \<open>Spec.ImageDigestMirrors\<close>\<close>
  decodeITMS :: "string list decoder" \<comment> \<open>sources of \<open>Spec.ImageTagMirrors\<close>\<close>
  decodeICSP :: "string list decoder" \<comment> \<open>sources of \<open>Spec.RepositoryDigestMirrors\<close>\<close>

definition authorizeImageDigestMirrorSet :: "string list \<Rightarrow> bool go_result" where
  "authorizeImageDigestMirrorSet sources =
     go_bind (MustCompile unauthorizedRepositoryMirrors) (\<lambda>re.
       Return (\<not> list_ex (\<lambda>source. regex_Match (prog re) source) sources))"

definition authorizeImageTagMirrorSet :: "string list \<Rightarrow> bool go_result" where
  "authorizeImageTagMirrorSet sources =
     go_bind (MustCompile unauthorizedRepositoryMirrors) (\<lambda>re.
       Return (\<not> list_ex (\<lambda>source. regex_Match (prog re) source) sources))"

definition authorizeImageContentSourcePolicy :: "string list \<Rightarrow> bool go_result" where
  "authorizeImageContentSourcePolicy sources =
     go_bind (MustCompile unauthorizedRepositoryMirrors) (\<lambda>re.
       Return (\<not> list_ex (\<lambda>source. regex_Match (prog re) source) sources))"

text \<open>One case of the switch: decode, authorize, or go on to the end.\<close>

definition icp_case ::
  "string list decoder \<Rightarrow> (string list \<Rightarrow> bool go_result) \<Rightarrow> admission_request \<Rightarrow> response go_result" where
  "icp_case decoder authorize request =
     (case Decode decoder request of
        Inl err \<Rightarrow> Return (new_response (Errored 400 err))
      | Inr sources \<Rightarrow> go_bind (authorize sources) (\<lambda>authorized.
          if \<not> authorized then Return (WebhookResponse request False icp_WebhookDoc)
          else Return (WebhookResponse request True [])))"

definition icp_Authorized :: "mirror_decoders \<Rightarrow> admission_request \<Rightarrow> response go_result" where
  "icp_Authorized decoders request =
     (case reqRequestKind request of
        None \<Rightarrow> nil_deref
      | Some requestKind \<Rightarrow>
          (if gvkKind requestKind = ''ImageDigestMirrorSet''
           then icp_case (decodeIDMS decoders) authorizeImageDigestMirrorSet request
           else if gvkKind requestKind = ''ImageTagMirrorSet''
           then icp_case (decodeITMS decoders) authorizeImageTagMirrorSet request
           else if gvkKind requestKind = ''ImageContentSourcePolicy''
           then icp_case (decodeICSP decoders) authorizeImageContentSourcePolicy request
           else Return (WebhookResponse request True [])))"

definition icp_Validate :: "admission_request \<Rightarrow> bool" where
  [hook_defs]: "icp_Validate request \<longleftrightarrow> reqObject request \<noteq> [] \<and>
     kind request \<in> {''ImageDigestMirrorSet'', ''ImageTagMirrorSet'', ''ImageContentSourcePolicy''}"

definition icp_rules :: "rule_with_operations list" where
  [hook_defs]: "icp_rules =
    [\<lparr>Operations = [Create, Update], APIGroups = [''config.openshift.io''], APIVersions = [''*''],
      Resources = [''imagedigestmirrorsets'', ''imagetagmirrorsets''], Scope = ClusterScope\<rparr>,
     \<lparr>Operations = [Create, Update], APIGroups = [''operator.openshift.io''], APIVersions = [''*''],
      Resources = [''imagecontentsourcepolicies''], Scope = ClusterScope\<rparr>]"

definition icp_NewWebhook :: "'s scheme_builders \<Rightarrow> 's factory_result" where
  [factory_defs]: "icp_NewWebhook api = Made (NewScheme api)"

definition icp_Webhook :: "mirror_decoders \<Rightarrow> webhook" where
  [hook_defs]: "icp_Webhook decoders =
    \<lparr>Authorized = stateless (icp_Authorized decoders),
     GetURI = ''/'' @ icp_WebhookName,
     Validate = icp_Validate,
     Name = icp_WebhookName,
     FailurePolicy = Fail,
     MatchPolicy = Equivalent,
     Rules = icp_rules,
     ObjectSelector = None,
     SideEffects = SideEffectClassNone,
     TimeoutSeconds = 2,
     Doc = icp_WebhookDoc,
     SyncSetLabelSelector = DefaultLabelSelector,
     ClassicEnabled = True,
     HypershiftEnabled = False\<rparr>"

section \<open>Properties\<close>

text \<open>
  What the pattern accepts: \<open>registry.redhat.io\<close> exactly; \<open>quay.io\<close> and the repositories below
  it (a path with a line break is not one); and, the last alternative having no \<open>$\<close>, everything
  that starts with \<open>registry.access.redhat.com\<close>.
\<close>

definition platform_registry :: "string \<Rightarrow> bool" where
  "platform_registry s \<longleftrightarrow> s = ''registry.redhat.io'' \<or> s = ''quay.io'' \<or>
     starts_then ''quay.io/'' (\<lambda>path. newline \<notin> set path) s \<or> prefix ''registry.access.redhat.com'' s"

lemma mirror_pattern_compiles: "\<exists>re. regexp_compile unauthorizedRepositoryMirrors = Some re"
  by (simp add: unauthorizedRepositoryMirrors_def go_defs)

lemma mirror_pattern_shape:
  "MatchPattern unauthorizedRepositoryMirrors s \<longleftrightarrow> s = ''registry.redhat.io'' \<or>
     starts_then ''quay.io'' (\<lambda>t. starts_then ''/'' (\<lambda>p. \<forall>c\<in>set p. c \<noteq> newline) t \<or> t = []) s \<or>
     prefix ''registry.access.redhat.com'' s"
  unfolding prefix_starts_then
  by (simp add: MatchPattern_def unauthorizedRepositoryMirrors_def go_defs regex_Match_alt)
    (simp add: regex_Match_then_anchored starts_then_Cons then_match_star_cls any_char_mem)

lemma mirror_pattern_iff: "MatchPattern unauthorizedRepositoryMirrors s \<longleftrightarrow> platform_registry s"
  unfolding mirror_pattern_shape platform_registry_def starts_then_iff by auto

lemma authorize_mirrors_eq:
  "authorizeImageDigestMirrorSet ss = Return (\<not> list_ex platform_registry ss)"
  "authorizeImageTagMirrorSet ss = Return (\<not> list_ex platform_registry ss)"
  "authorizeImageContentSourcePolicy ss = Return (\<not> list_ex platform_registry ss)"
  using mirror_pattern_compiles mirror_pattern_iff
  by (auto simp: authorizeImageDigestMirrorSet_def authorizeImageTagMirrorSet_def
      authorizeImageContentSourcePolicy_def MatchPattern_def list_ex_iff)

text \<open>The decoder the code uses for a kind, when there is one.\<close>

definition mirror_decoder :: "mirror_decoders \<Rightarrow> string \<Rightarrow> string list decoder option" where
  "mirror_decoder ds k = map_of [(''ImageDigestMirrorSet'', decodeIDMS ds), (''ImageTagMirrorSet'', decodeITMS ds),
     (''ImageContentSourcePolicy'', decodeICSP ds)] k"

lemma icp_Authorized_eq:
  "icp_Authorized ds req =
     (case reqRequestKind req of
        None \<Rightarrow> nil_deref
      | Some k \<Rightarrow> (case mirror_decoder ds (gvkKind k) of
          None \<Rightarrow> Return (WebhookResponse req True [])
        | Some d \<Rightarrow> (case Decode d req of
            Inl err \<Rightarrow> Return (new_response (Errored 400 err))
          | Inr ss \<Rightarrow> Return (if list_ex platform_registry ss then WebhookResponse req False icp_WebhookDoc
              else WebhookResponse req True []))))"
  by (simp add: icp_Authorized_def icp_case_def authorize_mirrors_eq mirror_decoder_def
      split: option.split sum.split)

interpretation icp: validating_webhook "icp_Webhook ds" for ds
  by unfold_locales
    (auto simp: hook_defs icp_Authorized_eq uri_slug_def suffix_def
      split: option.splits sum.splits if_splits)

text \<open>
  (C37) The mirror hook panics exactly when the request has no \<open>RequestKind\<close>. Otherwise it errs
  exactly when the request's kind is one of the three and its object does not decode, and refuses
  exactly when it decodes and some mirror, at any position, has a platform registry as its source:
  \<open>registry.redhat.io\<close> itself, \<open>quay.io\<close> or a repository of it, or any name that starts with
  \<open>registry.access.redhat.com\<close>.
\<close>

theorem icp_guard:
  "(case reqRequestKind req of
      None \<Rightarrow> icp_Authorized ds req = nil_deref
    | Some k \<Rightarrow> (\<exists>resp. icp_Authorized ds req = Return resp \<and>
        (errs (respVerdict resp) \<longleftrightarrow>
           (\<exists>d err. mirror_decoder ds (gvkKind k) = Some d \<and> Decode d req = Inl err)) \<and>
        (refuses (respVerdict resp) \<longleftrightarrow>
           (\<exists>d ss. mirror_decoder ds (gvkKind k) = Some d \<and> Decode d req = Inr ss \<and>
              list_ex platform_registry ss))))"
  by (auto simp: icp_Authorized_eq split: option.split sum.split)

text \<open>The last alternative of the pattern takes more than the registry it names.\<close>

lemma registry_lookalike_refused: "platform_registry ''registry.access.redhat.com.example.org/app''"
  by (simp add: platform_registry_def)

end
