(* ===== verification/Hook_IngressConfig.thy ===== *)
theory Hook_IngressConfig
  imports Webhook_Utils
begin

text \<open>
  \<open>pkg/webhooks/ingressconfig/ingressconfig.go\<close>: the cluster's Ingress configuration. The
  handler starts from a refusal and overwrites it, group by group and then for the user.
\<close>

section \<open>Model\<close>

definition ingressconfig_WebhookName :: string where
  [hook_defs]: "ingressconfig_WebhookName = ''ingress-config-validation''"

definition ingressconfig_privilegedUsers :: string where
  "ingressconfig_privilegedUsers = ''system:admin''"

definition ingressconfig_rules :: "rule_with_operations list" where
  [hook_defs]: "ingressconfig_rules =
    [\<lparr>Operations = [''CREATE'', ''UPDATE'', ''DELETE''], APIGroups = [''config.openshift.io''],
      APIVersions = [''*''], Resources = [''ingresses''], Scope = ClusterScope\<rparr>]"

definition ingressconfig_Authorized :: "admission_request \<Rightarrow> response" where
  "ingressconfig_Authorized request =
     (let allowed = respond request (Allowed ''Privileged service accounts may access'');
          ret = respond request (Denied ''Only privileged service accounts may access'');
          ret = foldl (\<lambda>ret group. if MatchPattern PrivilegedServiceAccountGroups group then allowed else ret)
                  ret (groups request);
          ret = (if MatchPattern ingressconfig_privilegedUsers (username request) then allowed else ret)
      in ret)"

definition ingressconfig_Validate :: "admission_request \<Rightarrow> bool" where
  [hook_defs]: "ingressconfig_Validate req \<longleftrightarrow> username req \<noteq> [] \<and> kind req = ''Ingress''"

definition ingressconfig_NewWebhook :: "'s scheme_builders \<Rightarrow> 's factory_result" where
  [factory_defs]: "ingressconfig_NewWebhook api = add_to_scheme api
    [(AdmissionV1, ''Fail adding admissionsv1 scheme to IngressConfigWebhook''),
     (CoreV1, ''Fail adding corev1 scheme to IngressConfigWebhook'')] (NewScheme api)"

definition ingressconfig_Webhook :: webhook where
  [hook_defs]: "ingressconfig_Webhook =
    \<lparr>Authorized = stateless (\<lambda>request. Return (ingressconfig_Authorized request)),
     GetURI = ''/ingressconfig-validation'',
     Validate = ingressconfig_Validate,
     Name = ingressconfig_WebhookName,
     FailurePolicy = Ignore,
     MatchPolicy = Equivalent,
     Rules = ingressconfig_rules,
     ObjectSelector = None,
     SideEffects = SideEffectClassNone,
     TimeoutSeconds = 2,
     Doc = ''Managed OpenShift customers may not modify ingress config resources because it can can degrade cluster operators and can interfere with OpenShift SRE monitoring.'',
     SyncSetLabelSelector = DefaultLabelSelector,
     ClassicEnabled = True,
     HypershiftEnabled = True\<rparr>"

section \<open>Properties\<close>

lemma ingressconfig_privilegedUsers_iff [simp]:
  "MatchPattern ingressconfig_privilegedUsers user \<longleftrightarrow> strings_Contains user ''system:admin''"
  unfolding strings_Contains_starts
  by (simp add: MatchPattern_def ingressconfig_privilegedUsers_def go_defs)
    (simp add: regex_Match_then starts_then_Cons)

lemma foldl_overwrite:
  "foldl (\<lambda>ret x. if P x then a else ret) b xs = (if list_ex P xs then a else b)"
  by (induction xs arbitrary: b) auto

lemma ingressconfig_Authorized_eq:
  "ingressconfig_Authorized req = respond req
     (if list_ex privileged_sa_group (groups req) \<or> strings_Contains (username req) ''system:admin''
      then Allowed ''Privileged service accounts may access''
      else Denied ''Only privileged service accounts may access'')"
  by (simp add: ingressconfig_Authorized_def Let_def foldl_overwrite)

interpretation ingressconfig: validating_webhook ingressconfig_Webhook
  by unfold_locales
    (auto simp: hook_defs ingressconfig_Authorized_eq uri_slug_def suffix_def split: if_splits)

text \<open>
  Whatever the order of the groups, a user passes with a group of the privileged service accounts or,
  the pattern for users not being anchored, with a name that contains \<open>system:admin\<close>.
\<close>

lemma ingressconfig_exact:
  "refuses_exactly ingressconfig_Webhook (\<lambda>req. \<not> list_ex privileged_sa_group (groups req) \<and>
     \<not> strings_Contains (username req) ''system:admin'')"
  by (simp add: decides_by_def ingressconfig_Webhook_def ingressconfig_Authorized_eq)

end
