(* ===== verification/Hook_IngressController.thy ===== *)
theory Hook_IngressController
  imports Webhook_Utils
begin

text \<open>
  \<open>pkg/webhooks/ingresscontroller/ingresscontroller.go\<close>: ingress controllers of customers may not
  tolerate the taint of the master nodes. \<open>Spec.NodePlacement\<close> is a pointer, and the handler
  follows it without a check.
\<close>

section \<open>Model\<close>

definition ingresscontroller_WebhookName :: string where
  [hook_defs]: "ingresscontroller_WebhookName = ''ingresscontroller-validation''"

definition legacyIngressSupportFeatureFlag :: string where
  "legacyIngressSupportFeatureFlag = ''ext-managed.openshift.io/legacy-ingress-support''"

definition ingresscontroller_rules :: "rule_with_operations list" where
  [hook_defs]: "ingresscontroller_rules =
    [\<lparr>Operations = [Create, Update], APIGroups = [''operator.openshift.io''], APIVersions = [''*''],
      Resources = [''ingresscontroller'', ''ingresscontrollers''], Scope = NamespacedScope\<rparr>]"

definition ingresscontroller_allowedUsers :: "string list" where
  "ingresscontroller_allowedUsers = [''backplane-cluster-admin'']"

text \<open>
  The part of \<open>operatorv1.IngressController\<close> the hook reads: the keys of
  \<open>Spec.NodePlacement.Tolerations\<close>, behind the pointer.
\<close>

record ingress_controller =
  NodePlacement :: "string list option"

definition ingresscontroller_Validate :: "admission_request \<Rightarrow> bool" where
  [hook_defs]: "ingresscontroller_Validate req \<longleftrightarrow> username req \<noteq> [] \<and> kind req = ''IngressController''"

definition renderIngressController ::
  "ingress_controller decoder \<Rightarrow> admission_request \<Rightarrow> go_error + ingress_controller" where
  "renderIngressController decoder req = DecodeRaw decoder (reqObject req)"

definition ingresscontroller_isAllowedUser :: "admission_request \<Rightarrow> bool" where
  "ingresscontroller_isAllowedUser request \<longleftrightarrow>
     slices_Contains ingresscontroller_allowedUsers (username request)"

definition ingresscontroller_authorized ::
  "ingress_controller decoder \<Rightarrow> admission_request \<Rightarrow> response go_result" where
  "ingresscontroller_authorized decoder request =
     (case renderIngressController decoder request of
        Inl err \<Rightarrow> Return (new_response (Errored 400 err))
      | Inr ic \<Rightarrow>
          (if username request = ''system:unauthenticated''
           then Return (respond request (Denied ''Unauthenticated''))
           else if strings_HasPrefix (username request) ''system:''
           then Return (respond request (Allowed ''authenticated system: users are allowed''))
           else if strings_HasPrefix (username request) ''kube:''
           then Return (respond request (Allowed ''kube: users are allowed''))
           else go_bind
             (if ingresscontroller_isAllowedUser request then Return False
              else (case NodePlacement ic of
                      None \<Rightarrow> nil_deref
                    | Some tolerations \<Rightarrow>
                        Return (list_ex (\<lambda>key. strings_Contains key ''node-role.kubernetes.io/master'') tolerations)))
             (\<lambda>master.
               if master
               then Return (respond request (Denied ''Not allowed to provision ingress controller pods with toleration for master nodes.''))
               else Return (respond request (Allowed ''IngressController operation is allowed'')))))"

definition ingresscontroller_SyncSetLabelSelector :: label_selector where
  "ingresscontroller_SyncSetLabelSelector = DefaultLabelSelector
    \<lparr>MatchExpressions := MatchExpressions DefaultLabelSelector @
      [\<lparr>selKey = legacyIngressSupportFeatureFlag, selOperator = LabelSelectorOpIn, selValues = [''false'']\<rparr>]\<rparr>"

definition ingresscontroller_NewWebhook :: "'s scheme_builders \<Rightarrow> 's factory_result" where
  [factory_defs]: "ingresscontroller_NewWebhook api = Made (NewScheme api)"

definition ingresscontroller_Webhook :: "ingress_controller decoder \<Rightarrow> webhook" where
  [hook_defs]: "ingresscontroller_Webhook decoder =
    \<lparr>Authorized = stateless (ingresscontroller_authorized decoder),
     GetURI = ''/'' @ ingresscontroller_WebhookName,
     Validate = ingresscontroller_Validate,
     Name = ingresscontroller_WebhookName,
     FailurePolicy = Ignore,
     MatchPolicy = Equivalent,
     Rules = ingresscontroller_rules,
     ObjectSelector = None,
     SideEffects = SideEffectClassNone,
     TimeoutSeconds = 1,
     Doc = ''Managed OpenShift Customer may create IngressControllers without necessary taints. This can cause those workloads to be provisioned on master nodes.'',
     SyncSetLabelSelector = ingresscontroller_SyncSetLabelSelector,
     ClassicEnabled = True,
     HypershiftEnabled = False\<rparr>"

section \<open>Properties\<close>

interpretation ingresscontroller: authenticated_webhook "ingresscontroller_Webhook d" for d
  by unfold_locales
    (auto simp: hook_defs ingresscontroller_authorized_def uri_slug_def suffix_def
      split: sum.splits if_splits option.splits)

definition ingresscontroller_customer :: "admission_request \<Rightarrow> bool" where
  "ingresscontroller_customer req \<longleftrightarrow> \<not> prefix ''system:'' (username req) \<and>
     \<not> prefix ''kube:'' (username req) \<and> username req \<noteq> ''backplane-cluster-admin''"

text \<open>
  (C38) The ingress controller hook errs exactly when the new object does not decode. It panics, on
  the nil \<open>NodePlacement\<close>, exactly when a customer sends a controller without one. Otherwise it
  refuses \<open>system:unauthenticated\<close>, and customers whose controller has a toleration, at any
  position, with the master taint in its key, and nobody else.
\<close>

theorem ingresscontroller_guard:
  "case DecodeRaw d (reqObject req) of
     Inl err \<Rightarrow> ingresscontroller_authorized d req = Return (new_response (Errored 400 err))
   | Inr ic \<Rightarrow>
       (if ingresscontroller_customer req \<and> NodePlacement ic = None
        then ingresscontroller_authorized d req = nil_deref
        else \<exists>resp. ingresscontroller_authorized d req = Return resp \<and> respUID resp = reqUID req \<and>
          \<not> errs (respVerdict resp) \<and>
          (refuses (respVerdict resp) \<longleftrightarrow> username req = ''system:unauthenticated'' \<or>
             (ingresscontroller_customer req \<and>
              list_ex (\<lambda>key. strings_Contains key ''node-role.kubernetes.io/master'') (the (NodePlacement ic)))))"
  by (auto simp: ingresscontroller_authorized_def renderIngressController_def
      ingresscontroller_customer_def ingresscontroller_isAllowedUser_def
      ingresscontroller_allowedUsers_def simp del: go_bind_eq_Return split: sum.split option.splits)

end
