(* ===== verification/Hook_ManifestWorks.thy ===== *)
theory Hook_ManifestWorks
  imports Webhook_Utils
begin

text \<open>
  \<open>pkg/webhooks/manifestworks/manifestworks.go\<close>: ManifestWorks are deleted by a fixed list of
  service accounts.
\<close>

section \<open>Model\<close>

definition manifestworks_WebhookName :: string where
  [hook_defs]: "manifestworks_WebhookName = ''manifestworks-validation''"

definition allowedServiceAccounts :: "string list" where
  "allowedServiceAccounts =
    [''system:serviceaccount:ocm:ocm'',
     ''system:serviceaccount:kube-system:generic-garbage-collector'',
     ''system:serviceaccount:multicluster-engine:ocm-foundation-sa'',
     ''system:serviceaccount:multicluster-hub:grc-policy-addon-sa'',
     ''system:serviceaccount:multicluster-engine:managedcluster-import-controller-v2'',
     ''system:serviceaccount:kube-system:namespace-controller'']"

definition manifestworks_rules :: "rule_with_operations list" where
  [hook_defs]: "manifestworks_rules =
    [\<lparr>Operations = [''DELETE''], APIGroups = [''work.open-cluster-management.io''],
      APIVersions = [''*''], Resources = [''manifestworks''], Scope = NamespacedScope\<rparr>]"

definition manifestworks_Validate :: "admission_request \<Rightarrow> bool" where
  [hook_defs]: "manifestworks_Validate req \<longleftrightarrow> username req \<noteq> [] \<and>
     kind req = ''ManifestWork'' \<and> kindGroup req = ''work.open-cluster-management.io''"

definition manifestworks_authorized :: "admission_request \<Rightarrow> response" where
  "manifestworks_authorized request =
     (if slices_Contains allowedServiceAccounts (username request)
      then respond request (Allowed ''Service account is authorized to delete ManifestWork resources'')
      else if reqOperation request \<noteq> Delete
      then respond request (Allowed ''Only DELETE operations are restricted'')
      else respond request (Denied (''Only authorized service accounts can delete ManifestWork resources. Allowed service accounts: '' @
        fmt_slice allowedServiceAccounts)))"

definition manifestworks_SyncSetLabelSelector :: label_selector where
  "manifestworks_SyncSetLabelSelector = DefaultLabelSelector
    \<lparr>MatchExpressions := MatchExpressions DefaultLabelSelector @
      [\<lparr>selKey = ''ext-hypershift.openshift.io/cluster-type'', selOperator = LabelSelectorOpIn,
        selValues = [''service-cluster'']\<rparr>,
       \<lparr>selKey = ''api.openshift.com/environment'', selOperator = LabelSelectorOpNotIn,
        selValues = [''integration'']\<rparr>]\<rparr>"

definition manifestworks_NewWebhook :: "'s scheme_builders \<Rightarrow> 's factory_result" where
  [factory_defs]: "manifestworks_NewWebhook api = add_to_scheme api
    [(AdmissionV1, ''Fail adding admissionsv1 scheme to ManifestWorksWebhook'')] (NewScheme api)"

definition manifestworks_Webhook :: webhook where
  [hook_defs]: "manifestworks_Webhook =
    \<lparr>Authorized = stateless (\<lambda>request. Return (manifestworks_authorized request)),
     GetURI = ''/manifestworks-validation'',
     Validate = manifestworks_Validate,
     Name = manifestworks_WebhookName,
     FailurePolicy = Ignore,
     MatchPolicy = Equivalent,
     Rules = manifestworks_rules,
     ObjectSelector = None,
     SideEffects = SideEffectClassNone,
     TimeoutSeconds = 2,
     Doc = ''Validates ManifestWorks deletion operations are only performed by authorized service accounts'',
     SyncSetLabelSelector = manifestworks_SyncSetLabelSelector,
     ClassicEnabled = True,
     HypershiftEnabled = False\<rparr>"

section \<open>Properties\<close>

interpretation manifestworks: delete_guard manifestworks_Webhook
  "\<lambda>req. True" "\<lambda>req. username req \<in> set allowedServiceAccounts"
  by unfold_locales
    (auto simp: hook_defs manifestworks_authorized_def uri_slug_def suffix_def split: if_splits)


end
