(* ===== verification/Hook_Namespace.thy ===== *)
theory Hook_Namespace
  imports Webhook_Utils
begin

text \<open>
  \<open>pkg/webhooks/namespace/namespace.go\<close>: customers may not touch the managed namespaces, may not
  create namespaces that shadow top-level domains, and may not set, remove or change the protected
  labels of a namespace. Of a \<open>corev1.Namespace\<close> the hook reads the metadata; the two nil-able
  pointers of \<open>renderOldAndNewNamespaces\<close> are options.
\<close>

section \<open>Model\<close>

definition namespace_WebhookName :: string where
  [hook_defs]: "namespace_WebhookName = ''namespace-validation''"

definition badNamespace :: string where
  "badNamespace = ''(^com$|^io$|^in$)''"

definition layeredProductNamespace :: string where
  "layeredProductNamespace = ''^redhat-.*''"

definition layeredProductAdminGroupName :: string where
  "layeredProductAdminGroupName = ''layered-sre-cluster-admins''"

definition clusterAdminGroup :: string where
  "clusterAdminGroup = ''cluster-admins''"

definition clusterAdminUsers :: "string list" where
  "clusterAdminUsers = [''kube:admin'', ''system:admin'', ''backplane-cluster-admin'']"

definition namespace_sreAdminGroups :: "string list" where
  "namespace_sreAdminGroups = [''system:serviceaccounts:openshift-backplane-srep'']"

definition protectedLabels :: "string list" where
  "protectedLabels =
    [''managed.openshift.io/storage-pv-quota-exempt'', ''managed.openshift.io/service-lb-quota-exempt'']"

definition namespace_rules :: "rule_with_operations list" where
  [hook_defs]: "namespace_rules =
    [\<lparr>Operations = [''CREATE'', ''UPDATE'', ''DELETE''], APIGroups = [''''], APIVersions = [''*''],
      Resources = [''namespaces''], Scope = ClusterScope\<rparr>]"

definition namespace_Doc :: string where
  "namespace_Doc =
     ''Managed OpenShift Customers may not modify namespaces specified in the '' @
     fmt_slice ConfigMapSources @
     '' ConfigMaps because customer workloads should be placed in customer-created namespaces. Customers may not create namespaces identified by this regular expression '' @
     badNamespace @
     '' because it could interfere with critical DNS resolution. Additionally, customers may not set or change the values of these Namespace labels '' @
     fmt_slice protectedLabels @ ''.''"

definition namespace_Validate :: "admission_request \<Rightarrow> bool" where
  [hook_defs]: "namespace_Validate req \<longleftrightarrow> username req \<noteq> [] \<and> kind req = ''Namespace''"

definition renderNamespace :: "object_meta decoder \<Rightarrow> admission_request \<Rightarrow> go_error + object_meta" where
  "renderNamespace decoder req =
     (if reqOldObject req \<noteq> [] then DecodeRaw decoder (reqOldObject req) else Decode decoder req)"

text \<open>The results are the new and the old namespace, in this order.\<close>

definition renderOldAndNewNamespaces ::
  "object_meta decoder \<Rightarrow> admission_request \<Rightarrow> go_error + (object_meta option \<times> object_meta option)" where
  "renderOldAndNewNamespaces decoder req =
     (let new = (\<lambda>oldNamespace.
        if reqObject req = [] then Inr (None, oldNamespace)
        else (case Decode decoder req of
                Inl err \<Rightarrow> Inl err
              | Inr newNamespace \<Rightarrow> Inr (Some newNamespace, oldNamespace)))
      in if reqOldObject req = [] then new None
         else (case DecodeRaw decoder (reqOldObject req) of
                 Inl err \<Rightarrow> Inl err
               | Inr oldNamespace \<Rightarrow> new (Some oldNamespace)))"

text \<open>Reading the labels of a nil namespace is a nil dereference.\<close>

definition doesNamespaceContainProtectedLabels :: "object_meta option \<Rightarrow> string list go_result" where
  "doesNamespaceContainProtectedLabels ns =
     (case ns of
        None \<Rightarrow> nil_deref
      | Some ns \<Rightarrow> Return (filter (\<lambda>label. metaLabels ns label \<noteq> None) protectedLabels))"

definition labelsChangedError :: "string \<Rightarrow> object_meta \<Rightarrow> object_meta \<Rightarrow> go_error" where
  "labelsChangedError labelKey old new =
     ''Managed OpenShift customers may not change the value or certain protected labels ('' @
     fmt_slice protectedLabels @ '') on Namespaces. '' @ labelKey @ '' changed from '' @
     map_get (metaLabels old) labelKey @ '' to '' @ map_get (metaLabels new) labelKey"

text \<open>
  The result pairs the flag with the error, nil being \<^const>\<open>None\<close>. In the comparison loop both
  namespaces are known not to be nil, or the calls before it would have panicked.
\<close>

fun compareProtectedLabels ::
  "string list \<Rightarrow> object_meta \<Rightarrow> object_meta \<Rightarrow> bool \<times> go_error option" where
  "compareProtectedLabels [] old new = (False, None)"
| "compareProtectedLabels (labelKey # keys) old new =
     (if map_get (metaLabels old) labelKey \<noteq> map_get (metaLabels new) labelKey
      then (True, Some (labelsChangedError labelKey old new))
      else compareProtectedLabels keys old new)"

definition unauthorizedLabelChanges ::
  "object_meta decoder \<Rightarrow> admission_request \<Rightarrow> (bool \<times> go_error option) go_result" where
  "unauthorizedLabelChanges decoder req =
     (if reqOperation req = Delete then Return (False, None)
      else (case renderOldAndNewNamespaces decoder req of
              Inl err \<Rightarrow> Return (True, Some err)
            | Inr (newNamespace, oldNamespace) \<Rightarrow>
                (if reqOperation req = Create then
                   go_bind (doesNamespaceContainProtectedLabels newNamespace) (\<lambda>found.
                     if length found = 0 then Return (False, None)
                     else Return (True, Some (''Managed OpenShift customers may not directly set certain protected labels ('' @
                       fmt_slice protectedLabels @ '') on Namespaces'')))
                 else if reqOperation req = Update then
                   go_bind (doesNamespaceContainProtectedLabels oldNamespace) (\<lambda>foundInOld.
                   go_bind (doesNamespaceContainProtectedLabels newNamespace) (\<lambda>foundInNew.
                     if length foundInOld \<noteq> length foundInNew
                     then Return (True, Some (''Managed OpenShift customers may not add or remove protected labels ('' @
                       fmt_slice protectedLabels @ '') from Namespaces''))
                     else Return (compareProtectedLabels foundInOld (the oldNamespace) (the newNamespace))))
                 else Return (False, None))))"

definition amIAdmin :: "admission_request \<Rightarrow> bool" where
  "amIAdmin request \<longleftrightarrow>
     slices_Contains clusterAdminUsers (username request) \<or>
     slices_Contains (groups request) clusterAdminGroup \<or>
     list_ex (slices_Contains (groups request)) namespace_sreAdminGroups"

definition namespace_authorized ::
  "object_meta decoder \<Rightarrow> admission_request \<Rightarrow> response go_result" where
  "namespace_authorized decoder request =
     (if amIAdmin request
      then Return (respond request (Allowed ''Cluster and SRE admins may access''))
      else if list_ex (MatchPattern PrivilegedServiceAccountGroups) (groups request)
      then Return (respond request (Allowed ''Privileged service accounts may access''))
      else (case renderNamespace decoder request of
        Inl err \<Rightarrow> Return (new_response (Errored 400 err))
      | Inr ns \<Rightarrow>
          (if slices_Contains (groups request) layeredProductAdminGroupName \<and>
              MatchPattern layeredProductNamespace (metaName ns)
           then Return (respond request (Allowed ''Layered product admins may access''))
           else go_bind (IsPrivilegedNamespace (metaName ns)) (\<lambda>privileged.
             if privileged
             then Return (respond request (Denied (''Prevented from accessing Red Hat managed namespaces. Customer workloads should be placed in customer namespaces, and should not match an entry in this list of regular expressions: '' @
               fmt_slice PrivilegedNamespaces)))
             else if MatchPattern badNamespace (metaName ns)
             then Return (respond request (Denied (''Prevented from creating a potentially harmful namespace. Customer namespaces should not match this regular expression, as this would impact DNS resolution: '' @
               badNamespace)))
             else go_bind (unauthorizedLabelChanges decoder request) (\<lambda>(unauthorized, err).
               if \<not> amIAdmin request \<and> unauthorized
               then Return (respond request (Denied (''Denied. Err '' @ fmt_error err)))
               else Return (respond request (Allowed ''RBAC allowed'')))))))"

definition namespace_NewWebhook :: "'s scheme_builders \<Rightarrow> 's factory_result" where
  [factory_defs]: "namespace_NewWebhook api = add_to_scheme api
    [(AdmissionV1, ''Fail adding admissionsv1 scheme to NamespaceWebhook''),
     (CoreV1, ''Fail adding corev1 scheme to NamespaceWebhook'')] (NewScheme api)"

definition namespace_Webhook :: "object_meta decoder \<Rightarrow> webhook" where
  [hook_defs]: "namespace_Webhook decoder =
    \<lparr>Authorized = stateless (namespace_authorized decoder),
     GetURI = ''/namespace-validation'',
     Validate = namespace_Validate,
     Name = namespace_WebhookName,
     FailurePolicy = Ignore,
     MatchPolicy = Equivalent,
     Rules = namespace_rules,
     ObjectSelector = None,
     SideEffects = SideEffectClassNone,
     TimeoutSeconds = 2,
     Doc = namespace_Doc,
     SyncSetLabelSelector = DefaultLabelSelector,
     ClassicEnabled = True,
     HypershiftEnabled = False\<rparr>"

section \<open>Properties\<close>

interpretation namespace: validating_webhook "namespace_Webhook d" for d
  by unfold_locales
    (auto simp: hook_defs namespace_authorized_def uri_slug_def suffix_def
      split: sum.splits if_splits prod.splits)

lemma layeredProductNamespace_iff [simp]:
  "MatchPattern layeredProductNamespace ns \<longleftrightarrow> prefix ''redhat-'' ns"
  using MatchPattern_prefix [of "''redhat-''" ns]
  by (simp add: layeredProductNamespace_def plain_word_def go_defs)

lemma badNamespace_iff [simp]: "MatchPattern badNamespace ns \<longleftrightarrow> ns \<in> {''com'', ''io'', ''in''}"
  by (auto simp: MatchPattern_def badNamespace_def go_defs regex_Match_alt regex_Match_then_anchored)

subsection \<open>Who may do what to which namespace\<close>

text \<open>Customers are the users the hook has to check at all.\<close>

definition namespace_customer :: "admission_request \<Rightarrow> bool" where
  "namespace_customer req \<longleftrightarrow>
     username req \<notin> {''kube:admin'', ''system:admin'', ''backplane-cluster-admin''} \<and>
     ''cluster-admins'' \<notin> set (groups req) \<and> \<not> list_ex privileged_sa_group (groups req)"

definition layered_product_access :: "admission_request \<Rightarrow> object_meta \<Rightarrow> bool" where
  "layered_product_access req ns \<longleftrightarrow>
     ''layered-sre-cluster-admins'' \<in> set (groups req) \<and> prefix ''redhat-'' (metaName ns)"

lemma namespace_customer_iff:
  "amIAdmin req \<or> list_ex (MatchPattern PrivilegedServiceAccountGroups) (groups req) \<longleftrightarrow>
     \<not> namespace_customer req"
  using privileged_group_srep [of "groups req"]
  by (auto simp: amIAdmin_def namespace_customer_def clusterAdminUsers_def clusterAdminGroup_def
      namespace_sreAdminGroups_def)

lemma namespace_not_customer:
  "\<not> namespace_customer req \<Longrightarrow>
     \<exists>resp. namespace_authorized d req = Return resp \<and> allows (respVerdict resp)"
  using namespace_customer_iff [of req] by (auto simp: namespace_authorized_def)

lemma namespace_customer_undecodable:
  "namespace_customer req \<Longrightarrow> renderNamespace d req = Inl err \<Longrightarrow>
     namespace_authorized d req = Return (new_response (Errored 400 err))"
  using namespace_customer_iff [of req] by (auto simp: namespace_authorized_def)

definition namespace_name_refused :: "admission_request \<Rightarrow> object_meta \<Rightarrow> bool" where
  "namespace_name_refused req ns \<longleftrightarrow> \<not> layered_product_access req ns \<and>
     (managed_namespace (metaName ns) \<or> metaName ns \<in> {''com'', ''io'', ''in''})"

lemma namespace_customer_name:
  assumes "namespace_customer req" and "renderNamespace d req = Inr ns"
    and "layered_product_access req ns \<or> namespace_name_refused req ns"
  shows "\<exists>resp. namespace_authorized d req = Return resp \<and> \<not> errs (respVerdict resp) \<and>
     (refuses (respVerdict resp) \<longleftrightarrow> namespace_name_refused req ns)"
  using assms namespace_customer_iff [of req]
  by (auto simp: namespace_authorized_def namespace_name_refused_def layered_product_access_def
      layeredProductAdminGroupName_def)

lemma namespace_customer_labels:
  assumes "namespace_customer req" and "renderNamespace d req = Inr ns"
    and "\<not> layered_product_access req ns" and "\<not> namespace_name_refused req ns"
  shows "namespace_authorized d req =
     go_bind (unauthorizedLabelChanges d req) (\<lambda>(unauthorized, err).
       Return (respond req (if unauthorized then Denied (''Denied. Err '' @ fmt_error err)
         else Allowed ''RBAC allowed'')))"
  using assms namespace_customer_iff [of req]
  by (auto simp: namespace_authorized_def namespace_name_refused_def layered_product_access_def
      layeredProductAdminGroupName_def intro!: arg_cong [of _ _ "go_bind _"])

text \<open>
  (C8) The namespace hook checks customers only: everybody with an administrator's name or group,
  or in a privileged service account group, is let through. A customer gets an error exactly when
  the namespace (the stored one when there is one) does not decode, and is refused exactly when it
  is a managed namespace, is called \<open>com\<close>, \<open>io\<close> or \<open>in\<close>, or the label check objects; an
  administrator of layered products working on a \<open>redhat-\<close> namespace is let through. The handler
  panics only where the label check does.
\<close>

theorem namespace_guard:
  "let obj = (if reqOldObject req \<noteq> [] then DecodeRaw d (reqOldObject req) else Decode d req);
       labels = unauthorizedLabelChanges d req in
     case namespace_authorized d req of
       Panic m \<Rightarrow> namespace_customer req \<and> labels = Panic m
     | Return resp \<Rightarrow>
         (errs (respVerdict resp) \<longleftrightarrow> namespace_customer req \<and> (\<exists>err. obj = Inl err)) \<and>
         (refuses (respVerdict resp) \<longleftrightarrow> namespace_customer req \<and>
            (\<exists>ns. obj = Inr ns \<and> \<not> layered_product_access req ns \<and>
               (managed_namespace (metaName ns) \<or> metaName ns \<in> {''com'', ''io'', ''in''} \<or>
                (\<exists>err. labels = Return (True, err)))))"
proof (cases "namespace_customer req")
  case False
  then obtain resp where "namespace_authorized d req = Return resp" "allows (respVerdict resp)"
    using namespace_not_customer by blast
  with False show ?thesis using verdict_trichotomy [of "respVerdict resp"] by (simp add: Let_def)
next
  case customer: True
  show ?thesis
  proof (cases "renderNamespace d req")
    case (Inl err)
    with customer namespace_customer_undecodable [OF customer Inl] show ?thesis
      by (simp add: Let_def renderNamespace_def)
  next
    case (Inr ns)
    then have obj: "(if reqOldObject req \<noteq> [] then DecodeRaw d (reqOldObject req) else Decode d req) = Inr ns"
      by (simp add: renderNamespace_def)
    show ?thesis
    proof (cases "layered_product_access req ns \<or> namespace_name_refused req ns")
      case True
      from namespace_customer_name [OF customer Inr True] True customer show ?thesis
        unfolding obj by (auto simp: Let_def namespace_name_refused_def)
    next
      case False
      then have "namespace_authorized d req =
          go_bind (unauthorizedLabelChanges d req) (\<lambda>(unauthorized, err).
            Return (respond req (if unauthorized then Denied (''Denied. Err '' @ fmt_error err)
              else Allowed ''RBAC allowed'')))"
        using namespace_customer_labels [OF customer Inr] by blast
      with False customer show ?thesis
        unfolding obj
        by (cases "unauthorizedLabelChanges d req")
          (auto simp: Let_def namespace_name_refused_def split: prod.splits)
    qed
  qed
qed

subsection \<open>The protected labels\<close>

lemma protected_labels_of:
  "doesNamespaceContainProtectedLabels (Some ns) = Return (filter (\<lambda>l. metaLabels ns l \<noteq> None) protectedLabels)"
  by (simp add: doesNamespaceContainProtectedLabels_def)

lemma compareProtectedLabels_flag:
  "fst (compareProtectedLabels keys old new) \<longleftrightarrow>
     (\<exists>k\<in>set keys. map_get (metaLabels old) k \<noteq> map_get (metaLabels new) k)"
  by (induction keys) auto

text \<open>
  One protected label replaced by the other, where the one removed had the empty value: the counts
  agree, and a missing label reads as empty.
\<close>

definition empty_label_swapped :: "object_meta \<Rightarrow> object_meta \<Rightarrow> bool" where
  "empty_label_swapped old new \<longleftrightarrow>
     list_ex (\<lambda>(a, b). metaLabels old a = Some [] \<and> metaLabels old b = None \<and>
         metaLabels new a = None \<and> metaLabels new b \<noteq> None)
       [(protectedLabels ! 0, protectedLabels ! 1), (protectedLabels ! 1, protectedLabels ! 0)]"

text \<open>
  (C9) The label check on an update that carries the stored and the new namespace: it returns, and
  objects exactly when one of the two protected labels differs (in presence or in value) between
  them, except when one label with the empty value was replaced by the other one, a change it does
  not see.
\<close>

theorem update_labels_exact:
  assumes "reqOperation req = Update"
    and "renderOldAndNewNamespaces d req = Inr (Some new, Some old)"
  shows "\<exists>flag err. unauthorizedLabelChanges d req = Return (flag, err) \<and>
     (flag \<longleftrightarrow> list_ex (\<lambda>l. metaLabels old l \<noteq> metaLabels new l) protectedLabels \<and>
        \<not> empty_label_swapped old new)"
proof -
  define a where "a = protectedLabels ! 0"
  define b where "b = protectedLabels ! 1"
  have ab: "protectedLabels = [a, b]" by (simp add: a_def b_def protectedLabels_def)
  show ?thesis
    using assms
    by (cases "metaLabels old a"; cases "metaLabels old b"; cases "metaLabels new a"; cases "metaLabels new b")
      (auto simp: unauthorizedLabelChanges_def protected_labels_of empty_label_swapped_def ab)
qed

definition labelled_decoder :: "(string \<rightharpoonup> string) \<Rightarrow> (string \<rightharpoonup> string) \<Rightarrow> object_meta decoder" where
  "labelled_decoder old new =
    \<lparr>Decode = (\<lambda>_. Inr (zero_meta\<lparr>metaLabels := new\<rparr>)),
     DecodeRaw = (\<lambda>_. Inr (zero_meta\<lparr>metaLabels := old\<rparr>))\<rparr>"

definition update_request :: admission_request where
  "update_request = zero_request\<lparr>reqOperation := Update, reqObject := ''new'', reqOldObject := ''old''\<rparr>"

theorem update_labels_exact_witness:
  "\<exists>err. unauthorizedLabelChanges
      (labelled_decoder Map.empty [''managed.openshift.io/storage-pv-quota-exempt'' \<mapsto> ''true'']) update_request =
    Return (True, err)"
  using update_labels_exact [of update_request
      "labelled_decoder Map.empty [''managed.openshift.io/storage-pv-quota-exempt'' \<mapsto> ''true'']"
      "zero_meta\<lparr>metaLabels := [''managed.openshift.io/storage-pv-quota-exempt'' \<mapsto> ''true'']\<rparr>"
      "zero_meta\<lparr>metaLabels := Map.empty\<rparr>"]
  by (auto simp: update_request_def zero_request_def labelled_decoder_def renderOldAndNewNamespaces_def
      protectedLabels_def empty_label_swapped_def zero_meta_def)

text \<open>The change the check misses, and the requests it does not survive.\<close>

lemma empty_label_swap_undetected:
  "unauthorizedLabelChanges
     (labelled_decoder [''managed.openshift.io/storage-pv-quota-exempt'' \<mapsto> []]
        [''managed.openshift.io/service-lb-quota-exempt'' \<mapsto> ''true'']) update_request =
   Return (False, None)"
  by (simp add: unauthorizedLabelChanges_def update_request_def zero_request_def labelled_decoder_def
      renderOldAndNewNamespaces_def protected_labels_of protectedLabels_def zero_meta_def)

lemma label_check_panics:
  assumes "reqOperation req = Update" and "renderOldAndNewNamespaces d req = Inr (new, old)"
    and "new = None \<or> old = None"
  shows "unauthorizedLabelChanges d req = nil_deref"
  using assms
  by (cases old) (auto simp: unauthorizedLabelChanges_def doesNamespaceContainProtectedLabels_def)

end
