(* ===== verification/Hook_NetworkOperator.thy ===== *)
theory Hook_NetworkOperator
  imports Webhook_Utils "HOL-Library.Word"
begin

text \<open>
  \<open>pkg/webhooks/networkoperator/networkoperator.go\<close>: the migration settings of the cluster network
  operator's configuration are changed by a few accounts only. The code compares structs with
  \<open>!=\<close>; a field of pointer type is then compared by address, so the pointers to \<open>uint32\<close> in the MTU
  values keep their address next to the value they point to.
\<close>

section \<open>Model\<close>

definition networkoperator_WebhookName :: string where
  [hook_defs]: "networkoperator_WebhookName = ''network-operator-validation''"

definition networkoperator_docString :: string where
  "networkoperator_docString = ''Managed OpenShift customers may not modify critical fields in the network.operator CRD (such as spec.migration.networkType) because it can disrupt Cluster Network Operator operations and CNI migrations. Only backplane-cluster-admin, SRE, Cluster Network Operator (CNO), and Managed Upgrade Operator (MUO) service accounts are allowed to modify these critical fields. Regular cluster-admin users (system:admin) are explicitly blocked.''"

definition networkoperator_rules :: "rule_with_operations list" where
  [hook_defs]: "networkoperator_rules =
    [\<lparr>Operations = [''UPDATE''], APIGroups = [''operator.openshift.io''], APIVersions = [''*''],
      Resources = [''network'', ''networks''], Scope = ClusterScope\<rparr>]"

definition networkoperator_allowedUsers :: "string list" where
  "networkoperator_allowedUsers =
    [''backplane-cluster-admin'',
     ''system:serviceaccount:openshift-network-operator:cluster-network-operator'',
     ''system:serviceaccount:openshift-managed-upgrade-operator:managed-upgrade-operator'']"

definition networkoperator_sreAdminGroups :: "string list" where
  "networkoperator_sreAdminGroups = [''system:serviceaccounts:openshift-backplane-srep'']"

text \<open>The part of \<open>operatorv1.Network\<close> the hook reads.\<close>

record uint32_pointer =
  address :: nat
  pointee :: "32 word"

record mtu_migration_values =
  mtuTo :: "uint32_pointer option"
  mtuFrom :: "uint32_pointer option"

record mtu_migration =
  mtuNetwork :: "mtu_migration_values option"
  mtuMachine :: "mtu_migration_values option"

record features_migration =
  egressIP :: bool
  egressFirewall :: bool
  multicast :: bool

record network_migration =
  migNetworkType :: string
  migMode :: string
  migFeatures :: "features_migration option"
  migMTU :: "mtu_migration option"

record operator_network =
  Migration :: "network_migration option"

text \<open>Go's \<open>==\<close> on pointers and on the structs that hold them.\<close>

definition same_pointer :: "uint32_pointer option \<Rightarrow> uint32_pointer option \<Rightarrow> bool" where
  "same_pointer p q \<longleftrightarrow> map_option address p = map_option address q"

definition same_mtu_values :: "mtu_migration_values \<Rightarrow> mtu_migration_values \<Rightarrow> bool" where
  "same_mtu_values a b \<longleftrightarrow> same_pointer (mtuTo a) (mtuTo b) \<and> same_pointer (mtuFrom a) (mtuFrom b)"

text \<open>The idiom the code repeats: different in being nil, or both set and different.\<close>

definition pointer_changed :: "('a \<Rightarrow> 'a \<Rightarrow> bool) \<Rightarrow> 'a option \<Rightarrow> 'a option \<Rightarrow> bool" where
  "pointer_changed same old new \<longleftrightarrow> (old = None) \<noteq> (new = None) \<or>
     (case (old, new) of (Some a, Some b) \<Rightarrow> \<not> same a b | _ \<Rightarrow> False)"

definition hasCriticalMigrationFieldChanges :: "operator_network \<Rightarrow> operator_network \<Rightarrow> bool" where
  "hasCriticalMigrationFieldChanges oldObj newObj =
     (case (Migration oldObj, Migration newObj) of
        (None, Some _) \<Rightarrow> True
      | (Some _, None) \<Rightarrow> True
      | (None, None) \<Rightarrow> False
      | (Some oldMigration, Some newMigration) \<Rightarrow>
          (if migNetworkType oldMigration \<noteq> migNetworkType newMigration then True
           else if migMode oldMigration \<noteq> migMode newMigration then True
           else if pointer_changed (=) (migFeatures oldMigration) (migFeatures newMigration) then True
           else if (migMTU oldMigration = None) \<noteq> (migMTU newMigration = None) then True
           else (case (migMTU oldMigration, migMTU newMigration) of
                   (Some oldMTU, Some newMTU) \<Rightarrow>
                     (if pointer_changed same_mtu_values (mtuNetwork oldMTU) (mtuNetwork newMTU) then True
                      else pointer_changed same_mtu_values (mtuMachine oldMTU) (mtuMachine newMTU))
                 | _ \<Rightarrow> False)))"

definition networkoperator_isAllowedUserGroup :: "admission_request \<Rightarrow> bool" where
  "networkoperator_isAllowedUserGroup request =
     (let user = username request; user = (if user = [] then username request else user) in
      if slices_Contains networkoperator_allowedUsers user then True
      else if list_ex (slices_Contains (groups request)) networkoperator_sreAdminGroups then True
      else list_ex (slices_Contains (groups request)) networkoperator_sreAdminGroups)"

definition networkoperator_Authorized :: "operator_network decoder \<Rightarrow> admission_request \<Rightarrow> response" where
  "networkoperator_Authorized decoder request =
     (if reqOperation request = Update then
        (case Decode decoder request of
           Inl err \<Rightarrow> respond request (Errored 400 err)
         | Inr object \<Rightarrow>
             (case DecodeRaw decoder (reqOldObject request) of
                Inl err \<Rightarrow> respond request (Errored 400 err)
              | Inr oldObject \<Rightarrow>
                  (if hasCriticalMigrationFieldChanges oldObject object then
                     (if networkoperator_isAllowedUserGroup request
                      then WebhookResponse request True ''Privileged users are allowed to modify critical migration fields''
                      else WebhookResponse request False ''Modification of critical migration fields (spec.migration.networkType and related migration configuration) is not allowed, even for cluster-admin users. These fields are managed by the Cluster Network Operator and manual changes can disrupt CNI migrations.'')
                   else WebhookResponse request True ''Non-critical field modifications are allowed'')))
      else WebhookResponse request True ''CREATE and DELETE operations are allowed'')"

definition networkoperator_Validate :: "admission_request \<Rightarrow> bool" where
  [hook_defs]: "networkoperator_Validate req \<longleftrightarrow>
     (let user = username req; user = (if user = [] then username req else user) in
      user \<noteq> [] \<and> kind req = ''Network'' \<and> kindGroup req = ''operator.openshift.io'')"

definition networkoperator_NewWebhook :: "'s scheme_builders \<Rightarrow> 's factory_result" where
  [factory_defs]: "networkoperator_NewWebhook api = and_then (add_to_scheme api
    [(AdmissionV1, ''Failed adding admissionv1 scheme to NetworkOperatorWebhook'')] (NewScheme api))
    (\<lambda>scheme. Must (AddToScheme api OperatorV1 scheme))"

definition networkoperator_Webhook :: "operator_network decoder \<Rightarrow> webhook" where
  [hook_defs]: "networkoperator_Webhook decoder =
    \<lparr>Authorized = stateless (\<lambda>request. Return (networkoperator_Authorized decoder request)),
     GetURI = ''/network-operator-validation'',
     Validate = networkoperator_Validate,
     Name = networkoperator_WebhookName,
     FailurePolicy = Ignore,
     MatchPolicy = Equivalent,
     Rules = networkoperator_rules,
     ObjectSelector = None,
     SideEffects = SideEffectClassNone,
     TimeoutSeconds = 2,
     Doc = networkoperator_docString,
     SyncSetLabelSelector = DefaultLabelSelector,
     ClassicEnabled = True,
     HypershiftEnabled = True\<rparr>"

section \<open>Properties\<close>

interpretation networkoperator: validating_webhook "networkoperator_Webhook d" for d
  by unfold_locales
    (auto simp: hook_defs networkoperator_Authorized_def uri_slug_def suffix_def
      split: sum.splits if_splits)

subsection \<open>What counts as a change\<close>

text \<open>The content of a migration, with every pointer replaced by what it points to.\<close>

definition mtu_content :: "mtu_migration_values \<Rightarrow> 32 word option \<times> 32 word option" where
  "mtu_content v = (map_option pointee (mtuTo v), map_option pointee (mtuFrom v))"

definition migration_content where
  "migration_content m = (migNetworkType m, migMode m, migFeatures m,
     map_option (\<lambda>t. (map_option mtu_content (mtuNetwork t), map_option mtu_content (mtuMachine t))) (migMTU m))"

definition mtu_pointers :: "mtu_migration_values option \<Rightarrow> uint32_pointer list" where
  "mtu_pointers v = (case v of None \<Rightarrow> [] | Some v \<Rightarrow>
     (case mtuTo v of None \<Rightarrow> [] | Some p \<Rightarrow> [p]) @ (case mtuFrom v of None \<Rightarrow> [] | Some p \<Rightarrow> [p]))"

definition migration_pointers :: "operator_network \<Rightarrow> uint32_pointer list" where
  "migration_pointers n = (case Migration n of None \<Rightarrow> [] | Some m \<Rightarrow>
     (case migMTU m of None \<Rightarrow> [] | Some t \<Rightarrow> mtu_pointers (mtuNetwork t) @ mtu_pointers (mtuMachine t)))"

text \<open>No address in common: two objects decoded one after the other.\<close>

definition separate :: "uint32_pointer list \<Rightarrow> uint32_pointer list \<Rightarrow> bool" where
  "separate ps qs \<longleftrightarrow> set (map address ps) \<inter> set (map address qs) = {}"

lemma separate_append [simp]:
  "separate (ps @ ps') qs \<longleftrightarrow> separate ps qs \<and> separate ps' qs"
  "separate ps (qs @ qs') \<longleftrightarrow> separate ps qs \<and> separate ps qs'"
  by (auto simp: separate_def)

lemma mtu_values_changed:
  assumes "separate (mtu_pointers old) (mtu_pointers new)"
  shows "pointer_changed same_mtu_values old new \<longleftrightarrow>
     map_option mtu_content old \<noteq> map_option mtu_content new \<or> mtu_pointers old \<noteq> []"
proof (cases "old = None \<or> new = None")
  case True
  then show ?thesis by (auto simp: pointer_changed_def mtu_pointers_def)
next
  case False
  then obtain a b where "old = Some a" "new = Some b" by auto
  with assms show ?thesis
    by (cases "mtuTo a"; cases "mtuFrom a"; cases "mtuTo b"; cases "mtuFrom b")
      (auto simp: pointer_changed_def same_mtu_values_def same_pointer_def mtu_content_def
        mtu_pointers_def separate_def)
qed

lemma features_changed: "pointer_changed (=) old new \<longleftrightarrow> old \<noteq> new"
  by (cases old; cases new) (simp_all add: pointer_changed_def)

text \<open>
  (C13) For two objects that share no pointer, as a decoder makes them, the check reports a change
  exactly when the contents of the migrations differ, or when the stored one has a pointer to an
  MTU value at all: then the comparison of addresses reports a change even if every value is the
  same. In particular no change of content goes unnoticed.
\<close>

theorem migration_change_detected:
  assumes "separate (migration_pointers old) (migration_pointers new)"
  shows "hasCriticalMigrationFieldChanges old new \<longleftrightarrow>
     map_option migration_content (Migration old) \<noteq> map_option migration_content (Migration new) \<or>
     migration_pointers old \<noteq> []"
proof (cases "Migration old")
  case None
  then show ?thesis
    by (auto simp: hasCriticalMigrationFieldChanges_def migration_pointers_def split: option.splits)
next
  case old: (Some a)
  show ?thesis
  proof (cases "Migration new")
    case None
    with old show ?thesis by (auto simp: hasCriticalMigrationFieldChanges_def)
  next
    case new: (Some b)
    show ?thesis
      using assms
      by (cases "migMTU a"; cases "migMTU b")
        (auto simp: hasCriticalMigrationFieldChanges_def migration_pointers_def migration_content_def
          old new features_changed mtu_values_changed)
  qed
qed

text \<open>Two copies of one object, with an MTU value: the update that changes nothing counts as a change.\<close>

definition mtu_network :: "nat \<Rightarrow> operator_network" where
  "mtu_network addr = \<lparr>Migration = Some \<lparr>migNetworkType = ''OVNKubernetes'', migMode = [], migFeatures = None,
     migMTU = Some \<lparr>mtuNetwork = Some \<lparr>mtuTo = Some \<lparr>address = addr, pointee = 1400\<rparr>, mtuFrom = None\<rparr>,
       mtuMachine = None\<rparr>\<rparr>\<rparr>"

theorem migration_change_detected_witness:
  "hasCriticalMigrationFieldChanges (mtu_network 1) (mtu_network 2) \<and>
   map_option migration_content (Migration (mtu_network 1)) = map_option migration_content (Migration (mtu_network 2))"
  using migration_change_detected [of "mtu_network 1" "mtu_network 2"]
  by (simp add: mtu_network_def migration_pointers_def mtu_pointers_def separate_def
      migration_content_def mtu_content_def)

text \<open>
  (C14) The network operator hook never refuses anything but an update. An update errs exactly when
  the new or the stored object does not decode, and is refused exactly when the check reports a
  change of the migration and the user is neither one of the three listed accounts nor in the SRE
  backplane group; \<open>system:admin\<close> and the other privileged service accounts get no exception.
\<close>

theorem networkoperator_guard:
  "let v = respVerdict (networkoperator_Authorized d req);
       new = Decode d req; old = DecodeRaw d (reqOldObject req) in
     respUID (networkoperator_Authorized d req) = reqUID req \<and>
     (errs v \<longleftrightarrow> reqOperation req = Update \<and> (\<exists>err. new = Inl err \<or> old = Inl err)) \<and>
     (refuses v \<longleftrightarrow> reqOperation req = Update \<and>
        username req \<notin> set networkoperator_allowedUsers \<and>
        ''system:serviceaccounts:openshift-backplane-srep'' \<notin> set (groups req) \<and>
        (\<exists>n s. new = Inr n \<and> old = Inr s \<and> hasCriticalMigrationFieldChanges s n))"
  by (auto simp: Let_def networkoperator_Authorized_def networkoperator_isAllowedUserGroup_def
      networkoperator_sreAdminGroups_def split: sum.splits)

end
