(* ===== verification/Hook_NetworkPolicies.thy ===== *)
theory Hook_NetworkPolicies
  imports Webhook_Utils
begin

text \<open>
  \<open>pkg/webhooks/networkpolicies/networkpolicies.go\<close>: NetworkPolicies of the managed namespaces
  are changed by the platform's accounts only, except in \<open>openshift-ingress\<close>, where a customer
  may change policies that select the pods of an ingress controller other than the default one.
\<close>

section \<open>Model\<close>

definition networkpolicies_WebhookName :: string where
  [hook_defs]: "networkpolicies_WebhookName = ''networkpolicies-validation''"

definition networkpolicies_allowedUsers :: "string list" where
  "networkpolicies_allowedUsers = [''system:admin'', ''backplane-cluster-admin'']"

definition networkpolicies_sreAdminGroups :: "string list" where
  "networkpolicies_sreAdminGroups = [''system:serviceaccounts:openshift-backplane-srep'']"

definition networkpolicies_rules :: "rule_with_operations list" where
  [hook_defs]: "networkpolicies_rules =
    [\<lparr>Operations = [Create, Update, Delete], APIGroups = [''networking.k8s.io''],
      APIVersions = [''*''], Resources = [''networkpolicies''], Scope = NamespacedScope\<rparr>]"

text \<open>The fields of \<open>networkingv1.NetworkPolicy\<close> the hook reads.\<close>

record network_policy =
  npMeta :: object_meta
  podSelectorMatchLabels :: "string \<rightharpoonup> string"

definition ingressControllerLabel :: string where
  "ingressControllerLabel = ''ingresscontroller.operator.openshift.io/deployment-ingresscontroller''"

definition networkpolicies_isAllowedNamespace :: "string \<Rightarrow> bool go_result" where
  "networkpolicies_isAllowedNamespace namespace =
     go_bind (IsPrivilegedNamespace namespace) (\<lambda>privileged.
       Return (\<not> privileged \<or> namespace = ''openshift-ingress''))"

definition networkpolicies_isAllowedUser :: "admission_request \<Rightarrow> bool" where
  "networkpolicies_isAllowedUser request \<longleftrightarrow>
     slices_Contains networkpolicies_allowedUsers (username request) \<or>
     list_ex (slices_Contains (groups request)) networkpolicies_sreAdminGroups"

definition networkpolicies_renderNetworkPolicy ::
  "network_policy decoder \<Rightarrow> admission_request \<Rightarrow> go_error + network_policy" where
  "networkpolicies_renderNetworkPolicy decoder req =
     (if reqObject req \<noteq> [] then DecodeRaw decoder (reqObject req)
      else DecodeRaw decoder (reqOldObject req))"

definition networkpolicies_authorized ::
  "network_policy decoder \<Rightarrow> admission_request \<Rightarrow> response go_result" where
  "networkpolicies_authorized decoder request =
     (case networkpolicies_renderNetworkPolicy decoder request of
        Inl err \<Rightarrow> Return (new_response (Errored 400 err))
      | Inr np \<Rightarrow> go_bind (networkpolicies_isAllowedNamespace (metaNamespace (npMeta np))) (\<lambda>allowedNamespace.
          if \<not> allowedNamespace then
            (if networkpolicies_isAllowedUser request
             then Return (respond request (Allowed (''User '' @ [quote] @ username request @ [quote] @
               '' in group(s) '' @ [quote] @ strings_Join (groups request) '', '' @ [quote] @
               '' can operate on NetworkPolicies'')))
             else if list_ex (MatchPattern PrivilegedServiceAccountGroups) (groups request)
             then Return (respond request (Allowed (''Privileged service accounts in group(s) '' @ [quote] @
               strings_Join (groups request) '', '' @ [quote] @ '' can operate on NetworkPolicies'')))
             else Return (respond request (Denied (''User '' @ [quote] @ username request @ [quote] @
               '' prevented from accessing Red Mat managed resources. This is in an effort to prevent harmful actions that may cause unintended consequences or affect the stability of the cluster. If you have any questions about this, please reach out to Red Hat support at https://access.redhat.com/support''))))
          else if metaNamespace (npMeta np) = ''openshift-ingress'' \<and>
                  list_ex (MatchPattern PrivilegedServiceAccountGroups) (groups request)
          then Return (respond request (Allowed (''Privileged service accounts in group(s) '' @ [quote] @
            strings_Join (groups request) '', '' @ [quote] @ '' can operate on NetworkPolicies in openshift-ingress'')))
          else if metaNamespace (npMeta np) = ''openshift-ingress'' \<and>
                  (podSelectorMatchLabels np ingressControllerLabel = None \<or>
                   podSelectorMatchLabels np ingressControllerLabel = Some ''default'')
          then Return (respond request (Denied (''User '' @ [quote] @ username request @ [quote] @
            '' prevented from creating network policy that may impact default ingress, which is managed by Red Hat. This is in an effort to prevent harmful actions that may cause unintended consequences or affect the stability of the cluster. If you have any questions about this, please reach out to Red Hat support at https://access.redhat.com/support'')))
          else Return (respond request (Allowed ''Non managed namespace''))))"

definition networkpolicies_Validate :: "admission_request \<Rightarrow> bool" where
  [hook_defs]: "networkpolicies_Validate request \<longleftrightarrow> username request \<noteq> [] \<and> kind request = ''NetworkPolicy''"

definition networkpolicies_NewWebhook :: "'s scheme_builders \<Rightarrow> 's factory_result" where
  [factory_defs]: "networkpolicies_NewWebhook api = Made (NewScheme api)"

definition networkpolicies_Webhook :: "network_policy decoder \<Rightarrow> webhook" where
  [hook_defs]: "networkpolicies_Webhook decoder =
    \<lparr>Authorized = stateless (networkpolicies_authorized decoder),
     GetURI = ''/'' @ networkpolicies_WebhookName,
     Validate = networkpolicies_Validate,
     Name = networkpolicies_WebhookName,
     FailurePolicy = Ignore,
     MatchPolicy = Equivalent,
     Rules = networkpolicies_rules,
     ObjectSelector = None,
     SideEffects = SideEffectClassNone,
     TimeoutSeconds = 2,
     Doc = ''Managed OpenShift Customers may not create NetworkPolicies in namespaces managed by Red Hat.'',
     SyncSetLabelSelector = DefaultLabelSelector,
     ClassicEnabled = True,
     HypershiftEnabled = False\<rparr>"

section \<open>Properties\<close>

lemma networkpolicies_isAllowedNamespace_eq [simp]:
  "networkpolicies_isAllowedNamespace ns = Return (\<not> managed_namespace ns \<or> ns = ''openshift-ingress'')"
  by (simp add: networkpolicies_isAllowedNamespace_def)

interpretation networkpolicies: validating_webhook "networkpolicies_Webhook d" for d
  by unfold_locales
    (auto simp: hook_defs networkpolicies_authorized_def uri_slug_def suffix_def
      split: sum.splits if_splits)

lemma networkpolicies_renderNetworkPolicy_eq:
  "networkpolicies_renderNetworkPolicy d req =
     DecodeRaw d (if reqObject req \<noteq> [] then reqObject req else reqOldObject req)"
  by (simp add: networkpolicies_renderNetworkPolicy_def)

lemma networkpolicies_privileged_iff:
  "networkpolicies_isAllowedUser req \<or> list_ex privileged_sa_group (groups req) \<longleftrightarrow>
     username req \<in> {''system:admin'', ''backplane-cluster-admin''} \<or> list_ex privileged_sa_group (groups req)"
  using privileged_group_srep [of "groups req"]
  by (auto simp: networkpolicies_isAllowedUser_def networkpolicies_sreAdminGroups_def
      networkpolicies_allowedUsers_def)

definition np_refused :: "admission_request \<Rightarrow> network_policy \<Rightarrow> bool" where
  "np_refused req np \<longleftrightarrow> \<not> list_ex privileged_sa_group (groups req) \<and>
     (if metaNamespace (npMeta np) = ''openshift-ingress''
      then podSelectorMatchLabels np ingressControllerLabel \<in> {None, Some ''default''}
      else managed_namespace (metaNamespace (npMeta np)) \<and>
        username req \<notin> {''system:admin'', ''backplane-cluster-admin''})"

lemma networkpolicies_decided:
  assumes "networkpolicies_renderNetworkPolicy d req = Inr np"
  shows "\<exists>resp. networkpolicies_authorized d req = Return resp \<and> \<not> errs (respVerdict resp) \<and>
     (refuses (respVerdict resp) \<longleftrightarrow> np_refused req np)"
  using assms networkpolicies_privileged_iff [of req]
  by (simp add: networkpolicies_authorized_def np_refused_def) blast

text \<open>
  (C35) The NetworkPolicy hook never panics, and errs exactly when the object (the new one when
  there is one) does not decode. Members of a privileged service account group are never refused.
  Anybody else is refused exactly in two cases: the policy is in \<open>openshift-ingress\<close> and selects
  no ingress controller or the default one; or it is in another managed namespace and the user is
  not one of the two administrators. In \<open>openshift-ingress\<close> the list of administrators is not
  consulted.
\<close>

theorem networkpolicies_guard:
  "\<exists>resp. Authorized (networkpolicies_Webhook d) req w = (Return resp, w) \<and>
     (let v = respVerdict resp;
          obj = DecodeRaw d (if reqObject req \<noteq> [] then reqObject req else reqOldObject req) in
      (errs v \<longleftrightarrow> (\<exists>err. obj = Inl err)) \<and>
      (refuses v \<longleftrightarrow> (\<exists>np. obj = Inr np \<and> np_refused req np)))"
proof (cases "networkpolicies_renderNetworkPolicy d req")
  case (Inl err)
  then show ?thesis
    by (simp add: networkpolicies_Webhook_def networkpolicies_authorized_def
        networkpolicies_renderNetworkPolicy_def Let_def split: if_splits)
next
  case (Inr np)
  then show ?thesis
    using networkpolicies_decided [of d req np] networkpolicies_renderNetworkPolicy_eq [of d req]
    by (auto simp: networkpolicies_Webhook_def Let_def)
qed

end
