(* ===== verification/Hook_Node.thy ===== *)
theory Hook_Node
  imports Webhook_Utils
begin

text \<open>
  \<open>pkg/webhooks/node/node.go\<close> and \<open>pkg/localmetrics/localmetrics.go\<close>: on classic clusters,
  customers may not delete nodes nor change infra and control plane nodes. This is the one hook
  with an effect: most refusals are counted per user in a Prometheus counter, here the list of
  the users counted so far.
\<close>

section \<open>Model\<close>

definition node_WebhookName :: string where
  [hook_defs]: "node_WebhookName = ''node-validation-osd''"

definition node_adminGroups :: "string list" where
  "node_adminGroups = [''system:serviceaccounts:openshift-backplane-srep'']"

definition node_adminUsers :: "string list" where
  "node_adminUsers = [''backplane-cluster-admin'']"

definition node_rules :: "rule_with_operations list" where
  [hook_defs]: "node_rules =
    [\<lparr>Operations = [Create, Update, Delete], APIGroups = [''''], APIVersions = [''*''],
      Resources = [''nodes'', ''nodes/*''], Scope = AllScopes\<rparr>]"

definition node_Validate :: "admission_request \<Rightarrow> bool" where
  [hook_defs]: "node_Validate req \<longleftrightarrow> username req \<noteq> []"

definition IncrementNodeWebhookBlockedRequest :: "string \<Rightarrow> world \<Rightarrow> world" where
  "IncrementNodeWebhookBlockedRequest user w = w\<lparr>nodeBlocked := nodeBlocked w @ [user]\<rparr>"

definition node_decode :: "object_meta decoder \<Rightarrow> admission_request \<Rightarrow> go_error + object_meta" where
  "node_decode decoder request =
     (if reqOperation request = Delete then DecodeRaw decoder (reqOldObject request)
      else Decode decoder request)"

definition node_denial :: "string \<Rightarrow> string" where
  "node_denial what = ''Prevented from '' @ what @ ''. This is in an effort to prevent harmful actions that may cause unintended consequences or affect the stability of the cluster. If you have any questions about this, please reach out to Red Hat support at https://access.redhat.com/support''"

definition node_authorized ::
  "object_meta decoder \<Rightarrow> admission_request \<Rightarrow> world \<Rightarrow> response go_result \<times> world" where
  "node_authorized decoder request w =
     (if username request = ''system:unauthenticated''
      then (Return (respond request (Denied ''Unauthenticated'')), w)
      else if strings_HasPrefix (username request) ''system:''
      then (Return (respond request (Allowed ''authenticated system: users are allowed'')), w)
      else if strings_HasPrefix (username request) ''kube:''
      then (Return (respond request (Allowed ''kube: users are allowed'')), w)
      else if slices_Contains node_adminUsers (username request)
      then (Return (respond request (Allowed ''Specified admin users are allowed'')), w)
      else if list_ex (slices_Contains node_adminGroups) (groups request)
      then (Return (respond request (Allowed ''Members of admin groups are allowed'')), w)
      else if kind request = ''Node'' then
        (case node_decode decoder request of
           Inl err \<Rightarrow> (Return (new_response (Errored 400 err)), w)
         | Inr node \<Rightarrow>
             (let blocked = IncrementNodeWebhookBlockedRequest (username request) w in
              if reqOperation request = Delete
              then (Return (respond request (Denied (node_denial ''deleting nodes''))), blocked)
              else if metaLabels node ''node-role.kubernetes.io/infra'' \<noteq> None
              then (Return (respond request (Denied (node_denial ''modifying Red Hat managed infra nodes''))), blocked)
              else if metaLabels node ''node-role.kubernetes.io/control-plane'' \<noteq> None
              then (Return (respond request (Denied (node_denial ''modifying Red Hat managed control plane nodes''))), blocked)
              else if metaLabels node ''node-role.kubernetes.io/master'' \<noteq> None
              then (Return (respond request (Denied (node_denial ''modifying Red Hat managed master nodes''))), blocked)
              else (Return (respond request (Allowed ''Allowed to modify worker nodes'')), w)))
      else (Return (respond request (Denied (node_denial ''accessing Red Hat managed resources''))), w))"

definition node_NewWebhook :: "'s scheme_builders \<Rightarrow> 's factory_result" where
  [factory_defs]: "node_NewWebhook api = Made (NewScheme api)"

definition node_Webhook :: "object_meta decoder \<Rightarrow> webhook" where
  [hook_defs]: "node_Webhook decoder =
    \<lparr>Authorized = node_authorized decoder,
     GetURI = ''/node-validation-osd'',
     Validate = node_Validate,
     Name = node_WebhookName,
     FailurePolicy = Ignore,
     MatchPolicy = Equivalent,
     Rules = node_rules,
     ObjectSelector = None,
     SideEffects = SideEffectClassNone,
     TimeoutSeconds = 2,
     Doc = ''Managed OpenShift customers may not alter Node objects.'',
     SyncSetLabelSelector = DefaultLabelSelector,
     ClassicEnabled = True,
     HypershiftEnabled = False\<rparr>"

section \<open>Properties\<close>

interpretation node: authenticated_webhook "node_Webhook d" for d
  by unfold_locales
    (auto simp: hook_defs node_authorized_def IncrementNodeWebhookBlockedRequest_def Let_def
      uri_slug_def suffix_def split: sum.splits if_splits)

text \<open>The users the hook checks, and the requests about nodes it does not let them make.\<close>

definition node_customer :: "admission_request \<Rightarrow> bool" where
  "node_customer req \<longleftrightarrow> \<not> prefix ''system:'' (username req) \<and> \<not> prefix ''kube:'' (username req) \<and>
     username req \<noteq> ''backplane-cluster-admin'' \<and>
     ''system:serviceaccounts:openshift-backplane-srep'' \<notin> set (groups req)"

definition managed_node :: "object_meta \<Rightarrow> bool" where
  "managed_node n \<longleftrightarrow> list_ex (\<lambda>l. metaLabels n l \<noteq> None)
     [''node-role.kubernetes.io/infra'', ''node-role.kubernetes.io/control-plane'', ''node-role.kubernetes.io/master'']"

lemma node_customer_cases:
  "node_customer req \<Longrightarrow> username req \<noteq> ''system:unauthenticated'' \<and>
     \<not> slices_Contains node_adminUsers (username req) \<and> \<not> list_ex (slices_Contains node_adminGroups) (groups req)"
  by (auto simp: node_customer_def node_adminUsers_def node_adminGroups_def list_ex_iff)

lemma node_not_customer:
  assumes "\<not> node_customer req"
  shows "\<exists>resp. node_authorized d req w = (Return resp, w) \<and> \<not> errs (respVerdict resp) \<and>
     (refuses (respVerdict resp) \<longleftrightarrow> username req = ''system:unauthenticated'')"
  using assms by (auto simp: node_authorized_def node_customer_def node_adminUsers_def node_adminGroups_def list_ex_iff)

definition node_blocked :: "object_meta decoder \<Rightarrow> admission_request \<Rightarrow> bool" where
  "node_blocked d req \<longleftrightarrow> node_customer req \<and> kind req = ''Node'' \<and>
     (case node_decode d req of Inl _ \<Rightarrow> False | Inr n \<Rightarrow> reqOperation req = Delete \<or> managed_node n)"

lemma node_customer_decides:
  assumes "node_customer req"
  shows "\<exists>resp. node_authorized d req w =
       (Return resp, if node_blocked d req then IncrementNodeWebhookBlockedRequest (username req) w else w) \<and>
     (errs (respVerdict resp) \<longleftrightarrow> kind req = ''Node'' \<and> (\<exists>err. node_decode d req = Inl err)) \<and>
     (refuses (respVerdict resp) \<longleftrightarrow> node_blocked d req \<or> kind req \<noteq> ''Node'')"
  using assms node_customer_cases [OF assms]
  by (auto simp: node_authorized_def node_blocked_def node_customer_def managed_node_def Let_def split: sum.splits)

text \<open>
  (C10) The node hook answers every request and counts it at most once. A customer is a user who is none
  of: a \<open>system:\<close> user, a \<open>kube:\<close> user, the backplane administrator, a member of the SRE backplane group.
  The counter of the user goes up exactly when a customer is refused because of deleting a node or
  changing an infra, control plane or master node. Refused are exactly those requests, the requests of
  customers about another kind of object than Node, and all requests of \<open>system:unauthenticated\<close>; the
  other users get everything allowed, and so do customers who create or change a node without one of the
  three role labels, although the documentation of the hook says that they may not alter Node objects.
  An error is exactly an object of kind Node that does not decode, sent by a customer.
\<close>

theorem node_guard:
  "\<exists>resp. node_authorized d req w =
       (Return resp, if node_blocked d req then w\<lparr>nodeBlocked := nodeBlocked w @ [username req]\<rparr> else w) \<and>
     (errs (respVerdict resp) \<longleftrightarrow>
        node_customer req \<and> kind req = ''Node'' \<and> (\<exists>err. node_decode d req = Inl err)) \<and>
     (refuses (respVerdict resp) \<longleftrightarrow> username req = ''system:unauthenticated'' \<or>
        node_blocked d req \<or> (node_customer req \<and> kind req \<noteq> ''Node''))"
proof (cases "node_customer req")
  case True
  from node_customer_decides [OF this, of d w] True show ?thesis
    by (auto simp: IncrementNodeWebhookBlockedRequest_def node_customer_def)
next
  case False
  from node_not_customer [OF this, of d w] False show ?thesis by (auto simp: node_blocked_def)
qed

end
