(* ===== verification/Hook_Pod.thy ===== *)
theory Hook_Pod
  imports Webhook_Utils
begin

text \<open>
  \<open>pkg/webhooks/pod/pod.go\<close>: pods of customers may not tolerate the taints of the master and
  infra nodes.
\<close>

section \<open>Model\<close>

definition pod_WebhookName :: string where
  [hook_defs]: "pod_WebhookName = ''pod-validation''"

definition unprivilegedNamespace :: string where
  "unprivilegedNamespace = ''(openshift-logging|openshift-operators)''"

definition pod_rules :: "rule_with_operations list" where
  [hook_defs]: "pod_rules =
    [\<lparr>Operations = [''*''], APIGroups = [''v1''], APIVersions = [''*''], Resources = [''pods''],
      Scope = NamespacedScope\<rparr>]"

text \<open>The fields of \<open>corev1.Pod\<close> the hook reads.\<close>

record toleration =
  tolKey :: string
  tolEffect :: string

record pod =
  podMeta :: object_meta
  Tolerations :: "toleration list"

definition pod_Validate :: "admission_request \<Rightarrow> bool" where
  [hook_defs]: "pod_Validate req \<longleftrightarrow> username req \<noteq> [] \<and> kind req = ''Pod''"

definition renderPod :: "pod decoder \<Rightarrow> admission_request \<Rightarrow> go_error + pod" where
  "renderPod decoder req =
     (if reqOldObject req \<noteq> [] then DecodeRaw decoder (reqOldObject req)
      else DecodeRaw decoder (reqObject req))"

definition isRequestPrivileged :: "string \<Rightarrow> bool go_result" where
  "isRequestPrivileged namespace =
     go_bind (IsPrivilegedNamespace namespace) (\<lambda>privileged.
       Return (privileged \<and> \<not> MatchPattern unprivilegedNamespace namespace))"

text \<open>The loop over the tolerations; \<^const>\<open>None\<close> is falling through it.\<close>

fun forbiddenToleration :: "toleration list \<Rightarrow> string option" where
  "forbiddenToleration [] = None"
| "forbiddenToleration (t # ts) =
     (if tolKey t = ''node-role.kubernetes.io/infra'' \<and> tolEffect t = ''NoSchedule''
      then Some ''Not allowed to schedule a pod with NoSchedule taint on infra node''
      else if tolKey t = ''node-role.kubernetes.io/infra'' \<and> tolEffect t = ''PreferNoSchedule''
      then Some ''Not allowed to schedule a pod with PreferNoSchedule taint on infra node''
      else if tolKey t = ''node-role.kubernetes.io/master'' \<and> tolEffect t = ''NoSchedule''
      then Some ''Not allowed to schedule a pod with NoSchedule taint on master node''
      else if tolKey t = ''node-role.kubernetes.io/master'' \<and> tolEffect t = ''PreferNoSchedule''
      then Some ''Not allowed to schedule a pod with PreferNoSchedule taint on master node''
      else forbiddenToleration ts)"

definition pod_authorized :: "pod decoder \<Rightarrow> admission_request \<Rightarrow> response go_result" where
  "pod_authorized decoder request =
     (case renderPod decoder request of
        Inl err \<Rightarrow> Return (new_response (Errored 400 err))
      | Inr pod \<Rightarrow> go_bind (isRequestPrivileged (metaNamespace (podMeta pod))) (\<lambda>privileged.
          case (if privileged then None else forbiddenToleration (Tolerations pod)) of
            Some msg \<Rightarrow> Return (respond request (Denied msg))
          | None \<Rightarrow> Return (respond request (Allowed ''Allowed to create Pod because of RBAC''))))"

definition pod_NewWebhook :: "'s scheme_builders \<Rightarrow> 's factory_result" where
  [factory_defs]: "pod_NewWebhook api = add_to_scheme api
    [(AdmissionV1, ''Fail adding admissionsv1 scheme to PodWebhook''),
     (CoreV1, ''Fail adding corev1 scheme to PodWebhook'')] (NewScheme api)"

definition pod_Webhook :: "pod decoder \<Rightarrow> webhook" where
  [hook_defs]: "pod_Webhook decoder =
    \<lparr>Authorized = stateless (pod_authorized decoder),
     GetURI = ''/'' @ pod_WebhookName,
     Validate = pod_Validate,
     Name = pod_WebhookName,
     FailurePolicy = Ignore,
     MatchPolicy = Equivalent,
     Rules = pod_rules,
     ObjectSelector = None,
     SideEffects = SideEffectClassNone,
     TimeoutSeconds = 1,
     Doc = ''Managed OpenShift Customers may use tolerations on Pods that could cause those Pods to be scheduled on infra or master nodes.'',
     SyncSetLabelSelector = DefaultLabelSelector,
     ClassicEnabled = True,
     HypershiftEnabled = False\<rparr>"

section \<open>Properties\<close>

lemma unprivilegedNamespace_iff [simp]:
  "MatchPattern unprivilegedNamespace ns \<longleftrightarrow>
     strings_Contains ns ''openshift-logging'' \<or> strings_Contains ns ''openshift-operators''"
  unfolding strings_Contains_starts
  by (simp add: MatchPattern_def unprivilegedNamespace_def go_defs regex_Match_alt)
    (simp add: regex_Match_then starts_then_Cons)

definition platform_toleration :: "toleration \<Rightarrow> bool" where
  "platform_toleration t \<longleftrightarrow>
     tolKey t \<in> {''node-role.kubernetes.io/infra'', ''node-role.kubernetes.io/master''} \<and>
     tolEffect t \<in> {''NoSchedule'', ''PreferNoSchedule''}"

lemma forbiddenToleration_iff: "forbiddenToleration ts \<noteq> None \<longleftrightarrow> list_ex platform_toleration ts"
  by (induction ts) (auto simp: platform_toleration_def)

lemma forbiddenToleration_None: "forbiddenToleration ts = None \<longleftrightarrow> \<not> list_ex platform_toleration ts"
  using forbiddenToleration_iff by blast

lemma forbiddenToleration_Some: "forbiddenToleration ts = Some m \<Longrightarrow> list_ex platform_toleration ts"
  using forbiddenToleration_iff by force

definition pod_namespace_exempt :: "string \<Rightarrow> bool" where
  "pod_namespace_exempt ns \<longleftrightarrow> managed_namespace ns \<and>
     \<not> strings_Contains ns ''openshift-logging'' \<and> \<not> strings_Contains ns ''openshift-operators''"

lemma isRequestPrivileged_eq [simp]: "isRequestPrivileged ns = Return (pod_namespace_exempt ns)"
  by (simp add: isRequestPrivileged_def pod_namespace_exempt_def)

interpretation pod: validating_webhook "pod_Webhook d" for d
  by unfold_locales
    (auto simp: hook_defs pod_authorized_def uri_slug_def suffix_def
      split: sum.splits if_splits option.splits)

text \<open>
  (C36) The pod hook never panics, errs exactly when the pod (the stored one when there is one) does
  not decode, and refuses exactly when one of its tolerations, at any position, names the infra or
  master taint with effect \<open>NoSchedule\<close> or \<open>PreferNoSchedule\<close> and its namespace is not a managed
  one; managed namespaces whose name contains \<open>openshift-logging\<close> or \<open>openshift-operators\<close> count as
  not managed here.
\<close>

theorem pod_guard:
  "\<exists>resp. Authorized (pod_Webhook d) req w = (Return resp, w) \<and>
     (let v = respVerdict resp;
          obj = DecodeRaw d (if reqOldObject req \<noteq> [] then reqOldObject req else reqObject req) in
      (errs v \<longleftrightarrow> (\<exists>err. obj = Inl err)) \<and>
      (refuses v \<longleftrightarrow> (\<exists>p. obj = Inr p \<and> \<not> pod_namespace_exempt (metaNamespace (podMeta p)) \<and>
         list_ex platform_toleration (Tolerations p))))"
  by (auto simp: Let_def pod_Webhook_def pod_authorized_def renderPod_def forbiddenToleration_None
      dest: forbiddenToleration_Some split: sum.splits option.splits)

text \<open>
  \<open>openshift-operators-redhat\<close> is a managed namespace of its own; the pattern, not being anchored,
  takes it for \<open>openshift-operators\<close>.
\<close>

lemma operators_redhat_not_exempt:
  "managed_namespace ''openshift-operators-redhat'' \<and> \<not> pod_namespace_exempt ''openshift-operators-redhat''"
  by (simp add: managed_namespace_def managed_namespace_names_def pod_namespace_exempt_def)

end
