(* ===== verification/K8s_Util.thy ===== *)
theory K8s_Util
  imports Webhook_Utils
begin

text \<open>
  \<open>pkg/k8sutil/k8sutil.go\<close>: how the program finds its configuration. The environment variables and
  the file system are arguments; \<open>clientcmd.BuildConfigFromFlags\<close>, \<open>rest.InClusterConfig\<close> and
  \<open>client.New\<close> are functions of client-go and controller-runtime, and parameters. The configuration
  and the client are of types of those libraries, here type variables.
\<close>

section \<open>Model\<close>

type_synonym environment = "string \<rightharpoonup> string"

definition LocalRunMode :: string where "LocalRunMode = ''local''"
definition OperatorNameEnvVar :: string where "OperatorNameEnvVar = ''OPERATOR_NAME''"
definition ForceRunModeEnv :: string where "ForceRunModeEnv = ''OSDK_FORCE_RUN_MODE''"
definition ErrNoNamespace :: go_error where "ErrNoNamespace = ''namespace not found for current environment''"
definition ErrRunLocal :: go_error where "ErrRunLocal = ''operator run mode forced to local''"

text \<open>\<open>os.Getenv\<close> gives the empty string for a variable that is not set.\<close>

definition os_Getenv :: "environment \<Rightarrow> string \<Rightarrow> string" where
  "os_Getenv env k = map_get env k"

definition buildConfig ::
  "(string \<Rightarrow> go_error + 'cfg) \<Rightarrow> (go_error + 'cfg) \<Rightarrow> string \<Rightarrow> go_error + 'cfg" where
  "buildConfig buildConfigFromFlags inClusterConfig kubeconfig =
     (if kubeconfig \<noteq> [] then buildConfigFromFlags kubeconfig else inClusterConfig)"

definition KubeClient ::
  "(string \<Rightarrow> go_error + 'cfg) \<Rightarrow> (go_error + 'cfg) \<Rightarrow> ('cfg \<Rightarrow> go_error + 'client) \<Rightarrow> environment \<Rightarrow>
     go_error + 'client" where
  "KubeClient buildConfigFromFlags inClusterConfig new env =
     (case buildConfig buildConfigFromFlags inClusterConfig (os_Getenv env ''KUBECONFIG'') of
        Inl err \<Rightarrow> Inl err
      | Inr config \<Rightarrow> new config)"

definition isRunModeLocal :: "environment \<Rightarrow> bool" where
  "isRunModeLocal env \<longleftrightarrow> os_Getenv env ForceRunModeEnv = LocalRunMode"

text \<open>\<open>strings.TrimSpace\<close> on ASCII text, which the name of a namespace is.\<close>

definition is_space :: "char \<Rightarrow> bool" where
  "is_space c \<longleftrightarrow> c \<in> {CHR 0x09, CHR 0x0A, CHR 0x0B, CHR 0x0C, CHR 0x0D, CHR '' ''}"

definition strings_TrimSpace :: "string \<Rightarrow> string" where
  "strings_TrimSpace s = rev (dropWhile is_space (rev (dropWhile is_space s)))"

text \<open>Reading a file: it does not exist, another error, or its bytes.\<close>

datatype read_file = NotExist | ReadError go_error | Contents string

definition GetOperatorNamespace :: "environment \<Rightarrow> (string \<Rightarrow> read_file) \<Rightarrow> go_error + string" where
  "GetOperatorNamespace env readFile =
     (if isRunModeLocal env then Inl ErrRunLocal
      else (case readFile ''/var/run/secrets/kubernetes.io/serviceaccount/namespace'' of
              NotExist \<Rightarrow> Inl ErrNoNamespace
            | ReadError err \<Rightarrow> Inl err
            | Contents nsBytes \<Rightarrow> Inr (strings_TrimSpace nsBytes)))"

definition GetOperatorName :: "environment \<Rightarrow> go_error + string" where
  "GetOperatorName env =
     (case env OperatorNameEnvVar of
        None \<Rightarrow> Inl (OperatorNameEnvVar @ '' must be set'')
      | Some operatorName \<Rightarrow>
          (if length operatorName = 0 then Inl (OperatorNameEnvVar @ '' must not be empty'')
           else Inr operatorName))"

section \<open>Properties\<close>

lemma KubeClient_in_cluster:
  "os_Getenv env ''KUBECONFIG'' = [] \<Longrightarrow>
     KubeClient flags inCluster new env = (case inCluster of Inl err \<Rightarrow> Inl err | Inr c \<Rightarrow> new c)"
  by (simp add: KubeClient_def buildConfig_def)

lemma GetOperatorName_Inr_iff:
  "GetOperatorName env = Inr n \<longleftrightarrow> env ''OPERATOR_NAME'' = Some n \<and> n \<noteq> []"
  by (auto simp: GetOperatorName_def OperatorNameEnvVar_def split: option.splits)

lemma dropWhile_stops: "t \<noteq> [] \<Longrightarrow> \<not> P (hd t) \<Longrightarrow> dropWhile P (t @ u) = t @ u"
  by (cases t) auto

lemma TrimSpace_around:
  assumes "list_all is_space a" and "list_all is_space b" and "t \<noteq> []"
    and "\<not> is_space (hd t)" and "\<not> is_space (last t)"
  shows "strings_TrimSpace (a @ t @ b) = t"
proof -
  have "dropWhile is_space (a @ t @ b) = t @ b"
    using assms dropWhile_stops [of t is_space b] by (simp add: dropWhile_append2 list_all_iff)
  moreover have "dropWhile is_space (rev b @ rev t) = rev t"
    using assms dropWhile_stops [of "rev t" is_space "[]"] dropWhile_append2 [of "rev b" is_space "rev t"]
    by (simp add: list_all_iff hd_rev)
  ultimately show ?thesis by (simp add: strings_TrimSpace_def)
qed

text \<open>The namespace comes out of its file whatever white space surrounds it, outside of local mode.\<close>

lemma GetOperatorNamespace_reads:
  assumes "\<not> isRunModeLocal env"
    and "readFile ''/var/run/secrets/kubernetes.io/serviceaccount/namespace'' = Contents (a @ ns @ b)"
    and "list_all is_space a" and "list_all is_space b" and "ns \<noteq> []"
    and "\<not> is_space (hd ns)" and "\<not> is_space (last ns)"
  shows "GetOperatorNamespace env readFile = Inr ns"
  using assms TrimSpace_around by (simp add: GetOperatorNamespace_def)

end
