(* ===== verification/Hook_Service.thy ===== *)
theory Hook_Service
  imports Webhook_Utils
begin

text \<open>
  \<open>pkg/webhooks/service/service.go\<close>: the first of the two mutating hooks. A service of type
  LoadBalancer gets the tag \<open>red-hat-managed=true\<close> into one of its annotations, by a JSON patch.
  \<^item> A nil and an empty map of annotations are different here, so annotations are an option.
  \<^item> \<open>Response.Complete\<close> is a method of controller-runtime and a parameter: it gives the completed
    response and an error, which this hook ignores. What the code relies on is the comment at its
    call: it sets the UID. That it does not touch the verdict is the second hypothesis.
\<close>

section \<open>Model\<close>

definition service_WebhookName :: string where
  [hook_defs]: "service_WebhookName = ''service-mutation''"

definition annotationKey :: string where
  "annotationKey = ''service.beta.kubernetes.io/aws-load-balancer-additional-resource-tags''"

definition annotationValuePrefix :: string where
  "annotationValuePrefix = ''red-hat-managed=''"

definition annotationValueSuffix :: string where
  "annotationValueSuffix = ''true''"

definition service_rules :: "rule_with_operations list" where
  [hook_defs]: "service_rules =
    [\<lparr>Operations = [Create, Update], APIGroups = [''''], APIVersions = [''v1''],
      Resources = [''services''], Scope = NamespacedScope\<rparr>]"

type_synonym annotations = "(string \<rightharpoonup> string) option"

text \<open>The part of \<open>corev1.Service\<close> the hook reads.\<close>

record service =
  svcName :: string
  svcAnnotations :: annotations
  svcType :: string

text \<open>\<open>Response.Complete\<close>: the completed response and the error it returns.\<close>

type_synonym completion = "admission_request \<Rightarrow> response \<Rightarrow> response \<times> go_error option"

text \<open>A read of a nil map finds nothing.\<close>

definition annotation_map :: "annotations \<Rightarrow> string \<rightharpoonup> string" where
  "annotation_map ann = (case ann of None \<Rightarrow> Map.empty | Some m \<Rightarrow> m)"

definition hasRedHatManagedTag :: "annotations \<Rightarrow> bool" where
  "hasRedHatManagedTag serviceAnnotations \<longleftrightarrow>
     slices_Contains (strings_Split (map_get (annotation_map serviceAnnotations) annotationKey) (CHR '',''))
       (annotationValuePrefix @ annotationValueSuffix)"

text \<open>\<open>strings.NewReplacer("~", "~0", "/", "~1").Replace\<close>\<close>

definition rfc6901Encode :: "string \<Rightarrow> string" where
  "rfc6901Encode s = concat (map (\<lambda>c. if c = CHR ''~'' then ''~0'' else if c = CHR ''/'' then ''~1'' else [c]) s)"

definition buildPatch :: "annotations \<Rightarrow> json_patch_operation" where
  "buildPatch serviceAnnotations =
     (let patchPath = ''/metadata/annotations'' @
            (if serviceAnnotations \<noteq> None then ''/'' @ rfc6901Encode annotationKey else []);
          required = annotationValuePrefix @ annotationValueSuffix
      in case annotation_map serviceAnnotations annotationKey of
           None \<Rightarrow>
             (if serviceAnnotations = None
              then \<lparr>patchOp = ''add'', patchPath = patchPath, patchValue = PVMap [(annotationKey, required)]\<rparr>
              else \<lparr>patchOp = ''add'', patchPath = patchPath, patchValue = PVString required\<rparr>)
         | Some existingAnnotationValue \<Rightarrow>
             (let existingTags = strings_Split existingAnnotationValue (CHR '','');
                  newTags = required # filter (\<lambda>exTag. \<not> strings_HasPrefix exTag annotationValuePrefix) existingTags
              in \<lparr>patchOp = ''replace'', patchPath = patchPath, patchValue = PVString (strings_Join newTags '','')\<rparr>))"

definition renderService :: "service decoder \<Rightarrow> admission_request \<Rightarrow> go_error + service" where
  "renderService decoder req = Decode decoder req"

definition service_authorizeOrMutate ::
  "completion \<Rightarrow> service decoder \<Rightarrow> admission_request \<Rightarrow> response" where
  "service_authorizeOrMutate complete decoder request =
     (case renderService decoder request of
        Inl err \<Rightarrow> new_response (Errored 400 err)
      | Inr service \<Rightarrow>
          (if svcType service \<noteq> ''LoadBalancer''
           then respond request (Allowed ''Non-LoadBalancer Services are exempt from compliance annotation requirements'')
           else if hasRedHatManagedTag (svcAnnotations service)
           then respond request (Allowed (''Service '' @ [quote] @ svcName service @ [quote] @
             '' contains the proper compliance annotation''))
           else fst (complete request (new_response (Patched
             (''Added necessary compliance annotation to service '' @ [quote] @ svcName service @ [quote])
             [buildPatch (svcAnnotations service)])))))"

definition service_Validate :: "admission_request \<Rightarrow> bool" where
  [hook_defs]: "service_Validate request \<longleftrightarrow> username request \<noteq> [] \<and> kind request = ''Service''"

definition service_NewWebhook :: "'s scheme_builders \<Rightarrow> 's factory_result" where
  [factory_defs]: "service_NewWebhook api = Made (NewScheme api)"

definition service_Webhook :: "completion \<Rightarrow> service decoder \<Rightarrow> webhook" where
  [hook_defs]: "service_Webhook complete decoder =
    \<lparr>Authorized = stateless (\<lambda>request. Return (service_authorizeOrMutate complete decoder request)),
     GetURI = ''/'' @ service_WebhookName,
     Validate = service_Validate,
     Name = service_WebhookName,
     FailurePolicy = Ignore,
     MatchPolicy = Equivalent,
     Rules = service_rules,
     ObjectSelector = None,
     SideEffects = SideEffectClassNone,
     TimeoutSeconds = 2,
     Doc = ''LoadBalancer-type services on Managed OpenShift clusters must contain an additional annotation for managed policy compliance.'',
     SyncSetLabelSelector = DefaultLabelSelector,
     ClassicEnabled = False,
     HypershiftEnabled = True\<rparr>"

section \<open>Properties\<close>

interpretation service: webhook_meta "service_Webhook complete d" for complete d
  by unfold_locales (auto simp: hook_defs uri_slug_def)

subsection \<open>The path of the patch\<close>

text \<open>RFC 6901, section 4: a reference token is read by first turning \<open>~1\<close> into \<open>/\<close>, then \<open>~0\<close> into \<open>~\<close>.\<close>

fun rfc6901Decode :: "string \<Rightarrow> string" where
  "rfc6901Decode [] = []"
| "rfc6901Decode [c] = [c]"
| "rfc6901Decode (c # d # s) =
     (if c = CHR ''~'' \<and> d = CHR ''1'' then CHR ''/'' # rfc6901Decode s
      else if c = CHR ''~'' \<and> d = CHR ''0'' then CHR ''~'' # rfc6901Decode s
      else c # rfc6901Decode (d # s))"

lemma rfc6901Decode_Cons: "c \<noteq> CHR ''~'' \<Longrightarrow> rfc6901Decode (c # s) = c # rfc6901Decode s"
  by (cases s) auto

lemma rfc6901_roundtrip: "rfc6901Decode (rfc6901Encode s) = s"
  by (induction s) (auto simp: rfc6901Encode_def rfc6901Decode_Cons)

lemma rfc6901Encode_no_slash: "CHR ''/'' \<notin> set (rfc6901Encode s)"
  by (induction s) (auto simp: rfc6901Encode_def)

subsection \<open>What the patch does\<close>

text \<open>
  The effect of a patch on the annotations of an object, after RFC 6902: \<open>add\<close> at the map itself
  sets it; \<open>add\<close> at a member needs the map to be there; \<open>replace\<close> needs the member to be there. No
  result is a patch that does not apply.
\<close>

definition apply_annotation_patch :: "json_patch_operation \<Rightarrow> annotations \<Rightarrow> annotations option" where
  "apply_annotation_patch p ann =
     (case strings_Split (patchPath p) (CHR ''/'') of
        [[], md, anns] \<Rightarrow>
          (case patchValue p of
             PVMap kvs \<Rightarrow> if md = ''metadata'' \<and> anns = ''annotations'' \<and> patchOp p = ''add''
               then Some (Some (map_of kvs)) else None
           | PVString _ \<Rightarrow> None)
      | [[], md, anns, token] \<Rightarrow>
          (case (ann, patchValue p) of
             (Some m, PVString v) \<Rightarrow>
               (if md = ''metadata'' \<and> anns = ''annotations'' \<and>
                   (patchOp p = ''add'' \<or> patchOp p = ''replace'' \<and> m (rfc6901Decode token) \<noteq> None)
                then Some (Some (m(rfc6901Decode token \<mapsto> v))) else None)
           | _ \<Rightarrow> None)
      | _ \<Rightarrow> None)"

definition tags :: "annotations \<Rightarrow> string list" where
  "tags ann = (case annotation_map ann annotationKey of None \<Rightarrow> [] | Some v \<Rightarrow> strings_Split v (CHR '',''))"

lemma required_tag: "annotationValuePrefix @ annotationValueSuffix = ''red-hat-managed=true''"
  by (simp add: annotationValuePrefix_def annotationValueSuffix_def)

lemma hasRedHatManagedTag_iff: "hasRedHatManagedTag ann \<longleftrightarrow> ''red-hat-managed=true'' \<in> set (tags ann)"
  unfolding hasRedHatManagedTag_def required_tag
  by (auto simp: tags_def map_get_def split: option.splits)

lemma patch_path_split:
  "strings_Split (''/metadata/annotations/'' @ rfc6901Encode k) (CHR ''/'') =
     [[], ''metadata'', ''annotations'', rfc6901Encode k]"
  using strings_Split_plain [OF rfc6901Encode_no_slash [of k]] by simp

lemma new_tags_split:
  "strings_Split (strings_Join (''red-hat-managed=true'' # filter P (strings_Split v (CHR '',''))) '','') (CHR '','') =
     ''red-hat-managed=true'' # filter P (strings_Split v (CHR '',''))"
  by (rule strings_Split_Join) (auto dest: strings_Split_no_sep)

text \<open>
  (C4) The patch the service hook builds applies to the annotations it was built from, whatever they
  are (missing, without the annotation, or with any list of tags). Afterwards the first tag is
  \<open>red-hat-managed=true\<close>, it is the only one for that name, the other tags are kept in their order,
  every other annotation is unchanged, and the hook would let the result pass without a patch.
\<close>

theorem service_patch_complies:
  "\<exists>m. apply_annotation_patch (buildPatch ann) ann = Some (Some m) \<and>
     hasRedHatManagedTag (Some m) \<and>
     tags (Some m) = ''red-hat-managed=true'' # filter (\<lambda>t. \<not> prefix ''red-hat-managed='' t) (tags ann) \<and>
     m(annotationKey := None) = (annotation_map ann)(annotationKey := None)"
proof (cases ann)
  case None
  have "strings_Split ''/metadata/annotations'' (CHR ''/'') = [[], ''metadata'', ''annotations'']" by simp
  with None show ?thesis
    by (simp add: apply_annotation_patch_def buildPatch_def annotation_map_def hasRedHatManagedTag_iff
        required_tag tags_def)
next
  case (Some m)
  show ?thesis
  proof (cases "m annotationKey")
    case None
    with Some show ?thesis
      using patch_path_split [of annotationKey]
      by (simp add: apply_annotation_patch_def buildPatch_def annotation_map_def
          hasRedHatManagedTag_iff required_tag tags_def rfc6901_roundtrip)
  next
    case (Some v)
    with \<open>ann = Some m\<close> show ?thesis
      using patch_path_split [of annotationKey] new_tags_split
      by (simp add: apply_annotation_patch_def buildPatch_def annotation_map_def Let_def
          hasRedHatManagedTag_iff annotationValuePrefix_def annotationValueSuffix_def tags_def rfc6901_roundtrip)
  qed
qed

text \<open>
  (C34) The service hook never refuses. It errs exactly when the service does not decode, answers with
  the patch of \<open>buildPatch\<close> exactly when it is a LoadBalancer service without the tag, and allows it
  unchanged otherwise; every answer but an error has the UID of the request. This is when \<open>Complete\<close> does
  what the library documents: it gives the response the UID of the request, on which the last
  clause rests, and it keeps the verdict with its patches, on which all of the others do.
\<close>

theorem service_decision:
  assumes complete_sets_uid: "\<And>req r. respUID (fst (complete req r)) = reqUID req"
    and complete_keeps_verdict: "\<And>req r. respVerdict (fst (complete req r)) = respVerdict r"
  shows "let resp = service_authorizeOrMutate complete d req; v = respVerdict resp in
     \<not> refuses v \<and> (errs v \<longleftrightarrow> (\<exists>err. Decode d req = Inl err)) \<and>
     ((\<exists>msg ps. v = Patched msg ps) \<longleftrightarrow>
        (\<exists>s. Decode d req = Inr s \<and> svcType s = ''LoadBalancer'' \<and> \<not> hasRedHatManagedTag (svcAnnotations s))) \<and>
     (\<forall>msg ps s. v = Patched msg ps \<longrightarrow> Decode d req = Inr s \<longrightarrow> ps = [buildPatch (svcAnnotations s)]) \<and>
     respUID resp = (if errs v then [] else reqUID req)"
  by (auto simp: Let_def service_authorizeOrMutate_def renderService_def assms split: sum.splits)

definition plain_service :: service where
  "plain_service = \<lparr>svcName = ''web'', svcAnnotations = None, svcType = ''LoadBalancer''\<rparr>"

theorem service_decision_witness:
  "\<exists>msg. respVerdict (service_authorizeOrMutate (\<lambda>req r. (r\<lparr>respUID := reqUID req\<rparr>, None))
      \<lparr>Decode = (\<lambda>_. Inr plain_service), DecodeRaw = (\<lambda>_. Inr plain_service)\<rparr> zero_request) =
    Patched msg [buildPatch None]"
  using service_decision [of "\<lambda>req r. (r\<lparr>respUID := reqUID req\<rparr>, None)"
      "\<lparr>Decode = (\<lambda>_. Inr plain_service), DecodeRaw = (\<lambda>_. Inr plain_service)\<rparr>" zero_request]
  by (auto simp: Let_def plain_service_def hasRedHatManagedTag_def annotation_map_def map_get_def
      annotationValuePrefix_def)

end
