(* ===== verification/Hook_PodImageSpec.thy ===== *)
theory Hook_PodImageSpec
  imports K8s_Util Hook_Service
begin

text \<open>
  \<open>pkg/webhooks/podimagespec/podimagespec.go\<close>: the second mutating hook. When the internal image
  registry is removed, the images of a pod that name the registry are replaced by what their image
  stream tags point to.
  \<^item> The Kubernetes API is a parameter (\<open>kube_api\<close>): the result of \<open>k8sutil.KubeClient\<close>, and what
    the client's \<open>Get\<close> answers for the two kinds of objects read here. \<open>json.Marshal\<close> of the
    changed pod and \<open>Response.Complete\<close> are parameters too.
  \<^item> The hook keeps the client it made: the flag \<open>kubeClientSet\<close> of the world.
  \<^item> Of a pod the model keeps the images of its containers and init containers; the rest of it is
    passed through.
\<close>

section \<open>Model\<close>

definition podimagespec_WebhookName :: string where
  [hook_defs]: "podimagespec_WebhookName = ''podimagespec-mutation''"

definition podimagespec_rules :: "rule_with_operations list" where
  [hook_defs]: "podimagespec_rules =
    [\<lparr>Operations = [Create], APIGroups = [''''], APIVersions = [''v1''], Resources = [''pods''],
      Scope = NamespacedScope\<rparr>]"

definition imageRegex :: string where
  "imageRegex =
     ''^(image-registry'' @ [bslash] @ ''.openshift-image-registry'' @ [bslash] @ ''.svc:5000'' @ [bslash] @
     ''/)(?P<namespace>'' @ [bslash] @ ''S*)(/)(?P<image>'' @ [bslash] @ ''w*)(:)(?P<tag>'' @ [bslash] @ ''S*)''"

record image_pod =
  Containers :: "string list" \<comment> \<open>images\<close>
  InitContainers :: "string list" \<comment> \<open>images\<close>
  podOther :: string

text \<open>\<open>ImageStreamTag.Tag.From.Name\<close>, with its two pointers.\<close>

record tag_reference =
  tagFrom :: "string option"

record image_stream_tag =
  istTag :: "tag_reference option"

record kube_api =
  kubeConnect :: "go_error option" \<comment> \<open>the error of \<open>k8sutil.KubeClient\<close>\<close>
  kubeRegistryState :: "go_error + string" \<comment> \<open>\<open>Spec.ManagementState\<close> of the registry's Config\<close>
  kubeImageStreamTag :: "string \<Rightarrow> string \<Rightarrow> go_error + image_stream_tag" \<comment> \<open>namespace, name\<close>

definition podimagespec_renderPod :: "image_pod decoder \<Rightarrow> admission_request \<Rightarrow> go_error + image_pod" where
  "podimagespec_renderPod decoder request = Decode decoder request"

definition checkContainerImageSpecByRegex :: "string \<Rightarrow> bool \<times> string \<times> string \<times> string" where
  "checkContainerImageSpecByRegex imagespec =
     (case SubmatchPattern imageRegex imagespec of
        None \<Rightarrow> (False, [], [], [])
      | Some matches \<Rightarrow>
          (True, submatch matches (SubexpIndex imageRegex ''namespace''),
           submatch matches (SubexpIndex imageRegex ''image''),
           submatch matches (SubexpIndex imageRegex ''tag'')))"

definition podContainsContainerRegexMatch :: "image_pod \<Rightarrow> bool" where
  "podContainsContainerRegexMatch pod =
     (let openshift = (\<lambda>img. case checkContainerImageSpecByRegex img of
            (containerMatch, namespace, _, _) \<Rightarrow> containerMatch \<and> namespace = ''openshift'')
      in list_ex openshift (Containers pod) \<or> list_ex openshift (InitContainers pod))"

definition lookupImageStreamTagSpec :: "kube_api \<Rightarrow> string \<Rightarrow> (go_error + string) go_result" where
  "lookupImageStreamTagSpec kube imagespec =
     (case checkContainerImageSpecByRegex imagespec of
        (matched, namespace, img, tag) \<Rightarrow>
          (if \<not> matched then Return (Inr imagespec)
           else (case kubeImageStreamTag kube namespace (img @ '':'' @ tag) of
                   Inl err \<Rightarrow> Return (Inl (''failed to get image spec: '' @ err))
                 | Inr imageStreamTag \<Rightarrow>
                     (case istTag imageStreamTag of
                        None \<Rightarrow> nil_deref
                      | Some t \<Rightarrow> (case tagFrom t of None \<Rightarrow> nil_deref | Some name \<Rightarrow> Return (Inr name))))))"

text \<open>One of the two loops of \<open>mutatePod\<close>: the images in order, up to the first error.\<close>

fun lookupImages :: "kube_api \<Rightarrow> string list \<Rightarrow> (go_error + string list) go_result" where
  "lookupImages kube [] = Return (Inr [])"
| "lookupImages kube (img # imgs) =
     go_bind (lookupImageStreamTagSpec kube img) (\<lambda>r. case r of
         Inl err \<Rightarrow> Return (Inl err)
       | Inr imageURI \<Rightarrow> go_bind (lookupImages kube imgs) (\<lambda>r. case r of
             Inl err \<Rightarrow> Return (Inl err)
           | Inr imageURIs \<Rightarrow> Return (Inr (imageURI # imageURIs))))"

definition mutatePod ::
  "kube_api \<Rightarrow> (image_pod \<Rightarrow> go_error + raw_extension) \<Rightarrow> image_pod \<Rightarrow> (go_error + raw_extension) go_result" where
  "mutatePod kube marshal pod =
     go_bind (lookupImages kube (Containers pod)) (\<lambda>r. case r of
         Inl err \<Rightarrow> Return (Inl err)
       | Inr containers \<Rightarrow> go_bind (lookupImages kube (InitContainers pod)) (\<lambda>r. case r of
             Inl err \<Rightarrow> Return (Inl err)
           | Inr initContainers \<Rightarrow>
               Return (marshal (pod\<lparr>Containers := containers, InitContainers := initContainers\<rparr>))))"

definition checkImageRegistryStatus :: "kube_api \<Rightarrow> go_error + bool" where
  "checkImageRegistryStatus kube =
     (case kubeRegistryState kube of
        Inl err \<Rightarrow> Inl (''failed to get image registry config: '' @ err)
      | Inr managementState \<Rightarrow> Inr (managementState = ''Managed''))"

definition podimagespec_handle ::
  "kube_api \<Rightarrow> (image_pod \<Rightarrow> go_error + raw_extension) \<Rightarrow> image_pod decoder \<Rightarrow> admission_request \<Rightarrow>
     response go_result" where
  "podimagespec_handle kube marshal decoder request =
     (case podimagespec_renderPod decoder request of
        Inl err \<Rightarrow> Return (respond request (Errored 400 err))
      | Inr pod \<Rightarrow>
          (if \<not> podContainsContainerRegexMatch pod
           then Return (respond request (Allowed ''Pod image spec is valid''))
           else (case checkImageRegistryStatus kube of
                   Inl err \<Rightarrow> Return (respond request (Errored 500 err))
                 | Inr registryAvailable \<Rightarrow>
                     (if registryAvailable
                      then Return (respond request (Allowed ''Image registry is available, no mutation required''))
                      else go_bind (mutatePod kube marshal pod) (\<lambda>r. case r of
                          Inl err \<Rightarrow> Return (respond request (Errored 500 err))
                        | Inr mutatedPod \<Rightarrow>
                            Return (respond request (PatchResponseFromRaw (reqObject request) mutatedPod)))))))"

definition podimagespec_authorized ::
  "kube_api \<Rightarrow> (image_pod \<Rightarrow> go_error + raw_extension) \<Rightarrow> image_pod decoder \<Rightarrow> admission_request \<Rightarrow> world \<Rightarrow>
     response go_result \<times> world" where
  "podimagespec_authorized kube marshal decoder request w =
     (if kubeClientSet w then (podimagespec_handle kube marshal decoder request, w)
      else (case kubeConnect kube of
              Some err \<Rightarrow> (Return (respond request (Errored 400 err)), w)
            | None \<Rightarrow> (podimagespec_handle kube marshal decoder request, w\<lparr>kubeClientSet := True\<rparr>)))"

definition podimagespec_Authorized ::
  "completion \<Rightarrow> kube_api \<Rightarrow> (image_pod \<Rightarrow> go_error + raw_extension) \<Rightarrow> image_pod decoder \<Rightarrow>
     admission_request \<Rightarrow> world \<Rightarrow> response go_result \<times> world" where
  "podimagespec_Authorized complete kube marshal decoder request w =
     (case podimagespec_authorized kube marshal decoder request w of
        (r, w') \<Rightarrow> (go_bind r (\<lambda>ret. case complete request ret of
            (completed, None) \<Rightarrow> Return completed
          | (_, Some err) \<Rightarrow> Return (respond request (Errored 500 err))), w'))"

definition podimagespec_Validate :: "admission_request \<Rightarrow> bool" where
  [hook_defs]: "podimagespec_Validate request \<longleftrightarrow> username request \<noteq> [] \<and> kind request = ''Pod''"

definition podimagespec_NewWebhook :: "'s scheme_builders \<Rightarrow> 's factory_result" where
  [factory_defs]: "podimagespec_NewWebhook api = add_to_scheme api
    [(AdmissionV1, ''Fail adding admissionv1 scheme to PodImageSpecWebhook''),
     (AdmissionregV1, ''Fail adding admissionregv1 scheme to PodImageSpecWebhook''),
     (CoreV1, ''Fail adding corev1 scheme to PodImageSpecWebhook''),
     (ImagestreamV1, ''Fail adding imagestreamv1 scheme to PodImageSpecWebhook''),
     (RegistryV1, ''Fail adding registryv1 scheme to PodImageSpecWebhook'')] (NewScheme api)"

definition podimagespec_Webhook ::
  "completion \<Rightarrow> kube_api \<Rightarrow> (image_pod \<Rightarrow> go_error + raw_extension) \<Rightarrow> image_pod decoder \<Rightarrow> webhook" where
  [hook_defs]: "podimagespec_Webhook complete kube marshal decoder =
    \<lparr>Authorized = podimagespec_Authorized complete kube marshal decoder,
     GetURI = ''/'' @ podimagespec_WebhookName,
     Validate = podimagespec_Validate,
     Name = podimagespec_WebhookName,
     FailurePolicy = Ignore,
     MatchPolicy = Equivalent,
     Rules = podimagespec_rules,
     ObjectSelector = None,
     SideEffects = SideEffectClassNone,
     TimeoutSeconds = 2,
     Doc = ''OpenShift debugging tools on Managed OpenShift clusters must be available even if internal image registry is removed.'',
     SyncSetLabelSelector = DefaultLabelSelector,
     ClassicEnabled = False,
     HypershiftEnabled = True\<rparr>"

section \<open>Properties\<close>

interpretation podimagespec: webhook_meta "podimagespec_Webhook complete kube marshal d"
  for complete kube marshal d
  by unfold_locales (auto simp: hook_defs uri_slug_def)

subsection \<open>Reading an image reference\<close>

definition registry_host :: string where
  "registry_host = ''image-registry.openshift-image-registry.svc:5000/''"

abbreviation nonspace_cls :: regex where
  "nonspace_cls \<equiv> RCls True [(CHR 0x09, newline), (CHR 0x0C, CHR 0x0D), (CHR '' '', CHR '' '')]"

abbreviation word_cls :: regex where
  "word_cls \<equiv> RCls False [(CHR ''0'', CHR ''9''), (CHR ''A'', CHR ''Z''), (CHR ''_'', CHR ''_''), (CHR ''a'', CHR ''z'')]"

definition image_rest :: regex where
  "image_rest = RCat (RGroup 3 (RChr (CHR ''/''))) (RCat (RGroup 4 (RStar word_cls))
     (RCat (RGroup 5 (RChr (CHR '':''))) (RGroup 6 (RStar nonspace_cls))))"

lemma compile_imageRegex:
  "regexp_compile imageRegex = Some \<lparr>prog = RCat RBol (RCat (RGroup 1 (cat_list (map RChr registry_host)))
     (RCat (RGroup 2 (RStar nonspace_cls)) image_rest)),
   subexps = [(''namespace'', 2), (''image'', 4), (''tag'', 6)]\<rparr>"
  by (simp add: imageRegex_def image_rest_def registry_host_def go_defs eval_nat_numeral)

definition nonspace :: "char \<Rightarrow> bool" where
  "nonspace c \<longleftrightarrow> cls_mem True [(CHR 0x09, newline), (CHR 0x0C, CHR 0x0D), (CHR '' '', CHR '' '')] c"

definition word_char :: "char \<Rightarrow> bool" where
  "word_char c \<longleftrightarrow> cls_mem False [(CHR ''0'', CHR ''9''), (CHR ''A'', CHR ''Z''), (CHR ''_'', CHR ''_''), (CHR ''a'', CHR ''z'')] c"

lemma word_char_nonspace: "word_char c \<Longrightarrow> nonspace c"
  by (auto simp: word_char_def nonspace_def cls_mem_def)

lemma word_char_separators: "\<not> word_char (CHR '':'')" "\<not> word_char (CHR ''/'')" "nonspace (CHR '':'')" "nonspace (CHR ''/'')"
  by (simp_all add: word_char_def nonspace_def cls_mem_def)

lemma image_rest_no_slash:
  "case s of [] \<Rightarrow> True | c # _ \<Rightarrow> c \<noteq> CHR ''/'' \<Longrightarrow> runs image_rest (b, s, cs) = []"
  by (cases s) (simp_all add: image_rest_def)

lemma image_rest_match:
  assumes "\<forall>c\<in>set img. word_char c" and "\<forall>c\<in>set tag. nonspace c"
  shows "\<exists>sts. runs image_rest (b, CHR ''/'' # img @ CHR '':'' # tag, cs) =
     (False, [], (6, tag) # (5, '':'') # (4, img) # (3, ''/'') # cs) # sts"
proof -
  have "\<exists>sts. runs (RStar word_cls) (False, img @ CHR '':'' # tag, (3, ''/'') # cs) =
      (False, CHR '':'' # tag, (3, ''/'') # cs) # sts"
    unfolding runs.simps(9) fst_conv snd_conv
    using star_runs_cls_greedy [of img False _ "CHR '':'' # tag" "length (img @ CHR '':'' # tag)" False]
      assms word_char_separators by (simp add: word_char_def del: runs.simps star_runs.simps)
  then obtain w where w: "runs (RStar word_cls) (False, img @ CHR '':'' # tag, (3, ''/'') # cs) =
      (False, CHR '':'' # tag, (3, ''/'') # cs) # w" ..
  have "\<exists>sts. runs (RStar nonspace_cls) (False, tag, cs') = (False, [], cs') # sts" for cs'
    unfolding runs.simps(9) fst_conv snd_conv
    using star_runs_cls_greedy [of tag True _ "[]" "length tag" False cs'] assms
    by (simp add: nonspace_def del: runs.simps star_runs.simps)
  then obtain t where t: "runs (RStar nonspace_cls) (False, tag, cs') = (False, [], cs') # t cs'" for cs'
    by metis
  show ?thesis
    using w t by (simp add: image_rest_def del: runs.simps(9))
qed

lemma SubexpIndex_image:
  "SubexpIndex imageRegex ''namespace'' = 2" "SubexpIndex imageRegex ''image'' = 4" "SubexpIndex imageRegex ''tag'' = 6"
  by (simp_all add: SubexpIndex_def compile_imageRegex)

lemma image_suffix_no_slash:
  assumes "strict_suffix s (CHR ''/'' # img @ CHR '':'' # tag)"
    and "\<forall>c\<in>set img. word_char c" and "CHR ''/'' \<notin> set tag"
  shows "case s of [] \<Rightarrow> True | c # _ \<Rightarrow> c \<noteq> CHR ''/''"
proof -
  from assms(1) have "suffix s (img @ CHR '':'' # tag)"
    by (auto simp: strict_suffix_def suffix_Cons)
  then have "set s \<subseteq> set (img @ CHR '':'' # tag)" by (rule set_mono_suffix)
  with assms(2,3) word_char_separators(2) show ?thesis by (cases s) auto
qed

lemma image_runs:
  assumes "\<forall>c\<in>set ns. nonspace c" and "\<forall>c\<in>set img. word_char c" and "\<forall>c\<in>set tag. nonspace c"
    and "CHR ''/'' \<notin> set tag"
  shows "\<exists>sts. runs (RCat (RGroup 2 (RStar nonspace_cls)) image_rest) (False, ns @ CHR ''/'' # img @ CHR '':'' # tag, cs) =
     (False, [], (6, tag) # (5, '':'') # (4, img) # (3, ''/'') # (2, ns) # cs) # sts"
proof -
  let ?b = "CHR ''/'' # img @ CHR '':'' # tag"
  let ?cap = "\<lambda>(b', s', cs'). (b', s', (2 :: nat, take (length (ns @ ?b) - length s') (ns @ ?b)) # cs')"
  have all: "\<forall>c\<in>set (ns @ ?b). cls_mem True [(CHR 0x09, newline), (CHR 0x0C, CHR 0x0D), (CHR '' '', CHR '' '')] c"
    using assms word_char_nonspace word_char_separators by (auto simp: nonspace_def)
  obtain xs ys where decomp: "runs (RStar nonspace_cls) (False, ns @ ?b, cs) = xs @ (False, ?b, cs) # ys"
    and xs: "\<forall>st\<in>set xs. \<exists>q b'. st = (q, b', cs) \<and> strict_suffix b' ?b"
    using star_runs_cls_split [OF all order_refl, of False cs] unfolding runs.simps(9) fst_conv snd_conv by auto
  have "runs image_rest (?cap st) = []" if "st \<in> set xs" for st
  proof -
    from xs that obtain q b' where "st = (q, b', cs)" "strict_suffix b' ?b" by blast
    then show ?thesis using image_rest_no_slash [OF image_suffix_no_slash [OF _ assms(2,4)]] by simp
  qed
  then have none: "concat (map (runs image_rest) (map ?cap xs)) = []" by simp
  have mid: "?cap (False, ?b, cs) = (False, ?b, (2, ns) # cs)" by simp
  obtain zs where match: "runs image_rest (False, ?b, (2, ns) # cs) =
      (False, [], (6, tag) # (5, '':'') # (4, img) # (3, ''/'') # (2, ns) # cs) # zs"
    using image_rest_match [OF assms(2,3), of False "(2, ns) # cs"] by blast
  have "runs (RCat (RGroup 2 (RStar nonspace_cls)) image_rest) (False, ns @ ?b, cs) =
      concat (map (runs image_rest) (map ?cap (runs (RStar nonspace_cls) (False, ns @ ?b, cs))))"
    by (simp only: runs.simps(6,10) prod.case)
  also have "\<dots> = concat (map (runs image_rest) (map ?cap xs)) @ runs image_rest (?cap (False, ?b, cs)) @
      concat (map (runs image_rest) (map ?cap ys))"
    unfolding decomp by (simp only: map_append concat_append list.map concat.simps append_assoc)
  finally show ?thesis unfolding none mid match by simp
qed

lemma image_submatch:
  assumes "\<forall>c\<in>set ns. nonspace c" and "\<forall>c\<in>set img. word_char c" and "\<forall>c\<in>set tag. nonspace c"
    and "CHR ''/'' \<notin> set tag"
  shows "SubmatchPattern imageRegex (registry_host @ ns @ ''/'' @ img @ '':'' @ tag) =
    Some [(0, registry_host @ ns @ ''/'' @ img @ '':'' @ tag), (6, tag), (5, '':''), (4, img), (3, ''/''), (2, ns), (1, registry_host)]"
proof -
  obtain sts where "runs (RCat (RGroup 2 (RStar nonspace_cls)) image_rest)
      (False, ns @ CHR ''/'' # img @ CHR '':'' # tag, [(1, registry_host)]) =
     (False, [], (6, tag) # (5, '':'') # (4, img) # (3, ''/'') # (2, ns) # [(1, registry_host)]) # sts"
    using image_runs [OF assms, of "[(1, registry_host)]"] by blast
  moreover have "registry_host \<noteq> []" by (simp add: registry_host_def)
  ultimately show ?thesis
    using runs_literal [of registry_host True "ns @ CHR ''/'' # img @ CHR '':'' # tag" "[]"]
    by (simp add: SubmatchPattern_def compile_imageRegex find_from.simps del: runs.simps(9))
qed

text \<open>
  (C7) Reading an image reference of the internal registry gives back its parts: for a namespace
  without white space, an image name of letters, digits and underscores and a tag without white space
  and slash, the pattern matches \<open>registry/namespace/image:tag\<close> and captures exactly the three
  parts; the namespace may itself contain slashes and colons.
\<close>

theorem image_spec_roundtrip:
  assumes "\<forall>c\<in>set ns. nonspace c" and "\<forall>c\<in>set img. word_char c" and "\<forall>c\<in>set tag. nonspace c"
    and "CHR ''/'' \<notin> set tag"
  shows "checkContainerImageSpecByRegex (registry_host @ ns @ ''/'' @ img @ '':'' @ tag) = (True, ns, img, tag)"
  by (simp only: checkContainerImageSpecByRegex_def image_submatch [OF assms])
    (simp add: SubexpIndex_image submatch_def)

theorem image_spec_roundtrip_witness:
  "checkContainerImageSpecByRegex ''image-registry.openshift-image-registry.svc:5000/openshift/tools:latest'' =
     (True, ''openshift'', ''tools'', ''latest'')"
  using image_spec_roundtrip [of "''openshift''" "''tools''" "''latest''"]
  by (simp add: registry_host_def nonspace_def word_char_def cls_mem_def)

subsection \<open>Rewriting a pod\<close>

lemma lookupImages_Inr:
  "lookupImages kube imgs = Return (Inr uris) \<longleftrightarrow>
     list_all2 (\<lambda>i u. lookupImageStreamTagSpec kube i = Return (Inr u)) imgs uris"
proof (induction imgs arbitrary: uris)
  case Nil
  then show ?case by auto
next
  case (Cons i imgs)
  show ?case
  proof (cases "lookupImageStreamTagSpec kube i" rule: go_sum_cases)
    case (gave u)
    then show ?thesis
    proof (cases "lookupImages kube imgs" rule: go_sum_cases)
      case inner: (gave us)
      with gave Cons.IH [of us] show ?thesis
        by (cases uris) (auto simp: Cons.IH [symmetric])
    qed (auto simp: list_all2_Cons1 Cons.IH [symmetric])
  qed (auto simp: list_all2_Cons1)
qed

text \<open>
  (C33) Rewriting a pod succeeds, with some bytes, exactly when every image of it, in the containers and the
  init containers, is looked up with success and the rewritten pod is encoded, without an error, as
  these bytes. In the rewritten pod every container has, at its place, the image its own lookup gives,
  and nothing else is changed.
\<close>

theorem mutatePod_images:
  "mutatePod kube marshal pod = Return (Inr raw) \<longleftrightarrow>
     (\<exists>cs ics. list_all2 (\<lambda>i u. lookupImageStreamTagSpec kube i = Return (Inr u)) (Containers pod) cs \<and>
        list_all2 (\<lambda>i u. lookupImageStreamTagSpec kube i = Return (Inr u)) (InitContainers pod) ics \<and>
        marshal (pod\<lparr>Containers := cs, InitContainers := ics\<rparr>) = Inr raw)"
  unfolding lookupImages_Inr [symmetric]
proof (cases "lookupImages kube (Containers pod)" rule: go_sum_cases)
  case (gave cs)
  then show "mutatePod kube marshal pod = Return (Inr raw) \<longleftrightarrow>
      (\<exists>cs ics. lookupImages kube (Containers pod) = Return (Inr cs) \<and>
        lookupImages kube (InitContainers pod) = Return (Inr ics) \<and>
        marshal (pod\<lparr>Containers := cs, InitContainers := ics\<rparr>) = Inr raw)"
    by (cases "lookupImages kube (InitContainers pod)" rule: go_sum_cases) (auto simp: mutatePod_def)
qed (auto simp: mutatePod_def)

text \<open>The pods that the hook has to rewrite, and the six ways through the handler.\<close>

definition to_rewrite :: "kube_api \<Rightarrow> image_pod decoder \<Rightarrow> admission_request \<Rightarrow> image_pod \<Rightarrow> bool" where
  "to_rewrite kube d req pod \<longleftrightarrow> Decode d req = Inr pod \<and> podContainsContainerRegexMatch pod \<and>
     (\<exists>st. kubeRegistryState kube = Inr st \<and> st \<noteq> ''Managed'')"

lemmas podimagespec_handle_defs =
  podimagespec_handle_def podimagespec_renderPod_def checkImageRegistryStatus_def to_rewrite_def

lemma podimagespec_handle_cases:
  obtains (undecoded) err where "Decode d req = Inl err"
      "podimagespec_handle kube marshal d req = Return (respond req (Errored 400 err))"
  | (other) pod msg where "Decode d req = Inr pod"
      "\<not> podContainsContainerRegexMatch pod \<or> kubeRegistryState kube = Inr ''Managed''"
      "podimagespec_handle kube marshal d req = Return (respond req (Allowed msg))"
  | (unknown) pod err err' where "Decode d req = Inr pod" "podContainsContainerRegexMatch pod"
      "kubeRegistryState kube = Inl err" "podimagespec_handle kube marshal d req = Return (respond req (Errored 500 err'))"
  | (failed) pod err where "to_rewrite kube d req pod" "mutatePod kube marshal pod = Return (Inl err)"
      "podimagespec_handle kube marshal d req = Return (respond req (Errored 500 err))"
  | (panicked) pod m where "to_rewrite kube d req pod" "mutatePod kube marshal pod = Panic m"
      "podimagespec_handle kube marshal d req = Panic m"
  | (patched) pod raw where "to_rewrite kube d req pod" "mutatePod kube marshal pod = Return (Inr raw)"
      "podimagespec_handle kube marshal d req = Return (respond req (PatchResponseFromRaw (reqObject req) raw))"
proof (cases "\<exists>pod. to_rewrite kube d req pod")
  case True
  then obtain pod where pod: "to_rewrite kube d req pod" by blast
  then show thesis
    by (cases "mutatePod kube marshal pod" rule: go_sum_cases)
      (auto simp: podimagespec_handle_defs intro: failed panicked patched)
next
  case False
  show thesis
  proof (cases "Decode d req")
    case (Inl err)
    then show thesis by (rule undecoded) (simp add: Inl podimagespec_handle_defs)
  next
    case (Inr pod)
    with False show thesis
      using other [OF Inr] unknown [OF Inr]
      by (cases "kubeRegistryState kube"; cases "podContainsContainerRegexMatch pod")
        (auto simp: podimagespec_handle_defs)
  qed
qed

text \<open>
  (C32) What the pod image hook answers, when \<open>Complete\<close> does what the library documents: it gives the
  response the UID of the request, keeps its verdict, and may report an error. The hook makes its client
  at most once, keeps it, and changes nothing else of the state. It panics exactly when there is a client,
  the pod decodes and uses an image of the \<open>openshift\<close> namespace of the internal registry, the registry is
  reported as not managed, and rewriting the pod panics. Otherwise the answer has the UID of the request
  and never refuses. It is the library's patch from the object of the request to the rewritten pod
  exactly when, on that same path, rewriting succeeds and \<open>Complete\<close> reports no error for that patch. It is an error
  exactly when there is no client, the pod does not decode, the state of the registry is needed and cannot be
  read, rewriting fails, or \<open>Complete\<close> reports an error for what the handler decided.
\<close>

theorem podimagespec_guard:
  assumes complete_sets_uid: "\<And>req r. respUID (fst (complete req r)) = reqUID req"
    and complete_keeps_verdict: "\<And>req r. respVerdict (fst (complete req r)) = respVerdict r"
  shows "case Authorized (podimagespec_Webhook complete kube marshal d) req w of (r, w') \<Rightarrow>
     w' = w\<lparr>kubeClientSet := kubeClientSet w \<or> kubeConnect kube = None\<rparr> \<and>
     (\<forall>m. r = Panic m \<longleftrightarrow>
        kubeClientSet w' \<and> (\<exists>pod. to_rewrite kube d req pod \<and> mutatePod kube marshal pod = Panic m)) \<and>
     (\<forall>resp. r = Return resp \<longrightarrow>
        respUID resp = reqUID req \<and> \<not> refuses (respVerdict resp) \<and>
        (\<forall>old new. respVerdict resp = PatchResponseFromRaw old new \<longleftrightarrow>
           old = reqObject req \<and> kubeClientSet w' \<and>
           (\<exists>pod. to_rewrite kube d req pod \<and> mutatePod kube marshal pod = Return (Inr new)) \<and>
           snd (complete req (respond req (PatchResponseFromRaw old new))) = None) \<and>
        (errs (respVerdict resp) \<longleftrightarrow>
           \<not> kubeClientSet w' \<or> (\<exists>err. Decode d req = Inl err) \<or>
           (\<exists>pod err. Decode d req = Inr pod \<and> podContainsContainerRegexMatch pod \<and> kubeRegistryState kube = Inl err) \<or>
           (\<exists>pod err. to_rewrite kube d req pod \<and> mutatePod kube marshal pod = Return (Inl err)) \<or>
           (\<exists>ret. podimagespec_authorized kube marshal d req w = (Return ret, w') \<and> snd (complete req ret) \<noteq> None)))"
proof -
  have completed: "(case complete req r of (c, None) \<Rightarrow> Return c | (c, Some err) \<Rightarrow> Return (respond req (Errored 500 err))) =
      Return (case snd (complete req r) of None \<Rightarrow> fst (complete req r) | Some err \<Rightarrow> respond req (Errored 500 err))" for r
    by (simp split: prod.split option.split)
  show ?thesis
  proof (cases "kubeClientSet w \<or> kubeConnect kube = None")
    case False
    then show ?thesis
      by (auto simp: podimagespec_Webhook_def podimagespec_Authorized_def podimagespec_authorized_def
          completed assms split: option.splits)
  next
    case True
    then have inner: "podimagespec_authorized kube marshal d req w =
        (podimagespec_handle kube marshal d req, w\<lparr>kubeClientSet := True\<rparr>)"
      by (auto simp: podimagespec_authorized_def)
    show ?thesis
      by (cases rule: podimagespec_handle_cases [of d req kube marshal])
        (use True in \<open>auto simp: podimagespec_Webhook_def podimagespec_Authorized_def inner to_rewrite_def
          completed assms split: option.splits\<close>)
  qed
qed

definition example_pod :: image_pod where
  "example_pod = \<lparr>Containers = [''image-registry.openshift-image-registry.svc:5000/openshift/cli:latest''],
     InitContainers = [], podOther = []\<rparr>"

definition example_kube :: kube_api where
  "example_kube = \<lparr>kubeConnect = None, kubeRegistryState = Inr ''Removed'',
     kubeImageStreamTag = (\<lambda>ns name. Inr \<lparr>istTag = Some \<lparr>tagFrom = Some (''quay.io/'' @ name)\<rparr>\<rparr>)\<rparr>"

lemma example_image:
  "checkContainerImageSpecByRegex ''image-registry.openshift-image-registry.svc:5000/openshift/cli:latest'' =
     (True, ''openshift'', ''cli'', ''latest'')"
  using image_submatch [of "''openshift''" "''cli''" "''latest''"]
  by (simp add: checkContainerImageSpecByRegex_def SubexpIndex_image submatch_def registry_host_def nonspace_def
      word_char_def cls_mem_def)

definition example_pod_hook :: webhook where
  "example_pod_hook = podimagespec_Webhook (\<lambda>req r. (r\<lparr>respUID := reqUID req\<rparr>, None)) example_kube
     (\<lambda>pod. Inr (concat (Containers pod)))
     \<lparr>Decode = (\<lambda>_. Inr example_pod), DecodeRaw = (\<lambda>_. Inr example_pod)\<rparr>"

theorem podimagespec_guard_witness:
  "case Authorized example_pod_hook zero_request initial_world of (r, w') \<Rightarrow>
     kubeClientSet w' \<and>
     (\<exists>resp. r = Return resp \<and> respVerdict resp = PatchResponseFromRaw (reqObject zero_request) ''quay.io/cli:latest'')"
proof -
  obtain r w' where ran: "Authorized example_pod_hook zero_request initial_world = (r, w')" by fastforce
  have "to_rewrite example_kube \<lparr>Decode = (\<lambda>_. Inr example_pod), DecodeRaw = (\<lambda>_. Inr example_pod)\<rparr> zero_request pod \<longleftrightarrow>
      pod = example_pod" for pod
    by (auto simp: to_rewrite_def example_kube_def example_pod_def podContainsContainerRegexMatch_def example_image)
  moreover have "mutatePod example_kube (\<lambda>pod. Inr (concat (Containers pod))) example_pod =
      Return (Inr ''quay.io/cli:latest'')"
    by (simp add: mutatePod_def example_pod_def lookupImageStreamTagSpec_def example_image example_kube_def)
  ultimately show ?thesis
    using podimagespec_guard [where complete = "\<lambda>req r. (r\<lparr>respUID := reqUID req\<rparr>, None)" and kube = example_kube
        and marshal = "\<lambda>pod. Inr (concat (Containers pod))"
        and d = "\<lparr>Decode = (\<lambda>_. Inr example_pod), DecodeRaw = (\<lambda>_. Inr example_pod)\<rparr>"
        and req = zero_request and w = initial_world, folded example_pod_hook_def] ran
    by (cases r) (auto simp: example_kube_def)
qed

end
