(* ===== verification/Hook_PrometheusRule.thy ===== *)
theory Hook_PrometheusRule
  imports Webhook_Utils
begin

text \<open>
  \<open>pkg/webhooks/prometheusrule/prometheusrule.go\<close>: PrometheusRules of the managed namespaces are
  changed by the platform's accounts only. The code's own type \<open>prometheusRule\<close> is an object that
  has metadata and nothing else.
\<close>

section \<open>Model\<close>

definition prometheusrule_WebhookName :: string where
  [hook_defs]: "prometheusrule_WebhookName = ''prometheusrule-validation''"

definition prometheusrule_allowedUsers :: "string list" where
  "prometheusrule_allowedUsers = [''kube:admin'', ''system:admin'', ''backplane-cluster-admin'']"

definition prometheusrule_sreAdminGroups :: "string list" where
  "prometheusrule_sreAdminGroups = [''system:serviceaccounts:openshift-backplane-srep'']"

definition privilegedLabels :: "(string \<times> string) list" where
  "privilegedLabels = [(''app.kubernetes.io/name'', ''stackrox'')]"

definition prometheusrule_rules :: "rule_with_operations list" where
  [hook_defs]: "prometheusrule_rules =
    [\<lparr>Operations = [Create, Update, Delete], APIGroups = [''monitoring.coreos.com''],
      APIVersions = [''*''], Resources = [''prometheusrules''], Scope = NamespacedScope\<rparr>]"

definition privilegedNamespacesAllowed :: "string list" where
  "privilegedNamespacesAllowed = [''openshift-customer-monitoring'', ''openshift-user-workload-monitoring'']"

definition prometheusrule_isAllowedUser :: "admission_request \<Rightarrow> bool" where
  "prometheusrule_isAllowedUser request \<longleftrightarrow>
     slices_Contains prometheusrule_allowedUsers (username request) \<or>
     list_ex (slices_Contains (groups request)) prometheusrule_sreAdminGroups"

definition hasPrivilegedLabel :: "object_meta \<Rightarrow> bool" where
  "hasPrivilegedLabel rule \<longleftrightarrow>
     list_ex (\<lambda>(key, val). map_get (metaLabels rule) key = val) privilegedLabels"

definition prometheusrule_render ::
  "object_meta decoder \<Rightarrow> admission_request \<Rightarrow> go_error + object_meta" where
  "prometheusrule_render decoder req =
     (if reqOldObject req \<noteq> [] then DecodeRaw decoder (reqOldObject req) else Decode decoder req)"

definition prometheusrule_authorized ::
  "object_meta decoder \<Rightarrow> admission_request \<Rightarrow> response go_result" where
  "prometheusrule_authorized decoder request =
     (case prometheusrule_render decoder request of
        Inl err \<Rightarrow> Return (new_response (Errored 400 err))
      | Inr pr \<Rightarrow> go_bind (IsPrivilegedNamespace (metaNamespace pr)) (\<lambda>privileged.
          if privileged \<and> \<not> slices_Contains privilegedNamespacesAllowed (metaNamespace pr) then
            (if prometheusrule_isAllowedUser request
             then Return (respond request (Allowed ''User can do operations on PrometheusRules''))
             else if list_ex (MatchPattern PrivilegedServiceAccountGroups) (groups request)
             then Return (respond request (Allowed ''Privileged service accounts do operations on PrometheusRules''))
             else if hasPrivilegedLabel pr
             then Return (respond request (Allowed ''PrometheusRules with privileged labels can be modified''))
             else Return (respond request (Denied ''Prevented from accessing Red Hat managed resources. This is in an effort to prevent harmful actions that may cause unintended consequences or affect the stability of the cluster. If you have any questions about this, please reach out to Red Hat support at https://access.redhat.com/support'')))
          else Return (respond request (Allowed ''Non managed namespace''))))"

definition prometheusrule_Validate :: "admission_request \<Rightarrow> bool" where
  [hook_defs]: "prometheusrule_Validate request \<longleftrightarrow> username request \<noteq> [] \<and> kind request = ''PrometheusRule''"

definition prometheusrule_NewWebhook :: "'s scheme_builders \<Rightarrow> 's factory_result" where
  [factory_defs]: "prometheusrule_NewWebhook api = Made (NewScheme api)"

definition prometheusrule_Webhook :: "object_meta decoder \<Rightarrow> webhook" where
  [hook_defs]: "prometheusrule_Webhook decoder =
    \<lparr>Authorized = stateless (prometheusrule_authorized decoder),
     GetURI = ''/'' @ prometheusrule_WebhookName,
     Validate = prometheusrule_Validate,
     Name = prometheusrule_WebhookName,
     FailurePolicy = Ignore,
     MatchPolicy = Equivalent,
     Rules = prometheusrule_rules,
     ObjectSelector = None,
     SideEffects = SideEffectClassNone,
     TimeoutSeconds = 2,
     Doc = ''Managed OpenShift Customers may not create PrometheusRule in namespaces managed by Red Hat.'',
     SyncSetLabelSelector = DefaultLabelSelector,
     ClassicEnabled = True,
     HypershiftEnabled = False\<rparr>"

section \<open>Properties\<close>

interpretation prometheusrule: validating_webhook "prometheusrule_Webhook d" for d
  by unfold_locales
    (auto simp: hook_defs prometheusrule_authorized_def uri_slug_def suffix_def
      split: sum.splits if_splits)

text \<open>
  (C40) The PrometheusRule hook never panics. It errs exactly when the object (the stored one when
  there is one) does not decode, and refuses exactly when that object is in a managed namespace
  other than the two monitoring namespaces left to customers, does not carry the label of
  stackrox, and the user is neither listed nor in a privileged service account group nor in the
  SRE backplane group.
\<close>

theorem prometheusrule_guard:
  "\<exists>resp. Authorized (prometheusrule_Webhook d) req w = (Return resp, w) \<and>
     (let v = respVerdict resp;
          obj = (if reqOldObject req \<noteq> [] then DecodeRaw d (reqOldObject req) else Decode d req) in
      (errs v \<longleftrightarrow> (\<exists>err. obj = Inl err)) \<and>
      (refuses v \<longleftrightarrow> (\<exists>pr. obj = Inr pr \<and> managed_namespace (metaNamespace pr) \<and>
           metaNamespace pr \<notin> set privilegedNamespacesAllowed \<and>
           metaLabels pr ''app.kubernetes.io/name'' \<noteq> Some ''stackrox'') \<and>
         username req \<notin> set prometheusrule_allowedUsers \<and>
         ''system:serviceaccounts:openshift-backplane-srep'' \<notin> set (groups req) \<and>
         \<not> list_ex privileged_sa_group (groups req)))"
  by (auto simp: Let_def prometheusrule_Webhook_def prometheusrule_authorized_def
      prometheusrule_render_def prometheusrule_isAllowedUser_def prometheusrule_sreAdminGroups_def
      hasPrivilegedLabel_def privilegedLabels_def map_get_def list_ex_iff
      split: sum.splits option.splits)

end
