(* ===== verification/Hook_RegularUser.thy ===== *)
theory Hook_RegularUser
  imports Hook_Namespace
begin

text \<open>
  \<open>pkg/webhooks/regularuser/common/regularuser.go\<close>: the objects of the platform that customers may
  not manage on any kind of cluster. The documentation text lists the keys of a Go map, whose order
  is unspecified: it is a parameter (\<open>order\<close>), of which nothing is assumed but that it keeps the
  elements, where that matters.
\<close>

section \<open>Model\<close>

definition regularuser_WebhookName :: string where
  [hook_defs]: "regularuser_WebhookName = ''regular-user-validation''"

definition mustGatherKind :: string where "mustGatherKind = ''MustGather''"
definition mustGatherGroup :: string where "mustGatherGroup = ''managed.openshift.io''"
definition clusterVersionKind :: string where "clusterVersionKind = ''ClusterVersion''"
definition clusterVersionGroup :: string where "clusterVersionGroup = ''config.openshift.io''"
definition customDomainKind :: string where "customDomainKind = ''CustomDomain''"
definition customDomainGroup :: string where "customDomainGroup = ''managed.openshift.io''"
definition netNamespaceKind :: string where "netNamespaceKind = ''NetNamespace''"
definition netNamespaceGroup :: string where "netNamespaceGroup = ''network.openshift.io''"
definition machineConfigGroup :: string where "machineConfigGroup = ''machineconfiguration.openshift.io''"

lemmas regularuser_kinds = mustGatherKind_def mustGatherGroup_def clusterVersionKind_def
  clusterVersionGroup_def customDomainKind_def customDomainGroup_def netNamespaceKind_def
  netNamespaceGroup_def machineConfigGroup_def

definition regularuser_adminGroups :: "string list" where
  "regularuser_adminGroups = [''system:serviceaccounts:openshift-backplane-srep'']"

definition regularuser_adminUsers :: "string list" where
  "regularuser_adminUsers = [''backplane-cluster-admin'']"

definition clusterVersionUsers :: "string list" where
  "clusterVersionUsers =
    [''system:serviceaccount:openshift-managed-upgrade-operator:managed-upgrade-operator'',
     ''system:serviceaccount:openshift-cluster-version:default'',
     ''system:serviceaccount:openshift-cluster-version:cluster-version-operator'']"

definition machineConfigUsers :: "string list" where
  "machineConfigUsers =
    [''system:serviceaccount:openshift-cluster-node-tuning-operator:cluster-node-tuning-operator'',
     ''system:serviceaccount:openshift-machine-config-operator:machine-config-controller'',
     ''system:admin'']"

definition ceeGroup :: string where
  "ceeGroup = ''system:serviceaccounts:openshift-backplane-cee''"

definition regularuser_rules :: "rule_with_operations list" where
  [hook_defs]: "regularuser_rules =
    [\<lparr>Operations = [''*''],
      APIGroups = [''cloudcredential.openshift.io'', ''machine.openshift.io'', ''admissionregistration.k8s.io'',
        ''addons.managed.openshift.io'', ''cloudingress.managed.openshift.io'', ''managed.openshift.io'',
        ''ocmagent.managed.openshift.io'', ''splunkforwarder.managed.openshift.io'', ''upgrade.managed.openshift.io''],
      APIVersions = [''*''], Resources = [''*/*''], Scope = AllScopes\<rparr>,
     \<lparr>Operations = [''*''], APIGroups = [''autoscaling.openshift.io''], APIVersions = [''*''],
      Resources = [''clusterautoscalers'', ''machineautoscalers''], Scope = AllScopes\<rparr>,
     \<lparr>Operations = [''*''], APIGroups = [''config.openshift.io''], APIVersions = [''*''],
      Resources = [''clusterversions'', ''clusterversions/status'', ''schedulers'', ''apiservers'', ''proxies''],
      Scope = AllScopes\<rparr>,
     \<lparr>Operations = [''CREATE'', ''UPDATE'', ''DELETE''], APIGroups = [''''], APIVersions = [''*''],
      Resources = [''configmaps''], Scope = AllScopes\<rparr>,
     \<lparr>Operations = [''*''], APIGroups = [''machineconfiguration.openshift.io''], APIVersions = [''*''],
      Resources = [''machineconfigs'', ''machineconfigpools''], Scope = AllScopes\<rparr>,
     \<lparr>Operations = [''*''], APIGroups = [''operator.openshift.io''], APIVersions = [''*''],
      Resources = [''kubeapiservers'', ''openshiftapiservers''], Scope = AllScopes\<rparr>,
     \<lparr>Operations = [''*''], APIGroups = [''managed.openshift.io''], APIVersions = [''*''],
      Resources = [''subjectpermissions'', ''subjectpermissions/*''], Scope = AllScopes\<rparr>,
     \<lparr>Operations = [''*''], APIGroups = [''network.openshift.io''], APIVersions = [''*''],
      Resources = [''netnamespaces'', ''netnamespaces/*''], Scope = AllScopes\<rparr>]"

definition regularuser_allGroups :: "string list" where
  "regularuser_allGroups = remdups (filter (\<lambda>group. group \<noteq> []) (concat (map APIGroups regularuser_rules)))"

definition regularuser_Doc :: "(string list \<Rightarrow> string list) \<Rightarrow> string" where
  "regularuser_Doc order =
     ''Managed OpenShift customers may not manage any objects in the following APIGroups '' @
     fmt_slice (order regularuser_allGroups) @
     '', nor may Managed OpenShift customers alter the APIServer, KubeAPIServer, OpenShiftAPIServer, ClusterVersion, Proxy or SubjectPermission objects.''"

definition regularuser_Validate :: "admission_request \<Rightarrow> bool" where
  [hook_defs]: "regularuser_Validate req \<longleftrightarrow> username req \<noteq> []"

text \<open>Of both kinds of objects the handler decodes it reads the metadata.\<close>

record regularuser_decoders =
  netNamespaceDecoder :: "object_meta decoder"
  configMapDecoder :: "object_meta decoder"

definition isMustGatherAuthorized :: "admission_request \<Rightarrow> bool" where
  "isMustGatherAuthorized request \<longleftrightarrow> slices_Contains (groups request) ceeGroup"

definition isCustomDomainAuthorized :: "admission_request \<Rightarrow> bool" where
  "isCustomDomainAuthorized request \<longleftrightarrow>
     slices_Contains (groups request) ''cluster-admins'' \<or> slices_Contains (groups request) ''dedicated-admins''"

definition isNetNamespaceValid :: "regularuser_decoders \<Rightarrow> admission_request \<Rightarrow> bool go_result" where
  "isNetNamespaceValid ds request =
     (if reqObject request = [] then Return False
      else (case Decode (netNamespaceDecoder ds) request of
              Inl err \<Rightarrow> Return False
            | Inr netNamespace \<Rightarrow>
                (if MatchPattern badNamespace (metaName netNamespace) then Return False
                 else go_bind (IsPrivilegedNamespace (metaName netNamespace)) (\<lambda>privileged.
                   Return (\<not> privileged)))))"

definition isNetNamespaceAuthorized :: "regularuser_decoders \<Rightarrow> admission_request \<Rightarrow> bool go_result" where
  "isNetNamespaceAuthorized ds request =
     (if slices_Contains (groups request) ''cluster-admins'' \<or> slices_Contains (groups request) ''dedicated-admins''
      then isNetNamespaceValid ds request else Return False)"

definition isClusterVersionAuthorized :: "admission_request \<Rightarrow> bool" where
  "isClusterVersionAuthorized request \<longleftrightarrow>
     slices_Contains clusterVersionUsers (username request) \<or>
     slices_Contains regularuser_adminUsers (username request) \<or>
     list_ex (slices_Contains regularuser_adminGroups) (groups request) \<or>
     (strings_HasPrefix (username request) ''system:'' \<and>
      \<not> strings_HasPrefix (username request) ''system:serviceaccount:'')"

definition isMachineConfigAuthorized :: "admission_request \<Rightarrow> bool" where
  "isMachineConfigAuthorized request \<longleftrightarrow>
     slices_Contains (groups request) ''cluster-admins'' \<or>
     slices_Contains regularuser_adminUsers (username request) \<or>
     slices_Contains machineConfigUsers (username request)"

definition shouldAllowConfigMapChange :: "regularuser_decoders \<Rightarrow> admission_request \<Rightarrow> bool" where
  "shouldAllowConfigMapChange ds request =
     (case (if reqOperation request = Delete then DecodeRaw (configMapDecoder ds) (reqOldObject request)
            else DecodeRaw (configMapDecoder ds) (reqObject request)) of
        Inl err \<Rightarrow> False
      | Inr configMap \<Rightarrow> metaName configMap \<noteq> ''user-ca-bundle'' \<or> metaNamespace configMap \<noteq> ''openshift-config'')"

definition regularuser_denial :: string where
  "regularuser_denial = ''Prevented from accessing Red Hat managed resources. This is in an effort to prevent harmful actions that may cause unintended consequences or affect the stability of the cluster. If you have any questions about this, please reach out to Red Hat support at https://access.redhat.com/support''"

text \<open>The rest of the handler, after the switch on the kind of object.\<close>

definition regularuser_after_switch :: "regularuser_decoders \<Rightarrow> admission_request \<Rightarrow> response" where
  "regularuser_after_switch ds request =
     (if strings_HasPrefix (username request) ''system:''
      then respond request (Allowed ''authenticated system: users are allowed'')
      else if slices_Contains regularuser_adminUsers (username request)
      then respond request (Allowed ''Specified admin users are allowed'')
      else if list_ex (slices_Contains regularuser_adminGroups) (groups request)
      then respond request (Allowed ''Members of admin groups are allowed'')
      else if kind request = ''ConfigMap'' \<and> shouldAllowConfigMapChange ds request
      then respond request (Allowed ''Modification of Config Maps that are not user-ca-bundle are allowed'')
      else respond request (Denied regularuser_denial))"

definition regularuser_authorized ::
  "regularuser_decoders \<Rightarrow> admission_request \<Rightarrow> response go_result" where
  "regularuser_authorized ds request =
     (if username request = ''system:unauthenticated''
      then Return (respond request (Denied ''Unauthenticated''))
      else if kindGroup request = machineConfigGroup
      then (if isMachineConfigAuthorized request then Return (WebhookResponse request True [])
            else Return (WebhookResponse request False regularuser_denial))
      else if strings_HasPrefix (username request) ''kube:''
      then Return (respond request (Allowed ''kube: users are allowed''))
      else if RequestMatchesGroupKind request mustGatherKind mustGatherGroup
      then (if isMustGatherAuthorized request
            then Return (respond request (Allowed ''Management of MustGather CR is authorized''))
            else Return (regularuser_after_switch ds request))
      else if RequestMatchesGroupKind request customDomainKind customDomainGroup
      then (if isCustomDomainAuthorized request
            then Return (respond request (Allowed ''Management of CustomDomain CR is authorized''))
            else Return (regularuser_after_switch ds request))
      else if RequestMatchesGroupKind request clusterVersionKind clusterVersionGroup
      then (if isClusterVersionAuthorized request then Return (WebhookResponse request True [])
            else Return (WebhookResponse request False regularuser_denial))
      else if RequestMatchesGroupKind request netNamespaceKind netNamespaceGroup
      then go_bind (isNetNamespaceAuthorized ds request) (\<lambda>authorized.
            if authorized then Return (respond request (Allowed ''Management of NetNamespace CR is authorized''))
            else Return (regularuser_after_switch ds request))
      else Return (regularuser_after_switch ds request))"

definition regularuser_NewWebhook :: "'s scheme_builders \<Rightarrow> 's factory_result" where
  [factory_defs]: "regularuser_NewWebhook api = add_to_scheme api
    [(AdmissionV1, ''Fail adding admissionv1 scheme to RegularuserWebhook''),
     (CoreV1, ''Fail adding corev1 scheme to RegularuserWebhook''),
     (NetworkV1, ''Fail adding networkv1 scheme to RegularuserWebhook'')] (NewScheme api)"

definition regularuser_Webhook :: "(string list \<Rightarrow> string list) \<Rightarrow> regularuser_decoders \<Rightarrow> webhook" where
  [hook_defs]: "regularuser_Webhook order decoders =
    \<lparr>Authorized = stateless (regularuser_authorized decoders),
     GetURI = ''/regularuser-validation'',
     Validate = regularuser_Validate,
     Name = regularuser_WebhookName,
     FailurePolicy = Ignore,
     MatchPolicy = Equivalent,
     Rules = regularuser_rules,
     ObjectSelector = None,
     SideEffects = SideEffectClassNone,
     TimeoutSeconds = 2,
     Doc = regularuser_Doc order,
     SyncSetLabelSelector = DefaultLabelSelector,
     ClassicEnabled = True,
     HypershiftEnabled = True\<rparr>"

section \<open>Properties\<close>

definition netnamespace_ok :: "regularuser_decoders \<Rightarrow> admission_request \<Rightarrow> bool" where
  "netnamespace_ok ds req \<longleftrightarrow> reqObject req \<noteq> [] \<and>
     (case Decode (netNamespaceDecoder ds) req of Inl _ \<Rightarrow> False
      | Inr ns \<Rightarrow> metaName ns \<notin> {''com'', ''io'', ''in''} \<and> \<not> managed_namespace (metaName ns))"

lemma isNetNamespaceValid_eq [simp]: "isNetNamespaceValid ds req = Return (netnamespace_ok ds req)"
  by (auto simp: isNetNamespaceValid_def netnamespace_ok_def split: sum.splits)

text \<open>The abstract rule: who may do what, stated object kind by object kind.\<close>

definition platform_admin :: "admission_request \<Rightarrow> bool" where
  "platform_admin req \<longleftrightarrow> username req = ''backplane-cluster-admin'' \<or>
     ''system:serviceaccounts:openshift-backplane-srep'' \<in> set (groups req)"

definition customer_admin :: "admission_request \<Rightarrow> bool" where
  "customer_admin req \<longleftrightarrow> ''cluster-admins'' \<in> set (groups req) \<or> ''dedicated-admins'' \<in> set (groups req)"

definition regularuser_permitted :: "regularuser_decoders \<Rightarrow> admission_request \<Rightarrow> bool" where
  "regularuser_permitted ds req \<longleftrightarrow> username req \<noteq> ''system:unauthenticated'' \<and>
     (if kindGroup req = ''machineconfiguration.openshift.io''
      then ''cluster-admins'' \<in> set (groups req) \<or>
        username req \<in> set (''backplane-cluster-admin'' # machineConfigUsers)
      else if kind req = ''ClusterVersion'' \<and> kindGroup req = ''config.openshift.io''
      then prefix ''kube:'' (username req) \<or> platform_admin req \<or> username req \<in> set clusterVersionUsers \<or>
        (prefix ''system:'' (username req) \<and> \<not> prefix ''system:serviceaccount:'' (username req))
      else prefix ''kube:'' (username req) \<or> prefix ''system:'' (username req) \<or> platform_admin req \<or>
        (kind req = ''MustGather'' \<and> kindGroup req = ''managed.openshift.io'' \<and>
           ''system:serviceaccounts:openshift-backplane-cee'' \<in> set (groups req)) \<or>
        (kind req = ''CustomDomain'' \<and> kindGroup req = ''managed.openshift.io'' \<and> customer_admin req) \<or>
        (kind req = ''NetNamespace'' \<and> kindGroup req = ''network.openshift.io'' \<and> customer_admin req \<and>
           netnamespace_ok ds req) \<or>
        (kind req = ''ConfigMap'' \<and> shouldAllowConfigMapChange ds req))"

lemma regularuser_after_switch_spec:
  "\<not> errs (respVerdict (regularuser_after_switch ds req)) \<and>
   respUID (regularuser_after_switch ds req) = reqUID req \<and>
   respAudit (regularuser_after_switch ds req) = Map.empty \<and>
   (allows (respVerdict (regularuser_after_switch ds req)) \<longleftrightarrow>
      prefix ''system:'' (username req) \<or> platform_admin req \<or>
      (kind req = ''ConfigMap'' \<and> shouldAllowConfigMapChange ds req))"
  by (auto simp: regularuser_after_switch_def platform_admin_def regularuser_adminUsers_def
      regularuser_adminGroups_def list_ex_iff)

interpretation regularuser: authenticated_webhook "regularuser_Webhook order ds" for order ds
  using regularuser_after_switch_spec
  by unfold_locales
    (auto simp: hook_defs regularuser_authorized_def uri_slug_def suffix_def split: if_splits)

definition regularuser_decides :: "regularuser_decoders \<Rightarrow> admission_request \<Rightarrow> bool \<Rightarrow> bool" where
  "regularuser_decides ds req ok \<longleftrightarrow> (\<exists>resp. regularuser_authorized ds req = Return resp \<and>
     \<not> errs (respVerdict resp) \<and> respUID resp = reqUID req \<and> (allows (respVerdict resp) \<longleftrightarrow> ok))"

lemma decides_before_switch:
  "username req = ''system:unauthenticated'' \<Longrightarrow> regularuser_decides ds req False"
  "username req \<noteq> ''system:unauthenticated'' \<Longrightarrow> kindGroup req = ''machineconfiguration.openshift.io'' \<Longrightarrow>
     regularuser_decides ds req (''cluster-admins'' \<in> set (groups req) \<or>
       username req \<in> set (''backplane-cluster-admin'' # machineConfigUsers))"
  "username req \<noteq> ''system:unauthenticated'' \<Longrightarrow> kindGroup req \<noteq> ''machineconfiguration.openshift.io'' \<Longrightarrow>
     prefix ''kube:'' (username req) \<Longrightarrow> regularuser_decides ds req True"
  by (simp_all add: regularuser_decides_def regularuser_authorized_def machineConfigGroup_def
      isMachineConfigAuthorized_def regularuser_adminUsers_def)

text \<open>The requests that get as far as the switch on their kind.\<close>

definition reaches_switch :: "admission_request \<Rightarrow> bool" where
  "reaches_switch req \<longleftrightarrow> username req \<noteq> ''system:unauthenticated'' \<and>
     kindGroup req \<noteq> ''machineconfiguration.openshift.io'' \<and> \<not> prefix ''kube:'' (username req)"

abbreviation after_switch_ok :: "regularuser_decoders \<Rightarrow> admission_request \<Rightarrow> bool" where
  "after_switch_ok ds req \<equiv> prefix ''system:'' (username req) \<or> platform_admin req \<or>
     (kind req = ''ConfigMap'' \<and> shouldAllowConfigMapChange ds req)"

lemma decides_cluster_version:
  assumes "reaches_switch req" and "kind req = ''ClusterVersion''" and "kindGroup req = ''config.openshift.io''"
  shows "regularuser_decides ds req (platform_admin req \<or> username req \<in> set clusterVersionUsers \<or>
     (prefix ''system:'' (username req) \<and> \<not> prefix ''system:serviceaccount:'' (username req)))"
proof -
  have "isClusterVersionAuthorized req \<longleftrightarrow> platform_admin req \<or> username req \<in> set clusterVersionUsers \<or>
     (prefix ''system:'' (username req) \<and> \<not> prefix ''system:serviceaccount:'' (username req))"
    by (auto simp: isClusterVersionAuthorized_def platform_admin_def regularuser_adminUsers_def
        regularuser_adminGroups_def list_ex_iff)
  with assms show ?thesis
    by (simp add: regularuser_decides_def regularuser_authorized_def reaches_switch_def
        RequestMatchesGroupKind_def regularuser_kinds)
qed

text \<open>The exceptions the switch makes, each falling through to the common checks otherwise.\<close>

definition switch_exception :: "regularuser_decoders \<Rightarrow> admission_request \<Rightarrow> bool" where
  "switch_exception ds req \<longleftrightarrow>
     (kind req = ''MustGather'' \<and> kindGroup req = ''managed.openshift.io'' \<and>
        ''system:serviceaccounts:openshift-backplane-cee'' \<in> set (groups req)) \<or>
     (kind req = ''CustomDomain'' \<and> kindGroup req = ''managed.openshift.io'' \<and> customer_admin req) \<or>
     (kind req = ''NetNamespace'' \<and> kindGroup req = ''network.openshift.io'' \<and> customer_admin req \<and>
        netnamespace_ok ds req)"

lemma switch_exception_allows:
  assumes "reaches_switch req" and "switch_exception ds req"
  shows "regularuser_decides ds req True"
  using assms
  by (auto simp: regularuser_decides_def regularuser_authorized_def reaches_switch_def switch_exception_def
      RequestMatchesGroupKind_def regularuser_kinds isMustGatherAuthorized_def ceeGroup_def
      isCustomDomainAuthorized_def isNetNamespaceAuthorized_def customer_admin_def)

lemma switch_falls_through:
  assumes "reaches_switch req" and "\<not> switch_exception ds req"
    and "\<not> (kind req = ''ClusterVersion'' \<and> kindGroup req = ''config.openshift.io'')"
  shows "regularuser_authorized ds req = Return (regularuser_after_switch ds req)"
  using assms
  by (auto simp: regularuser_authorized_def reaches_switch_def switch_exception_def
      RequestMatchesGroupKind_def regularuser_kinds isMustGatherAuthorized_def ceeGroup_def
      isCustomDomainAuthorized_def isNetNamespaceAuthorized_def customer_admin_def)

lemma decides_other_kinds:
  assumes "reaches_switch req" and "\<not> (kind req = ''ClusterVersion'' \<and> kindGroup req = ''config.openshift.io'')"
  shows "regularuser_decides ds req (switch_exception ds req \<or> after_switch_ok ds req)"
proof (cases "switch_exception ds req")
  case True
  with assms switch_exception_allows show ?thesis by simp
next
  case False
  with assms switch_falls_through regularuser_after_switch_spec [of ds req] show ?thesis
    by (simp add: regularuser_decides_def)
qed

lemma decides_early:
  assumes "\<not> reaches_switch req"
  shows "regularuser_decides ds req (regularuser_permitted ds req)"
proof -
  consider "username req = ''system:unauthenticated''"
    | "username req \<noteq> ''system:unauthenticated''" "kindGroup req = ''machineconfiguration.openshift.io''"
    | "username req \<noteq> ''system:unauthenticated''" "kindGroup req \<noteq> ''machineconfiguration.openshift.io''"
      "prefix ''kube:'' (username req)"
    using assms by (auto simp: reaches_switch_def)
  then show ?thesis
    by cases (use decides_before_switch [of req ds] in \<open>simp_all add: regularuser_permitted_def\<close>)
qed

lemma regularuser_decided: "regularuser_decides ds req (regularuser_permitted ds req)"
proof (cases "reaches_switch req")
  case False
  then show ?thesis by (rule decides_early)
next
  case switch: True
  show ?thesis
  proof (cases "kind req = ''ClusterVersion'' \<and> kindGroup req = ''config.openshift.io''")
    case True
    then have "regularuser_permitted ds req \<longleftrightarrow> platform_admin req \<or> username req \<in> set clusterVersionUsers \<or>
        (prefix ''system:'' (username req) \<and> \<not> prefix ''system:serviceaccount:'' (username req))"
      using switch by (simp add: regularuser_permitted_def reaches_switch_def)
    with True switch decides_cluster_version show ?thesis by simp
  next
    case False
    then have "regularuser_permitted ds req \<longleftrightarrow> switch_exception ds req \<or> after_switch_ok ds req"
      using switch by (auto simp: regularuser_permitted_def reaches_switch_def switch_exception_def)
    with False switch decides_other_kinds show ?thesis by simp
  qed
qed

text \<open>
  (C3) The regular user hook always decides, without error or panic and with the UID of the request,
  and it implements the abstract rule \<open>regularuser_permitted\<close>: \<open>system:unauthenticated\<close> is refused
  everything; machine configuration is open to \<open>cluster-admins\<close> and four accounts only, whatever
  other privileges a user has; a ClusterVersion is open to \<open>kube:\<close> users, platform administrators,
  three upgrade accounts and the system users that are not service accounts; everything else is open
  to \<open>kube:\<close> and system users and platform administrators, with the exceptions for MustGather,
  CustomDomain, NetNamespace (for names that are neither managed nor harmful) and ConfigMaps other
  than the trusted CA bundle.
\<close>

theorem regularuser_refines:
  "\<exists>resp. Authorized (regularuser_Webhook order ds) req w = (Return resp, w) \<and>
     \<not> errs (respVerdict resp) \<and> respUID resp = reqUID req \<and>
     (allows (respVerdict resp) \<longleftrightarrow> regularuser_permitted ds req)"
  using regularuser_decided [of ds req] by (simp add: regularuser_decides_def regularuser_Webhook_def)

lemma regularuser_allGroups_distinct: "distinct regularuser_allGroups \<and> [] \<notin> set regularuser_allGroups"
  by (simp add: regularuser_allGroups_def)

end
