(* ===== verification/Hook_Scc.thy ===== *)
theory Hook_Scc
  imports Webhook_Utils
begin

text \<open>
  \<open>pkg/webhooks/scc/scc.go\<close>: nobody but the platform's own accounts updates or deletes the
  default SecurityContextConstraints. The hook looks at the stored object only, and of that at
  its name, so the decoder gives the object's metadata.
\<close>

section \<open>Model\<close>

definition scc_WebhookName :: string where
  [hook_defs]: "scc_WebhookName = ''scc-validation''"

definition scc_rules :: "rule_with_operations list" where
  [hook_defs]: "scc_rules =
    [\<lparr>Operations = [''UPDATE'', ''DELETE''], APIGroups = [''security.openshift.io''],
      APIVersions = [''*''], Resources = [''securitycontextconstraints''], Scope = ClusterScope\<rparr>]"

definition scc_allowedUsers :: "string list" where
  "scc_allowedUsers =
    [''system:serviceaccount:openshift-kube-apiserver-operator:kube-apiserver-operator'',
     ''system:serviceaccount:openshift-monitoring:cluster-monitoring-operator'',
     ''system:serviceaccount:openshift-cluster-version:default'',
     ''system:admin'']"

definition scc_allowedGroups :: "string list" where
  "scc_allowedGroups = []"

definition scc_defaultSCCs :: "string list" where
  "scc_defaultSCCs =
    [''anyuid'', ''hostaccess'', ''hostmount-anyuid'', ''hostnetwork'', ''hostnetwork-v2'',
     ''node-exporter'', ''nonroot'', ''nonroot-v2'', ''privileged'', ''restricted'',
     ''restricted-v2'']"

definition scc_renderSCC :: "object_meta decoder \<Rightarrow> admission_request \<Rightarrow> go_error + object_meta" where
  "scc_renderSCC decoder request =
     (if reqOldObject request \<noteq> [] then DecodeRaw decoder (reqOldObject request)
      else Inr zero_meta)"

definition scc_isAllowedUserGroup :: "admission_request \<Rightarrow> bool" where
  "scc_isAllowedUserGroup request \<longleftrightarrow>
     slices_Contains scc_allowedUsers (username request) \<or>
     list_ex (slices_Contains (groups request)) scc_allowedGroups"

definition scc_isDefaultSCC :: "object_meta \<Rightarrow> bool" where
  "scc_isDefaultSCC scc \<longleftrightarrow> list_ex (\<lambda>s. metaName scc = s) scc_defaultSCCs"

definition scc_authorized :: "object_meta decoder \<Rightarrow> admission_request \<Rightarrow> response" where
  [hook_defs]: "scc_authorized decoder request =
     (case scc_renderSCC decoder request of
        Inl err \<Rightarrow> new_response (Errored 400 err)
      | Inr scc \<Rightarrow>
          (if scc_isDefaultSCC scc \<and> \<not> scc_isAllowedUserGroup request \<and> reqOperation request = Delete
           then respond request
             (Denied (''Deleting default SCCs '' @ fmt_slice scc_defaultSCCs @ '' is not allowed''))
           else if scc_isDefaultSCC scc \<and> \<not> scc_isAllowedUserGroup request \<and> reqOperation request = Update
           then respond request
             (Denied (''Modifying default SCCs '' @ fmt_slice scc_defaultSCCs @ '' is not allowed''))
           else respond request (Allowed ''Request is allowed'')))"

definition scc_Validate :: "admission_request \<Rightarrow> bool" where
  [hook_defs]: "scc_Validate request \<longleftrightarrow> username request \<noteq> [] \<and> kind request = ''SecurityContextConstraints''"

definition scc_NewWebhook :: "'s scheme_builders \<Rightarrow> 's factory_result" where
  [factory_defs]: "scc_NewWebhook api = Made (NewScheme api)"

definition scc_Webhook :: "object_meta decoder \<Rightarrow> webhook" where
  [hook_defs]: "scc_Webhook decoder =
    \<lparr>Authorized = stateless (\<lambda>request. Return (scc_authorized decoder request)),
     GetURI = ''/'' @ scc_WebhookName,
     Validate = scc_Validate,
     Name = scc_WebhookName,
     FailurePolicy = Ignore,
     MatchPolicy = Equivalent,
     Rules = scc_rules,
     ObjectSelector = None,
     SideEffects = SideEffectClassNone,
     TimeoutSeconds = 2,
     Doc = ''Managed OpenShift Customers may not modify the following default SCCs: '' @
       fmt_slice scc_defaultSCCs,
     SyncSetLabelSelector = DefaultLabelSelector,
     ClassicEnabled = True,
     HypershiftEnabled = True\<rparr>"

section \<open>Properties\<close>

interpretation scc: validating_webhook "scc_Webhook d" for d
  by unfold_locales (auto simp: hook_defs uri_slug_def suffix_def split: sum.splits if_splits)

lemma scc_allowed_iff: "scc_isAllowedUserGroup req \<longleftrightarrow> username req \<in> set scc_allowedUsers"
  by (simp add: scc_isAllowedUserGroup_def scc_allowedGroups_def)

lemma scc_default_iff: "scc_isDefaultSCC scc \<longleftrightarrow> metaName scc \<in> set scc_defaultSCCs"
  by (auto simp: scc_isDefaultSCC_def list_ex_iff)

lemma scc_exact:
  "decides_by (scc_Webhook d)
     (\<lambda>req. reqOldObject req \<noteq> [] \<and> (\<exists>err. DecodeRaw d (reqOldObject req) = Inl err))
     (\<lambda>req. reqOldObject req \<noteq> [] \<and> reqOperation req \<in> {Update, Delete} \<and> username req \<notin> set scc_allowedUsers \<and>
        (\<exists>scc. DecodeRaw d (reqOldObject req) = Inr scc \<and> metaName scc \<in> set scc_defaultSCCs))"
  by (auto simp: decides_by_def scc_Webhook_def scc_authorized_def scc_renderSCC_def scc_allowed_iff scc_default_iff
      zero_meta_def scc_defaultSCCs_def split: sum.splits if_splits)

end
