(* ===== verification/Hook_SdnMigration.thy ===== *)
theory Hook_SdnMigration
  imports Webhook_Utils
begin

text \<open>
  \<open>pkg/webhooks/sdnmigration/sdnmigration.go\<close>: customers may not change the network type of the
  cluster's Network configuration.
\<close>

section \<open>Model\<close>

definition sdn_WebhookName :: string where
  [hook_defs]: "sdn_WebhookName = ''sdn-migration-validation''"

definition overrideAnnotation :: string where
  "overrideAnnotation = ''unsupported-red-hat-internal-testing''"

definition privilegedHiveUserAccount :: string where
  "privilegedHiveUserAccount = ''system:admin''"

definition sdn_rules :: "rule_with_operations list" where
  [hook_defs]: "sdn_rules =
    [\<lparr>Operations = [''UPDATE''], APIGroups = [''config.openshift.io''], APIVersions = [''*''],
      Resources = [''networks''], Scope = ClusterScope\<rparr>]"

text \<open>The fields of \<open>configv1.Network\<close> the hook reads.\<close>

record network_config =
  netMeta :: object_meta
  specNetworkType :: string
  statusNetworkType :: string

definition sdn_Authorized :: "network_config decoder \<Rightarrow> admission_request \<Rightarrow> response" where
  "sdn_Authorized decoder request =
     (if username request = privilegedHiveUserAccount
      then WebhookResponse request True ''Privileged user may access''
      else if list_ex (MatchPattern PrivilegedServiceAccountGroups) (groups request)
      then WebhookResponse request True ''Privileged service accounts may access''
      else if reqOperation request = Update then
        (case Decode decoder request of
           Inl err \<Rightarrow> respond request (Errored 400 err)
         | Inr object \<Rightarrow>
             (case DecodeRaw decoder (reqOldObject request) of
                Inl err \<Rightarrow> respond request (Errored 400 err)
              | Inr oldObject \<Rightarrow>
                  (if metaAnnotations (netMeta oldObject) overrideAnnotation = Some ''true''
                   then WebhookResponse request True ''`red-hat-internal-testing: true` annotation present''
                   else if specNetworkType object \<noteq> statusNetworkType oldObject
                   then WebhookResponse request False ''Changing the network type is not allowed''
                   else WebhookResponse request True ''allowed action'')))
      else WebhookResponse request False ''Changing the network type is not allowed'')"

definition sdn_Validate :: "admission_request \<Rightarrow> bool" where
  [hook_defs]: "sdn_Validate req \<longleftrightarrow> username req \<noteq> [] \<and> kind req = ''Network''"

definition sdn_NewWebhook :: "'s scheme_builders \<Rightarrow> 's factory_result" where
  [factory_defs]: "sdn_NewWebhook api = Made (NewScheme api)"

definition sdn_Webhook :: "network_config decoder \<Rightarrow> webhook" where
  [hook_defs]: "sdn_Webhook decoder =
    \<lparr>Authorized = stateless (\<lambda>request. Return (sdn_Authorized decoder request)),
     GetURI = ''/sdnmigration-validation'',
     Validate = sdn_Validate,
     Name = sdn_WebhookName,
     FailurePolicy = Ignore,
     MatchPolicy = Equivalent,
     Rules = sdn_rules,
     ObjectSelector = None,
     SideEffects = SideEffectClassNone,
     TimeoutSeconds = 2,
     Doc = ''Managed OpenShift customers may not modify the network config type because it can can degrade cluster operators and can interfere with OpenShift SRE monitoring.'',
     SyncSetLabelSelector = DefaultLabelSelector,
     ClassicEnabled = True,
     HypershiftEnabled = False\<rparr>"

section \<open>Properties\<close>

interpretation sdn: validating_webhook "sdn_Webhook d" for d
  by unfold_locales
    (auto simp: hook_defs sdn_Authorized_def uri_slug_def suffix_def split: sum.splits if_splits)

definition sdn_customer :: "admission_request \<Rightarrow> bool" where
  "sdn_customer req \<longleftrightarrow> username req \<noteq> ''system:admin'' \<and> \<not> list_ex privileged_sa_group (groups req)"

lemma sdn_exact:
  "decides_by (sdn_Webhook d)
     (\<lambda>req. sdn_customer req \<and> reqOperation req = Update \<and>
        (\<exists>err. Decode d req = Inl err \<or> DecodeRaw d (reqOldObject req) = Inl err))
     (\<lambda>req. sdn_customer req \<and>
        (if reqOperation req = Update
         then \<exists>n s. Decode d req = Inr n \<and> DecodeRaw d (reqOldObject req) = Inr s \<and>
            specNetworkType n \<noteq> statusNetworkType s \<and>
            metaAnnotations (netMeta s) ''unsupported-red-hat-internal-testing'' \<noteq> Some ''true''
         else True))"
  by (auto simp: decides_by_def sdn_Webhook_def sdn_Authorized_def sdn_customer_def privilegedHiveUserAccount_def
      overrideAnnotation_def split: sum.splits)

end
