(* ===== verification/Hook_ServiceAccount.thy ===== *)
theory Hook_ServiceAccount
  imports Webhook_Utils
begin

text \<open>
  \<open>pkg/webhooks/serviceaccount/serviceaccount.go\<close>: customers may not delete the service accounts
  of the managed namespaces. The hook takes the namespace from the request and the name from the
  stored object. Compiling the patterns of the managed namespaces is a possible panic, so the
  handler returns a \<open>go_result\<close>.
\<close>

section \<open>Model\<close>

definition serviceaccount_WebhookName :: string where
  [hook_defs]: "serviceaccount_WebhookName = ''serviceaccount-validation''"

definition serviceaccount_rules :: "rule_with_operations list" where
  [hook_defs]: "serviceaccount_rules =
    [\<lparr>Operations = [''DELETE''], APIGroups = [''''], APIVersions = [''v1''],
      Resources = [''serviceaccounts''], Scope = NamespacedScope\<rparr>]"

definition serviceaccount_allowedUsers :: "string list" where
  "serviceaccount_allowedUsers = [''backplane-cluster-admin'']"

definition serviceaccount_allowedGroups :: "string list" where
  "serviceaccount_allowedGroups = [''system:serviceaccounts:openshift-backplane-srep'']"

definition serviceaccount_allowedServiceAccounts :: "string list" where
  "serviceaccount_allowedServiceAccounts = [''builder'', ''default'', ''deployer'']"

definition serviceaccount_exceptionNamespaces :: "string list" where
  "serviceaccount_exceptionNamespaces =
    [''default'', ''openshift-logging'', ''openshift-user-workload-monitoring'', ''openshift-operators'']"

definition serviceaccount_renderServiceAccount ::
  "object_meta decoder \<Rightarrow> admission_request \<Rightarrow> go_error + object_meta" where
  "serviceaccount_renderServiceAccount decoder request =
     (if reqOldObject request \<noteq> [] then DecodeRaw decoder (reqOldObject request) else Inr zero_meta)"

definition serviceaccount_isAllowedUserGroup :: "admission_request \<Rightarrow> bool" where
  "serviceaccount_isAllowedUserGroup request \<longleftrightarrow>
     slices_Contains serviceaccount_allowedUsers (username request) \<or>
     list_ex (slices_Contains (groups request)) serviceaccount_allowedGroups"

definition serviceaccount_isProtectedNamespace :: "admission_request \<Rightarrow> bool go_result" where
  "serviceaccount_isProtectedNamespace request =
     (let ns = reqNamespace request in
      go_bind (IsPrivilegedNamespace ns) (\<lambda>privileged.
        Return (privileged \<and> \<not> slices_Contains serviceaccount_exceptionNamespaces ns)))"

definition serviceaccount_isAllowedServiceAccount :: "object_meta \<Rightarrow> bool" where
  "serviceaccount_isAllowedServiceAccount sa \<longleftrightarrow>
     list_ex (\<lambda>s. metaName sa = s) serviceaccount_allowedServiceAccounts"

definition serviceaccount_authorized ::
  "object_meta decoder \<Rightarrow> admission_request \<Rightarrow> response go_result" where
  "serviceaccount_authorized decoder request =
     (if username request = ''system:unauthenticated''
      then Return (respond request (Denied ''Unauthenticated''))
      else if strings_HasPrefix (username request) ''system:''
      then Return (respond request (Allowed ''authenticated system: users are allowed''))
      else if strings_HasPrefix (username request) ''kube:''
      then Return (respond request (Allowed ''kube: users are allowed''))
      else (case serviceaccount_renderServiceAccount decoder request of
              Inl err \<Rightarrow> Return (new_response (Errored 400 err))
            | Inr sa \<Rightarrow> go_bind (serviceaccount_isProtectedNamespace request) (\<lambda>protected.
                if protected \<and> \<not> serviceaccount_isAllowedUserGroup request \<and>
                   reqOperation request = Delete \<and> \<not> serviceaccount_isAllowedServiceAccount sa
                then Return (respond request (Denied
                  (''Deleting protected service account under namespace '' @ reqNamespace request @ '' is not allowed'')))
                else Return (respond request (Allowed ''Request is allowed'')))))"

definition serviceaccount_Validate :: "admission_request \<Rightarrow> bool" where
  [hook_defs]: "serviceaccount_Validate request \<longleftrightarrow> username request \<noteq> [] \<and> kind request = ''ServiceAccount''"

definition serviceaccount_NewWebhook :: "'s scheme_builders \<Rightarrow> 's factory_result" where
  [factory_defs]: "serviceaccount_NewWebhook api = add_to_scheme api
    [(AdmissionV1, ''Fail adding admissionsv1 scheme to serviceAccountWebhook''),
     (CoreV1, ''Fail adding corev1 scheme to serviceAccountWebhook'')] (NewScheme api)"

text \<open>The last character of the documentation is a full-width stop, three bytes long.\<close>

definition serviceaccount_Webhook :: "object_meta decoder \<Rightarrow> webhook" where
  [hook_defs]: "serviceaccount_Webhook decoder =
    \<lparr>Authorized = stateless (serviceaccount_authorized decoder),
     GetURI = ''/'' @ serviceaccount_WebhookName,
     Validate = serviceaccount_Validate,
     Name = serviceaccount_WebhookName,
     FailurePolicy = Ignore,
     MatchPolicy = Equivalent,
     Rules = serviceaccount_rules,
     ObjectSelector = None,
     SideEffects = SideEffectClassNone,
     TimeoutSeconds = 2,
     Doc = ''Managed OpenShift Customers may not delete the service accounts under the managed namespaces'' @
       [CHR 0xE3, CHR 0x80, CHR 0x82],
     SyncSetLabelSelector = DefaultLabelSelector,
     ClassicEnabled = True,
     HypershiftEnabled = True\<rparr>"

section \<open>Properties\<close>

lemma serviceaccount_isProtectedNamespace_eq [simp]:
  "serviceaccount_isProtectedNamespace req =
     Return (managed_namespace (reqNamespace req) \<and> reqNamespace req \<notin> set serviceaccount_exceptionNamespaces)"
  by (simp add: serviceaccount_isProtectedNamespace_def Let_def)

interpretation serviceaccount: authenticated_webhook "serviceaccount_Webhook d" for d
  by unfold_locales
    (auto simp: hook_defs serviceaccount_authorized_def uri_slug_def suffix_def
      split: sum.splits if_splits)

text \<open>
  (C39) The service account hook never panics. It errs exactly when a user it has to check sends a
  stored object that does not decode. It refuses \<open>system:unauthenticated\<close>, and otherwise exactly
  the deletion, in a managed namespace outside of the four exceptions, of a service account other
  than \<open>builder\<close>, \<open>default\<close> and \<open>deployer\<close>, by a user who is none of: a system user, a \<open>kube:\<close>
  user, the backplane administrator, a member of the SRE backplane group.
\<close>

theorem serviceaccount_guard:
  "\<exists>resp. Authorized (serviceaccount_Webhook d) req w = (Return resp, w) \<and>
     (let v = respVerdict resp; user = username req; old = reqOldObject req;
          checked = (\<not> prefix ''system:'' user \<and> \<not> prefix ''kube:'' user);
          sa = (if old \<noteq> [] then DecodeRaw d old else Inr zero_meta) in
      (errs v \<longleftrightarrow> checked \<and> (\<exists>err. sa = Inl err)) \<and>
      (refuses v \<longleftrightarrow> user = ''system:unauthenticated'' \<or>
         (checked \<and> user \<noteq> ''backplane-cluster-admin'' \<and>
          ''system:serviceaccounts:openshift-backplane-srep'' \<notin> set (groups req) \<and>
          reqOperation req = Delete \<and> managed_namespace (reqNamespace req) \<and>
          reqNamespace req \<notin> set serviceaccount_exceptionNamespaces \<and>
          (\<exists>obj. sa = Inr obj \<and> metaName obj \<notin> {''builder'', ''default'', ''deployer''}))))"
  by (auto simp: Let_def serviceaccount_Webhook_def serviceaccount_authorized_def
      serviceaccount_renderServiceAccount_def serviceaccount_isAllowedUserGroup_def
      serviceaccount_allowedUsers_def serviceaccount_allowedGroups_def
      serviceaccount_isAllowedServiceAccount_def serviceaccount_allowedServiceAccounts_def
      split: sum.splits)

end
