(* ===== verification/Hook_TechPreviewNoUpgrade.thy ===== *)
theory Hook_TechPreviewNoUpgrade
  imports Webhook_Utils
begin

text \<open>
  \<open>pkg/webhooks/techpreviewnoupgrade/techpreviewnoupgrade.go\<close>: nobody switches on the
  \<open>TechPreviewNoUpgrade\<close> feature set. Of a \<open>configv1.FeatureGate\<close> the hook reads
  \<open>Spec.FeatureSet\<close>, which is what its decoder gives.
\<close>

section \<open>Model\<close>

definition techpreview_WebhookName :: string where
  [hook_defs]: "techpreview_WebhookName = ''techpreviewnoupgrade-validation''"

definition techpreview_rules :: "rule_with_operations list" where
  [hook_defs]: "techpreview_rules =
    [\<lparr>Operations = [Create, Update], APIGroups = [''config.openshift.io''], APIVersions = [''*''],
      Resources = [''featuregates''], Scope = ClusterScope\<rparr>]"

record feature_gate =
  FeatureSet :: string

definition techpreview_Validate :: "admission_request \<Rightarrow> bool" where
  [hook_defs]: "techpreview_Validate req \<longleftrightarrow> username req \<noteq> [] \<and> kind req = ''FeatureGate''"

text \<open>The decoder fills an object the code allocates, so a successful result is never nil.\<close>

definition renderFeatureGate :: "feature_gate decoder \<Rightarrow> admission_request \<Rightarrow> go_error + feature_gate" where
  "renderFeatureGate decoder request = DecodeRaw decoder (reqObject request)"

definition techpreview_authorized :: "feature_gate decoder \<Rightarrow> admission_request \<Rightarrow> response" where
  "techpreview_authorized decoder request =
     (case renderFeatureGate decoder request of
        Inl err \<Rightarrow> respond request (Errored 400 err)
      | Inr featureGate \<Rightarrow>
          (if FeatureSet featureGate = ''TechPreviewNoUpgrade''
           then respond request (Denied ''The TechPreviewNoUpgrade Feature Gate is not allowed'')
           else respond request (Allowed ''FeatureGate operation is allowed'')))"

definition techpreview_NewWebhook :: "'s scheme_builders \<Rightarrow> 's factory_result" where
  [factory_defs]: "techpreview_NewWebhook api = add_to_scheme api
    [(AdmissionV1, ''Fail adding admissionsv1 scheme to TechPreviewNoUpgradeWebhook''),
     (CoreV1, ''Fail adding corev1 scheme to TechPreviewNoUpgradeWebhook'')] (NewScheme api)"

definition techpreview_Webhook :: "feature_gate decoder \<Rightarrow> webhook" where
  [hook_defs]: "techpreview_Webhook decoder =
    \<lparr>Authorized = stateless (\<lambda>request. Return (techpreview_authorized decoder request)),
     GetURI = ''/'' @ techpreview_WebhookName,
     Validate = techpreview_Validate,
     Name = techpreview_WebhookName,
     FailurePolicy = Ignore,
     MatchPolicy = Equivalent,
     Rules = techpreview_rules,
     ObjectSelector = None,
     SideEffects = SideEffectClassNone,
     TimeoutSeconds = 1,
     Doc = ''Managed OpenShift Customers may not use TechPreviewNoUpgrade FeatureGate that could prevent any future ability to do a y-stream upgrade to their clusters.'',
     SyncSetLabelSelector = DefaultLabelSelector,
     ClassicEnabled = True,
     HypershiftEnabled = True\<rparr>"

section \<open>Properties\<close>

interpretation techpreview: validating_webhook "techpreview_Webhook d" for d
  by unfold_locales
    (auto simp: hook_defs techpreview_authorized_def uri_slug_def suffix_def split: sum.splits if_splits)

lemma techpreview_exact:
  "decides_by (techpreview_Webhook d) (\<lambda>req. \<exists>err. DecodeRaw d (reqObject req) = Inl err)
     (\<lambda>req. \<exists>fg. DecodeRaw d (reqObject req) = Inr fg \<and> FeatureSet fg = ''TechPreviewNoUpgrade'')"
  by (auto simp: decides_by_def techpreview_Webhook_def techpreview_authorized_def renderFeatureGate_def split: sum.splits)

end
