(* ===== verification/Registry.thy ===== *)
theory Registry
  imports Dispatcher Hook_ClusterLogging Hook_ClusterRole Hook_ClusterRoleBinding Hook_CustomResourceDefinitions Hook_HcpNamespace Hook_HiveOwnership Hook_HostedCluster Hook_HostedControlPlane Hook_ImageContentPolicies Hook_IngressConfig Hook_IngressController Hook_ManifestWorks Hook_Namespace Hook_NetworkOperator Hook_NetworkPolicies Hook_Node Hook_Pod Hook_PodImageSpec Hook_PrometheusRule Hook_RegularUser Hook_Scc Hook_SdnMigration Hook_Service Hook_ServiceAccount Hook_TechPreviewNoUpgrade
begin

text \<open>
  \<open>pkg/webhooks/register.go\<close> and the 25 files \<open>add_*.go\<close> beside it: each has an \<open>init\<close> function that
  registers one hook under its \<open>WebhookName\<close>. A record holds the parameters of the hooks (decoders
  and the API server). The map is built in the order in which Go runs the \<open>init\<close> functions of a
  package, the order of the file names.

  The lemmas show that the registry is the list it is meant to be, that names and URIs do not clash,
  and, through the interpretations of the hook theories, that the dispatcher keeps its promises for
  every registered hook.
\<close>

section \<open>Registration\<close>

record dependencies =
  clusterlogging_d :: "cluster_logging decoder"
  clusterrole_d :: "object_meta decoder"
  crb_d :: "cluster_role_binding decoder"
  crd_d :: "object_meta decoder"
  icp_d :: mirror_decoders
  ingresscontroller_d :: "ingress_controller decoder"
  namespace_d :: "object_meta decoder"
  networkoperator_d :: "operator_network decoder"
  networkpolicies_d :: "network_policy decoder"
  node_d :: "object_meta decoder"
  pod_d :: "pod decoder"
  podimagespec_d :: "image_pod decoder"
  prometheusrule_d :: "object_meta decoder"
  regularuser_d :: regularuser_decoders
  scc_d :: "object_meta decoder"
  sdn_d :: "network_config decoder"
  service_d :: "service decoder"
  serviceaccount_d :: "object_meta decoder"
  techpreview_d :: "feature_gate decoder"
  complete_d :: completion
  kube_d :: kube_api
  marshal_d :: "image_pod \<Rightarrow> go_error + raw_extension"
  order_d :: "string list \<Rightarrow> string list"

definition add_clusterlogging :: "dependencies \<Rightarrow> registered_webhooks \<Rightarrow> registered_webhooks" where
  "add_clusterlogging ds = Register clusterlogging_WebhookName (clusterlogging_Webhook (clusterlogging_d ds))"

definition add_clusterrole :: "dependencies \<Rightarrow> registered_webhooks \<Rightarrow> registered_webhooks" where
  "add_clusterrole ds = Register clusterrole_WebhookName (clusterrole_Webhook (clusterrole_d ds))"

definition add_clusterrolebinding :: "dependencies \<Rightarrow> registered_webhooks \<Rightarrow> registered_webhooks" where
  "add_clusterrolebinding ds = Register crb_WebhookName (crb_Webhook (crb_d ds))"

definition add_customresourcedefinitions :: "dependencies \<Rightarrow> registered_webhooks \<Rightarrow> registered_webhooks" where
  "add_customresourcedefinitions ds = Register crd_WebhookName (crd_Webhook (crd_d ds))"

definition add_hcpnamespace :: "dependencies \<Rightarrow> registered_webhooks \<Rightarrow> registered_webhooks" where
  "add_hcpnamespace ds = Register hcpnamespace_WebhookName hcpnamespace_Webhook"

definition add_hiveownership :: "dependencies \<Rightarrow> registered_webhooks \<Rightarrow> registered_webhooks" where
  "add_hiveownership ds = Register hiveownership_WebhookName hiveownership_Webhook"

definition add_hostedcluster :: "dependencies \<Rightarrow> registered_webhooks \<Rightarrow> registered_webhooks" where
  "add_hostedcluster ds = Register hostedcluster_WebhookName hostedcluster_Webhook"

definition add_hostedcontrolplane :: "dependencies \<Rightarrow> registered_webhooks \<Rightarrow> registered_webhooks" where
  "add_hostedcontrolplane ds = Register hostedcontrolplane_WebhookName hostedcontrolplane_Webhook"

definition add_imagecontentpolicies :: "dependencies \<Rightarrow> registered_webhooks \<Rightarrow> registered_webhooks" where
  "add_imagecontentpolicies ds = Register icp_WebhookName (icp_Webhook (icp_d ds))"

definition add_ingressconfig_hook :: "dependencies \<Rightarrow> registered_webhooks \<Rightarrow> registered_webhooks" where
  "add_ingressconfig_hook ds = Register ingressconfig_WebhookName ingressconfig_Webhook"

definition add_ingresscontroller :: "dependencies \<Rightarrow> registered_webhooks \<Rightarrow> registered_webhooks" where
  "add_ingresscontroller ds = Register ingresscontroller_WebhookName (ingresscontroller_Webhook (ingresscontroller_d ds))"

definition add_manifestworks :: "dependencies \<Rightarrow> registered_webhooks \<Rightarrow> registered_webhooks" where
  "add_manifestworks ds = Register manifestworks_WebhookName manifestworks_Webhook"

definition add_namespace_hook :: "dependencies \<Rightarrow> registered_webhooks \<Rightarrow> registered_webhooks" where
  "add_namespace_hook ds = Register namespace_WebhookName (namespace_Webhook (namespace_d ds))"

definition add_networkoperator :: "dependencies \<Rightarrow> registered_webhooks \<Rightarrow> registered_webhooks" where
  "add_networkoperator ds = Register networkoperator_WebhookName (networkoperator_Webhook (networkoperator_d ds))"

definition add_networkpolicy :: "dependencies \<Rightarrow> registered_webhooks \<Rightarrow> registered_webhooks" where
  "add_networkpolicy ds = Register networkpolicies_WebhookName (networkpolicies_Webhook (networkpolicies_d ds))"

definition add_node :: "dependencies \<Rightarrow> registered_webhooks \<Rightarrow> registered_webhooks" where
  "add_node ds = Register node_WebhookName (node_Webhook (node_d ds))"

definition add_pod :: "dependencies \<Rightarrow> registered_webhooks \<Rightarrow> registered_webhooks" where
  "add_pod ds = Register pod_WebhookName (pod_Webhook (pod_d ds))"

definition add_podimagespec :: "dependencies \<Rightarrow> registered_webhooks \<Rightarrow> registered_webhooks" where
  "add_podimagespec ds = Register podimagespec_WebhookName (podimagespec_Webhook (complete_d ds) (kube_d ds) (marshal_d ds) (podimagespec_d ds))"

definition add_prometheusrule :: "dependencies \<Rightarrow> registered_webhooks \<Rightarrow> registered_webhooks" where
  "add_prometheusrule ds = Register prometheusrule_WebhookName (prometheusrule_Webhook (prometheusrule_d ds))"

definition add_regularuser :: "dependencies \<Rightarrow> registered_webhooks \<Rightarrow> registered_webhooks" where
  "add_regularuser ds = Register regularuser_WebhookName (regularuser_Webhook (order_d ds) (regularuser_d ds))"

definition add_scc :: "dependencies \<Rightarrow> registered_webhooks \<Rightarrow> registered_webhooks" where
  "add_scc ds = Register scc_WebhookName (scc_Webhook (scc_d ds))"

definition add_sdnmigration :: "dependencies \<Rightarrow> registered_webhooks \<Rightarrow> registered_webhooks" where
  "add_sdnmigration ds = Register sdn_WebhookName (sdn_Webhook (sdn_d ds))"

definition add_service_hook :: "dependencies \<Rightarrow> registered_webhooks \<Rightarrow> registered_webhooks" where
  "add_service_hook ds = Register service_WebhookName (service_Webhook (complete_d ds) (service_d ds))"

definition add_serviceaccount :: "dependencies \<Rightarrow> registered_webhooks \<Rightarrow> registered_webhooks" where
  "add_serviceaccount ds = Register serviceaccount_WebhookName (serviceaccount_Webhook (serviceaccount_d ds))"

definition add_techpreviewnoupgrade :: "dependencies \<Rightarrow> registered_webhooks \<Rightarrow> registered_webhooks" where
  "add_techpreviewnoupgrade ds = Register techpreview_WebhookName (techpreview_Webhook (techpreview_d ds))"

definition Webhooks :: "dependencies \<Rightarrow> registered_webhooks" where
  "Webhooks ds = fold (\<lambda>add. add ds)
     [add_clusterlogging, add_clusterrole, add_clusterrolebinding, add_customresourcedefinitions, add_hcpnamespace, add_hiveownership, add_hostedcluster, add_hostedcontrolplane, add_imagecontentpolicies, add_ingressconfig_hook, add_ingresscontroller, add_manifestworks, add_namespace_hook, add_networkoperator, add_networkpolicy, add_node, add_pod, add_podimagespec, add_prometheusrule, add_regularuser, add_scc, add_sdnmigration, add_service_hook, add_serviceaccount, add_techpreviewnoupgrade] []"

text \<open>
  What the registered factories do when they are called. The record of a hook above is what a factory
  makes when its scheme can be built.
\<close>

definition Factories :: "'s scheme_builders \<Rightarrow> (string \<times> 's factory_result) list" where
  "Factories api =
     [(clusterlogging_WebhookName, clusterlogging_NewWebhook api),
      (clusterrole_WebhookName, clusterrole_NewWebhook api),
      (crb_WebhookName, crb_NewWebhook api),
      (crd_WebhookName, crd_NewWebhook api),
      (hcpnamespace_WebhookName, hcpnamespace_NewWebhook api),
      (hiveownership_WebhookName, hiveownership_NewWebhook api),
      (hostedcluster_WebhookName, hostedcluster_NewWebhook api),
      (hostedcontrolplane_WebhookName, hostedcontrolplane_NewWebhook api),
      (icp_WebhookName, icp_NewWebhook api),
      (ingressconfig_WebhookName, ingressconfig_NewWebhook api),
      (ingresscontroller_WebhookName, ingresscontroller_NewWebhook api),
      (manifestworks_WebhookName, manifestworks_NewWebhook api),
      (namespace_WebhookName, namespace_NewWebhook api),
      (networkoperator_WebhookName, networkoperator_NewWebhook api),
      (networkpolicies_WebhookName, networkpolicies_NewWebhook api),
      (node_WebhookName, node_NewWebhook api),
      (pod_WebhookName, pod_NewWebhook api),
      (podimagespec_WebhookName, podimagespec_NewWebhook api),
      (prometheusrule_WebhookName, prometheusrule_NewWebhook api),
      (regularuser_WebhookName, regularuser_NewWebhook api),
      (scc_WebhookName, scc_NewWebhook api),
      (sdn_WebhookName, sdn_NewWebhook api),
      (service_WebhookName, service_NewWebhook api),
      (serviceaccount_WebhookName, serviceaccount_NewWebhook api),
      (techpreview_WebhookName, techpreview_NewWebhook api)]"

section \<open>The registry as a table\<close>

definition hook_table :: "dependencies \<Rightarrow> webhook list" where
  "hook_table ds =
     [clusterlogging_Webhook (clusterlogging_d ds),
      clusterrole_Webhook (clusterrole_d ds),
      crb_Webhook (crb_d ds),
      crd_Webhook (crd_d ds),
      hcpnamespace_Webhook,
      hiveownership_Webhook,
      hostedcluster_Webhook,
      hostedcontrolplane_Webhook,
      icp_Webhook (icp_d ds),
      ingressconfig_Webhook,
      ingresscontroller_Webhook (ingresscontroller_d ds),
      manifestworks_Webhook,
      namespace_Webhook (namespace_d ds),
      networkoperator_Webhook (networkoperator_d ds),
      networkpolicies_Webhook (networkpolicies_d ds),
      node_Webhook (node_d ds),
      pod_Webhook (pod_d ds),
      podimagespec_Webhook (complete_d ds) (kube_d ds) (marshal_d ds) (podimagespec_d ds),
      prometheusrule_Webhook (prometheusrule_d ds),
      regularuser_Webhook (order_d ds) (regularuser_d ds),
      scc_Webhook (scc_d ds),
      sdn_Webhook (sdn_d ds),
      service_Webhook (complete_d ds) (service_d ds),
      serviceaccount_Webhook (serviceaccount_d ds),
      techpreview_Webhook (techpreview_d ds)]"

lemmas add_defs =
  add_clusterlogging_def add_clusterrole_def add_clusterrolebinding_def add_customresourcedefinitions_def add_hcpnamespace_def add_hiveownership_def add_hostedcluster_def add_hostedcontrolplane_def add_imagecontentpolicies_def add_ingressconfig_hook_def add_ingresscontroller_def add_manifestworks_def add_namespace_hook_def add_networkoperator_def add_networkpolicy_def add_node_def add_pod_def add_podimagespec_def add_prometheusrule_def add_regularuser_def add_scc_def add_sdnmigration_def add_service_hook_def add_serviceaccount_def add_techpreviewnoupgrade_def

definition webhook_names :: "string list" where
  "webhook_names =
     [clusterlogging_WebhookName, clusterrole_WebhookName, crb_WebhookName, crd_WebhookName,
      hcpnamespace_WebhookName, hiveownership_WebhookName, hostedcluster_WebhookName, hostedcontrolplane_WebhookName,
      icp_WebhookName, ingressconfig_WebhookName, ingresscontroller_WebhookName, manifestworks_WebhookName,
      namespace_WebhookName, networkoperator_WebhookName, networkpolicies_WebhookName, node_WebhookName,
      pod_WebhookName, podimagespec_WebhookName, prometheusrule_WebhookName, regularuser_WebhookName,
      scc_WebhookName, sdn_WebhookName, service_WebhookName, serviceaccount_WebhookName,
      techpreview_WebhookName]"

lemma Register_new: "name \<notin> fst ` set ws \<Longrightarrow> Register name input ws = ws @ [(name, input)]"
  unfolding Register_def by (induction ws) auto

lemma Registers:
  "distinct (map fst (ws @ ps)) \<Longrightarrow> fold (\<lambda>(name, hook). Register name hook) ps ws = ws @ ps"
proof (induction ps arbitrary: ws)
  case (Cons p ps)
  obtain n h where p: "p = (n, h)" by (cases p)
  have "Register n h ws = ws @ [(n, h)]"
    using Cons.prems by (intro Register_new) (simp add: p)
  with Cons.IH [of "ws @ [(n, h)]"] Cons.prems show ?case by (simp add: p)
qed simp

lemma webhook_names_distinct: "distinct webhook_names"
  by code_simp

lemma hook_table_names: "map Name (hook_table ds) = webhook_names"
  by (simp add: hook_table_def webhook_names_def hook_defs)

lemma Webhooks_table: "Webhooks ds = map (\<lambda>h. (Name h, h)) (hook_table ds)"
proof -
  have len: "length webhook_names = length (hook_table ds)"
    by (simp add: hook_table_names [of ds, symmetric])
  have "Webhooks ds = fold (\<lambda>(name, hook). Register name hook) (zip webhook_names (hook_table ds)) []"
    by (simp add: Webhooks_def add_defs hook_table_def webhook_names_def)
  also have "\<dots> = zip webhook_names (hook_table ds)"
    by (subst Registers) (simp_all add: webhook_names_distinct len)
  also have "\<dots> = map (\<lambda>h. (Name h, h)) (hook_table ds)"
    by (simp add: hook_table_names [of ds, symmetric] zip_map1 zip_same_conv_map)
  finally show ?thesis .
qed

lemma Factories_names: "map fst (Factories api) = webhook_names"
  by (simp add: Factories_def webhook_names_def)

text \<open>
  A factory that fails logs a message of the form \<open>Fail...\<close> and exits with code 1, or panics with an
  error of \<open>operatorv1.Install\<close>.
\<close>

definition factory_fails_well :: "'s scheme_builders \<Rightarrow> 's factory_result \<Rightarrow> bool" where
  "factory_fails_well api r = (case r of
      Made _ \<Rightarrow> True
    | Exits message code \<Rightarrow> prefix ''Fail'' message \<and> code = 1
    | Panics err \<Rightarrow> (\<exists>s. fst (AddToScheme api OperatorV1 s) = Some err))"

lemma Made_fails_well [simp]: "factory_fails_well api (Made s)"
  by (simp add: factory_fails_well_def)

lemma steps_fail_well:
  "list_all (prefix ''Fail'' \<circ> snd) steps \<Longrightarrow> factory_fails_well api (add_to_scheme api steps s)"
  by (auto simp: factory_fails_well_def add_to_scheme_not_panic list_all_iff split: factory_result.split
      dest: add_to_scheme_exits)

lemma Must_fails_well:
  assumes "list_all (prefix ''Fail'' \<circ> snd) steps"
  shows "factory_fails_well api (and_then (add_to_scheme api steps s) (\<lambda>s. Must (AddToScheme api OperatorV1 s)))"
proof (cases "add_to_scheme api steps s")
  case (Made t)
  obtain e t' where "AddToScheme api OperatorV1 t = (e, t')" by fastforce
  with Made show ?thesis by (cases e) (auto simp: Must_def factory_fails_well_def intro: exI [of _ t])
qed (use steps_fail_well [OF assms, of api s] in \<open>simp_all add: factory_fails_well_def\<close>)

lemma Factories_fail_well: "list_all (factory_fails_well api \<circ> snd) (Factories api)"
  by (simp add: Factories_def factory_defs steps_fail_well Must_fails_well del: add_to_scheme.simps)

lemma Factories_made:
  assumes "builders_succeed api"
  shows "list_all (is_Made \<circ> snd) (Factories api)"
  by (simp add: Factories_def factory_defs builders_succeed_made [OF assms] Must_made [OF assms]
      del: add_to_scheme.simps)

section \<open>What every registered hook promises\<close>

lemma hook_table_uris:
  "distinct (map GetURI (hook_table ds))"
  by (simp add: hook_table_def hook_defs)

lemmas registered_contracts =
  clusterlogging.webhook_meta_axioms clusterrole.webhook_meta_axioms crb.webhook_meta_axioms
  crd.webhook_meta_axioms hcpnamespace.webhook_meta_axioms hiveownership.webhook_meta_axioms
  hostedcluster.webhook_meta_axioms hostedcontrolplane.webhook_meta_axioms icp.webhook_meta_axioms
  ingressconfig.webhook_meta_axioms ingresscontroller.webhook_meta_axioms
  manifestworks.webhook_meta_axioms namespace.webhook_meta_axioms networkoperator.webhook_meta_axioms
  networkpolicies.webhook_meta_axioms node.webhook_meta_axioms pod.webhook_meta_axioms
  podimagespec.webhook_meta_axioms prometheusrule.webhook_meta_axioms regularuser.webhook_meta_axioms
  scc.webhook_meta_axioms sdn.webhook_meta_axioms service.webhook_meta_axioms
  serviceaccount.webhook_meta_axioms techpreview.webhook_meta_axioms

lemma registered_meta: "list_all webhook_meta (hook_table ds)"
  by (simp add: hook_table_def registered_contracts)

text \<open>The resource generator tells validating from mutating hooks by the suffix of the name.\<close>

definition is_mutation :: "webhook \<Rightarrow> bool" where
  "is_mutation h \<longleftrightarrow> strings_HasSuffix (Name h) ''-mutation''"

lemmas registered_validating_contracts =
  clusterlogging.validating_webhook_axioms clusterrole.validating_webhook_axioms
  crb.validating_webhook_axioms crd.validating_webhook_axioms hcpnamespace.validating_webhook_axioms
  hiveownership.validating_webhook_axioms hostedcluster.validating_webhook_axioms
  hostedcontrolplane.validating_webhook_axioms icp.validating_webhook_axioms
  ingressconfig.validating_webhook_axioms ingresscontroller.validating_webhook_axioms
  manifestworks.validating_webhook_axioms namespace.validating_webhook_axioms
  networkoperator.validating_webhook_axioms networkpolicies.validating_webhook_axioms
  node.validating_webhook_axioms pod.validating_webhook_axioms
  prometheusrule.validating_webhook_axioms regularuser.validating_webhook_axioms
  scc.validating_webhook_axioms sdn.validating_webhook_axioms serviceaccount.validating_webhook_axioms
  techpreview.validating_webhook_axioms

lemma is_mutation_hooks:
  "is_mutation (podimagespec_Webhook complete kube marshal d)" "is_mutation (service_Webhook complete d')"
  by (simp_all add: is_mutation_def hook_defs suffix_def)

lemmas table_kinds = is_mutation_hooks
  registered_validating_contracts [THEN validating_webhook.not_mutation, folded is_mutation_def]

lemma mutation_hooks:
  "filter is_mutation (hook_table ds) =
     [podimagespec_Webhook (complete_d ds) (kube_d ds) (marshal_d ds) (podimagespec_d ds),
      service_Webhook (complete_d ds) (service_d ds)]"
  by (simp add: hook_table_def table_kinds)

lemma registered_validating: "list_all validating_webhook (filter (\<lambda>h. \<not> is_mutation h) (hook_table ds))"
  by (simp add: hook_table_def table_kinds registered_validating_contracts)

text \<open>
  (C15) The registry: 25 hooks, each under the name it reports itself, no two with the same name or
  the same URI; every hook has a well-formed name and URI, a timeout the API server accepts, at least
  one rule and no side effects; the mutating hooks are the two whose name ends in \<open>-mutation\<close>, and all others
  meet the contract of a validating hook: their decisions carry the UID of the request, and they add
  no audit annotations of their own.
\<close>

theorem registry_sound:
  "length (Webhooks ds) = 25 \<and> distinct (map fst (Webhooks ds)) \<and>
   distinct (map (GetURI \<circ> snd) (Webhooks ds)) \<and>
   list_all (\<lambda>(name, hook). name = Name hook \<and> webhook_meta hook) (Webhooks ds) \<and>
   map fst (filter (is_mutation \<circ> snd) (Webhooks ds)) = [''podimagespec-mutation'', ''service-mutation''] \<and>
   list_all (\<lambda>(name, hook). validating_webhook hook) (filter (Not \<circ> is_mutation \<circ> snd) (Webhooks ds))"
proof -
  have "length (Webhooks ds) = 25" by (simp add: Webhooks_table hook_table_def)
  moreover have "map fst (Webhooks ds) = webhook_names"
    by (simp add: Webhooks_table comp_def hook_table_names)
  moreover have "distinct (map (GetURI \<circ> snd) (Webhooks ds))"
    using hook_table_uris [of ds] by (simp add: Webhooks_table comp_def)
  moreover have "list_all (\<lambda>(name, hook). name = Name hook \<and> webhook_meta hook) (Webhooks ds)"
    using registered_meta [of ds] by (simp add: Webhooks_table list_all_iff)
  moreover have "filter (is_mutation \<circ> snd) (Webhooks ds) = map (\<lambda>h. (Name h, h)) (filter is_mutation (hook_table ds))"
    by (simp add: Webhooks_table filter_map comp_def)
  then have "map fst (filter (is_mutation \<circ> snd) (Webhooks ds)) = [''podimagespec-mutation'', ''service-mutation'']"
    by (simp add: mutation_hooks hook_defs)
  moreover have "list_all (\<lambda>(name, hook). validating_webhook hook) (filter (Not \<circ> is_mutation \<circ> snd) (Webhooks ds))"
    using registered_validating [of ds] by (auto simp: Webhooks_table list_all_iff)
  ultimately show ?thesis using webhook_names_distinct by metis
qed

section \<open>From the registry through the dispatcher\<close>

lemma registered_lookup:
  "(name, hook) \<in> set (Webhooks ds) \<Longrightarrow> NewDispatcher (Webhooks ds) (GetURI hook) = Some hook"
  using hook_table_uris [of ds] NewDispatcher_lookup [of "Webhooks ds" name hook]
  by (simp add: Webhooks_table comp_def)

lemma registered_is_validating:
  "(name, hook) \<in> set (Webhooks ds) \<Longrightarrow> \<not> strings_HasSuffix name ''-mutation'' \<Longrightarrow> validating_webhook hook"
  using registered_validating [of ds] by (auto simp: Webhooks_table list_all_iff is_mutation_def)

text \<open>
  (C1) End to end, for a request that reaches the URI of a registered validating hook with a well-formed
  AdmissionReview. The response is an error with code 400 when the hook's \<open>Validate\<close> rejects the request,
  and otherwise what the hook's \<open>Authorized\<close> returns for this very request, which carries the request's
  UID unless it is an error. When the connection takes its encoding, that response is the one review that
  is sent, with HTTP status 200 and the owner annotation. When it does not, the review sent is an error with
  code 500, of the first later attempt that is encoded; when no attempt is ever encoded, and only then, the
  handler does not return. The one other way not to be answered is a panic, and then it is the hook's own,
  on a request it accepted. The record of blocked node requests only grows, and the order in which the map
  of hooks is walked when the dispatcher is made does not matter.
\<close>

theorem served_decision:
  assumes "mset hooks = mset (Webhooks ds)" and "(name, hook) \<in> set hooks"
    and "\<not> strings_HasSuffix name ''-mutation''"
    and "parseURL (RequestURI r) = Inr (GetURI hook)"
    and "ParseHTTPRequest decodeReview r = Inr (req, uid)"
  shows "case HandleRequest parseURL decodeReview encode (NewDispatcher hooks) r w of
     (Panic m, w') \<Rightarrow> Validate hook req \<and> Authorized hook req (new_instance w) = (Panic m, w')
   | (Return sent, w') \<Rightarrow> prefix (nodeBlocked w) (nodeBlocked w') \<and>
       (\<exists>resp. (if Validate hook req then Authorized hook req (new_instance w) = (Return resp, w')
                else resp = new_response (Errored 400 ''not a valid webhook request'') \<and> w' = w) \<and>
          (errs (respVerdict resp) \<or> respUID resp = reqUID req) \<and>
          (case sent of
             None \<Rightarrow> (\<forall>k r. attempted encode 0 resp k = Some r \<longrightarrow> encode k (owned r) \<noteq> None)
           | Some wr \<Rightarrow> status_code wr = 200 \<and> one_owned_review wr \<and>
               (\<exists>k r. attempted encode 0 resp k = Some r \<and> encode k (owned r) = None \<and>
                  wReviews wr = [review_of (owned r)] \<and>
                  (if k = 0 then r = resp else (\<exists>err. r = new_response (Errored 500 err))))))"
proof -
  have reg: "(name, hook) \<in> set (Webhooks ds)" using assms(1,2) mset_eq_setD by blast
  have d: "NewDispatcher hooks (GetURI hook) = Some hook"
    using NewDispatcher_order [of "Webhooks ds" hooks] hook_table_uris [of ds] assms(1) registered_lookup [OF reg]
    by (simp add: Webhooks_table comp_def)
  show ?thesis
    by (rule validating_webhook.dispatched [OF registered_is_validating [OF reg assms(3)], unfolded delivered_def])
      (fact assms(4) d assms(5))+
qed

subsection \<open>An example\<close>

text \<open>
  A cluster user deletes a HostedCluster. No decoder is needed, so the parameters are those of a
  program that cannot decode anything.
\<close>

definition blind_decoder :: "'obj decoder" where
  "blind_decoder = \<lparr>Decode = \<lambda>_. Inl ''no kind is registered'', DecodeRaw = \<lambda>_. Inl ''no kind is registered''\<rparr>"

definition blind_dependencies :: dependencies where
  "blind_dependencies = \<lparr>clusterlogging_d = blind_decoder, clusterrole_d = blind_decoder, crb_d = blind_decoder, crd_d =
       blind_decoder, icp_d = \<lparr>decodeIDMS = blind_decoder, decodeITMS = blind_decoder,
       decodeICSP = blind_decoder\<rparr>, ingresscontroller_d = blind_decoder, namespace_d =
       blind_decoder, networkoperator_d = blind_decoder, networkpolicies_d = blind_decoder, node_d =
       blind_decoder, pod_d = blind_decoder, podimagespec_d = blind_decoder, prometheusrule_d =
       blind_decoder, regularuser_d = \<lparr>netNamespaceDecoder = blind_decoder, configMapDecoder =
       blind_decoder\<rparr>, scc_d = blind_decoder, sdn_d = blind_decoder, service_d = blind_decoder,
       serviceaccount_d = blind_decoder, techpreview_d = blind_decoder, complete_d = \<lambda>_ resp.
       (resp, None), kube_d = \<lparr>kubeConnect = Some ''no cluster'', kubeRegistryState = Inl ''no
       cluster'', kubeImageStreamTag = \<lambda>_ _. Inl ''no cluster''\<rparr>, marshal_d =
       \<lambda>_. Inl ''cannot marshal'', order_d = id\<rparr>"

definition example_delete :: admission_request where
  "example_delete = zero_request
     \<lparr>reqUID := ''7f2'', reqKind := \<lparr>gvkGroup = ''hypershift.openshift.io'', gvkVersion = ''v1beta1'', gvkKind = ''HostedCluster''\<rparr>,
      reqOperation := Delete, reqUserInfo := \<lparr>Username = ''bob'', Groups = [''system:authenticated'']\<rparr>\<rparr>"

definition example_http :: http_request where
  "example_http = \<lparr>RequestURI = ''/hostedcluster-validation'', Body = Some (Inr ''{}''), ContentType = ''application/json''\<rparr>"

abbreviation example_handler :: handler where
  "example_handler \<equiv> HandleRequest Inr (\<lambda>_. Inr (Some example_delete)) (\<lambda>_ _. None) (NewDispatcher (Webhooks blind_dependencies))"

lemma example_registered: "(''hostedcluster-validation'', hostedcluster_Webhook) \<in> set (Webhooks blind_dependencies)"
proof -
  have "hostedcluster_Webhook \<in> set (hook_table blind_dependencies)" by (simp add: hook_table_def)
  moreover have "Name hostedcluster_Webhook = ''hostedcluster-validation''" by (simp add: hook_defs)
  ultimately show ?thesis unfolding Webhooks_table by (metis (no_types, lifting) image_eqI list.set_map)
qed

lemma example_parsed:
  "RequestURI example_http = GetURI hostedcluster_Webhook"
  "ParseHTTPRequest (\<lambda>_. Inr (Some example_delete)) example_http = Inr (example_delete, ''7f2'')"
  by (simp_all add: example_http_def example_delete_def ParseHTTPRequest_def validContentType_def hook_defs zero_request_def)

text \<open>The connection refuses the first review and takes the second.\<close>

definition hiccup :: encoder where
  "hiccup n resp = (if n = 0 then Some ''broken pipe'' else None)"

theorem served_decision_witness:
  "\<not> strings_HasSuffix ''hostedcluster-validation'' ''-mutation'' \<and>
   (case HandleRequest Inr (\<lambda>_. Inr (Some example_delete)) hiccup (NewDispatcher (Webhooks blind_dependencies))
       example_http initial_world of
     (Return (Some wr), w') \<Rightarrow> status_code wr = 200 \<and> one_owned_review wr
   | _ \<Rightarrow> False)"
proof
  show no: "\<not> strings_HasSuffix ''hostedcluster-validation'' ''-mutation''" by (simp add: suffix_def)
  have no_panic: "Authorized hostedcluster_Webhook example_delete v \<noteq> (Panic m, v')" for v m v'
    using hostedcluster.decides [of example_delete v] by auto
  have encoded: "\<not> (\<forall>k r. attempted hiccup 0 resp k = Some r \<longrightarrow> hiccup k (owned r) \<noteq> None)" for resp
    by (auto simp: hiccup_def intro!: exI [of _ 1])
  show "case HandleRequest Inr (\<lambda>_. Inr (Some example_delete)) hiccup (NewDispatcher (Webhooks blind_dependencies))
       example_http initial_world of
     (Return (Some wr), w') \<Rightarrow> status_code wr = 200 \<and> one_owned_review wr
   | _ \<Rightarrow> False"
    using served_decision [of "Webhooks blind_dependencies" blind_dependencies "''hostedcluster-validation''"
        hostedcluster_Webhook Inr example_http "\<lambda>_. Inr (Some example_delete)" example_delete "''7f2''"
        initial_world hiccup] example_registered example_parsed no no_panic encoded
    by (auto split: prod.splits go_result.splits option.splits)
qed

theorem dispatch_status_witness:
  "case example_handler example_http initial_world of
     (Return (Some wr), w') \<Rightarrow> one_owned_review wr \<and> status_code wr = 200
   | (Return None, w') \<Rightarrow> False
   | (Panic m, w') \<Rightarrow> True"
  using dispatch_status [where encode = "\<lambda>_ _. None" and parseURL = Inr and decodeReview = "\<lambda>_. Inr (Some example_delete)"
      and d = "NewDispatcher (Webhooks blind_dependencies)" and r = example_http and w = initial_world]
    registered_lookup [OF example_registered] example_parsed
  by (auto split: prod.splits go_result.splits option.splits)

text \<open>Two goroutines: the first has arrived and is waiting when the second arrives.\<close>

definition example_waiting :: server where
  "example_waiting = (start_server initial_world)\<lparr>goroutine := [0 \<mapsto> Waiting example_http, 1 \<mapsto> Waiting example_http]\<rparr>"

definition example_locked :: server where
  "example_locked = example_waiting
     \<lparr>holder := Some 1, goroutine := [0 \<mapsto> Waiting example_http, 1 \<mapsto> Inside example_http initial_world]\<rparr>"

lemma example_waiting_reachable: "server_reachable handle initial_world example_waiting"
proof -
  let ?s = "(start_server initial_world)\<lparr>goroutine := [0 \<mapsto> Waiting example_http]\<rparr>"
  have "server_step handle (start_server initial_world) ?s"
    using server_step.arrive [of "start_server initial_world" 0 handle example_http] by (simp add: start_server_def)
  moreover have "server_step handle ?s example_waiting"
    using server_step.arrive [of ?s 1 handle example_http] by (simp add: start_server_def example_waiting_def)
  ultimately show ?thesis by (meson server_reachable.intros)
qed

lemma example_locked_reachable: "server_reachable handle initial_world example_locked"
proof -
  have "server_step handle example_waiting example_locked"
    using server_step.lock [of example_waiting 1 example_http handle]
    by (simp add: example_waiting_def example_locked_def start_server_def fun_upd_twist)
  with example_waiting_reachable show ?thesis by (rule server_reachable.follow)
qed

theorem mutex_serialises_witness:
  "server_reachable example_handler initial_world example_locked \<and>
   shared example_locked = snd (one_by_one example_handler (served example_locked) initial_world)"
  using mutex_serialises [where encode = "\<lambda>_ _. None" and parseURL = Inr and decodeReview = "\<lambda>_. Inr (Some example_delete)"
      and d = "NewDispatcher (Webhooks blind_dependencies)" and s = example_locked and w = initial_world] example_locked_reachable
  by blast

theorem mutex_no_deadlock_witness:
  "goroutine example_locked 0 = Some (Waiting example_http) \<and>
   (\<exists>s' out. server_steps example_handler example_locked s' \<and> goroutine s' 0 = Some (Answered out))"
proof -
  have "goroutine example_locked 0 = Some (Waiting example_http)" by (simp add: example_locked_def)
  then show ?thesis
    using mutex_no_deadlock [where encode = "\<lambda>_ _. None" and parseURL = Inr and decodeReview = "\<lambda>_. Inr (Some example_delete)"
        and d = "NewDispatcher (Webhooks blind_dependencies)" and s = example_locked and w = initial_world
        and t = 0 and r = example_http]
      example_locked_reachable by simp
qed

end
