(* ===== verification/Go_Flag.thy ===== *)
theory Go_Flag
  imports Go_Base
begin

text \<open>
  Go's package \<open>flag\<close>, as far as \<open>cmd/main.go\<close> uses it, and the flags of that program.
  \<^item> A command line is the list of the arguments after the name of the program. \<open>flag_parse\<close> takes
    flags from its front until something that is no flag, and gives the settings in order; the last
    setting of a flag counts. \<open>flag.CommandLine\<close> ends the process on an error: with code 0 when help is
    asked for, with code 2 otherwise. What it prints then is left out.
  \<^item> A flag is a boolean one, which needs no value, or has a value that its type accepts or not. Other
    packages may register flags of their own, so the table of the known flags is a parameter.
\<close>

section \<open>The package\<close>

datatype flag_kind = BoolFlag | ValueFlag (accepts: "string \<Rightarrow> bool")

abbreviation StringFlag :: flag_kind where
  "StringFlag \<equiv> ValueFlag (\<lambda>_. True)"

type_synonym flag_settings = "(string \<times> string) list"

definition ParseBool :: "string \<Rightarrow> bool option" where
  "ParseBool s =
     (if s \<in> set [''1'', ''t'', ''T'', ''true'', ''TRUE'', ''True''] then Some True
      else if s \<in> set [''0'', ''f'', ''F'', ''false'', ''FALSE'', ''False''] then Some False
      else None)"

text \<open>One argument, read by itself: one or two dashes, a name and perhaps a value after an equals sign.\<close>

datatype flag_token = Positional | Terminator | BadSyntax | Named string "string option"

definition read_token :: "string \<Rightarrow> flag_token" where
  "read_token s =
     (if length s < 2 \<or> hd s \<noteq> CHR ''-'' then Positional
      else if s = ''--'' then Terminator
      else
        (let name = (if s ! 1 = CHR ''-'' then drop 2 s else drop 1 s) in
         if name = [] \<or> hd name = CHR ''-'' \<or> hd name = CHR ''='' then BadSyntax
         else
           (let n = takeWhile (\<lambda>c. c \<noteq> CHR ''='') name in
            Named n (if CHR ''='' \<in> set name then Some (drop (Suc (length n)) name) else None))))"

fun flag_parse :: "(string \<rightharpoonup> flag_kind) \<Rightarrow> string list \<Rightarrow> nat + flag_settings" where
  "flag_parse formal [] = Inr []"
| "flag_parse formal (s # args) =
     (case read_token s of
        Positional \<Rightarrow> Inr []
      | Terminator \<Rightarrow> Inr []
      | BadSyntax \<Rightarrow> Inl 2
      | Named name value \<Rightarrow>
          (case formal name of
             None \<Rightarrow> Inl (if name = ''help'' \<or> name = ''h'' then 0 else 2)
           | Some BoolFlag \<Rightarrow>
               (let v = (case value of None \<Rightarrow> ''true'' | Some v \<Rightarrow> v) in
                if ParseBool v = None then Inl 2 else map_sum id (Cons (name, v)) (flag_parse formal args))
           | Some (ValueFlag ok) \<Rightarrow>
               (case value of
                  Some v \<Rightarrow> (if ok v then map_sum id (Cons (name, v)) (flag_parse formal args) else Inl 2)
                | None \<Rightarrow>
                    (case args of
                       [] \<Rightarrow> Inl 2
                     | v # rest \<Rightarrow> (if ok v then map_sum id (Cons (name, v)) (flag_parse formal rest) else Inl 2)))))"

definition flag_string :: "string \<Rightarrow> string \<Rightarrow> flag_settings \<Rightarrow> string" where
  "flag_string name unset settings = (case map_of (rev settings) name of None \<Rightarrow> unset | Some v \<Rightarrow> v)"

definition flag_bool :: "string \<Rightarrow> flag_settings \<Rightarrow> bool" where
  "flag_bool name settings = (case map_of (rev settings) name of None \<Rightarrow> False | Some v \<Rightarrow> ParseBool v = Some True)"

section \<open>The flags of the server\<close>

definition server_flags :: "string \<rightharpoonup> flag_kind" where
  "server_flags = map_of
     [(''listen'', StringFlag), (''port'', StringFlag), (''testhooks'', BoolFlag), (''tls'', BoolFlag),
      (''tlskey'', StringFlag), (''tlscert'', StringFlag), (''cacert'', StringFlag),
      (''metrics-bind-address'', StringFlag)]"

definition listenPort :: "flag_settings \<Rightarrow> string" where
  "listenPort = flag_string ''port'' ''5000''"

definition testHooks :: "flag_settings \<Rightarrow> bool" where
  "testHooks = flag_bool ''testhooks''"

definition useTLS :: "flag_settings \<Rightarrow> bool" where
  "useTLS = flag_bool ''tls''"

definition caCert :: "flag_settings \<Rightarrow> string" where
  "caCert = flag_string ''cacert'' []"

section \<open>Properties\<close>

lemma flag_parse_exit: "flag_parse formal args = Inl code \<Longrightarrow> code = 0 \<or> code = 2"
proof (induction formal args arbitrary: code rule: flag_parse.induct)
  case (2 formal s args)
  have sum: "map_sum id f r = Inl c \<longleftrightarrow> r = Inl c" for f :: "flag_settings \<Rightarrow> flag_settings" and r c
    by (cases r) auto
  show ?case
  proof (cases "read_token s")
    case (Named name given)
    show ?thesis
    proof (cases "formal name")
      case (Some kind)
      with Named 2 show ?thesis
        by (cases kind; cases given; cases args) (auto simp: sum Let_def split: if_splits)
    qed (use Named "2.prems" in \<open>auto split: if_splits\<close>)
  qed (use "2.prems" in auto)
qed simp

text \<open>
  Reading back: flags written out one by one, each with its value behind an equals sign, are the
  settings that were meant.
\<close>

definition flag_text :: "string \<times> string \<Rightarrow> string" where
  "flag_text = (\<lambda>(name, v). ''-'' @ name @ ''='' @ v)"

definition settable :: "(string \<rightharpoonup> flag_kind) \<Rightarrow> string \<times> string \<Rightarrow> bool" where
  "settable formal = (\<lambda>(name, v). name \<noteq> [] \<and> hd name \<noteq> CHR ''-'' \<and> CHR ''='' \<notin> set name \<and>
     (case formal name of None \<Rightarrow> False | Some BoolFlag \<Rightarrow> ParseBool v \<noteq> None | Some (ValueFlag ok) \<Rightarrow> ok v))"

lemma read_token_text:
  assumes "name \<noteq> []" and "hd name \<noteq> CHR ''-''" and "CHR ''='' \<notin> set name"
  shows "read_token (flag_text (name, v)) = Named name (Some v)"
proof -
  have n: "takeWhile (\<lambda>c. c \<noteq> CHR ''='') (name @ CHR ''='' # v) = name"
    using assms(3) by (subst takeWhile_append2) auto
  obtain c cs where name: "name = c # cs" using assms(1) by (cases name) auto
  with assms n show ?thesis by (auto simp: read_token_def flag_text_def Let_def)
qed

lemma flag_parse_text:
  "list_all (settable formal) settings \<Longrightarrow> flag_parse formal (map flag_text settings) = Inr settings"
proof (induction settings)
  case (Cons s settings)
  obtain name v where s: "s = (name, v)" by (cases s)
  with Cons show ?case
    by (auto simp: settable_def read_token_text split: option.splits flag_kind.splits)
qed simp

end
