(* ===== verification/Server.thy ===== *)
theory Server
  imports Registry K8s_Util Go_Flag
begin

text \<open>
  \<open>cmd/main.go\<close>: how the program starts, serves and stops.
  \<^item> \<open>HandleFunc\<close> is \<open>http.HandleFunc\<close> on the default \<open>ServeMux\<close>, for patterns that are literal paths
    (which the URIs of the registered hooks are, see \<open>uri_slug\<close>): two of them conflict when they are
    equal, and a conflict panics. The files and lines in the text of that panic are left out.
  \<^item> \<open>register_handlers\<close> is the loop over \<open>webhooks.Webhooks\<close>; the list gives the order in which Go
    walks the map, which differs from run to run and from the loop of \<open>NewDispatcher\<close>.
  \<^item> What the surroundings do is a record: the command line, the flags that other packages register, the
    environment, the files, whether metrics can be set up, what ends the wait (a failing server or a
    signal), whether and when a second signal comes, and how the shutdown goes. A signal that
    arrives before \<open>ctrl.SetupSignalHandler\<close> ends any process and is not modelled.
\<close>

section \<open>Registering the handlers\<close>

definition mux_conflict :: "string \<Rightarrow> string" where
  "mux_conflict pattern =
     (let quoted = [CHR 0x22] @ pattern @ [CHR 0x22] in ''pattern '' @ quoted @ '' conflicts with pattern '' @ quoted)"

definition HandleFunc :: "string \<Rightarrow> string list \<Rightarrow> string list go_result" where
  "HandleFunc pattern mux =
     (if pattern = [] then Panic ''http: invalid pattern''
      else if pattern \<in> set mux
      then Panic (mux_conflict pattern)
      else Return (mux @ [pattern]))"

text \<open>The map \<open>seen\<close> is a list of the keys set to true.\<close>

fun register_handlers :: "registered_webhooks \<Rightarrow> string list \<Rightarrow> string list \<Rightarrow> string list go_result" where
  "register_handlers [] seen mux = Return mux"
| "register_handlers ((name, realHook) # rest) seen mux =
     (if GetURI realHook \<in> set seen
      then Panic (''Duplicate webhook trying to listen on '' @ GetURI realHook)
      else go_bind (HandleFunc (GetURI realHook) mux) (\<lambda>mux'. register_handlers rest (name # seen) mux'))"

section \<open>The whole of main\<close>

datatype server_event = ServerFailed go_error | ShutdownSignal

text \<open>
  \<open>config/config.go\<close>, and the configuration that \<open>main\<close> hands to the metrics library; the collectors are those of
  \<open>localmetrics\<close>.
\<close>

definition OperatorName :: string where "OperatorName = ''validation-webhook''"

definition OperatorNamespace :: string where "OperatorNamespace = ''openshift-validation-webhook''"

record metrics_config =
  mcNamespace :: string
  mcName :: string
  mcPort :: string
  mcPath :: string
  mcServiceLabel :: "(string \<times> string) list"

definition metricsServer :: metrics_config where
  "metricsServer =
     \<lparr>mcNamespace = OperatorNamespace, mcName = OperatorName @ ''-metrics'', mcPort = ''8080'', mcPath = ''/metrics'',
      mcServiceLabel = [(''app'', ''validation-webhook'')]\<rparr>"

text \<open>
  \<open>secondSignal\<close>: a second signal that comes while the process still runs makes the handler of
  \<open>ctrl.SetupSignalHandler\<close> end it with code 1; the number says how many messages have been logged by then, counted
  from when that handler was installed.
\<close>

record surroundings =
  osArgs :: "string list" \<comment> \<open>without the name of the program\<close>
  libraryFlags :: "string \<rightharpoonup> flag_kind"
  osEnv :: environment
  osReadFile :: "string \<Rightarrow> read_file"
  configureMetrics :: "metrics_config \<Rightarrow> go_error option"
  serverEvent :: server_event
  secondSignal :: "nat option"
  shutdownError :: "go_error option"

datatype exit_status = ExitCode nat | Panicked string

text \<open>
  \<open>main\<close> gives the messages of its log and how the process ends; returning from \<open>main\<close> is exit code 0.
  The values logged beside a message are left out, and so are the lines of a loop that panics.
\<close>

definition metrics_log :: "surroundings \<Rightarrow> string list" where
  "metrics_log env =
     (case GetOperatorNamespace (osEnv env) (osReadFile env) of
        Inl err \<Rightarrow> (if err = ErrRunLocal then [''Skipping metrics server creation; not running in a cluster.'']
                     else [''Failed to get operator namespace''])
      | Inr _ \<Rightarrow> (case configureMetrics env metricsServer of
                      Some err \<Rightarrow> [''Failed to configure metrics'']
                    | None \<Rightarrow> [''Successfully configured metrics'']))"

definition wait_and_stop :: "surroundings \<Rightarrow> string list \<times> exit_status" where
  "wait_and_stop env =
     (case serverEvent env of
        ServerFailed err \<Rightarrow> ([''Server failed''], ExitCode 1)
      | ShutdownSignal \<Rightarrow>
          (case shutdownError env of
             Some err \<Rightarrow> ([''Shutdown signal received, draining connections'', ''Server shutdown error''], ExitCode 1)
           | None \<Rightarrow> ([''Shutdown signal received, draining connections'', ''Server stopped gracefully''], ExitCode 0)))"

definition read_ca_and_serve :: "surroundings \<Rightarrow> flag_settings \<Rightarrow> string list \<times> exit_status" where
  "read_ca_and_serve env settings =
     (if useTLS settings
      then (case osReadFile env (caCert settings) of
              Contents _ \<Rightarrow> wait_and_stop env
            | _ \<Rightarrow> ([''Couldn't read CA cert file''], ExitCode 1))
      else wait_and_stop env)"

definition server_main :: "surroundings \<Rightarrow> flag_settings \<Rightarrow> registered_webhooks \<Rightarrow> string list \<times> exit_status" where
  "server_main env settings hooks =
     (let running = (if testHooks settings then [] else [''HTTP server running at'']) in
      case register_handlers hooks [] [] of
        Panic m \<Rightarrow> (running, Panicked m)
      | Return mux \<Rightarrow>
          (let listening = running @ (if testHooks settings then [] else map (\<lambda>_. ''Listening'') mux) in
           if testHooks settings then (listening, ExitCode 0)
           else
             (let (msgs, code) = read_ca_and_serve env settings;
                  logged = metrics_log env @ msgs in
              case secondSignal env of
                Some k \<Rightarrow> (listening @ take k logged, ExitCode 1)
              | None \<Rightarrow> (listening @ logged, code))))"

text \<open>
  Before \<open>main\<close>, the packages are initialised: their variables compile the patterns of the hooks, and \<open>utils\<close> fills
  its scheme. A variable whose pattern does not compile ends the process in a panic. The patterns of each
  package, in the order of its variables:
\<close>

definition clusterlogging_patterns :: "string list" where
  "clusterlogging_patterns = [reTimeUnit]"

definition clusterrolebinding_patterns :: "string list" where
  "clusterrolebinding_patterns = [managedNamespaces]"

definition customresourcedefinitions_patterns :: "string list" where
  "customresourcedefinitions_patterns = [PrivilegedServiceAccountGroups]"

definition ingressconfig_patterns :: "string list" where
  "ingressconfig_patterns = [PrivilegedServiceAccountGroups, ingressconfig_privilegedUsers]"

definition namespace_patterns :: "string list" where
  "namespace_patterns = [badNamespace, PrivilegedServiceAccountGroups, layeredProductNamespace]"

definition networkpolicies_patterns :: "string list" where
  "networkpolicies_patterns = [PrivilegedServiceAccountGroups]"

definition pod_patterns :: "string list" where
  "pod_patterns = [unprivilegedNamespace]"

definition podimagespec_patterns :: "string list" where
  "podimagespec_patterns = [imageRegex]"

definition prometheusrule_patterns :: "string list" where
  "prometheusrule_patterns = [PrivilegedServiceAccountGroups]"

definition sdnmigration_patterns :: "string list" where
  "sdnmigration_patterns = [PrivilegedServiceAccountGroups]"

text \<open>All of them, in the order of the import paths (\<open>hcpnamespace\<close> compiles the patterns of its table).\<close>

definition package_patterns :: "string list" where
  "package_patterns = clusterlogging_patterns @ clusterrolebinding_patterns @ customresourcedefinitions_patterns @
     hcpnamespace_protectedNamespacePatterns @ ingressconfig_patterns @ namespace_patterns @
     networkpolicies_patterns @ pod_patterns @ podimagespec_patterns @ prometheusrule_patterns @ sdnmigration_patterns"

fun initialise_patterns :: "string list \<Rightarrow> regexp list go_result" where
  "initialise_patterns [] = Return []"
| "initialise_patterns (pattern # patterns) =
     go_bind (MustCompile pattern) (\<lambda>re. go_bind (initialise_patterns patterns) (\<lambda>res. Return (re # res)))"

text \<open>
  In \<open>main\<close>, \<open>NewDispatcher\<close> calls every factory, in the order in
  which Go walks the map; the first one that cannot make its scheme ends the process.
\<close>

fun call_factories :: "(string \<times> 's factory_result) list \<Rightarrow> (string list \<times> exit_status) option" where
  "call_factories [] = None"
| "call_factories ((name, Made s) # rest) = call_factories rest"
| "call_factories ((name, Exits message code) # rest) = Some ([message], ExitCode code)"
| "call_factories ((name, Panics err) # rest) = Some ([], Panicked err)"

text \<open>\<open>flag.Parse\<close>, on the flags of the program and those that other packages have registered.\<close>

definition parsed_flags :: "surroundings \<Rightarrow> nat + flag_settings" where
  "parsed_flags env = flag_parse (libraryFlags env ++ server_flags) (osArgs env)"

definition server_process ::
  "'s scheme_builders \<Rightarrow> surroundings \<Rightarrow> (string \<times> 's factory_result) list \<Rightarrow> registered_webhooks \<Rightarrow>
     string list \<times> exit_status" where
  "server_process api env factories hooks =
     (case initialise_patterns package_patterns of
        Panic m \<Rightarrow> ([], Panicked m)
      | Return _ \<Rightarrow>
          (case utils_init api of
             Panics err \<Rightarrow> ([], Panicked err)
           | Exits message code \<Rightarrow> ([message], ExitCode code)
           | Made _ \<Rightarrow>
               (case parsed_flags env of
                  Inl code \<Rightarrow> ([], ExitCode code)
                | Inr settings \<Rightarrow>
                    (case call_factories factories of
                       Some (messages, ending) \<Rightarrow>
                         ((if testHooks settings then [] else [''HTTP server running at'']) @ messages, ending)
                     | None \<Rightarrow> server_main env settings hooks))))"

section \<open>Properties\<close>

lemma NewDispatcher_dom: "dom (NewDispatcher hooks) = (GetURI \<circ> snd) ` set hooks"
proof (induction hooks rule: rev_induct)
  case (snoc p hooks)
  obtain n h where p: "p = (n, h)" by (cases p)
  have "dom (NewDispatcher (hooks @ [p])) = insert (GetURI h) (dom (NewDispatcher hooks))"
    by (simp only: p NewDispatcher_append dom_fun_upd option.distinct if_False)
  with snoc show ?case by (simp add: p)
qed (simp add: NewDispatcher_def)

text \<open>
  The check for duplicates looks a URI up among the \<^emph>\<open>names\<close> seen so far. A URI starts with a slash and
  a name does not, so it finds nothing; duplicates are still caught, by the mux.
\<close>

lemma uri_not_slug: "uri_slug u \<Longrightarrow> \<not> is_slug u"
  by (cases u) (auto simp: uri_slug_def)

lemma seen_check_idle:
  assumes "webhook_meta hook" and "list_all is_slug seen"
  shows "GetURI hook \<notin> set seen" and "GetURI hook \<noteq> []"
proof -
  have uri: "uri_slug (GetURI hook)" using webhook_meta.uri_slug [OF assms(1)] .
  then show "GetURI hook \<noteq> []" by (auto simp: uri_slug_def)
  from uri show "GetURI hook \<notin> set seen"
    using uri_not_slug assms(2) unfolding list_all_iff by blast
qed

lemma register_handlers_mux:
  assumes "list_all (\<lambda>(name, hook). name = Name hook \<and> webhook_meta hook) hooks"
    and "list_all is_slug seen" and "distinct mux"
  shows "case register_handlers hooks seen mux of
     Return mux' \<Rightarrow> mux' = mux @ map (GetURI \<circ> snd) hooks \<and> distinct mux'
   | Panic m \<Rightarrow> \<not> distinct (mux @ map (GetURI \<circ> snd) hooks) \<and> (\<exists>uri. m = mux_conflict uri)"
  using assms
proof (induction hooks arbitrary: seen mux)
  case (Cons p hooks)
  obtain name hook where p: "p = (name, hook)" by (cases p)
  from Cons.prems p have meta: "webhook_meta hook" and name: "name = Name hook" by auto
  have slugs: "list_all is_slug (name # seen)"
    using webhook_meta.name_slug [OF meta] name Cons.prems(2) by simp
  note idle = seen_check_idle [OF meta Cons.prems(2)]
  show ?case
  proof (cases "GetURI hook \<in> set mux")
    case True
    with idle show ?thesis by (auto simp: p HandleFunc_def)
  next
    case False
    with Cons.IH [OF _ slugs, of "mux @ [GetURI hook]"] Cons.prems(1,3) idle show ?thesis
      by (auto simp: p HandleFunc_def comp_def split: go_result.splits)
  qed
qed simp

lemma register_all:
  assumes "mset walked = mset (Webhooks ds)"
  shows "register_handlers walked [] [] = Return (map (GetURI \<circ> snd) walked) \<and> distinct (map (GetURI \<circ> snd) walked)"
proof -
  note table = Webhooks_table [of ds]
  have "list_all (\<lambda>(name, hook). name = Name hook \<and> webhook_meta hook) walked"
    using registered_meta [of ds] mset_eq_setD [OF assms] by (auto simp: table list_all_iff)
  note run = register_handlers_mux [OF this, of "[]" "[]"]
  have "mset (map (GetURI \<circ> snd) walked) = mset (map (GetURI \<circ> snd) (Webhooks ds))"
    using assms by simp
  moreover have "distinct (map (GetURI \<circ> snd) (Webhooks ds))"
    using hook_table_uris [of ds] by (simp add: table comp_def)
  ultimately have "distinct (map (GetURI \<circ> snd) walked)" using mset_eq_imp_distinct_iff by blast
  with run show ?thesis by (auto split: go_result.splits)
qed

text \<open>
  (C16) Start-up. However the two loops over the registry happen to walk it, every hook's URI gets a
  handler, no panic occurs, and the paths that reach the dispatcher are exactly those the
  dispatcher has a hook for: its 404 answer stays unused, as its comment expects.
\<close>

theorem startup_routes:
  assumes "mset walked = mset (Webhooks ds)" and "mset hooks = mset (Webhooks ds)"
  shows "\<exists>mux. register_handlers walked [] [] = Return mux \<and> distinct mux \<and> length mux = 25 \<and>
     set mux = dom (NewDispatcher hooks)"
proof -
  let ?mux = "map (GetURI \<circ> snd) walked"
  have "length ?mux = 25" using mset_eq_length [OF assms(1)] by (simp add: Webhooks_table hook_table_def)
  moreover have "set ?mux = dom (NewDispatcher (Webhooks ds))"
    using mset_eq_setD [OF assms(1)] by (simp add: NewDispatcher_dom)
  moreover have "NewDispatcher hooks = NewDispatcher (Webhooks ds)"
    using hook_table_uris [of ds] by (intro NewDispatcher_order assms(2)) (simp add: Webhooks_table comp_def)
  ultimately show ?thesis using register_all [OF assms(1)] by auto
qed

theorem startup_routes_witness:
  "\<exists>mux. register_handlers (rev (Webhooks blind_dependencies)) [] [] = Return mux \<and> distinct mux \<and> length mux = 25 \<and>
     set mux = dom (NewDispatcher (Webhooks blind_dependencies))"
  using startup_routes [of "rev (Webhooks blind_dependencies)" blind_dependencies "Webhooks blind_dependencies"]
  by simp

text \<open>The code of a process that has made its schemes and got through its command line.\<close>

definition ends_well :: "surroundings \<Rightarrow> flag_settings \<Rightarrow> bool" where
  "ends_well env settings \<longleftrightarrow> secondSignal env = None \<and>
     (useTLS settings \<longrightarrow> (\<exists>pem. osReadFile env (caCert settings) = Contents pem)) \<and>
     serverEvent env = ShutdownSignal \<and> shutdownError env = None"

lemma server_main_exit:
  "snd (server_main env settings (Webhooks ds)) = ExitCode (if testHooks settings \<or> ends_well env settings then 0 else 1)"
proof -
  have "register_handlers (Webhooks ds) [] [] = Return (map (GetURI \<circ> snd) (Webhooks ds))"
    using register_all by blast
  then show ?thesis
    by (auto simp: server_main_def read_ca_and_serve_def wait_and_stop_def ends_well_def Let_def
        split: read_file.splits server_event.splits option.splits)
qed

text \<open>Every pattern of the hooks compiles.\<close>

lemma initialise_patterns_Return:
  "list_all (\<lambda>p. regexp_compile p \<noteq> None) patterns \<Longrightarrow> \<exists>res. initialise_patterns patterns = Return res"
proof (induction patterns)
  case (Cons p patterns)
  then obtain re res where "regexp_compile p = Some re" "initialise_patterns patterns = Return res" by auto
  then show ?case by simp
qed simp

lemma package_patterns_compile: "list_all (\<lambda>p. regexp_compile p \<noteq> None) package_patterns"
  by code_simp

lemma server_process_start:
  "server_process api env factories hooks =
     (case utils_init api of
        Panics err \<Rightarrow> ([], Panicked err)
      | Exits message code \<Rightarrow> ([message], ExitCode code)
      | Made _ \<Rightarrow>
          (case parsed_flags env of
             Inl code \<Rightarrow> ([], ExitCode code)
           | Inr settings \<Rightarrow>
               (case call_factories factories of
                  Some (messages, ending) \<Rightarrow>
                    ((if testHooks settings then [] else [''HTTP server running at'']) @ messages, ending)
                | None \<Rightarrow> server_main env settings hooks)))"
  using initialise_patterns_Return [OF package_patterns_compile] by (auto simp: server_process_def)

lemma utils_init_fails:
  "utils_init api \<noteq> Exits message code"
  "utils_init api = Panics err \<Longrightarrow> fst (AddToScheme api AdmissionV1 (NewScheme api)) = Some err"
  by (auto simp: utils_init_def Must_def split: prod.splits option.splits)

lemma call_factories_None: "call_factories factories = None \<longleftrightarrow> list_all (is_Made \<circ> snd) factories"
  by (induction factories rule: call_factories.induct) auto

lemma call_factories_Some:
  assumes "list_all (factory_fails_well api \<circ> snd) factories"
    and "call_factories factories = Some (messages, ending)"
  shows "list_all (prefix ''Fail'') messages \<and>
     (ending = ExitCode 1 \<or> (\<exists>err s. ending = Panicked err \<and> fst (AddToScheme api OperatorV1 s) = Some err))"
  using assms by (induction factories rule: call_factories.induct) (auto simp: factory_fails_well_def)

lemma factories_failed:
  assumes "utils_init api = Made s" and "parsed_flags env = Inr settings"
    and "list_all (factory_fails_well api \<circ> snd) factories" and "call_factories factories = Some (messages, ending)"
  shows "case server_process api env factories hooks of (logged, stop) \<Rightarrow> ''Listening'' \<notin> set logged \<and>
     (stop = ExitCode 1 \<or> (\<exists>err s. fst (AddToScheme api OperatorV1 s) = Some err \<and> stop = Panicked err))"
proof -
  note failed = call_factories_Some [OF assms(3,4)]
  have "''Listening'' \<notin> set messages" using failed by (auto simp: list_all_iff)
  with failed assms(1,2,4) show ?thesis by (auto simp: server_process_start)
qed

text \<open>
  (C27) How the process ends, in whatever order the factories are called. No pattern of a hook fails to
  compile. When \<open>utils\<close> cannot fill its scheme, the process panics before \<open>main\<close>. When the command line is
  wrong or asks for help, it ends with code 2 or 0 before it logs anything. Otherwise, when every scheme
  can be built: with code 0 after \<open>-testhooks\<close>; with code 0 after a signal and a clean shutdown, unless the CA file
  of a TLS server could not be read or a second signal came; with code 1 in all other cases, which are an
  unreadable CA file, a failing server, a failing shutdown and a second signal. Failing metrics never
  stop it. When some hook's scheme cannot be built: with code 1, or in the panic of the one factory that uses
  \<open>Must\<close>, before any handler is installed.
\<close>

theorem server_process_exit:
  assumes "mset walked = mset (Factories api)"
  shows "case server_process api env walked (Webhooks ds) of (messages, ending) \<Rightarrow>
     if \<not> is_Made (utils_init api)
     then messages = [] \<and>
       (\<exists>err. fst (AddToScheme api AdmissionV1 (NewScheme api)) = Some err \<and> ending = Panicked err)
     else (case flag_parse (libraryFlags env ++ server_flags) (osArgs env) of
        Inl code \<Rightarrow> messages = [] \<and> code \<in> {0, 2} \<and> ending = ExitCode code
      | Inr settings \<Rightarrow>
          if list_all (is_Made \<circ> snd) (Factories api)
          then ending = ExitCode
            (if testHooks settings \<or>
               (secondSignal env = None \<and>
                (useTLS settings \<longrightarrow> (\<exists>pem. osReadFile env (caCert settings) = Contents pem)) \<and>
                serverEvent env = ShutdownSignal \<and> shutdownError env = None)
             then 0 else 1)
          else ''Listening'' \<notin> set messages \<and>
            (ending = ExitCode 1 \<or>
             (\<exists>err s. fst (AddToScheme api OperatorV1 s) = Some err \<and> ending = Panicked err)))"
proof (cases "utils_init api")
  case (Made s)
  have walked: "list_all P walked \<longleftrightarrow> list_all P (Factories api)" for P
    using mset_eq_setD [OF assms] by (simp add: list_all_iff)
  show ?thesis
  proof (cases "parsed_flags env")
    case (Inl code)
    then show ?thesis
      using flag_parse_exit [of _ _ code] Made by (auto simp: server_process_start parsed_flags_def)
  next
    case flags: (Inr settings)
    show ?thesis
    proof (cases "call_factories walked")
      case None
      then have made: "list_all (is_Made \<circ> snd) (Factories api)" by (simp add: call_factories_None walked)
      have run: "server_process api env walked (Webhooks ds) = server_main env settings (Webhooks ds)"
        using None Made flags by (simp add: server_process_start)
      show ?thesis
        using server_main_exit [of env settings ds, unfolded ends_well_def] Made flags made
        unfolding run parsed_flags_def by (simp add: prod.case_eq_if)
    next
      case (Some stop)
      obtain messages ending where run: "call_factories walked = Some (messages, ending)"
        using Some by (cases stop) auto
      have "list_all (factory_fails_well api \<circ> snd) walked" using Factories_fail_well [of api] by (simp add: walked)
      from factories_failed [OF Made flags this run, of "Webhooks ds"]
      show ?thesis using run call_factories_None [of walked] flags Made by (auto simp: walked parsed_flags_def)
    qed
  qed
next
  case (Panics err)
  with utils_init_fails(2) [OF Panics] show ?thesis by (auto simp: server_process_start)
qed (simp add: utils_init_fails(1))

text \<open>Builders that only record what was added: all schemes are made.\<close>

definition recording_builders :: "scheme_package list scheme_builders" where
  "recording_builders = \<lparr>NewScheme = [], AddToScheme = (\<lambda>package scheme. (None, scheme @ [package]))\<rparr>"

definition example_surroundings :: surroundings where
  "example_surroundings =
     \<lparr>osArgs = [''-tls'', ''-cacert=/service-ca/service-ca.crt''], libraryFlags = Map.empty, osEnv = Map.empty,
      osReadFile = (\<lambda>_. Contents []), configureMetrics = (\<lambda>_. None), serverEvent = ShutdownSignal,
      secondSignal = None, shutdownError = None\<rparr>"

theorem server_process_exit_witness:
  "snd (server_process recording_builders example_surroundings (rev (Factories recording_builders))
     (Webhooks blind_dependencies)) = ExitCode 0"
proof -
  have "builders_succeed recording_builders" by (simp add: builders_succeed_def recording_builders_def)
  then have "list_all (is_Made \<circ> snd) (Factories recording_builders)" by (rule Factories_made)
  moreover have "is_Made (utils_init recording_builders)"
    by (simp add: utils_init_def Must_def recording_builders_def)
  moreover have "flag_parse server_flags (osArgs example_surroundings) =
      Inr [(''tls'', ''true''), (''cacert'', ''/service-ca/service-ca.crt'')]"
    unfolding example_surroundings_def by code_simp
  ultimately show ?thesis
    using server_process_exit [of "rev (Factories recording_builders)" recording_builders example_surroundings
        blind_dependencies]
    by (auto simp: example_surroundings_def split: prod.splits)
qed

end
