(* ===== verification/Sync_Set.thy ===== *)
theory Sync_Set
  imports Webhook_Utils
begin

text \<open>
  \<open>pkg/syncset/syncsetbylabelselector.go\<close>: resources grouped by the label selector of the clusters they
  go to, and the corrections made to encoded objects.
  \<^item> The type of the resources is a variable: the code only moves them around.
  \<^item> \<open>Get\<close> returns a pointer into the slice of entries; here it is the index, and \<open>Add\<close> writes through it.
  \<^item> \<open>reflect.DeepEqual\<close> on selectors is equality of the records. Their maps are association lists, in
    the order in which the program writes them.
  \<^item> A JSON value decoded into an \<open>interface{}\<close> is a \<open>json\<close>. The encoding of Kubernetes objects and the
    JSON text are parameters: \<open>marshal\<close> for an object, \<open>unmarshal\<close> and \<open>marshalJSON\<close> for values.
    A failed type assertion or index is a panic. Messages leave out the dump of the object.
  The locale \<open>grouping\<close> says what the resource generator relies on: values come back in the order
  in which they were added, grouped by key, each key once.
\<close>

section \<open>The mapping\<close>

record 'res map_entry =
  entryKey :: label_selector
  entryValues :: "'res list"

fun syncset_Get :: "'res map_entry list \<Rightarrow> label_selector \<Rightarrow> nat option" where
  "syncset_Get [] key = None"
| "syncset_Get (entry # entries) key =
     (if entryKey entry = key then Some 0 else map_option Suc (syncset_Get entries key))"

definition syncset_Add :: "'res map_entry list \<Rightarrow> label_selector \<Rightarrow> 'res \<Rightarrow> 'res map_entry list" where
  "syncset_Add s key object =
     (case syncset_Get s key of
        Some i \<Rightarrow> s[i := (s ! i)\<lparr>entryValues := entryValues (s ! i) @ [object]\<rparr>]
      | None \<Rightarrow> s @ [\<lparr>entryKey = key, entryValues = [object]\<rparr>])"

datatype resource_apply_mode = SyncResourceApplyMode | UpsertResourceApplyMode

record 'res selector_sync_set =
  sssKind :: string
  sssAPIVersion :: string
  sssName :: string
  sssLabels :: "string \<rightharpoonup> string"
  sssResourceApplyMode :: resource_apply_mode
  sssResources :: "'res list"
  sssSelector :: label_selector

definition createSelectorSyncSet ::
  "string \<Rightarrow> 'res list \<Rightarrow> label_selector \<Rightarrow> (string \<rightharpoonup> string) \<Rightarrow> 'res selector_sync_set" where
  "createSelectorSyncSet name resources selector labels =
     \<lparr>sssKind = ''SelectorSyncSet'', sssAPIVersion = ''hive.openshift.io/v1'', sssName = name, sssLabels = labels,
      sssResourceApplyMode = SyncResourceApplyMode, sssResources = resources, sssSelector = selector\<rparr>"

text \<open>Encoding ends the process when it fails: the result on the left.\<close>

definition Encode :: "('obj \<Rightarrow> go_error + string) \<Rightarrow> 'obj \<Rightarrow> go_error + string" where
  "Encode marshal obj = (case marshal obj of Inl err \<Rightarrow> Inl ''Error encoding'' | Inr bytes \<Rightarrow> Inr bytes)"

text \<open>\<open>%d\<close> of a natural number.\<close>

fun decimal_digits :: "nat \<Rightarrow> string" where
  "decimal_digits n =
     (if n < 10 then [char_of (48 + n)] else decimal_digits (n div 10) @ [char_of (48 + n mod 10)])"

declare decimal_digits.simps [simp del]

fun render_from ::
  "('res selector_sync_set \<Rightarrow> go_error + string) \<Rightarrow> nat \<Rightarrow> (string \<rightharpoonup> string) \<Rightarrow> 'res map_entry list \<Rightarrow>
     go_error + string list" where
  "render_from marshal i labels [] = Inr []"
| "render_from marshal i labels (entry # entries) =
     (case Encode marshal (createSelectorSyncSet (''managed-cluster-validating-webhooks-'' @ decimal_digits i)
             (entryValues entry) (entryKey entry) labels) of
        Inl err \<Rightarrow> Inl err
      | Inr raw \<Rightarrow>
          (case render_from marshal (Suc i) labels entries of
             Inl err \<Rightarrow> Inl err
           | Inr raws \<Rightarrow> Inr (raw # raws)))"

definition RenderSelectorSyncSets ::
  "('res selector_sync_set \<Rightarrow> go_error + string) \<Rightarrow> (string \<rightharpoonup> string) \<Rightarrow> 'res map_entry list \<Rightarrow>
     go_error + string list" where
  "RenderSelectorSyncSets marshal labels s = render_from marshal 0 labels s"

section \<open>The contract of the mapping\<close>

locale grouping =
  fixes empty :: 'm
    and add :: "'m \<Rightarrow> 'k \<Rightarrow> 'v \<Rightarrow> 'm"
    and keys :: "'m \<Rightarrow> 'k list"
    and lookup :: "'m \<Rightarrow> 'k \<Rightarrow> 'v list"
  assumes keys_empty: "keys empty = []"
    and lookup_empty: "lookup empty k = []"
    and keys_add: "keys (add m k v) = (if k \<in> set (keys m) then keys m else keys m @ [k])"
    and lookup_add: "lookup (add m k v) k' = (if k' = k then lookup m k @ [v] else lookup m k')"
begin

definition add_all :: "('k \<times> 'v) list \<Rightarrow> 'm" where
  "add_all adds = foldl (\<lambda>m (k, v). add m k v) empty adds"

lemma add_all_snoc: "add_all (adds @ [(k, v)]) = add (add_all adds) k v"
  by (simp add: add_all_def)

lemma lookup_add_all: "lookup (add_all adds) k = map snd (filter (\<lambda>a. fst a = k) adds)"
proof (induction adds rule: rev_induct)
  case Nil
  show ?case by (simp add: add_all_def lookup_empty)
next
  case (snoc a adds)
  then show ?case by (cases a) (auto simp: add_all_snoc lookup_add)
qed

lemma keys_add_all: "keys (add_all adds) = rev (remdups (rev (map fst adds)))"
proof (induction adds rule: rev_induct)
  case Nil
  show ?case by (simp add: add_all_def keys_empty)
next
  case (snoc a adds)
  then show ?case by (cases a) (simp add: add_all_snoc keys_add)
qed

lemma keys_distinct: "distinct (keys (add_all adds))"
  by (simp add: keys_add_all)

end

section \<open>The mapping meets its contract\<close>

definition entry_values :: "'res map_entry list \<Rightarrow> label_selector \<Rightarrow> 'res list" where
  "entry_values s key = (case syncset_Get s key of Some i \<Rightarrow> entryValues (s ! i) | None \<Rightarrow> [])"

lemma entry_values_Nil [simp]: "entry_values [] key = []"
  by (simp add: entry_values_def)

lemma syncset_Get_None: "syncset_Get s key = None \<longleftrightarrow> key \<notin> set (map entryKey s)"
  by (induction s) auto

lemma syncset_Get_Some:
  "syncset_Get s key = Some i \<Longrightarrow> i < length s \<and> entryKey (s ! i) = key"
proof (induction s arbitrary: i)
  case (Cons e s)
  then show ?case by (auto split: if_splits)
qed simp

lemma syncset_Get_append:
  "syncset_Get (s @ t) key =
     (case syncset_Get s key of Some i \<Rightarrow> Some i | None \<Rightarrow> map_option (\<lambda>i. i + length s) (syncset_Get t key))"
  by (induction s) (auto split: option.splits simp: option.map_comp comp_def option.map_ident)

lemma syncset_Get_update:
  "i < length s \<Longrightarrow> entryKey e = entryKey (s ! i) \<Longrightarrow> syncset_Get (s[i := e]) key = syncset_Get s key"
proof (induction s arbitrary: i)
  case (Cons a s)
  then show ?case by (cases i) auto
qed simp

lemma syncset_Add_keys:
  "map entryKey (syncset_Add s key object) =
     (if key \<in> set (map entryKey s) then map entryKey s else map entryKey s @ [key])"
  using syncset_Get_None [of s key] syncset_Get_Some [of s key]
  by (auto simp: syncset_Add_def map_update list_update_same_conv split: option.splits)

lemma syncset_Add_values:
  "entry_values (syncset_Add s key object) key' =
     (if key' = key then entry_values s key @ [object] else entry_values s key')"
proof (cases "syncset_Get s key")
  case None
  then show ?thesis
    by (auto simp: syncset_Add_def entry_values_def syncset_Get_append nth_append split: option.splits
        dest: syncset_Get_Some)
next
  case (Some i)
  note at = syncset_Get_Some [OF Some]
  have other: "j \<noteq> i" if "syncset_Get s key' = Some j" "key' \<noteq> key" for j
    using syncset_Get_Some [OF that(1)] at that(2) by auto
  show ?thesis
    using Some at other
    by (auto simp: syncset_Add_def entry_values_def syncset_Get_update split: option.splits)
qed

interpretation selector_map: grouping "[]" syncset_Add "map entryKey" entry_values
  by unfold_locales (simp_all add: syncset_Add_keys syncset_Add_values)

lemma entries_determined:
  "distinct (map entryKey s) \<Longrightarrow>
     map (\<lambda>key. \<lparr>entryKey = key, entryValues = entry_values s key\<rparr>) (map entryKey s) = s"
proof (induction s)
  case (Cons e s)
  have "entry_values (e # s) key = entry_values s key" if "key \<in> set (map entryKey s)" for key
    using that Cons.prems by (auto simp: entry_values_def split: option.splits)
  then have "map (\<lambda>key. \<lparr>entryKey = key, entryValues = entry_values (e # s) key\<rparr>) (map entryKey s) =
      map (\<lambda>key. \<lparr>entryKey = key, entryValues = entry_values s key\<rparr>) (map entryKey s)"
    by simp
  with Cons show ?case by (simp add: entry_values_def)
qed simp

lemma syncset_grouped:
  "foldl (\<lambda>s (key, object). syncset_Add s key object) [] adds =
     map (\<lambda>key. \<lparr>entryKey = key, entryValues = map snd (filter (\<lambda>a. fst a = key) adds)\<rparr>)
       (rev (remdups (rev (map fst adds))))"
  using entries_determined [OF selector_map.keys_distinct, of adds, symmetric]
  unfolding selector_map.keys_add_all selector_map.lookup_add_all
  by (simp only: selector_map.add_all_def)

text \<open>When no encoding fails, every entry becomes a SelectorSyncSet, numbered from the first.\<close>

definition numbered_sync_set ::
  "(string \<rightharpoonup> string) \<Rightarrow> nat \<times> 'res map_entry \<Rightarrow> 'res selector_sync_set" where
  "numbered_sync_set labels = (\<lambda>(i, entry).
     createSelectorSyncSet (''managed-cluster-validating-webhooks-'' @ decimal_digits i) (entryValues entry) (entryKey entry) labels)"

lemma render_from_encoded:
  "(\<And>s. marshal s = Inr (encoded s)) \<Longrightarrow>
     render_from marshal i labels entries = Inr (map (encoded \<circ> numbered_sync_set labels) (List.enumerate i entries))"
  by (induction entries arbitrary: i) (simp_all add: Encode_def numbered_sync_set_def)

text \<open>
  (C19) Whatever resources are added in whatever order: there is one entry for each label selector
  used, in the order of first use, and it holds exactly the resources added for that selector, in the
  order in which they were added. The rendered set is minimal and nothing is lost or misdirected.
\<close>

theorem syncset_groups:
  "foldl (\<lambda>s (key, object). syncset_Add s key object) [] adds =
     map (\<lambda>key. \<lparr>entryKey = key, entryValues = map snd (filter (\<lambda>a. fst a = key) adds)\<rparr>)
       (rev (remdups (rev (map fst adds))))"
  by (rule syncset_grouped)

section \<open>Correcting encoded objects\<close>

text \<open>What the code reads of the webhook configurations and of the DaemonSet.\<close>

record service_reference =
  refNamespace :: string
  refPath :: "string option"
  refName :: string

record client_config =
  ccURL :: "string option"
  ccService :: "service_reference option"
  ccCABundle :: string

record webhook_entry =
  weAdmissionReviewVersions :: "string list"
  weTimeoutSeconds :: int
  weSideEffects :: side_effect_class
  weMatchPolicy :: match_policy
  weName :: string
  weObjectSelector :: "label_selector option"
  weFailurePolicy :: failure_policy
  weClientConfig :: client_config
  weRules :: "rule_with_operations list"

text \<open>One record for validating and for mutating configurations, which have the same fields.\<close>

record webhook_configuration =
  cfgKind :: string
  cfgAPIVersion :: string
  cfgName :: string
  cfgAnnotations :: "string \<rightharpoonup> string"
  cfgWebhooks :: "webhook_entry list"

datatype json = JNull | JBool bool | JNumber int | JString string | JArray "json list" | JObject "(string \<times> json) list"

datatype json_step = Field string | Index nat

fun json_get :: "json_step list \<Rightarrow> json \<Rightarrow> json option" where
  "json_get [] j = Some j"
| "json_get (Field f # path) (JObject kvs) = Option.bind (map_of kvs f) (json_get path)"
| "json_get (Index i # path) (JArray js) = (if i < length js then json_get path (js ! i) else None)"
| "json_get _ _ = None"

text \<open>
  The assignment \<open>decoded.(map...)[f1]....[k] = v\<close>, where each step asserts the type of what it finds;
  a key that is missing gives nil, on which the next assertion panics.
\<close>

definition bad_assertion :: string where
  "bad_assertion = ''interface conversion''"

fun json_set :: "json_step list \<Rightarrow> string \<Rightarrow> json \<Rightarrow> json \<Rightarrow> json go_result" where
  "json_set [] key v (JObject kvs) = Return (JObject (AList.update key v kvs))"
| "json_set (Field f # path) key v (JObject kvs) =
     (case map_of kvs f of
        None \<Rightarrow> Panic bad_assertion
      | Some j \<Rightarrow> go_bind (json_set path key v j) (\<lambda>j'. Return (JObject (AList.update f j' kvs))))"
| "json_set (Index i # path) key v (JArray js) =
     (if i < length js then go_bind (json_set path key v (js ! i)) (\<lambda>j'. Return (JArray (js[i := j'])))
      else Panic ''index out of range'')"
| "json_set _ _ _ _ = Panic bad_assertion"

text \<open>The error of \<open>json.Unmarshal\<close> is dropped, and \<open>decoded\<close> is then nil.\<close>

definition decode_or_nil :: "(string \<Rightarrow> go_error + json) \<Rightarrow> go_error + string \<Rightarrow> json" where
  "decode_or_nil unmarshal o1 =
     (case unmarshal (case o1 of Inl _ \<Rightarrow> [] | Inr bytes \<Rightarrow> bytes) of Inl _ \<Rightarrow> JNull | Inr j \<Rightarrow> j)"

definition encode_again :: "(json \<Rightarrow> go_error + string) \<Rightarrow> json \<Rightarrow> go_error + string" where
  "encode_again marshalJSON decoded =
     (case marshalJSON decoded of Inl err \<Rightarrow> Inl ''Error encoding'' | Inr r \<Rightarrow> Inr r)"

definition EncodeAndFixDaemonset ::
  "('ds \<Rightarrow> go_error + string) \<Rightarrow> (string \<Rightarrow> go_error + json) \<Rightarrow> (json \<Rightarrow> go_error + string) \<Rightarrow>
     ('ds \<Rightarrow> string) \<Rightarrow> 'ds \<Rightarrow> (go_error + string) go_result" where
  "EncodeAndFixDaemonset marshal unmarshal marshalJSON serviceAccountName ds =
     (let path = [Field ''spec'', Field ''template'', Field ''spec''];
          decoded = decode_or_nil unmarshal (marshal ds) in
      go_bind (if length (serviceAccountName ds) = 0
               then json_set path ''serviceAccountName'' (JString []) decoded else Return decoded) (\<lambda>decoded.
        go_bind (json_set path ''serviceAccount'' (JString []) decoded) (\<lambda>decoded.
          Return (encode_again marshalJSON decoded))))"

definition ca_path :: "json_step list" where
  "ca_path = [Field ''webhooks'', Index 0, Field ''clientConfig'']"

definition EncodeAndFixCA ::
  "(webhook_configuration \<Rightarrow> go_error + string) \<Rightarrow> (string \<Rightarrow> go_error + json) \<Rightarrow> (json \<Rightarrow> go_error + string) \<Rightarrow>
     webhook_configuration \<Rightarrow> (go_error + string) go_result" where
  "EncodeAndFixCA marshal unmarshal marshalJSON vw =
     (if length (cfgWebhooks vw) < 1 then Return (Inl ''Require at least one webhook'')
      else
        (let caBundleValue = ccCABundle (weClientConfig (cfgWebhooks vw ! 0)) in
         if caBundleValue = [] then Return (marshal vw)
         else go_bind (json_set ca_path ''caBundle'' (JString caBundleValue) (decode_or_nil unmarshal (marshal vw)))
           (\<lambda>decoded. Return (encode_again marshalJSON decoded))))"

text \<open>\<open>EncodeValidatingAndFixCA\<close> and \<open>EncodeMutatingAndFixCA\<close> have the same body.\<close>

definition EncodeValidatingAndFixCA ::
  "(webhook_configuration \<Rightarrow> go_error + string) \<Rightarrow> (string \<Rightarrow> go_error + json) \<Rightarrow> (json \<Rightarrow> go_error + string) \<Rightarrow>
     webhook_configuration \<Rightarrow> (go_error + string) go_result" where
  "EncodeValidatingAndFixCA = EncodeAndFixCA"

definition EncodeMutatingAndFixCA ::
  "(webhook_configuration \<Rightarrow> go_error + string) \<Rightarrow> (string \<Rightarrow> go_error + json) \<Rightarrow> (json \<Rightarrow> go_error + string) \<Rightarrow>
     webhook_configuration \<Rightarrow> (go_error + string) go_result" where
  "EncodeMutatingAndFixCA = EncodeAndFixCA"

subsection \<open>An assignment changes one place\<close>

lemma json_set_get:
  assumes "json_set path key v j = Return j'"
  shows "json_get (path @ [Field key]) j' = Some v"
  using assms
proof (induction path key v j arbitrary: j' rule: json_set.induct)
  case (1 key v kvs)
  then show ?case by (auto simp: update_conv')
next
  case (2 f path key v kvs)
  then show ?case by (auto simp: update_conv' split: option.splits)
next
  case (3 i path key v js)
  then show ?case by (auto split: if_splits)
qed auto

text \<open>A path is unaffected when it leaves the assigned one before its end.\<close>

fun diverges :: "json_step list \<Rightarrow> json_step list \<Rightarrow> bool" where
  "diverges (a # p) (b # q) \<longleftrightarrow> a \<noteq> b \<or> diverges p q"
| "diverges _ _ \<longleftrightarrow> False"

lemma json_set_frame:
  assumes "json_set path key v j = Return j'" and "diverges (path @ [Field key]) q"
  shows "json_get q j' = json_get q j"
  using assms
proof (induction path key v j arbitrary: j' q rule: json_set.induct)
  case (1 key v kvs)
  then obtain s q' where "q = s # q'" "s \<noteq> Field key" by (cases q) auto
  with 1 show ?case by (cases s) (auto simp: update_conv')
next
  case (2 f path key v kvs)
  obtain s q' where q: "q = s # q'" using 2 by (cases q) auto
  show ?case
  proof (cases "s = Field f")
    case True
    with 2 q show ?thesis by (auto simp: update_conv' split: option.splits)
  next
    case False
    with 2 q show ?thesis by (cases s) (auto simp: update_conv' split: option.splits)
  qed
next
  case (3 i path key v js)
  obtain s q' where q: "q = s # q'" using 3 by (cases q) auto
  show ?case
  proof (cases "s = Index i")
    case True
    with 3 q show ?thesis by (auto split: if_splits)
  next
    case False
    with 3 q show ?thesis by (cases s) (auto split: if_splits)
  qed
qed auto

text \<open>It succeeds exactly when the path leads to an object.\<close>

lemma json_get_leaf:
  "json_get p JNull \<noteq> Some (JObject kvs)" "json_get p (JBool b) \<noteq> Some (JObject kvs)"
  "json_get p (JNumber n) \<noteq> Some (JObject kvs)" "json_get p (JString s) \<noteq> Some (JObject kvs)"
  by (cases p; simp)+

lemma json_set_returns:
  "(\<exists>j'. json_set path key v j = Return j') \<longleftrightarrow> (\<exists>kvs. json_get path j = Some (JObject kvs))"
proof (induction path key v j rule: json_set.induct)
  case (2 f path key v kvs)
  then show ?case
    by (cases "map_of kvs f"; cases "json_set path key v (the (map_of kvs f))") auto
next
  case (3 i path key v js)
  then show ?case by (cases "json_set path key v (js ! i)") auto
qed (auto simp: json_get_leaf)

text \<open>
  (C20) Correcting the CA bundle, on every path. Without a webhook the function reports the error; with an
  empty bundle in the first webhook it is the plain encoding of the configuration, errors included.
  Otherwise it looks at the value that the encoded configuration decodes to (nil when it does not decode;
  errors of encoding are ignored). When the first webhook there has a client configuration, the function encodes a value
  that has the text of the bundle (not its base 64 form) at \<open>webhooks[0].clientConfig.caBundle\<close> and
  agrees with the decoded one at every path that branches off from there; when it has none, the type
  assertions panic.
\<close>

theorem fix_ca_exact:
  "let result = EncodeValidatingAndFixCA marshal unmarshal marshalJSON vw;
         ca = ccCABundle (weClientConfig (cfgWebhooks vw ! 0));
         j = decode_or_nil unmarshal (marshal vw)
     in if cfgWebhooks vw = [] then result = Return (Inl ''Require at least one webhook'')
        else if ca = [] then result = Return (marshal vw)
        else if \<exists>kvs. json_get ca_path j = Some (JObject kvs)
        then \<exists>j'. result = Return (encode_again marshalJSON j') \<and> json_get (ca_path @ [Field ''caBundle'']) j' = Some (JString ca) \<and>
          (\<forall>q. diverges (ca_path @ [Field ''caBundle'']) q \<longrightarrow> json_get q j' = json_get q j)
        else \<exists>m. result = Panic m"
proof -
  let ?ca = "ccCABundle (weClientConfig (cfgWebhooks vw ! 0))" and ?j = "decode_or_nil unmarshal (marshal vw)"
  let ?set = "json_set ca_path ''caBundle'' (JString ?ca) ?j"
  have eq: "EncodeValidatingAndFixCA marshal unmarshal marshalJSON vw =
      go_bind ?set (\<lambda>decoded. Return (encode_again marshalJSON decoded))" if "cfgWebhooks vw \<noteq> []" "?ca \<noteq> []"
    using that by (simp add: EncodeValidatingAndFixCA_def EncodeAndFixCA_def Suc_le_eq)
  have returns: "(\<exists>kvs. json_get ca_path ?j = Some (JObject kvs)) \<longleftrightarrow> (\<exists>j'. ?set = Return j')"
    by (simp add: json_set_returns)
  show ?thesis
  proof (cases "cfgWebhooks vw = [] \<or> ?ca = []")
    case True
    then show ?thesis by (auto simp: EncodeValidatingAndFixCA_def EncodeAndFixCA_def Let_def)
  next
    case False
    then have call: "EncodeValidatingAndFixCA marshal unmarshal marshalJSON vw =
        go_bind ?set (\<lambda>decoded. Return (encode_again marshalJSON decoded))" by (simp add: eq)
    show ?thesis
      using False json_set_get [of ca_path "''caBundle''" "JString ?ca" ?j]
        json_set_frame [of ca_path "''caBundle''" "JString ?ca" ?j]
      unfolding Let_def call returns by (cases ?set) auto
  qed
qed

definition example_configuration :: webhook_configuration where
  "example_configuration =
     \<lparr>cfgKind = ''ValidatingWebhookConfiguration'', cfgAPIVersion = ''admissionregistration.k8s.io/v1'',
      cfgName = ''sre-example'', cfgAnnotations = Map.empty,
      cfgWebhooks = [\<lparr>weAdmissionReviewVersions = [''v1''], weTimeoutSeconds = 2, weSideEffects = SideEffectClassNone,
        weMatchPolicy = Equivalent, weName = ''example'', weObjectSelector = None, weFailurePolicy = Ignore,
        weClientConfig = \<lparr>ccURL = None, ccService = None, ccCABundle = ''ca''\<rparr>, weRules = []\<rparr>]\<rparr>"

definition example_json :: json where
  "example_json = JObject [(''webhooks'', JArray [JObject [(''clientConfig'', JObject [(''caBundle'', JString ''Y2E='')])]])]"

theorem fix_ca_exact_witness:
  "ccCABundle (weClientConfig (cfgWebhooks example_configuration ! 0)) = ''ca'' \<and>
   (case EncodeValidatingAndFixCA (\<lambda>_. Inr ''{}'') (\<lambda>_. Inr example_json) (\<lambda>_. Inr ''done'') example_configuration of
     Return r \<Rightarrow> (\<exists>j'. r = encode_again (\<lambda>_. Inr ''done'') j' \<and>
       json_get (ca_path @ [Field ''caBundle'']) j' = Some (JString ''ca''))
   | Panic m \<Rightarrow> False)"
proof
  show ca: "ccCABundle (weClientConfig (cfgWebhooks example_configuration ! 0)) = ''ca''"
    by (simp add: example_configuration_def)
  have "json_get ca_path example_json = Some (JObject [(''caBundle'', JString ''Y2E='')])"
    by (simp add: ca_path_def example_json_def)
  then show "case EncodeValidatingAndFixCA (\<lambda>_. Inr ''{}'') (\<lambda>_. Inr example_json) (\<lambda>_. Inr ''done'') example_configuration of
     Return r \<Rightarrow> (\<exists>j'. r = encode_again (\<lambda>_. Inr ''done'') j' \<and>
       json_get (ca_path @ [Field ''caBundle'']) j' = Some (JString ''ca''))
   | Panic m \<Rightarrow> False"
    using fix_ca_exact [of "\<lambda>_. Inr ''{}''" "\<lambda>_. Inr example_json" "\<lambda>_. Inr ''done''" example_configuration] ca
    by (auto simp: example_configuration_def decode_or_nil_def split: if_splits)
qed

end
