(* ===== verification/Manifests.thy ===== *)
theory Manifests
  imports Sync_Set Go_Flag "HOL-Library.Word"
begin

text \<open>
  The \<open>create...\<close> functions of \<open>build/resources.go\<close>: the objects that deploy the webhooks. A \<open>manifest\<close>
  has the type, the metadata and the part of the specification that the program fills in; fields the
  program leaves at their zero value are left out. Named constants of the Kubernetes API are datatypes.
  Ports and replica counts are Go's 64 bit \<open>int\<close> on the command line and \<open>int32\<close> in the objects.

  The lemmas are about the references between the objects: labels and selectors, accounts and
  roles, volumes and what they mount, ports.
\<close>

section \<open>Flags and constants\<close>

record build_flags =
  bfListenPort :: "64 word"
  bfSecretName :: string
  bfCaBundleName :: string
  bfTemplateFile :: string
  bfPackageDir :: string
  bfReplicas :: "64 word"
  bfExcludes :: string
  bfOnly :: string
  bfShowHookNames :: bool
  bfNamespace :: string

definition default_flags :: build_flags where
  "default_flags =
     \<lparr>bfListenPort = 5000, bfSecretName = ''webhook-cert'', bfCaBundleName = ''webhook-cert'', bfTemplateFile = [],
      bfPackageDir = [], bfReplicas = 2, bfExcludes = ''debug-hook'', bfOnly = [], bfShowHookNames = False,
      bfNamespace = ''openshift-validation-webhook''\<rparr>"

definition serviceName :: string where "serviceName = ''validation-webhook''"
definition serviceAccountName :: string where "serviceAccountName = ''validation-webhook''"
definition roleName :: string where "roleName = ''validation-webhook''"
definition prometheusRoleName :: string where "prometheusRoleName = ''prometheus-k8s''"
definition repoName :: string where "repoName = ''managed-cluster-validating-webhooks''"
definition pkoPhaseAnnotation :: string where "pkoPhaseAnnotation = ''package-operator.run/phase''"
definition deployPhase :: string where "deployPhase = ''deploy''"
definition configPhase :: string where "configPhase = ''config''"
definition webhooksPhase :: string where "webhooksPhase = ''webhooks''"
definition controlPlaneLabel :: string where "controlPlaneLabel = ''hypershift.openshift.io/control-plane''"
definition hsControlPlaneLabel :: string where "hsControlPlaneLabel = ''hypershift.openshift.io/hosted-control-plane''"
definition hsClusterLabel :: string where "hsClusterLabel = ''hypershift.openshift.io/cluster''"
definition caBundleAnnotation :: string where "caBundleAnnotation = ''service.beta.openshift.io/inject-cabundle''"

lemmas build_constants = serviceName_def serviceAccountName_def roleName_def prometheusRoleName_def
  repoName_def pkoPhaseAnnotation_def deployPhase_def configPhase_def webhooksPhase_def
  controlPlaneLabel_def hsControlPlaneLabel_def hsClusterLabel_def caBundleAnnotation_def

section \<open>Objects\<close>

record policy_rule =
  prAPIGroups :: "string list"
  prResources :: "string list"
  prVerbs :: "string list"

record role_subject =
  rsKind :: string
  rsName :: string
  rsNamespace :: string

record role_ref =
  rrName :: string
  rrKind :: string
  rrAPIGroup :: string

record monitor_spec =
  msEndpointPorts :: "string list"
  msNamespaces :: "string list"
  msSelector :: "(string \<times> string) list"

datatype service_type = ServiceTypeClusterIP | ServiceTypeLoadBalancer
datatype protocol = ProtocolTCP | ProtocolUDP
datatype int_or_string = IntVal "32 word" | StrVal string

record service_port =
  spName :: string
  spPort :: "32 word"
  spTargetPort :: int_or_string
  spProtocol :: protocol

record service_spec =
  ssType :: service_type
  ssSelector :: "(string \<times> string) list"
  ssPorts :: "service_port list"

datatype node_selector_operator = NodeSelectorOpIn | NodeSelectorOpNotIn
datatype taint_effect = TaintEffectNoSchedule | TaintEffectPreferNoSchedule | TaintEffectNoExecute
datatype toleration_operator = TolerationOpUnset | TolerationOpEqual | TolerationOpExists

record node_requirement =
  nrKey :: string
  nrOperator :: node_selector_operator
  nrValues :: "string list"

record pod_affinity_term =
  patMatchLabels :: "(string \<times> string) list"
  patTopologyKey :: string

record affinity =
  afNodeRequired :: "node_requirement list list"
  afNodePreferred :: "(node_requirement list \<times> 32 word) list" \<comment> \<open>terms and weights\<close>
  afPodPreferred :: "(pod_affinity_term \<times> 32 word) list"
  afPodAntiRequired :: "pod_affinity_term list"

record pod_toleration =
  ptKey :: string
  ptOperator :: toleration_operator
  ptValue :: string
  ptEffect :: taint_effect

datatype volume_source = SecretVolume string | ConfigMapVolume string

record volume_mount =
  vmName :: string
  vmMountPath :: string
  vmReadOnly :: bool

datatype pull_policy = PullAlways | PullIfNotPresent
datatype termination_message_policy = TerminationMessageReadFile | TerminationMessageFallbackToLogsOnError
datatype restart_policy = RestartPolicyAlways | RestartPolicyNever

record pod_container =
  pcImagePullPolicy :: pull_policy
  pcTerminationMessagePolicy :: termination_message_policy
  pcName :: string
  pcImage :: string
  pcVolumeMounts :: "volume_mount list"
  pcPorts :: "32 word list"
  pcCommand :: "string list"
  pcEnv :: "(string \<times> string) list"

record pod_template =
  tplLabels :: "(string \<times> string) list"
  tplAffinity :: affinity
  tplTolerations :: "pod_toleration list"
  tplRestartPolicy :: restart_policy
  tplServiceAccountName :: string
  tplVolumes :: "(string \<times> volume_source) list"
  tplContainers :: "pod_container list"

record workload_spec =
  wsReplicas :: "32 word option"
  wsSelector :: "(string \<times> string) list"
  wsMaxUnavailable :: int_or_string \<comment> \<open>of a rolling update, the only strategy used\<close>
  wsTemplate :: pod_template

datatype manifest_body =
    NoBody
  | RoleRules "policy_rule list"
  | Binding "role_subject list" role_ref
  | MonitorSpec monitor_spec
  | ServiceSpec service_spec
  | WorkloadSpec workload_spec

record manifest =
  mKind :: string
  mAPIVersion :: string
  mMeta :: object_meta
  mBody :: manifest_body

definition named :: "string \<Rightarrow> string \<Rightarrow> object_meta" where
  "named name namespace = zero_meta\<lparr>metaName := name, metaNamespace := namespace\<rparr>"

definition rbac_version :: string where "rbac_version = ''rbac.authorization.k8s.io/v1''"
definition rbac_group :: string where "rbac_group = ''rbac.authorization.k8s.io''"

definition createNamespace :: "build_flags \<Rightarrow> manifest" where
  "createNamespace fl =
     \<lparr>mKind = ''Namespace'', mAPIVersion = ''v1'',
      mMeta = zero_meta\<lparr>metaName := bfNamespace fl, metaLabels := [''openshift.io/cluster-monitoring'' \<mapsto> ''true'']\<rparr>,
      mBody = NoBody\<rparr>"

definition createServiceAccount :: "build_flags \<Rightarrow> manifest" where
  "createServiceAccount fl =
     \<lparr>mKind = ''ServiceAccount'', mAPIVersion = ''v1'', mMeta = named serviceAccountName (bfNamespace fl), mBody = NoBody\<rparr>"

definition createRole :: "build_flags \<Rightarrow> manifest" where
  "createRole fl =
     \<lparr>mKind = ''Role'', mAPIVersion = rbac_version, mMeta = named roleName (bfNamespace fl),
      mBody = RoleRules
        [\<lparr>prAPIGroups = [''''], prResources = [''services''], prVerbs = [''*'']\<rparr>,
         \<lparr>prAPIGroups = [''monitoring.coreos.com''], prResources = [''servicemonitors''], prVerbs = [''*'']\<rparr>]\<rparr>"

definition createRoleBinding :: "build_flags \<Rightarrow> manifest" where
  "createRoleBinding fl =
     \<lparr>mKind = ''RoleBinding'', mAPIVersion = rbac_version,
      mMeta = named (roleName @ '':'' @ serviceAccountName) (bfNamespace fl),
      mBody = Binding [\<lparr>rsKind = ''ServiceAccount'', rsName = serviceAccountName, rsNamespace = bfNamespace fl\<rparr>]
        \<lparr>rrName = roleName, rrKind = ''Role'', rrAPIGroup = rbac_group\<rparr>\<rparr>"

definition createClusterRole :: "build_flags \<Rightarrow> manifest" where
  "createClusterRole fl =
     \<lparr>mKind = ''ClusterRole'', mAPIVersion = rbac_version, mMeta = named roleName [],
      mBody = RoleRules
        [\<lparr>prAPIGroups = [''imageregistry.operator.openshift.io''], prResources = [''configs''], prVerbs = [''get'']\<rparr>]\<rparr>"

definition createClusterRoleBinding :: "build_flags \<Rightarrow> manifest" where
  "createClusterRoleBinding fl =
     \<lparr>mKind = ''ClusterRoleBinding'', mAPIVersion = rbac_version,
      mMeta = named (roleName @ '':'' @ serviceAccountName) [],
      mBody = Binding [\<lparr>rsKind = ''ServiceAccount'', rsName = serviceAccountName, rsNamespace = bfNamespace fl\<rparr>]
        \<lparr>rrName = roleName, rrKind = ''ClusterRole'', rrAPIGroup = rbac_group\<rparr>\<rparr>"

definition createPrometheusRole :: "build_flags \<Rightarrow> manifest" where
  "createPrometheusRole fl =
     \<lparr>mKind = ''Role'', mAPIVersion = rbac_version, mMeta = named prometheusRoleName (bfNamespace fl),
      mBody = RoleRules
        [\<lparr>prAPIGroups = [''''], prResources = [''services'', ''endpoints'', ''pods''],
          prVerbs = [''get'', ''list'', ''watch'']\<rparr>]\<rparr>"

definition createPromethusRoleBinding :: "build_flags \<Rightarrow> manifest" where
  "createPromethusRoleBinding fl =
     \<lparr>mKind = ''RoleBinding'', mAPIVersion = rbac_version, mMeta = named ''prometheus-k8s'' (bfNamespace fl),
      mBody = Binding [\<lparr>rsKind = ''ServiceAccount'', rsName = ''prometheus-k8s'', rsNamespace = ''openshift-monitoring''\<rparr>]
        \<lparr>rrName = prometheusRoleName, rrKind = ''Role'', rrAPIGroup = rbac_group\<rparr>\<rparr>"

definition createServiceMonitor :: "build_flags \<Rightarrow> manifest" where
  "createServiceMonitor fl =
     \<lparr>mKind = ''ServiceMonitor'', mAPIVersion = ''monitoring.coreos.com/v1'',
      mMeta = named ''validating-webhook-metrics'' (bfNamespace fl),
      mBody = MonitorSpec
        \<lparr>msEndpointPorts = [''metrics''], msNamespaces = [bfNamespace fl], msSelector = [(''app'', serviceName)]\<rparr>\<rparr>"

definition createCACertConfigMap :: "build_flags \<Rightarrow> manifest" where
  "createCACertConfigMap fl =
     \<lparr>mKind = ''ConfigMap'', mAPIVersion = ''v1'',
      mMeta = (named ''webhook-cert'' (bfNamespace fl))
        \<lparr>metaAnnotations := [''service.beta.openshift.io/inject-cabundle'' \<mapsto> ''true'']\<rparr>,
      mBody = NoBody\<rparr>"

text \<open>The packaged variants set the phase of the package and clear the namespace.\<close>

definition packaged :: "string \<Rightarrow> manifest \<Rightarrow> manifest" where
  "packaged phase m = m\<lparr>mMeta := (mMeta m)
     \<lparr>metaAnnotations := (metaAnnotations (mMeta m))(pkoPhaseAnnotation \<mapsto> phase), metaNamespace := []\<rparr>\<rparr>"

definition createPackagedCACertConfigMap :: "build_flags \<Rightarrow> string \<Rightarrow> manifest" where
  "createPackagedCACertConfigMap fl phase = packaged phase (createCACertConfigMap fl)"

definition app_label :: "(string \<times> string) list" where
  "app_label = [(''app'', ''validation-webhook'')]"

text \<open>The conversion \<open>int32(...)\<close> keeps the low 32 bits.\<close>

definition to_int32 :: "64 word \<Rightarrow> 32 word" where
  "to_int32 n = ucast n"

definition serving_command :: "string list" where
  "serving_command = [''webhooks'', ''-tlskey'', ''/service-certs/tls.key'', ''-tlscert'', ''/service-certs/tls.crt'',
     ''-cacert'', ''/service-ca/service-ca.crt'', ''-tls'']"

definition package_namespace :: string where
  "package_namespace = ''{{.package.metadata.namespace}}''"

definition packaged_container :: "build_flags \<Rightarrow> pod_container" where
  "packaged_container fl =
     \<lparr>pcImagePullPolicy = PullIfNotPresent,
     pcTerminationMessagePolicy = TerminationMessageFallbackToLogsOnError,
     pcName = ''webhooks'', pcImage = ''REPLACED_BY_PIPELINE'',
     pcVolumeMounts =
       [\<lparr>vmName = ''service-certs'', vmMountPath = ''/service-certs'', vmReadOnly = True\<rparr>,
        \<lparr>vmName = ''service-ca'', vmMountPath = ''/service-ca'', vmReadOnly = True\<rparr>,
        \<lparr>vmName = ''hosted-kubeconfig'', vmMountPath = ''/etc/hosted-kubernetes'', vmReadOnly = True\<rparr>],
     pcPorts = [to_int32 (bfListenPort fl)], pcCommand = serving_command,
     pcEnv = [(''KUBECONFIG'', ''/etc/hosted-kubernetes/kubeconfig'')]\<rparr>"

definition createPackagedDeployment :: "build_flags \<Rightarrow> 32 word \<Rightarrow> string \<Rightarrow> manifest" where
  "createPackagedDeployment fl replicas phase =
     \<lparr>mKind = ''Deployment'', mAPIVersion = ''apps/v1'',
      mMeta = zero_meta\<lparr>metaLabels := map_of app_label, metaName := ''validation-webhook'',
        metaAnnotations := [pkoPhaseAnnotation \<mapsto> phase]\<rparr>,
      mBody = WorkloadSpec
       \<lparr>wsReplicas = Some replicas, wsSelector = app_label, wsMaxUnavailable = IntVal 1,
        wsTemplate =
         \<lparr>tplLabels = app_label,
          tplAffinity =
           \<lparr>afNodeRequired = [],
            afNodePreferred =
              [([\<lparr>nrKey = hsControlPlaneLabel, nrOperator = NodeSelectorOpIn, nrValues = [''true'']\<rparr>], 50),
               ([\<lparr>nrKey = hsClusterLabel, nrOperator = NodeSelectorOpIn, nrValues = [package_namespace]\<rparr>], 100)],
            afPodPreferred =
              [(\<lparr>patMatchLabels = [(hsControlPlaneLabel, package_namespace)], patTopologyKey = ''kubernetes.io/hostname''\<rparr>, 100)],
            afPodAntiRequired = [\<lparr>patMatchLabels = app_label, patTopologyKey = ''topology.kubernetes.io/zone''\<rparr>]\<rparr>,
          tplTolerations =
            [\<lparr>ptKey = controlPlaneLabel, ptOperator = TolerationOpEqual, ptValue = ''true'', ptEffect = TaintEffectNoSchedule\<rparr>,
             \<lparr>ptKey = hsControlPlaneLabel, ptOperator = TolerationOpEqual, ptValue = ''true'', ptEffect = TaintEffectNoSchedule\<rparr>,
             \<lparr>ptKey = hsClusterLabel, ptOperator = TolerationOpEqual, ptValue = package_namespace, ptEffect = TaintEffectNoSchedule\<rparr>],
          tplRestartPolicy = RestartPolicyAlways, tplServiceAccountName = [],
          tplVolumes =
            [(''service-certs'', SecretVolume (bfSecretName fl)), (''service-ca'', ConfigMapVolume (bfCaBundleName fl)),
             (''hosted-kubeconfig'', SecretVolume ''service-network-admin-kubeconfig'')],
          tplContainers =
            [packaged_container fl]\<rparr>\<rparr>\<rparr>"

definition createDaemonSet :: "build_flags \<Rightarrow> manifest" where
  "createDaemonSet fl =
     \<lparr>mKind = ''DaemonSet'', mAPIVersion = ''apps/v1'',
      mMeta = (named ''validation-webhook'' (bfNamespace fl))\<lparr>metaLabels := map_of app_label\<rparr>,
      mBody = WorkloadSpec
       \<lparr>wsReplicas = None, wsSelector = app_label, wsMaxUnavailable = StrVal ''10%'',
        wsTemplate =
         \<lparr>tplLabels = app_label,
          tplAffinity =
           \<lparr>afNodeRequired = [[\<lparr>nrKey = ''node-role.kubernetes.io/master'', nrOperator = NodeSelectorOpIn, nrValues = ['''']\<rparr>]],
            afNodePreferred = [], afPodPreferred = [], afPodAntiRequired = []\<rparr>,
          tplTolerations =
            [\<lparr>ptKey = ''node-role.kubernetes.io/master'', ptOperator = TolerationOpUnset, ptValue = [], ptEffect = TaintEffectNoSchedule\<rparr>,
             \<lparr>ptKey = ''node-role.kubernetes.io/master'', ptOperator = TolerationOpUnset, ptValue = [], ptEffect = TaintEffectNoExecute\<rparr>],
          tplRestartPolicy = RestartPolicyAlways, tplServiceAccountName = serviceAccountName,
          tplVolumes =
            [(''service-certs'', SecretVolume (bfSecretName fl)), (''service-ca'', ConfigMapVolume (bfCaBundleName fl))],
          tplContainers =
            [\<lparr>pcImagePullPolicy = PullIfNotPresent,
              pcTerminationMessagePolicy = TerminationMessageFallbackToLogsOnError,
              pcName = ''webhooks'', pcImage = ''${REGISTRY_IMG}@${IMAGE_DIGEST}'',
              pcVolumeMounts =
                [\<lparr>vmName = ''service-certs'', vmMountPath = ''/service-certs'', vmReadOnly = True\<rparr>,
                 \<lparr>vmName = ''service-ca'', vmMountPath = ''/service-ca'', vmReadOnly = True\<rparr>],
              pcPorts = [to_int32 (bfListenPort fl)], pcCommand = serving_command, pcEnv = []\<rparr>]\<rparr>\<rparr>\<rparr>"

definition createService :: "build_flags \<Rightarrow> manifest" where
  "createService fl =
     \<lparr>mKind = ''Service'', mAPIVersion = ''v1'',
      mMeta = (named serviceName (bfNamespace fl))
        \<lparr>metaAnnotations := [''service.beta.openshift.io/serving-cert-secret-name'' \<mapsto> bfSecretName fl],
         metaLabels := [''name'' \<mapsto> serviceName, ''hypershift.openshift.io/allow-guest-webhooks'' \<mapsto> ''true'']\<rparr>,
      mBody = ServiceSpec
        \<lparr>ssType = ServiceTypeClusterIP, ssSelector = app_label,
         ssPorts = [\<lparr>spName = ''https'', spPort = 443, spTargetPort = IntVal (to_int32 (bfListenPort fl)), spProtocol = ProtocolTCP\<rparr>]\<rparr>\<rparr>"

definition createPackagedService :: "build_flags \<Rightarrow> string \<Rightarrow> manifest" where
  "createPackagedService fl phase = packaged phase (createService fl)"

section \<open>References between the objects\<close>

text \<open>The objects of the template, in the order in which \<open>main\<close> adds them, and those of the package.\<close>

definition template_manifests :: "build_flags \<Rightarrow> manifest list" where
  "template_manifests fl =
     [createNamespace fl, createServiceAccount fl, createRole fl, createRoleBinding fl, createClusterRole fl,
      createClusterRoleBinding fl, createPrometheusRole fl, createPromethusRoleBinding fl, createServiceMonitor fl,
      createCACertConfigMap fl, createService fl]"

definition package_manifests :: "build_flags \<Rightarrow> manifest list" where
  "package_manifests fl =
     [createPackagedCACertConfigMap fl configPhase, createPackagedService fl deployPhase,
      createPackagedDeployment fl (to_int32 (bfReplicas fl)) deployPhase]"

text \<open>
  An object refers to others by name. \<open>foreign\<close> lists what the platform provides: kind, name and
  namespace.
\<close>

definition provided :: "(string \<times> string \<times> string) list \<Rightarrow> manifest list \<Rightarrow> string \<Rightarrow> string \<Rightarrow> string \<Rightarrow> bool" where
  "provided foreign ms k name namespace \<longleftrightarrow>
     list_ex (\<lambda>m. mKind m = k \<and> metaName (mMeta m) = name \<and> metaNamespace (mMeta m) = namespace) ms \<or>
     (k, name, namespace) \<in> set foreign"

text \<open>A Secret with a serving certificate is made for the Service that asks for it.\<close>

definition secret_provided :: "(string \<times> string \<times> string) list \<Rightarrow> manifest list \<Rightarrow> string \<Rightarrow> string \<Rightarrow> bool" where
  "secret_provided foreign ms name namespace \<longleftrightarrow>
     list_ex (\<lambda>m. mKind m = ''Service'' \<and> metaNamespace (mMeta m) = namespace \<and>
       metaAnnotations (mMeta m) ''service.beta.openshift.io/serving-cert-secret-name'' = Some name) ms \<or>
     (''Secret'', name, namespace) \<in> set foreign"

definition labels_select :: "(string \<times> string) list \<Rightarrow> (string \<times> string) list \<Rightarrow> bool" where
  "labels_select selector labels \<longleftrightarrow> list_all (\<lambda>(k, v). map_of labels k = Some v) selector"

text \<open>
  The port on which a container listens is not the one it declares but the one its command line gives to
  the program, which \<open>cmd/main.go\<close> reads as text; \<open>port_number\<close> is the number that \<open>net.Listen\<close> sees in it.
\<close>

definition port_number :: "string \<Rightarrow> nat option" where
  "port_number s = (if s \<noteq> [] \<and> list_all (\<lambda>c. c \<in> set ''0123456789'') s
     then Some (foldl (\<lambda>n c. 10 * n + (of_char c - 48)) 0 s) else None)"

definition listens_on :: "string list \<Rightarrow> 32 word \<Rightarrow> bool" where
  "listens_on command port \<longleftrightarrow>
     (case flag_parse server_flags (tl command) of
        Inl _ \<Rightarrow> False
      | Inr settings \<Rightarrow> port_number (listenPort settings) = Some (unat port))"

definition container_resolved :: "pod_template \<Rightarrow> pod_container \<Rightarrow> bool" where
  "container_resolved t c \<longleftrightarrow>
     list_all (\<lambda>vm. map_of (tplVolumes t) (vmName vm) \<noteq> None) (pcVolumeMounts c) \<and>
     list_all (\<lambda>arg. strings_HasPrefix arg ''/'' \<longrightarrow>
       list_ex (\<lambda>vm. strings_HasPrefix arg (vmMountPath vm @ ''/'')) (pcVolumeMounts c)) (pcCommand c)"

fun body_resolved :: "(string \<times> string \<times> string) list \<Rightarrow> manifest list \<Rightarrow> string \<Rightarrow> manifest_body \<Rightarrow> bool" where
  "body_resolved foreign ms ns (Binding subjects role) \<longleftrightarrow>
     list_all (\<lambda>s. provided foreign ms (rsKind s) (rsName s) (rsNamespace s)) subjects \<and>
     provided foreign ms (rrKind role) (rrName role) (if rrKind role = ''Role'' then ns else [])"
| "body_resolved foreign ms ns (ServiceSpec sv) \<longleftrightarrow>
     list_ex (\<lambda>m. case mBody m of
         WorkloadSpec wl \<Rightarrow> metaNamespace (mMeta m) = ns \<and> labels_select (ssSelector sv) (tplLabels (wsTemplate wl)) \<and>
           list_all (\<lambda>p. list_ex (\<lambda>c. list_ex (\<lambda>port. spTargetPort p = IntVal port \<and>
             listens_on (pcCommand c) port) (pcPorts c)) (tplContainers (wsTemplate wl))) (ssPorts sv)
       | _ \<Rightarrow> False) ms"
| "body_resolved foreign ms ns (WorkloadSpec wl) \<longleftrightarrow>
     labels_select (wsSelector wl) (tplLabels (wsTemplate wl)) \<and>
     (tplServiceAccountName (wsTemplate wl) = [] \<or>
      provided foreign ms ''ServiceAccount'' (tplServiceAccountName (wsTemplate wl)) ns) \<and>
     list_all (\<lambda>(_, src). case src of
         SecretVolume s \<Rightarrow> secret_provided foreign ms s ns
       | ConfigMapVolume c \<Rightarrow> provided foreign ms ''ConfigMap'' c ns) (tplVolumes (wsTemplate wl)) \<and>
     list_all (container_resolved (wsTemplate wl)) (tplContainers (wsTemplate wl))"
| "body_resolved foreign ms ns _ \<longleftrightarrow> True"

definition all_resolved :: "(string \<times> string \<times> string) list \<Rightarrow> manifest list \<Rightarrow> bool" where
  "all_resolved foreign ms \<longleftrightarrow> list_all (\<lambda>m. body_resolved foreign ms (metaNamespace (mMeta m)) (mBody m)) ms"

lemmas create_defs = createNamespace_def createServiceAccount_def createRole_def createRoleBinding_def
  createClusterRole_def createClusterRoleBinding_def createPrometheusRole_def createPromethusRoleBinding_def
  createServiceMonitor_def createCACertConfigMap_def createService_def createDaemonSet_def
  createPackagedCACertConfigMap_def createPackagedService_def createPackagedDeployment_def packaged_container_def packaged_def
  template_manifests_def package_manifests_def named_def zero_meta_def app_label_def serving_command_def

text \<open>The command of both kinds of pods asks for TLS with the mounted files and leaves the port alone.\<close>

lemma serving_settings:
  "flag_parse server_flags (tl serving_command) =
     Inr [(''tlskey'', ''/service-certs/tls.key''), (''tlscert'', ''/service-certs/tls.crt''),
       (''cacert'', ''/service-ca/service-ca.crt''), (''tls'', ''true'')]"
  by code_simp

lemma serving_port: "listens_on serving_command port \<longleftrightarrow> port = 5000"
proof -
  have "listenPort [(''tlskey'', ''/service-certs/tls.key''), (''tlscert'', ''/service-certs/tls.crt''),
      (''cacert'', ''/service-ca/service-ca.crt''), (''tls'', ''true'')] = ''5000''"
    by (simp add: listenPort_def flag_string_def)
  then have "listens_on serving_command port \<longleftrightarrow> port_number ''5000'' = Some (unat port)"
    by (simp only: listens_on_def serving_settings sum.case)
  also have "port_number ''5000'' = Some 5000" by code_simp
  also have "Some 5000 = Some (unat port) \<longleftrightarrow> unat port = unat (5000 :: 32 word)" by auto
  also have "\<dots> \<longleftrightarrow> port = 5000" by (rule word_unat_eq_iff [symmetric])
  finally show ?thesis .
qed

lemmas resolve_defs = all_resolved_def provided_def secret_provided_def labels_select_def container_resolved_def
  serving_port [unfolded serving_command_def]

text \<open>
  (C21) When the deployed objects fit together: role bindings name roles and accounts that exist, the
  service selects the pods and forwards to a port that their container declares and on which the
  program, started with the command line of that container, listens; pods use existing accounts, secrets and
  config maps, mount only declared volumes, and the files on the command line are below the mount points.
  This holds, for the template and for the package alike, exactly when two flags of the generator have their
  default values, whatever the other flags are: the CA bundle must have the name that \<open>createCACertConfigMap\<close>
  fixes without looking at \<open>-cabundlename\<close>, and \<open>-port\<close> must be 5000 (in its low 32 bits), because it changes the
  Service and the declared port only, while the command line of the pods passes no port and the
  program listens on its own default. From outside come the Prometheus account and the kubeconfig of the
  hosted cluster.
\<close>

theorem manifests_resolved:
  "(all_resolved [(''ServiceAccount'', ''prometheus-k8s'', ''openshift-monitoring'')]
      (template_manifests fl @ [createDaemonSet fl]) \<longleftrightarrow>
        bfCaBundleName fl = ''webhook-cert'' \<and> to_int32 (bfListenPort fl) = 5000) \<and>
   (all_resolved [(''Secret'', ''service-network-admin-kubeconfig'', [])] (package_manifests fl) \<longleftrightarrow>
      bfCaBundleName fl = ''webhook-cert'' \<and> to_int32 (bfListenPort fl) = 5000)"
proof
  show "all_resolved [(''ServiceAccount'', ''prometheus-k8s'', ''openshift-monitoring'')]
      (template_manifests fl @ [createDaemonSet fl]) \<longleftrightarrow>
        bfCaBundleName fl = ''webhook-cert'' \<and> to_int32 (bfListenPort fl) = 5000"
    by (auto simp: create_defs build_constants resolve_defs)
  show "all_resolved [(''Secret'', ''service-network-admin-kubeconfig'', [])] (package_manifests fl) \<longleftrightarrow>
      bfCaBundleName fl = ''webhook-cert'' \<and> to_int32 (bfListenPort fl) = 5000"
    by (auto simp: create_defs build_constants resolve_defs)
qed

end
