(* ===== verification/Resources.thy ===== *)
theory Resources
  imports Manifests Registry "HOL-Library.List_Lexorder" "HOL-Library.Char_ord"
begin

text \<open>
  The rest of \<open>build/resources.go\<close>: the webhook configurations, and \<open>main\<close>, which writes the
  SelectorSyncSet template and the package.
  \<^item> \<open>encoders\<close> holds what is outside the repository: JSON and YAML encoding of the objects, and writing a
    file.
  \<^item> A run ends by writing its files, by \<open>os.Exit\<close> or by a panic; what it printed is kept.
  \<^item> \<open>sort.Strings\<close> is \<^const>\<open>sort\<close> for the lexicographic order of strings.
\<close>

section \<open>Webhook configurations\<close>

definition createWebhookConfiguration :: "string \<Rightarrow> build_flags \<Rightarrow> webhook \<Rightarrow> webhook_configuration" where
  "createWebhookConfiguration k fl hook =
     \<lparr>cfgKind = k, cfgAPIVersion = ''admissionregistration.k8s.io/v1'', cfgName = ''sre-'' @ Name hook,
      cfgAnnotations = [''service.beta.openshift.io/inject-cabundle'' \<mapsto> ''true''],
      cfgWebhooks =
        [\<lparr>weAdmissionReviewVersions = [''v1''], weTimeoutSeconds = TimeoutSeconds hook, weSideEffects = SideEffects hook,
          weMatchPolicy = MatchPolicy hook, weName = Name hook @ ''.managed.openshift.io'',
          weObjectSelector = ObjectSelector hook, weFailurePolicy = FailurePolicy hook,
          weClientConfig =
            \<lparr>ccURL = None,
             ccService = Some \<lparr>refNamespace = bfNamespace fl, refPath = Some (GetURI hook), refName = serviceName\<rparr>,
             ccCABundle = []\<rparr>,
          weRules = Rules hook\<rparr>]\<rparr>"

definition createValidatingWebhookConfiguration :: "build_flags \<Rightarrow> webhook \<Rightarrow> webhook_configuration" where
  "createValidatingWebhookConfiguration = createWebhookConfiguration ''ValidatingWebhookConfiguration''"

definition createMutatingWebhookConfiguration :: "build_flags \<Rightarrow> webhook \<Rightarrow> webhook_configuration" where
  "createMutatingWebhookConfiguration = createWebhookConfiguration ''MutatingWebhookConfiguration''"

text \<open>
  In the package the hooks are reached by URL, with the CA bundle filled in by a template. The code
  assigns to \<open>Webhooks[0]\<close>, which the constructors above always give.
\<close>

definition package_url :: "webhook \<Rightarrow> string" where
  "package_url hook = ''https://'' @ serviceName @ ''.{{.package.metadata.namespace}}.svc.cluster.local'' @ GetURI hook"

definition packagedConfiguration :: "webhook \<Rightarrow> string \<Rightarrow> webhook_configuration \<Rightarrow> webhook_configuration" where
  "packagedConfiguration hook phase cfg =
     cfg\<lparr>cfgAnnotations := (cfgAnnotations cfg)(pkoPhaseAnnotation \<mapsto> phase, caBundleAnnotation \<mapsto> ''false''),
         cfgWebhooks := (cfgWebhooks cfg)[0 := (cfgWebhooks cfg ! 0)
           \<lparr>weClientConfig := \<lparr>ccURL = Some (package_url hook), ccService = None, ccCABundle = ''{{.config.serviceca | b64enc }}''\<rparr>\<rparr>]\<rparr>"

definition createPackagedValidatingWebhookConfiguration :: "build_flags \<Rightarrow> webhook \<Rightarrow> string \<Rightarrow> webhook_configuration" where
  "createPackagedValidatingWebhookConfiguration fl hook phase =
     packagedConfiguration hook phase (createValidatingWebhookConfiguration fl hook)"

definition createPackagedMutatingWebhookConfiguration :: "build_flags \<Rightarrow> webhook \<Rightarrow> string \<Rightarrow> webhook_configuration" where
  "createPackagedMutatingWebhookConfiguration fl hook phase =
     packagedConfiguration hook phase (createMutatingWebhookConfiguration fl hook)"

section \<open>The run\<close>

datatype raw_resource = RawObject manifest | RawBytes string

record template =
  tplKind :: string
  tplAPIVersion :: string
  tplName :: string
  tplParameters :: "(string \<times> string) list" \<comment> \<open>names and values; all are required\<close>
  tplObjects :: "string list"

record encoders =
  marshalConfiguration :: "webhook_configuration \<Rightarrow> go_error + string"
  marshalManifest :: "manifest \<Rightarrow> go_error + string"
  marshalSyncSet :: "raw_resource selector_sync_set \<Rightarrow> go_error + string"
  unmarshalJSON :: "string \<Rightarrow> go_error + json"
  marshalJSON :: "json \<Rightarrow> go_error + string"
  marshalTemplate :: "template \<Rightarrow> go_error + string"
  marshalResource :: "raw_resource \<Rightarrow> go_error + string" \<comment> \<open>YAML\<close>
  writeFile :: "string \<Rightarrow> string \<Rightarrow> go_error option"

record build_state =
  printed :: "string list"
  resources :: "raw_resource map_entry list"
  packageResources :: "raw_resource list"
  written :: "(string \<times> string) list"

text \<open>A run that stops early: the exit code or the text of the panic, and the state it left behind.\<close>

datatype halt = Exit nat | Crash string

type_synonym run = "(halt \<times> build_state) + build_state"

definition run_bind :: "run \<Rightarrow> (build_state \<Rightarrow> run) \<Rightarrow> run" where
  "run_bind r k = (case r of Inl h \<Rightarrow> Inl h | Inr st \<Rightarrow> k st)"

definition empty_state :: build_state where
  "empty_state = \<lparr>printed = [], resources = [], packageResources = [], written = []\<rparr>"

definition sliceContains :: "string \<Rightarrow> string list \<Rightarrow> bool" where
  "sliceContains needle haystack \<longleftrightarrow> list_ex (\<lambda>hay. hay = needle) haystack"

text \<open>\<open>strings.Split\<close> with an empty separator gives the characters.\<close>

definition split_chars :: "string \<Rightarrow> string list" where
  "split_chars s = map (\<lambda>c. [c]) s"

definition skip_names :: "build_flags \<Rightarrow> string list" where
  "skip_names fl = strings_Split (bfExcludes fl) (CHR '','')"

definition only_names :: "build_flags \<Rightarrow> string list" where
  "only_names fl = split_chars (bfOnly fl)"

text \<open>
  One turn of either loop: \<open>enabled\<close> is the hook's \<open>ClassicEnabled\<close> or \<open>HypershiftEnabled\<close>, \<open>emit\<close> what the
  loop does with a hook that is not skipped.
\<close>

definition filter_hook ::
  "build_flags \<Rightarrow> (webhook \<Rightarrow> bool) \<Rightarrow> (webhook \<Rightarrow> build_state \<Rightarrow> run) \<Rightarrow> webhook \<Rightarrow>
     build_state \<Rightarrow> run" where
  "filter_hook fl enabled emit hook st =
     (if \<not> enabled hook then Inr st
      else if length (Rules hook) = 0 then Inr st
      else
        (let st = (if bfShowHookNames fl then st\<lparr>printed := printed st @ [Name hook]\<rparr> else st) in
         if sliceContains (Name hook) (skip_names fl) then Inr st
         else if length (only_names fl) > 0 \<and> \<not> sliceContains (Name hook) (only_names fl) then Inr st
         else emit hook st))"

fun hook_loop ::
  "(string \<rightharpoonup> webhook) \<Rightarrow> (string \<Rightarrow> webhook \<Rightarrow> build_state \<Rightarrow> run) \<Rightarrow> string list \<Rightarrow> string list \<Rightarrow>
     build_state \<Rightarrow> run" where
  "hook_loop hooks turn [] seen st = Inr st"
| "hook_loop hooks turn (hookName # names) seen st =
     (case hooks hookName of
        None \<Rightarrow> Inl (Crash ''invalid memory address or nil pointer dereference'', st)
      | Some hook \<Rightarrow>
          (if GetURI hook \<in> set seen then Inl (Crash (''Duplicate hook URI: '' @ GetURI hook), st)
           else run_bind (turn hookName hook st) (hook_loop hooks turn names (GetURI hook # seen))))"

definition sorted_names :: "registered_webhooks \<Rightarrow> string list" where
  "sorted_names ws = sort (map fst ws)"

subsection \<open>The template\<close>

definition sssLabels_value :: "string \<rightharpoonup> string" where
  "sssLabels_value = [''managed.openshift.io/gitHash'' \<mapsto> ''${IMAGE_TAG}'',
     ''managed.openshift.io/gitRepoName'' \<mapsto> ''${REPO_NAME}'', ''managed.openshift.io/osd'' \<mapsto> ''true'']"

definition template_configuration :: "build_flags \<Rightarrow> string \<Rightarrow> webhook \<Rightarrow> webhook_configuration" where
  "template_configuration fl hookName hook =
     (if strings_HasSuffix hookName ''-mutation'' then createMutatingWebhookConfiguration fl hook
      else createValidatingWebhookConfiguration fl hook)"

definition emit_template :: "build_flags \<Rightarrow> encoders \<Rightarrow> string \<Rightarrow> webhook \<Rightarrow> build_state \<Rightarrow> run" where
  "emit_template fl enc hookName hook st =
     (case Encode (marshalConfiguration enc) (template_configuration fl hookName hook) of
        Inl err \<Rightarrow> Inl (Exit 1, st)
      | Inr raw \<Rightarrow> Inr (st\<lparr>resources := syncset_Add (resources st) (SyncSetLabelSelector hook) (RawBytes raw)\<rparr>))"

definition template_loop :: "build_flags \<Rightarrow> encoders \<Rightarrow> registered_webhooks \<Rightarrow> build_state \<Rightarrow> run" where
  "template_loop fl enc ws =
     hook_loop (map_of ws) (\<lambda>hookName. filter_hook fl ClassicEnabled (emit_template fl enc hookName)) (sorted_names ws) []"

fun pod_account :: "manifest_body \<Rightarrow> string" where
  "pod_account (WorkloadSpec wl) = tplServiceAccountName (wsTemplate wl)"
| "pod_account _ = []"

definition add_resource :: "raw_resource \<Rightarrow> build_state \<Rightarrow> build_state" where
  "add_resource r st = st\<lparr>resources := syncset_Add (resources st) DefaultLabelSelector r\<rparr>"

definition template_of :: "string list \<Rightarrow> template" where
  "template_of selectorSyncSets =
     \<lparr>tplKind = ''Template'', tplAPIVersion = ''template.openshift.io/v1'', tplName = ''selectorsyncset-template'',
      tplParameters = [(''IMAGE_TAG'', []), (''REPO_NAME'', repoName), (''REGISTRY_IMG'', []), (''IMAGE_DIGEST'', [])],
      tplObjects = selectorSyncSets\<rparr>"

definition write_out :: "encoders \<Rightarrow> string \<Rightarrow> string \<Rightarrow> string \<Rightarrow> build_state \<Rightarrow> run" where
  "write_out enc ending name content st =
     (case writeFile enc name content of
        Some err \<Rightarrow> Inl (Crash (''Failed to write to '' @ name @ '': '' @ err @ ending), st)
      | None \<Rightarrow> Inr (st\<lparr>written := written st @ [(name, content)]\<rparr>))"

definition finish_template :: "build_flags \<Rightarrow> encoders \<Rightarrow> build_state \<Rightarrow> run" where
  "finish_template fl enc st =
     (if bfShowHookNames fl then Inl (Exit 0, st)
      else (case RenderSelectorSyncSets (marshalSyncSet enc) sssLabels_value (resources st) of
              Inl err \<Rightarrow> Inl (Exit 1, st)
            | Inr selectorSyncSets \<Rightarrow>
                (case marshalTemplate enc (template_of selectorSyncSets) of
                   Inl err \<Rightarrow> Inl (Crash (''couldn't marshal: '' @ err @ [newline]), st)
                 | Inr y \<Rightarrow> write_out enc [newline] (bfTemplateFile fl) y st)))"

definition build_template :: "build_flags \<Rightarrow> encoders \<Rightarrow> registered_webhooks \<Rightarrow> build_state \<Rightarrow> run" where
  "build_template fl enc ws st =
     (let st = fold (\<lambda>m. add_resource (RawObject m)) (template_manifests fl) st in
      case EncodeAndFixDaemonset (marshalManifest enc) (unmarshalJSON enc) (marshalJSON enc)
             (\<lambda>m. pod_account (mBody m)) (createDaemonSet fl) of
        Panic m \<Rightarrow> Inl (Crash m, st)
      | Return (Inl err) \<Rightarrow> Inl (Crash (''couldn't marshal: '' @ err @ [newline]), st)
      | Return (Inr encodedDaemonSet) \<Rightarrow>
          run_bind (template_loop fl enc ws (add_resource (RawBytes encodedDaemonSet) st)) (finish_template fl enc))"

subsection \<open>The package\<close>

definition emit_package :: "build_flags \<Rightarrow> encoders \<Rightarrow> string \<Rightarrow> webhook \<Rightarrow> build_state \<Rightarrow> run" where
  "emit_package fl enc hookName hook st =
     (case (if strings_HasSuffix hookName ''-mutation''
            then EncodeMutatingAndFixCA (marshalConfiguration enc) (unmarshalJSON enc) (marshalJSON enc)
              (createPackagedMutatingWebhookConfiguration fl hook webhooksPhase)
            else EncodeValidatingAndFixCA (marshalConfiguration enc) (unmarshalJSON enc) (marshalJSON enc)
              (createPackagedValidatingWebhookConfiguration fl hook webhooksPhase)) of
        Panic m \<Rightarrow> Inl (Crash m, st)
      | Return (Inl err) \<Rightarrow> Inl (Exit 1, st\<lparr>printed := printed st @ [''Error encoding packaged webhook: '' @ err]\<rparr>)
      | Return (Inr encodedWebhook) \<Rightarrow> Inr (st\<lparr>packageResources := packageResources st @ [RawBytes encodedWebhook]\<rparr>))"

definition package_loop :: "build_flags \<Rightarrow> encoders \<Rightarrow> registered_webhooks \<Rightarrow> build_state \<Rightarrow> run" where
  "package_loop fl enc ws =
     hook_loop (map_of ws) (\<lambda>hookName. filter_hook fl HypershiftEnabled (emit_package fl enc hookName)) (sorted_names ws) []"

fun package_text :: "encoders \<Rightarrow> raw_resource list \<Rightarrow> go_error + string" where
  "package_text enc [] = Inr []"
| "package_text enc (r # rs) =
     (case marshalResource enc r of
        Inl err \<Rightarrow> Inl (''Failed to marshal resource to string: '' @ err)
      | Inr y \<Rightarrow> (case package_text enc rs of Inl err \<Rightarrow> Inl err | Inr ys \<Rightarrow> Inr (''---'' @ [newline] @ y @ ys)))"

text \<open>
  \<open>filepath.Join\<close>: empty elements are ignored, the rest is joined by slashes and cleaned. \<open>clean_step\<close> keeps
  the elements so far, the last one first.
\<close>

definition clean_step :: "bool \<Rightarrow> string \<Rightarrow> string list \<Rightarrow> string list" where
  "clean_step rooted e out =
     (if e = [] \<or> e = ''.'' then out
      else if e = ''..'' then
        (case out of
           [] \<Rightarrow> if rooted then [] else [e]
         | prev # before \<Rightarrow> if prev = ''..'' then e # out else before)
      else e # out)"

definition filepath_Clean :: "string \<Rightarrow> string" where
  "filepath_Clean path =
     (let rooted = strings_HasPrefix path ''/'';
          out = strings_Join (rev (fold (clean_step rooted) (strings_Split path (CHR ''/'')) [])) ''/'' in
      if rooted then ''/'' @ out else if out = [] then ''.'' else out)"

definition filepath_Join :: "string \<Rightarrow> string \<Rightarrow> string" where
  "filepath_Join dir name =
     (if dir = [] then (if name = [] then [] else filepath_Clean name)
      else filepath_Clean (if name = [] then dir else dir @ ''/'' @ name))"

definition build_package :: "build_flags \<Rightarrow> encoders \<Rightarrow> registered_webhooks \<Rightarrow> build_state \<Rightarrow> run" where
  "build_package fl enc ws st =
     run_bind (package_loop fl enc ws
         (st\<lparr>packageResources := packageResources st @ map RawObject (package_manifests fl)\<rparr>)) (\<lambda>st.
       case package_text enc (packageResources st) of
         Inl err \<Rightarrow> Inl (Crash err, st)
       | Inr rb \<Rightarrow> write_out enc [] (filepath_Join (bfPackageDir fl) ''resources.yaml.gotmpl'') rb st)"

definition build_main :: "build_flags \<Rightarrow> encoders \<Rightarrow> registered_webhooks \<Rightarrow> run" where
  "build_main fl enc ws =
     run_bind
       (if bfTemplateFile fl \<noteq> [] then build_template fl enc ws empty_state
        else Inr (empty_state\<lparr>printed := [''No -syncsetfile option supplied, will not generate selector sync set'']\<rparr>)) (\<lambda>st.
       if bfPackageDir fl \<noteq> [] then build_package fl enc ws st
       else Inr (st\<lparr>printed := printed st @ [''No -packagedir option supplied, will not generate package manifest'']\<rparr>))"

section \<open>Which hooks are generated\<close>

text \<open>The hooks a run is asked for.\<close>

definition wanted :: "build_flags \<Rightarrow> (webhook \<Rightarrow> bool) \<Rightarrow> webhook \<Rightarrow> bool" where
  "wanted fl enabled h \<longleftrightarrow> enabled h \<and> Rules h \<noteq> [] \<and> Name h \<notin> set (skip_names fl) \<and>
     (bfOnly fl = [] \<or> Name h \<in> set (only_names fl))"

lemma sliceContains_iff [simp]: "sliceContains x xs \<longleftrightarrow> x \<in> set xs"
  by (auto simp: sliceContains_def list_ex_iff)

lemma filter_hook_wanted:
  "\<not> bfShowHookNames fl \<Longrightarrow> filter_hook fl enabled emit h st = (if wanted fl enabled h then emit h st else Inr st)"
  by (auto simp: filter_hook_def wanted_def only_names_def split_chars_def)

text \<open>With distinct URIs, and when no turn fails, a loop is a fold.\<close>

lemma hook_loop_fold:
  assumes "\<And>n. n \<in> set names \<Longrightarrow> hooks n = Some (hook n)"
    and "distinct (map (GetURI \<circ> hook) names)" and "(GetURI \<circ> hook) ` set names \<inter> set seen = {}"
    and "\<And>n st. n \<in> set names \<Longrightarrow> turn n (hook n) st = Inr (change (hook n) st)"
  shows "hook_loop hooks turn names seen st = Inr (fold change (map hook names) st)"
  using assms
proof (induction names arbitrary: seen st)
  case (Cons n names)
  have "hook_loop hooks turn names (GetURI (hook n) # seen) (change (hook n) st) =
      Inr (fold change (map hook names) (change (hook n) st))"
    by (rule Cons.IH) (use Cons.prems in auto)
  with Cons.prems show ?case by (auto simp: run_bind_def)
qed simp

text \<open>The registry in the order of the names, however the map was walked.\<close>

definition sorted_hooks :: "dependencies \<Rightarrow> webhook list" where
  "sorted_hooks ds = map (\<lambda>n. the (map_of (Webhooks ds) n)) (sort webhook_names)"

lemma Webhooks_names: "map fst (Webhooks ds) = webhook_names"
  by (simp add: Webhooks_table comp_def hook_table_names)

lemma Webhooks_map_of: "(n, h) \<in> set (Webhooks ds) \<Longrightarrow> map_of (Webhooks ds) n = Some h"
  using webhook_names_distinct Webhooks_names [of ds] by simp

lemma sorted_hook:
  assumes "n \<in> set webhook_names"
  shows "(n, the (map_of (Webhooks ds) n)) \<in> set (Webhooks ds)" and "Name (the (map_of (Webhooks ds) n)) = n"
proof -
  have "n \<in> fst ` set (Webhooks ds)" using assms Webhooks_names [of ds] by (metis list.set_map)
  then obtain h where h: "(n, h) \<in> set (Webhooks ds)" by auto
  then show "(n, the (map_of (Webhooks ds) n)) \<in> set (Webhooks ds)" by (simp add: Webhooks_map_of)
  have "Name h = n" using h by (auto simp: Webhooks_table)
  with h show "Name (the (map_of (Webhooks ds) n)) = n" by (simp add: Webhooks_map_of)
qed

lemma walk_irrelevant:
  assumes "mset ws = mset (Webhooks ds)"
  shows "map_of ws = map_of (Webhooks ds)" and "sorted_names ws = sort webhook_names"
proof -
  have "mset (map fst ws) = mset webhook_names" using assms Webhooks_names [of ds] by (metis mset_map)
  then show "sorted_names ws = sort webhook_names"
    unfolding sorted_names_def by (intro properties_for_sort) (simp_all)
  have "distinct (map fst ws)"
    using \<open>mset (map fst ws) = mset webhook_names\<close> webhook_names_distinct mset_eq_imp_distinct_iff by blast
  then show "map_of ws = map_of (Webhooks ds)"
    using webhook_names_distinct Webhooks_names [of ds] mset_eq_setD [OF assms] map_of_inject_set by metis
qed

lemma sorted_uris_distinct: "distinct (map (GetURI \<circ> (\<lambda>n. the (map_of (Webhooks ds) n))) (sort webhook_names))"
proof -
  have "inj_on (\<lambda>n. GetURI (the (map_of (Webhooks ds) n))) (set webhook_names)"
  proof (rule inj_onI)
    fix m n
    assume "m \<in> set webhook_names" "n \<in> set webhook_names"
      "GetURI (the (map_of (Webhooks ds) m)) = GetURI (the (map_of (Webhooks ds) n))"
    then have "the (map_of (Webhooks ds) m) = the (map_of (Webhooks ds) n)"
      using registered_lookup sorted_hook(1) by (metis option.inject)
    then show "m = n" using sorted_hook(2) \<open>m \<in> _\<close> \<open>n \<in> _\<close> by metis
  qed
  then show ?thesis using webhook_names_distinct by (simp add: distinct_map comp_def)
qed

lemma registry_loop:
  assumes "mset ws = mset (Webhooks ds)"
    and "\<And>n h st. Name h = n \<Longrightarrow> turn n h st = Inr (change h st)"
  shows "hook_loop (map_of ws) turn (sorted_names ws) [] st = Inr (fold change (sorted_hooks ds) st)"
proof -
  let ?hook = "\<lambda>n. the (map_of (Webhooks ds) n)"
  have "hook_loop (map_of (Webhooks ds)) turn (sort webhook_names) [] st = Inr (fold change (map ?hook (sort webhook_names)) st)"
  proof (rule hook_loop_fold)
    fix n st
    assume "n \<in> set (sort webhook_names)"
    then have n: "n \<in> set webhook_names" by simp
    show "map_of (Webhooks ds) n = Some (?hook n)" by (rule Webhooks_map_of [OF sorted_hook(1) [OF n]])
    show "turn n (?hook n) st = Inr (change (?hook n) st)" by (rule assms(2) [OF sorted_hook(2) [OF n]])
  qed (rule sorted_uris_distinct, simp)
  then show ?thesis by (simp add: walk_irrelevant [OF assms(1)] sorted_hooks_def)
qed

definition package_configuration :: "build_flags \<Rightarrow> webhook \<Rightarrow> webhook_configuration" where
  "package_configuration fl h =
     (if is_mutation h then createPackagedMutatingWebhookConfiguration fl h webhooksPhase
      else createPackagedValidatingWebhookConfiguration fl h webhooksPhase)"

lemma fold_wanted_package:
  "fold (\<lambda>h st. if wanted fl enabled h then st\<lparr>packageResources := packageResources st @ [f h]\<rparr> else st) hs st =
     st\<lparr>packageResources := packageResources st @ map f (filter (wanted fl enabled) hs)\<rparr>"
  by (induction hs arbitrary: st) auto

lemma fold_wanted_template:
  "fold (\<lambda>h st. if wanted fl enabled h then st\<lparr>resources := syncset_Add (resources st) (key h) (f h)\<rparr> else st) hs st =
     st\<lparr>resources := foldl (\<lambda>s h. syncset_Add s (key h) (f h)) (resources st) (filter (wanted fl enabled) hs)\<rparr>"
  by (induction hs arbitrary: st) auto

text \<open>
  The two loops add one configuration for each hook that is enabled and asked for, in the order of the
  names; the order in which the map of hooks is walked has no influence.
\<close>

lemma package_loop_run:
  assumes "mset ws = mset (Webhooks ds)" and "\<not> bfShowHookNames fl"
    and "\<And>h. EncodeAndFixCA (marshalConfiguration enc) (unmarshalJSON enc) (marshalJSON enc) (package_configuration fl h) =
      Return (Inr (fixed h))"
  shows "package_loop fl enc ws st =
      Inr (st\<lparr>packageResources := packageResources st @
        map (\<lambda>h. RawBytes (fixed h)) (filter (wanted fl HypershiftEnabled) (sorted_hooks ds))\<rparr>)"
proof -
  have "emit_package fl enc (Name h) h st =
      Inr (st\<lparr>packageResources := packageResources st @ [RawBytes (fixed h)]\<rparr>)" for h st
    using assms(3) [of h] by (simp add: emit_package_def package_configuration_def is_mutation_def
        EncodeMutatingAndFixCA_def EncodeValidatingAndFixCA_def split: if_splits)
  then show ?thesis
    unfolding package_loop_def fold_wanted_package [symmetric]
    by (intro registry_loop [OF assms(1)]) (auto simp: filter_hook_wanted [OF assms(2)])
qed

lemma template_loop_run:
  assumes "mset ws = mset (Webhooks ds)" and "\<not> bfShowHookNames fl"
    and "\<And>cfg. marshalConfiguration enc cfg = Inr (json cfg)"
  shows "template_loop fl enc ws st =
      Inr (st\<lparr>resources := foldl (\<lambda>s h. syncset_Add s (SyncSetLabelSelector h) (RawBytes (json (template_configuration fl (Name h) h))))
        (resources st) (filter (wanted fl ClassicEnabled) (sorted_hooks ds))\<rparr>)"
proof -
  have "emit_template fl enc (Name h) h st =
      Inr (st\<lparr>resources := syncset_Add (resources st) (SyncSetLabelSelector h)
        (RawBytes (json (template_configuration fl (Name h) h)))\<rparr>)" for h st
    using assms(3) by (simp add: emit_template_def Encode_def)
  then show ?thesis
    unfolding template_loop_def fold_wanted_template [symmetric]
    by (intro registry_loop [OF assms(1)]) (auto simp: filter_hook_wanted [OF assms(2)])
qed

section \<open>What a run writes\<close>

text \<open>Everything added to the template, with its selector, in the order of the code.\<close>

definition template_adds ::
  "build_flags \<Rightarrow> string \<Rightarrow> (webhook_configuration \<Rightarrow> string) \<Rightarrow> webhook list \<Rightarrow> (label_selector \<times> raw_resource) list" where
  "template_adds fl daemonSet json hooks =
     map (\<lambda>m. (DefaultLabelSelector, RawObject m)) (template_manifests fl) @ [(DefaultLabelSelector, RawBytes daemonSet)] @
     map (\<lambda>h. (SyncSetLabelSelector h, RawBytes (json (template_configuration fl (Name h) h)))) hooks"

text \<open>One SelectorSyncSet for each selector, in the order of first use.\<close>

definition template_sync_sets :: "(label_selector \<times> raw_resource) list \<Rightarrow> raw_resource selector_sync_set list" where
  "template_sync_sets adds =
     map (\<lambda>(i, key). createSelectorSyncSet (''managed-cluster-validating-webhooks-'' @ decimal_digits i)
         (map snd (filter (\<lambda>a. fst a = key) adds)) key sssLabels_value)
       (List.enumerate 0 (rev (remdups (rev (map fst adds)))))"

definition package_yaml :: "(raw_resource \<Rightarrow> string) \<Rightarrow> raw_resource list \<Rightarrow> string" where
  "package_yaml yaml rs = concat (map (\<lambda>r. ''---'' @ [newline] @ yaml r) rs)"

lemma package_text_encoded:
  "(\<And>r. marshalResource enc r = Inr (yaml r)) \<Longrightarrow> package_text enc rs = Inr (package_yaml yaml rs)"
  by (induction rs) (simp_all add: package_yaml_def)

lemma rendered_sync_sets:
  assumes "\<And>s. marshal s = Inr (encoded s)"
  shows "RenderSelectorSyncSets marshal sssLabels_value (foldl (\<lambda>s (key, r). syncset_Add s key r) [] adds) =
     Inr (map encoded (template_sync_sets adds))"
  unfolding RenderSelectorSyncSets_def render_from_encoded [OF assms] syncset_grouped template_sync_sets_def
    numbered_sync_set_def enumerate_eq_zip zip_map2
  by (simp add: comp_def split_def)

lemma fold_add_resource:
  "fold (\<lambda>m. add_resource (RawObject m)) ms st =
     st\<lparr>resources := foldl (\<lambda>s (key, r). syncset_Add s key r) (resources st) (map (\<lambda>m. (DefaultLabelSelector, RawObject m)) ms)\<rparr>"
  by (induction ms arbitrary: st) (simp_all add: add_resource_def)

lemma foldl_hook_adds:
  "foldl (\<lambda>s h. syncset_Add s (key h) (f h)) s hs = foldl (\<lambda>s (key, r). syncset_Add s key r) s (map (\<lambda>h. (key h, f h)) hs)"
  by (induction hs arbitrary: s) simp_all

lemma build_template_run:
  assumes "mset ws = mset (Webhooks ds)" and "\<not> bfShowHookNames fl"
    and "\<And>cfg. marshalConfiguration enc cfg = Inr (json cfg)"
    and "EncodeAndFixDaemonset (marshalManifest enc) (unmarshalJSON enc) (marshalJSON enc) (\<lambda>m. pod_account (mBody m))
      (createDaemonSet fl) = Return (Inr daemonSet)"
    and "\<And>s. marshalSyncSet enc s = Inr (syncSet s)" and "\<And>t. marshalTemplate enc t = Inr (tpl t)"
    and "\<And>name content. writeFile enc name content = None"
    and "resources st = []"
  shows "\<exists>st'. build_template fl enc ws st = Inr st' \<and> packageResources st' = packageResources st \<and>
     written st' = written st @ [(bfTemplateFile fl, tpl (template_of (map syncSet (template_sync_sets
       (template_adds fl daemonSet json (filter (wanted fl ClassicEnabled) (sorted_hooks ds)))))))]"
proof -
  let ?hooks = "filter (wanted fl ClassicEnabled) (sorted_hooks ds)"
  let ?resources = "foldl (\<lambda>s (key, r). syncset_Add s key r) [] (template_adds fl daemonSet json ?hooks)"
  have "build_template fl enc ws st = finish_template fl enc (st\<lparr>resources := ?resources\<rparr>)"
    using assms(4,8) by (simp add: build_template_def fold_add_resource template_loop_run [OF assms(1-3)]
        run_bind_def foldl_hook_adds template_adds_def add_resource_def)
  then show ?thesis
    using assms(2,7) by (simp add: finish_template_def rendered_sync_sets [OF assms(5)] assms(6) write_out_def)
qed

lemma build_package_run:
  assumes "mset ws = mset (Webhooks ds)" and "\<not> bfShowHookNames fl"
    and "\<And>h. EncodeAndFixCA (marshalConfiguration enc) (unmarshalJSON enc) (marshalJSON enc) (package_configuration fl h) =
      Return (Inr (fixed h))"
    and "\<And>r. marshalResource enc r = Inr (yaml r)" and "\<And>name content. writeFile enc name content = None"
    and "packageResources st = []"
  shows "\<exists>st'. build_package fl enc ws st = Inr st' \<and>
     written st' = written st @ [(filepath_Join (bfPackageDir fl) ''resources.yaml.gotmpl'', package_yaml yaml
       (map RawObject (package_manifests fl) @ map (\<lambda>h. RawBytes (fixed h)) (filter (wanted fl HypershiftEnabled) (sorted_hooks ds))))]"
  using assms(5,6) by (simp add: build_package_def package_loop_run [OF assms(1-3)] run_bind_def
      package_text_encoded [OF assms(4)] write_out_def)

text \<open>
  (C18) A whole run of the generator, when encoding and writing succeed, both outputs are asked for and
  \<open>-showhooks\<close> is off: it ends without an exit or a panic, and writes two files. The template
  holds one SelectorSyncSet for each label selector in use, numbered in the order of first use, each with
  exactly the resources for that selector: the deployment objects, the DaemonSet and, in the order of
  their names, one configuration for each hook that is enabled for classic clusters and asked for. The
  package holds its three objects and one corrected configuration for each hook that is enabled for
  HyperShift and asked for. A hook is asked for when \<open>-exclude\<close> does not name it and \<open>-only\<close> is not set; with
  \<open>-only\<close> set no hook is, because the code takes the text of that flag apart into single characters.
  The order in which Go walks the registry has no influence.
\<close>

theorem build_writes:
  assumes "mset ws = mset (Webhooks ds)" and "\<not> bfShowHookNames fl"
    and "bfTemplateFile fl \<noteq> []" and "bfPackageDir fl \<noteq> []"
    and "\<forall>cfg. marshalConfiguration enc cfg = Inr (json cfg)"
    and "\<forall>h. EncodeAndFixCA (marshalConfiguration enc) (unmarshalJSON enc) (marshalJSON enc) (package_configuration fl h) =
      Return (Inr (fixed h))"
    and "EncodeAndFixDaemonset (marshalManifest enc) (unmarshalJSON enc) (marshalJSON enc) (\<lambda>m. pod_account (mBody m))
      (createDaemonSet fl) = Return (Inr daemonSet)"
    and "\<forall>s. marshalSyncSet enc s = Inr (syncSet s)" and "\<forall>t. marshalTemplate enc t = Inr (tpl t)"
    and "\<forall>r. marshalResource enc r = Inr (yaml r)" and "\<forall>name content. writeFile enc name content = None"
  shows "\<exists>st. build_main fl enc ws = Inr st \<and> written st =
    [(bfTemplateFile fl, tpl (template_of (map syncSet (template_sync_sets
        (template_adds fl daemonSet json (filter (wanted fl ClassicEnabled) (sorted_hooks ds))))))),
     (filepath_Join (bfPackageDir fl) ''resources.yaml.gotmpl'', package_yaml yaml
        (map RawObject (package_manifests fl) @
         map (\<lambda>h. RawBytes (fixed h)) (filter (wanted fl HypershiftEnabled) (sorted_hooks ds))))]"
proof -
  note enc = assms(5,6,8-11) [rule_format]
  obtain st where st: "build_template fl enc ws empty_state = Inr st" "packageResources st = []"
      "written st = [(bfTemplateFile fl, tpl (template_of (map syncSet (template_sync_sets
        (template_adds fl daemonSet json (filter (wanted fl ClassicEnabled) (sorted_hooks ds)))))))]"
    using build_template_run [OF assms(1,2) enc(1) assms(7) enc(3,4,6), of empty_state] by (auto simp: empty_state_def)
  with build_package_run [OF assms(1,2) enc(2,5,6) st(2)] assms(3,4) show ?thesis
    by (auto simp: build_main_def run_bind_def)
qed

text \<open>Encoders that succeed, with a value that both corrections apply to.\<close>

definition example_object :: json where
  "example_object = JObject
     [(''webhooks'', JArray [JObject [(''clientConfig'', JObject [])]]),
      (''spec'', JObject [(''template'', JObject [(''spec'', JObject [])])])]"

definition example_encoders :: encoders where
  "example_encoders =
     \<lparr>marshalConfiguration = \<lambda>_. Inr ''{}'', marshalManifest = \<lambda>_. Inr ''{}'', marshalSyncSet = \<lambda>_. Inr ''{}'',
      unmarshalJSON = \<lambda>_. Inr example_object, marshalJSON = \<lambda>_. Inr ''fixed'', marshalTemplate = \<lambda>_. Inr ''template'',
      marshalResource = \<lambda>_. Inr ''{}'', writeFile = \<lambda>_ _. None\<rparr>"

lemma package_configuration_simps [simp]:
  "cfgWebhooks (package_configuration fl h) \<noteq> []"
  "ccCABundle (weClientConfig (cfgWebhooks (package_configuration fl h) ! 0)) = ''{{.config.serviceca | b64enc }}''"
  by (simp_all add: package_configuration_def createPackagedMutatingWebhookConfiguration_def
      createPackagedValidatingWebhookConfiguration_def packagedConfiguration_def
      createMutatingWebhookConfiguration_def createValidatingWebhookConfiguration_def createWebhookConfiguration_def)

theorem build_writes_witness:
  "\<exists>st package. build_main (default_flags\<lparr>bfTemplateFile := ''sss.yaml'', bfPackageDir := ''out''\<rparr>) example_encoders
       (rev (Webhooks blind_dependencies)) = Inr st \<and>
     written st = [(''sss.yaml'', ''template''), (''out/resources.yaml.gotmpl'', package)]"
proof -
  let ?fl = "default_flags\<lparr>bfTemplateFile := ''sss.yaml'', bfPackageDir := ''out''\<rparr>"
  have fixed: "EncodeAndFixCA (marshalConfiguration example_encoders) (unmarshalJSON example_encoders)
      (marshalJSON example_encoders) (package_configuration ?fl h) = Return (Inr ''fixed'')" for h
    by (simp add: EncodeAndFixCA_def example_encoders_def decode_or_nil_def encode_again_def ca_path_def
        example_object_def Suc_le_eq not_less)
  have daemonSet: "EncodeAndFixDaemonset (marshalManifest example_encoders) (unmarshalJSON example_encoders)
      (marshalJSON example_encoders) (\<lambda>m. pod_account (mBody m)) (createDaemonSet ?fl) = Return (Inr ''fixed'')"
    by (simp add: EncodeAndFixDaemonset_def Let_def example_encoders_def decode_or_nil_def encode_again_def example_object_def)
  have "filepath_Join ''out'' ''resources.yaml.gotmpl'' = ''out/resources.yaml.gotmpl''" by code_simp
  then show ?thesis
    using build_writes [of "rev (Webhooks blind_dependencies)" blind_dependencies ?fl example_encoders
        "\<lambda>_. ''{}''" "\<lambda>_. ''fixed''" "''fixed''" "\<lambda>_. ''{}''" "\<lambda>_. ''template''" "\<lambda>_. ''{}''"] fixed daemonSet
    by (auto simp: default_flags_def example_encoders_def)
qed

text \<open>
  The flag \<open>-only\<close> is split into characters, not at commas: no hook has a name of one character, so with
  the flag set nothing is generated.
\<close>

lemma only_flag_drops_all:
  assumes "bfOnly fl \<noteq> []"
  shows "filter (wanted fl enabled) (hook_table ds) = []"
proof -
  have long: "list_all (\<lambda>n. 1 < length n) webhook_names" by code_simp
  have "1 < length (Name h)" if "h \<in> set (hook_table ds)" for h
    using that long hook_table_names [of ds] by (metis (no_types, lifting) image_eqI list.set_map list_all_iff)
  then show ?thesis
    using assms by (force simp: filter_empty_conv wanted_def only_names_def split_chars_def)
qed

text \<open>
  (C17) Configuration and server agree: for every registered hook, the configuration that the
  template installs names the generated Service, with a path under which the dispatcher finds this very
  hook, and carries the hook's own rules, policies and time limit; the URL of the packaged variant
  is the Service's host name followed by that path.
\<close>

theorem configuration_reaches_hook:
  "list_all (\<lambda>(name, hook).
     (case cfgWebhooks (template_configuration fl name hook) of
        [e] \<Rightarrow> ccService (weClientConfig e) =
            Some \<lparr>refNamespace = metaNamespace (mMeta (createService fl)), refPath = Some (GetURI hook),
                  refName = metaName (mMeta (createService fl))\<rparr> \<and>
          NewDispatcher (Webhooks ds) (GetURI hook) = Some hook \<and>
          weRules e = Rules hook \<and> weFailurePolicy e = FailurePolicy hook \<and> weMatchPolicy e = MatchPolicy hook \<and>
          weTimeoutSeconds e = TimeoutSeconds hook \<and> weObjectSelector e = ObjectSelector hook
      | _ \<Rightarrow> False) \<and>
     (case cfgWebhooks (package_configuration fl hook) of
        [e] \<Rightarrow> ccURL (weClientConfig e) = Some (''https://'' @ metaName (mMeta (createService fl)) @
          ''.{{.package.metadata.namespace}}.svc.cluster.local'' @ GetURI hook) \<and> weRules e = Rules hook
      | _ \<Rightarrow> False)) (Webhooks ds)"
proof -
  note config = template_configuration_def package_configuration_def createPackagedMutatingWebhookConfiguration_def
      createPackagedValidatingWebhookConfiguration_def packagedConfiguration_def package_url_def
      createMutatingWebhookConfiguration_def createValidatingWebhookConfiguration_def createWebhookConfiguration_def
      createService_def named_def zero_meta_def
  show ?thesis
    using registered_lookup [of _ _ ds] by (auto simp: list_all_iff config)
qed

end
