(* ===== verification/Documentation.thy ===== *)
theory Documentation
  imports Resources
begin

text \<open>
  \<open>hack/documentation/document.go\<close>: the list of all hooks, sorted by name, as JSON on standard output.
  Encoding and writing are parameters; a failure of either prints a line and ends with exit code 1.
\<close>

record docuhook =
  docName :: string
  docRules :: "rule_with_operations list"
  docObjectSelector :: "label_selector option"
  docString :: string

definition document_hook :: "bool \<Rightarrow> webhook \<Rightarrow> docuhook" where
  "document_hook hideRules realHook =
     \<lparr>docName = Name realHook, docRules = (if hideRules then [] else Rules realHook),
      docObjectSelector = (if hideRules then None else ObjectSelector realHook), docString = Doc realHook\<rparr>"

text \<open>A name of the list is a key of the map, so the look-up does not fail.\<close>

definition dochooks :: "bool \<Rightarrow> registered_webhooks \<Rightarrow> docuhook list" where
  "dochooks hideRules ws =
     List.map_filter (\<lambda>hookName. map_option (document_hook hideRules) (map_of ws hookName)) (sorted_names ws)"

definition WriteDocs ::
  "(docuhook list \<Rightarrow> go_error + string) \<Rightarrow> (string \<Rightarrow> go_error option) \<Rightarrow> bool \<Rightarrow> registered_webhooks \<Rightarrow> string list \<times> nat" where
  "WriteDocs marshalIndent stdoutWrite hideRules ws =
     (case marshalIndent (dochooks hideRules ws) of
        Inl err \<Rightarrow> ([''Error encoding: '' @ err], 1)
      | Inr b \<Rightarrow> (case stdoutWrite b of
                     Some err \<Rightarrow> ([''Error Writing: '' @ err], 1)
                   | None \<Rightarrow> ([b, [newline]], 0)))"

lemma map_filter_total:
  "(\<And>x. x \<in> set xs \<Longrightarrow> f x = Some (g x)) \<Longrightarrow> List.map_filter f xs = map g xs"
  by (induction xs) (simp_all add: map_filter_simps)

text \<open>
  Every registered hook is documented once, sorted by name, with what it registers with, and
  independently of the order in which the map is walked.
\<close>

lemma dochooks_complete:
  assumes "mset ws = mset (Webhooks ds)"
  shows "dochooks hideRules ws = map (document_hook hideRules) (sorted_hooks ds)"
    and "map docName (dochooks hideRules ws) = sort webhook_names"
proof -
  show eq: "dochooks hideRules ws = map (document_hook hideRules) (sorted_hooks ds)"
    unfolding dochooks_def walk_irrelevant [OF assms] sorted_hooks_def map_map
  proof (rule map_filter_total)
    fix n
    assume "n \<in> set (sort webhook_names)"
    then obtain h where "map_of (Webhooks ds) n = Some h"
      using Webhooks_map_of [OF sorted_hook(1) [of n ds]] by auto
    then show "map_option (document_hook hideRules) (map_of (Webhooks ds) n) =
        Some ((document_hook hideRules \<circ> (\<lambda>n. the (map_of (Webhooks ds) n))) n)"
      by simp
  qed
  have "map (\<lambda>n. Name (the (map_of (Webhooks ds) n))) (sort webhook_names) = sort webhook_names"
    by (rule map_idI) (simp add: sorted_hook(2))
  then show "map docName (dochooks hideRules ws) = sort webhook_names"
    by (simp add: eq sorted_hooks_def document_hook_def comp_def)
qed

end
