(* ===== verification/Namespace_Generator.thy ===== *)
theory Namespace_Generator
  imports Webhook_Utils
begin

text \<open>
  \<open>pkg/config/generate/namespaces.go\<close>: the program, run by \<open>go generate\<close>, that fetches the lists of managed
  namespaces and writes the Go file \<open>pkg/config/namespaces.go\<close>, which the webhooks are compiled with.
  \<^item> \<open>generator_env\<close> is what the program calls: HTTP, the YAML package (once for the ConfigMap, once for
    the list inside), the clock, and the file it writes. Reading a body by lines, building the
    patterns, the text of the template and the order of the deferred calls are the model.
  \<^item> \<open>log.Fatalf\<close> ends the program with its message and runs no deferred call.
  \<^item> The reader \<open>read_var\<close> is a specification: what the Go compiler makes of a variable of the generated
    form. The main theorem composes the two: what is fetched, written, read back and matched.
\<close>

section \<open>Fetching the lists\<close>

record http_body =
  bodyLines :: "string list" \<comment> \<open>what the scanner yields\<close>
  bodyReadError :: "go_error option" \<comment> \<open>\<open>scanner.Err()\<close>\<close>
  bodyCloseError :: "go_error option"

record config_map =
  cmNamespace :: string
  cmName :: string
  cmData :: "string \<rightharpoonup> string"

record generator_env =
  http_Get :: "string \<Rightarrow> go_error + http_body"
  unmarshal_ConfigMap :: "string \<Rightarrow> go_error + config_map"
  unmarshal_NamespacesConfig :: "string \<Rightarrow> go_error + string list" \<comment> \<open>the names of \<open>Resources.Namespace\<close>\<close>
  time_Now :: string \<comment> \<open>as the template prints it\<close>
  os_Create :: "go_error option"
  template_Parse :: "go_error option"
  file_Write :: "string \<Rightarrow> go_error option \<times> string" \<comment> \<open>the error and what is then in the file\<close>
  file_Close :: "go_error option"

definition line_end :: string where "line_end = [newline]"

definition namespaceFiles :: "string list" where
  "namespaceFiles = [''managed-namespaces.ConfigMap.yaml'', ''ocp-namespaces.ConfigMap.yaml'']"

definition generatedFileName :: string where "generatedFileName = ''./namespaces.go''"

definition mccBaseUrl :: string where
  "mccBaseUrl = ''https://raw.githubusercontent.com/openshift/managed-cluster-config/master/deploy/osd-managed-resources''"

definition namespacesKey :: string where "namespacesKey = ''managed_namespaces.yaml''"

definition anchored :: "string \<Rightarrow> string" where
  "anchored n = ''^'' @ n @ ''$''"

text \<open>One round of the loop: the ConfigMap, the names it lists, and the body left to be closed.\<close>

definition fetch_file :: "generator_env \<Rightarrow> string \<Rightarrow> go_error + config_map \<times> string list \<times> http_body" where
  "fetch_file env fileName =
     (case http_Get env (mccBaseUrl @ ''/'' @ fileName) of
        Inl err \<Rightarrow> Inl (''Error retrieving file from managed-cluster-config: '' @ err)
      | Inr response \<Rightarrow>
          (case bodyReadError response of
             Some err \<Rightarrow> Inl (''Error reading response body: '' @ err)
           | None \<Rightarrow>
               (case unmarshal_ConfigMap env (concat (map (\<lambda>l. l @ line_end) (bodyLines response))) of
                  Inl err \<Rightarrow> Inl (''Error decoding response: '' @ err)
                | Inr nsConfigMap \<Rightarrow>
                    (case unmarshal_NamespacesConfig env (map_get (cmData nsConfigMap) namespacesKey) of
                       Inl err \<Rightarrow> Inl (''Error decoding configMap: '' @ err)
                     | Inr names \<Rightarrow>
                         (if names = [] then Inl (''No namespaces retrieved from '' @ fileName)
                          else Inr (nsConfigMap, names, response))))))"

fun fetch_files ::
  "generator_env \<Rightarrow> string list \<Rightarrow> string list \<Rightarrow> string list \<Rightarrow> http_body list \<Rightarrow>
     go_error + string list \<times> string list \<times> http_body list" where
  "fetch_files env [] configmaps namespaces opened = Inr (configmaps, namespaces, opened)"
| "fetch_files env (fileName # rest) configmaps namespaces opened =
     (case fetch_file env fileName of
        Inl message \<Rightarrow> Inl message
      | Inr (nsConfigMap, names, response) \<Rightarrow>
          fetch_files env rest
            (configmaps @ [cmNamespace nsConfigMap @ ''/'' @ cmName nsConfigMap])
            (namespaces @ map anchored names) (opened @ [response]))"

section \<open>Writing the file\<close>

text \<open>
  The template, executed. A dash inside the braces removes the white space beside it, so an element
  of a list is a line of its own, and nothing is escaped.
\<close>

definition element_line :: "string \<Rightarrow> string" where
  "element_line x = [CHR 0x09, CHR 0x22] @ x @ [CHR 0x22, CHR '','']"

definition range_elements :: "string list \<Rightarrow> string" where
  "range_elements xs = concat (map (\<lambda>x. line_end @ element_line x) xs)"

definition templateText :: "string \<Rightarrow> string list \<Rightarrow> string list \<Rightarrow> string" where
  "templateText timestamp configMaps namespaces =
     ''// Code generated by pkg/config/generate/namespaces.go; DO NOT EDIT.'' @ line_end @
     ''// Generated at '' @ timestamp @ line_end @
     ''package config'' @ line_end @ line_end @
     ''var ConfigMapSources = []string{'' @ range_elements configMaps @ line_end @ ''}'' @ line_end @ line_end @
     ''var PrivilegedNamespaces = []string{'' @ range_elements namespaces @ line_end @ ''}'' @ line_end"

text \<open>The deferred calls close the bodies, the last opened first; the first failure ends the program.\<close>

fun close_bodies :: "http_body list \<Rightarrow> string option" where
  "close_bodies [] = None"
| "close_bodies (body # rest) =
     (case bodyCloseError body of
        Some err \<Rightarrow> Some (''Error closing response body: '' @ err)
      | None \<Rightarrow> close_bodies rest)"

text \<open>The message of \<open>log.Fatalf\<close>, if it is called, and the contents of the file, if it is created.\<close>

definition generate_main :: "generator_env \<Rightarrow> string option \<times> string option" where
  "generate_main env =
     (case fetch_files env namespaceFiles [] baseNamespaces [] of
        Inl message \<Rightarrow> (Some message, None)
      | Inr (configmaps, namespaces, opened) \<Rightarrow>
          (case os_Create env of
             Some err \<Rightarrow> (Some (''Error creating file '' @ generatedFileName @ '': '' @ err), None)
           | None \<Rightarrow>
               (case template_Parse env of
                  Some err \<Rightarrow> (Some (''Error initializing template: '' @ err), Some [])
                | None \<Rightarrow>
                    (case file_Write env (templateText (time_Now env) configmaps namespaces) of
                       (Some err, text) \<Rightarrow> (Some (''Error generating file from template: '' @ err), Some text)
                     | (None, text) \<Rightarrow>
                         (case file_Close env of
                            Some err \<Rightarrow>
                              (Some (''Error closing file '' @ generatedFileName @ '': '' @ err), Some text)
                          | None \<Rightarrow> (close_bodies (rev opened), Some text))))))"

section \<open>Reading the file back\<close>

definition quotable :: "string \<Rightarrow> bool" where
  "quotable s \<longleftrightarrow> list_all (\<lambda>c. c \<noteq> CHR 0x22 \<and> c \<noteq> CHR 0x5C \<and> c \<noteq> CHR 0x0A) s"

definition read_element :: "string \<Rightarrow> string option" where
  "read_element l =
     (let x = butlast (butlast (drop 2 l)) in if l = element_line x \<and> quotable x then Some x else None)"

fun read_elements :: "string list \<Rightarrow> string list option" where
  "read_elements [] = None"
| "read_elements (l # ls) =
     (if l = ''}'' then Some []
      else case read_element l of None \<Rightarrow> None | Some x \<Rightarrow> map_option (Cons x) (read_elements ls))"

definition var_header :: "string \<Rightarrow> string" where
  "var_header name = ''var '' @ name @ '' = []string{''"

definition read_var :: "string \<Rightarrow> string \<Rightarrow> string list option" where
  "read_var name text =
     (case dropWhile (\<lambda>l. l \<noteq> var_header name) (strings_Split text (CHR 0x0A)) of
        [] \<Rightarrow> None
      | _ # ls \<Rightarrow> read_elements ls)"

lemma read_element_line [simp]: "quotable x \<Longrightarrow> read_element (element_line x) = Some x"
  by (simp add: read_element_def element_line_def butlast_append)

lemma element_line_not_brace [simp]: "element_line x \<noteq> ''}''" "element_line x \<noteq> var_header name"
  by (simp_all add: element_line_def var_header_def)

lemma read_elements_lines:
  "list_all quotable xs \<Longrightarrow> read_elements (map element_line xs @ ''}'' # ls) = Some xs"
  by (induction xs) simp_all

lemma line_end_split:
  "CHR 0x0A \<notin> set s \<Longrightarrow> strings_Split (s @ line_end @ t) (CHR 0x0A) = s # strings_Split t (CHR 0x0A)"
  by (simp add: line_end_def strings_Split_append)

lemma quotable_line: "quotable x \<Longrightarrow> CHR 0x0A \<notin> set (element_line x)"
  by (auto simp: element_line_def quotable_def list_all_iff)

lemma range_lines:
  assumes "list_all quotable xs" and "CHR 0x0A \<notin> set s"
  shows "strings_Split (s @ range_elements xs @ line_end @ t) (CHR 0x0A) =
     s # map element_line xs @ strings_Split t (CHR 0x0A)"
  using assms
proof (induction xs arbitrary: s)
  case Nil
  then show ?case by (simp add: range_elements_def line_end_split)
next
  case (Cons x xs)
  have "s @ range_elements (x # xs) @ line_end @ t = s @ line_end @ (element_line x @ range_elements xs @ line_end @ t)"
    by (simp add: range_elements_def)
  with Cons line_end_split [OF Cons.prems(2)] quotable_line [of x] show ?case by simp
qed

text \<open>The shape of the file, for any lines in the fixed places.\<close>

lemma two_lists_lines:
  assumes "list_all quotable xs" and "list_all quotable ys"
    and "list_all (\<lambda>l. CHR 0x0A \<notin> set l) [l1, l2, l3, h1, h2, e]"
  shows "strings_Split (l1 @ line_end @ l2 @ line_end @ l3 @ line_end @ line_end @ h1 @ range_elements xs @ line_end @
       e @ line_end @ line_end @ h2 @ range_elements ys @ line_end @ e @ line_end) (CHR 0x0A) =
     [l1, l2, l3, [], h1] @ map element_line xs @ [e, [], h2] @ map element_line ys @ [e, []]"
  using assms line_end_split [of "[]"] line_end_split [of e "[]"] by (simp add: line_end_split range_lines)

lemma templateText_lines:
  assumes "list_all quotable configMaps" and "list_all quotable namespaces" and "CHR 0x0A \<notin> set timestamp"
  shows "\<exists>l1 l3. strings_Split (templateText timestamp configMaps namespaces) (CHR 0x0A) =
     [l1, ''// Generated at '' @ timestamp, l3, [], var_header ''ConfigMapSources''] @ map element_line configMaps @
     [''}'', [], var_header ''PrivilegedNamespaces''] @ map element_line namespaces @ [''}'', []] \<and>
     (\<forall>name. l1 \<noteq> var_header name \<and> l3 \<noteq> var_header name)"
proof -
  let ?l1 = "''// Code generated by pkg/config/generate/namespaces.go; DO NOT EDIT.''" and ?l3 = "''package config''"
  have shape: "templateText timestamp configMaps namespaces =
      ?l1 @ line_end @ (''// Generated at '' @ timestamp) @ line_end @ ?l3 @ line_end @ line_end @
      var_header ''ConfigMapSources'' @ range_elements configMaps @ line_end @ ''}'' @ line_end @ line_end @
      var_header ''PrivilegedNamespaces'' @ range_elements namespaces @ line_end @ ''}'' @ line_end"
    by (simp add: templateText_def var_header_def)
  have lines: "list_all (\<lambda>l. CHR 0x0A \<notin> set l) [?l1, ''// Generated at '' @ timestamp, ?l3,
      var_header ''ConfigMapSources'', var_header ''PrivilegedNamespaces'', ''}'']"
    using assms(3) by (simp add: var_header_def)
  note split = two_lists_lines [OF assms(1,2) lines, folded shape]
  have "\<forall>name. ?l1 \<noteq> var_header name \<and> ?l3 \<noteq> var_header name" by (simp add: var_header_def)
  with split show ?thesis by blast
qed

lemma read_var_templateText:
  assumes "list_all quotable configMaps" and "list_all quotable namespaces" and "CHR 0x0A \<notin> set timestamp"
  shows "read_var ''ConfigMapSources'' (templateText timestamp configMaps namespaces) = Some configMaps"
    and "read_var ''PrivilegedNamespaces'' (templateText timestamp configMaps namespaces) = Some namespaces"
proof -
  have comment: "''// Generated at '' @ timestamp \<noteq> var_header name" for name by (simp add: var_header_def)
  have distinct: "var_header ''ConfigMapSources'' \<noteq> var_header ''PrivilegedNamespaces''"
    and misc: "[] \<noteq> var_header name" "''}'' \<noteq> var_header name" for name
    by (simp_all add: var_header_def)
  obtain l1 l3 where split: "strings_Split (templateText timestamp configMaps namespaces) (CHR 0x0A) =
      [l1, ''// Generated at '' @ timestamp, l3, [], var_header ''ConfigMapSources''] @ map element_line configMaps @
      [''}'', [], var_header ''PrivilegedNamespaces''] @ map element_line namespaces @ [''}'', []]"
    and l: "\<And>name. l1 \<noteq> var_header name" "\<And>name. l3 \<noteq> var_header name"
    using templateText_lines [OF assms] by metis
  show "read_var ''ConfigMapSources'' (templateText timestamp configMaps namespaces) = Some configMaps"
    unfolding read_var_def split using l comment misc read_elements_lines [OF assms(1)] by simp
  have skip: "dropWhile (\<lambda>l. l \<noteq> var_header name) (map element_line xs @ ls) =
      dropWhile (\<lambda>l. l \<noteq> var_header name) ls" for name xs ls
    by (induction xs) simp_all
  show "read_var ''PrivilegedNamespaces'' (templateText timestamp configMaps namespaces) = Some namespaces"
    unfolding read_var_def split using l comment misc distinct read_elements_lines [OF assms(2)] by (simp add: skip)
qed

section \<open>What is fetched is what is matched\<close>

definition file_names :: "generator_env \<Rightarrow> string \<Rightarrow> string list" where
  "file_names env fileName = (case fetch_file env fileName of Inr (_, names, _) \<Rightarrow> names | Inl _ \<Rightarrow> [])"

definition file_source :: "generator_env \<Rightarrow> string \<Rightarrow> string" where
  "file_source env fileName =
     (case fetch_file env fileName of Inr (cm, _) \<Rightarrow> cmNamespace cm @ ''/'' @ cmName cm | Inl _ \<Rightarrow> [])"

lemma fetch_files_lists:
  assumes "fetch_files env files configmaps namespaces opened = Inr (configmaps', namespaces', opened')"
  shows "configmaps' = configmaps @ map (file_source env) files \<and>
     namespaces' = namespaces @ map anchored (concat (map (file_names env) files))"
  using assms
proof (induction env files configmaps namespaces opened rule: fetch_files.induct)
  case (2 env fileName rest configmaps namespaces opened)
  then show ?case
    by (auto simp: file_source_def file_names_def split: sum.splits prod.splits)
qed simp

lemma generate_main_file:
  assumes "generate_main env = (None, text)"
  shows "text = Some (snd (file_Write env (templateText (time_Now env) (map (file_source env) namespaceFiles)
      (baseNamespaces @ map anchored (concat (map (file_names env) namespaceFiles)))))) \<and>
    fst (file_Write env (templateText (time_Now env) (map (file_source env) namespaceFiles)
      (baseNamespaces @ map anchored (concat (map (file_names env) namespaceFiles))))) = None"
  using assms unfolding generate_main_def
  by (auto split: sum.splits prod.splits option.splits dest!: fetch_files_lists)

lemma anchored_quotable: "quotable n \<Longrightarrow> quotable (anchored n)"
  by (simp add: quotable_def anchored_def)

lemma base_quotable: "list_all quotable baseNamespaces"
  by (simp add: baseNamespaces_def quotable_def)

lemma generated_patterns_exact:
  assumes "\<forall>n\<in>set names. plain_word n"
  shows "RegexSliceContains ns (baseNamespaces @ map anchored names) = Return
    (ns = ''default'' \<or> ns = ''openshift'' \<or> prefix ''kube-'' ns \<or> prefix ''redhat-'' ns \<or> ns \<in> set names)"
proof -
  have "regexp_compile p \<noteq> None" if "p \<in> set (baseNamespaces @ map anchored names)" for p
    using that base_patterns_compile compile_exact assms by (auto simp: anchored_def)
  then have "RegexSliceContains ns (baseNamespaces @ map anchored names) =
      Return (\<exists>p\<in>set (baseNamespaces @ map anchored names). MatchPattern p ns)"
    by (intro RegexSliceContains_eq) blast
  then show ?thesis
    using base_patterns_match [of ns] exact_patterns_match [OF assms, of ns] by (simp add: anchored_def bex_Un)
qed

text \<open>
  (C23) The check every hook uses for managed namespaces, a loop over 113 regular expressions that are compiled
  at each call, is equivalent to comparing strings: it never panics, and accepts \<open>default\<close>, \<open>openshift\<close>, what
  starts with \<open>kube-\<close> or \<open>redhat-\<close>, and the names on the list. The list compiled in has the form the generator
  writes.
\<close>

theorem IsPrivilegedNamespace_exact:
  "IsPrivilegedNamespace ns = Return (ns = ''default'' \<or> ns = ''openshift'' \<or> prefix ''kube-'' ns \<or> prefix ''redhat-'' ns \<or>
     ns \<in> set managed_namespace_names) \<and>
   PrivilegedNamespaces = baseNamespaces @ map anchored managed_namespace_names"
  using PrivilegedNamespaces_eq by (simp add: managed_namespace_def anchored_def [abs_def])

text \<open>
  (C22) From the source of the lists to the decision. When the generator ends without an error, names
  are free of pattern and quoting characters, and a write without an error stores what it was given:
  the file declares the two variables with the ConfigMaps and patterns that were fetched, and matching
  a namespace against the patterns read back from the file accepts exactly the two fixed names, the two
  fixed prefixes and the names fetched.
\<close>

theorem generated_file_roundtrip:
  assumes "generate_main env = (None, Some go_text)"
    and "\<forall>t. fst (file_Write env t) = None \<longrightarrow> snd (file_Write env t) = t"
    and "CHR 0x0A \<notin> set (time_Now env)"
    and "list_all (\<lambda>f. quotable (file_source env f) \<and> list_all (\<lambda>n. plain_word n \<and> quotable n) (file_names env f)) namespaceFiles"
  shows "read_var ''ConfigMapSources'' go_text = Some (map (file_source env) namespaceFiles) \<and>
    (\<exists>patterns. read_var ''PrivilegedNamespaces'' go_text = Some patterns \<and>
       RegexSliceContains ns patterns = Return (ns = ''default'' \<or> ns = ''openshift'' \<or> prefix ''kube-'' ns \<or>
         prefix ''redhat-'' ns \<or> ns \<in> set (concat (map (file_names env) namespaceFiles))))"
proof -
  let ?names = "concat (map (file_names env) namespaceFiles)"
  let ?patterns = "baseNamespaces @ map anchored ?names"
  have contents: "go_text = templateText (time_Now env) (map (file_source env) namespaceFiles) ?patterns"
    using generate_main_file [OF assms(1)] assms(2) by simp
  have sources: "list_all quotable (map (file_source env) namespaceFiles)"
    and names: "\<forall>n\<in>set ?names. plain_word n \<and> quotable n"
    using assms(4) by (auto simp: list_all_iff)
  from names have "list_all quotable ?patterns"
    using base_quotable anchored_quotable by (auto simp: list_all_iff)
  note readback = read_var_templateText [OF sources this assms(3), folded contents]
  from names have "\<forall>n\<in>set ?names. plain_word n" by blast
  with readback generated_patterns_exact show ?thesis by metis
qed

definition example_generator :: generator_env where
  "example_generator =
     \<lparr>http_Get = (\<lambda>url. Inr \<lparr>bodyLines = [''a: b''], bodyReadError = None, bodyCloseError = None\<rparr>),
      unmarshal_ConfigMap = (\<lambda>text. Inr \<lparr>cmNamespace = ''openshift-monitoring'', cmName = ''managed-namespaces'', cmData = Map.empty\<rparr>),
      unmarshal_NamespacesConfig = (\<lambda>text. Inr [''dedicated-admin'']),
      time_Now = ''2025-01-01'', os_Create = None, template_Parse = None, file_Write = (\<lambda>t. (None, t)), file_Close = None\<rparr>"

lemmas example_generator_simps =
  example_generator_def file_names_def file_source_def fetch_file_def namespaceFiles_def

theorem generated_file_roundtrip_witness:
  "\<exists>text patterns. generate_main example_generator = (None, Some text) \<and>
     read_var ''PrivilegedNamespaces'' text = Some patterns \<and>
     RegexSliceContains ''dedicated-admin'' patterns = Return True"
proof -
  obtain go_file where main: "generate_main example_generator = (None, Some go_file)"
    by (simp add: generate_main_def example_generator_simps)
  have "list_all (\<lambda>f. quotable (file_source example_generator f) \<and>
      list_all (\<lambda>n. plain_word n \<and> quotable n) (file_names example_generator f)) namespaceFiles"
    by (simp add: example_generator_simps quotable_def plain_word_def go_defs)
  moreover have "''dedicated-admin'' \<in> set (concat (map (file_names example_generator) namespaceFiles))"
    by (simp add: example_generator_simps)
  moreover have "\<forall>t. file_Write example_generator t = (None, t)" "time_Now example_generator = ''2025-01-01''"
    by (simp_all add: example_generator_def)
  ultimately show ?thesis
    using generated_file_roundtrip [OF main, of "''dedicated-admin''"] main by auto
qed

end
