(* ===== verification/Test_Utils.thy ===== *)
theory Test_Utils
  imports Dispatcher Hook_HostedCluster
begin

text \<open>
  \<open>pkg/testutils/testutils.go\<close>: how the unit tests of the hooks make a request and have it answered.
  \<^item> Parameters: \<open>marshal\<close> is \<open>json.Marshal\<close> of a review with that request; \<open>checkTarget\<close> is the error that
    \<open>httptest.NewRequest\<close> finds in the target, on which it panics; \<open>readBack\<close> is \<open>json.Unmarshal\<close> of what the
    recorder holds, given as the reviews written to it.
  \<^item> Objects are pointers; a nil object is dereferenced.
  The tests do not go through the dispatcher. The theorem relates the two: a test sees what the
  dispatcher would send for the same request, provided that \<open>Validate\<close> accepts it.
\<close>

record group_version_resource =
  gvrGroup :: string
  gvrVersion :: string
  gvrResource :: string

text \<open>The hooks do not read the resource; it is only here.\<close>

record fake_request = admission_request +
  reqResource :: group_version_resource

definition CanCanNot :: "bool \<Rightarrow> string" where
  "CanCanNot b = (if b then ''can'' else ''can not'')"

definition CreateFakeRequestJSON ::
  "(fake_request \<Rightarrow> go_error + string) \<Rightarrow> string \<Rightarrow> group_version_kind \<Rightarrow> group_version_resource \<Rightarrow> string \<Rightarrow>
     string \<Rightarrow> string list \<Rightarrow> string \<Rightarrow> raw_extension option \<Rightarrow> raw_extension option \<Rightarrow> (go_error + string) go_result" where
  "CreateFakeRequestJSON marshal uid gvk gvr operation user userGroups namespace obj oldObject =
     (let request = \<lparr>reqUID = uid, reqKind = gvk, reqRequestKind = Some gvk, reqOperation = operation, reqName = [],
            reqNamespace = namespace, reqUserInfo = \<lparr>Username = user, Groups = userGroups\<rparr>, reqObject = [],
            reqOldObject = [], reqResource = gvr\<rparr>
      in go_bind
        (if operation = Create
         then (case obj of None \<Rightarrow> nil_deref | Some new \<Rightarrow> Return (request\<lparr>reqObject := new\<rparr>))
         else if operation = Update
         then (case obj of
                 None \<Rightarrow> nil_deref
               | Some new \<Rightarrow>
                   Return (request\<lparr>reqObject := new,
                     reqOldObject := (case oldObject of Some old \<Rightarrow> old | None \<Rightarrow> new)\<rparr>))
         else if operation = Delete
         then (case obj of None \<Rightarrow> nil_deref | Some old \<Rightarrow> Return (request\<lparr>reqOldObject := old\<rparr>))
         else Return request)
        (\<lambda>req. Return (marshal req)))"

definition CreateHTTPRequest ::
  "(fake_request \<Rightarrow> go_error + string) \<Rightarrow> (string \<Rightarrow> go_error option) \<Rightarrow> string \<Rightarrow> string \<Rightarrow> group_version_kind \<Rightarrow>
     group_version_resource \<Rightarrow> string \<Rightarrow> string \<Rightarrow> string list \<Rightarrow> string \<Rightarrow> raw_extension option \<Rightarrow> raw_extension option \<Rightarrow>
     (go_error + http_request) go_result" where
  "CreateHTTPRequest marshal checkTarget uri uid gvk gvr operation user userGroups namespace obj oldObject =
     go_bind (CreateFakeRequestJSON marshal uid gvk gvr operation user userGroups namespace obj oldObject)
       (\<lambda>req. case req of
          Inl err \<Rightarrow> Return (Inl err)
        | Inr buf \<Rightarrow>
            (case checkTarget uri of
               Some err \<Rightarrow> Panic (''invalid NewRequest arguments; '' @ err)
             | None \<Rightarrow> Return (Inr \<lparr>RequestURI = uri, Body = Some (Inr buf), ContentType = ''application/json''\<rparr>)))"

text \<open>As in the dispatcher, \<^const>\<open>None\<close> is a \<open>SendResponse\<close> that does not return.\<close>

definition SendHTTPRequest ::
  "(string \<Rightarrow> go_error + admission_request option) \<Rightarrow> encoder \<Rightarrow> (admission_review list \<Rightarrow> go_error + admission_review) \<Rightarrow>
     http_request \<Rightarrow> webhook \<Rightarrow> world \<Rightarrow> (go_error + response) option go_result \<times> world" where
  "SendHTTPRequest decodeReview encode readBack r s w =
     (case ParseHTTPRequest decodeReview r of
        Inl (_, err) \<Rightarrow> (Return (Some (Inl err)), w)
      | Inr (request, _) \<Rightarrow>
          (case Authorized s request w of
             (Panic m, w') \<Rightarrow> (Panic m, w')
           | (Return resp, w') \<Rightarrow>
               (Return (case SendResponse encode 0 new_writer resp of
                  None \<Rightarrow> None
                | Some httpResponse \<Rightarrow> Some (map_sum id reviewResponse (readBack (wReviews httpResponse)))), w')))"

section \<open>Properties\<close>

lemma review_of_inject [simp]: "review_of r = review_of s \<longleftrightarrow> r = s" "reviewResponse (review_of r) = r"
  by (auto simp: review_of_def)

text \<open>What a fake request holds.\<close>

definition faked :: "string \<Rightarrow> group_version_kind \<Rightarrow> string \<Rightarrow> string \<Rightarrow> string list \<Rightarrow> string \<Rightarrow> raw_extension \<Rightarrow>
    raw_extension option \<Rightarrow> admission_request" where
  "faked uid gvk operation user userGroups namespace obj oldObject =
     \<lparr>reqUID = uid, reqKind = gvk, reqRequestKind = Some gvk, reqOperation = operation, reqName = [],
      reqNamespace = namespace, reqUserInfo = \<lparr>Username = user, Groups = userGroups\<rparr>,
      reqObject = (if operation \<in> {Create, Update} then obj else []),
      reqOldObject = (if operation = Update then (case oldObject of Some old \<Rightarrow> old | None \<Rightarrow> obj)
        else if operation = Delete then obj else [])\<rparr>"

definition with_resource :: "admission_request \<Rightarrow> group_version_resource \<Rightarrow> fake_request" where
  "with_resource req gvr = admission_request.extend req (fake_request.fields gvr)"

text \<open>Decoding gives back what was encoded.\<close>

definition json_roundtrip ::
  "(fake_request \<Rightarrow> go_error + string) \<Rightarrow> (string \<Rightarrow> go_error + admission_request option) \<Rightarrow> fake_request \<Rightarrow> bool" where
  "json_roundtrip marshal decodeReview req \<longleftrightarrow>
     (\<exists>text. marshal req = Inr text \<and> text \<noteq> [] \<and> decodeReview text = Inr (Some (admission_request.truncate req)))"

lemma CreateHTTPRequest_parses:
  assumes "json_roundtrip marshal decodeReview
      (with_resource (faked uid gvk operation user userGroups namespace obj oldObject) gvr)"
    and "checkTarget uri = None"
  shows "\<exists>r. CreateHTTPRequest marshal checkTarget uri uid gvk gvr operation user userGroups namespace (Some obj) oldObject =
       Return (Inr r) \<and> RequestURI r = uri \<and>
     ParseHTTPRequest decodeReview r = Inr (faked uid gvk operation user userGroups namespace obj oldObject, uid)"
proof -
  let ?req = "with_resource (faked uid gvk operation user userGroups namespace obj oldObject) gvr"
  obtain body where body: "marshal ?req = Inr body" "body \<noteq> []"
      "decodeReview body = Inr (Some (admission_request.truncate ?req))"
    using assms(1) unfolding json_roundtrip_def by blast
  have "CreateFakeRequestJSON marshal uid gvk gvr operation user userGroups namespace (Some obj) oldObject = Return (marshal ?req)"
    by (simp add: CreateFakeRequestJSON_def faked_def with_resource_def admission_request.extend_def fake_request.fields_def)
  moreover have "admission_request.truncate ?req = faked uid gvk operation user userGroups namespace obj oldObject"
    by (simp add: faked_def with_resource_def admission_request.extend_def admission_request.truncate_def)
  ultimately show ?thesis
    using assms(2) body by (simp add: CreateHTTPRequest_def ParseHTTPRequest_def validContentType_def faked_def)
qed

text \<open>
  (C28) The tests see what the server does. With JSON encoding and decoding inverse to each other, and a
  recorder that takes the first encoding: a request made by \<open>CreateHTTPRequest\<close>, given to
  \<open>SendHTTPRequest\<close> with a hook, is parsed to exactly the fields it was made from, and what comes back
  is the response that the dispatcher sends for it, with the owner annotation; a panic is the same
  panic, and the hook leaves the same world behind. The hypothesis on \<open>Validate\<close> is needed: the tests
  skip it.
\<close>

theorem test_harness_agrees:
  assumes "json_roundtrip marshal decodeReview
      (with_resource (faked uid gvk operation user userGroups namespace obj oldObject) gvr)"
    and "checkTarget uri = None"
    and "\<forall>resp. encode 0 resp = None" and "\<forall>review. readBack [review] = Inr review"
    and "parseURL uri = Inr path" and "d path = Some hook"
    and "Validate hook (faked uid gvk operation user userGroups namespace obj oldObject)"
  shows "\<exists>r. CreateHTTPRequest marshal checkTarget uri uid gvk gvr operation user userGroups namespace (Some obj) oldObject =
       Return (Inr r) \<and>
     ParseHTTPRequest decodeReview r = Inr (faked uid gvk operation user userGroups namespace obj oldObject, uid) \<and>
     (case HandleRequest parseURL decodeReview encode d r w of
        (Panic m, w') \<Rightarrow> SendHTTPRequest decodeReview encode readBack r hook (new_instance w) = (Panic m, w')
      | (Return None, w') \<Rightarrow> False
      | (Return (Some wr), w') \<Rightarrow> (\<exists>resp. wReviews wr = [review_of (owned resp)] \<and> status_code wr = 200 \<and>
          SendHTTPRequest decodeReview encode readBack r hook (new_instance w) = (Return (Some (Inr (owned resp))), w')))"
proof -
  obtain r where r: "CreateHTTPRequest marshal checkTarget uri uid gvk gvr operation user userGroups namespace (Some obj) oldObject =
      Return (Inr r)" "RequestURI r = uri"
    and parsed: "ParseHTTPRequest decodeReview r = Inr (faked uid gvk operation user userGroups namespace obj oldObject, uid)"
    using CreateHTTPRequest_parses [where checkTarget = checkTarget and uri = uri, OF assms(1,2)] by blast
  have sent: "SendResponse encode 0 new_writer resp = Some (new_writer\<lparr>wReviews := [review_of (owned resp)]\<rparr>)" for resp
    using assms(3) by (simp add: SendResponse_first new_writer_def)
  have fresh: "status_code (new_writer\<lparr>wReviews := reviews\<rparr>) = 200" for reviews
    by (simp add: status_code_def new_writer_def)
  show ?thesis
    using r parsed assms(4-7)
    by (intro exI [of _ r])
      (auto simp: HandleRequest_def SendHTTPRequest_def sent fresh split: prod.split go_result.split)
qed

definition example_kind :: group_version_kind where
  "example_kind = \<lparr>gvkGroup = ''hypershift.openshift.io'', gvkVersion = ''v1beta1'', gvkKind = ''HostedCluster''\<rparr>"

definition example_resource :: group_version_resource where
  "example_resource = \<lparr>gvrGroup = ''hypershift.openshift.io'', gvrVersion = ''v1beta1'', gvrResource = ''hostedclusters''\<rparr>"

definition example_fake :: admission_request where
  "example_fake = faked ''7f2'' example_kind Delete ''customer'' [] ''clusters'' ''{}'' None"

theorem test_harness_agrees_witness:
  "\<exists>r. CreateHTTPRequest (\<lambda>_. Inr ''{}'') (\<lambda>_. None) ''/hostedcluster-validation'' ''7f2'' example_kind example_resource
       Delete ''customer'' [] ''clusters'' (Some ''{}'') None = Return (Inr r) \<and>
     ParseHTTPRequest (\<lambda>_. Inr (Some example_fake)) r = Inr (example_fake, ''7f2'')"
proof -
  have "json_roundtrip (\<lambda>_. Inr ''{}'') (\<lambda>_. Inr (Some example_fake)) (with_resource example_fake example_resource)"
    by (simp add: json_roundtrip_def with_resource_def example_fake_def faked_def admission_request.extend_def
        admission_request.truncate_def)
  moreover have "Validate hostedcluster_Webhook example_fake"
    by (simp add: hook_defs example_fake_def faked_def example_kind_def)
  ultimately show ?thesis
    using test_harness_agrees [where marshal = "\<lambda>_. Inr ''{}''" and decodeReview = "\<lambda>_. Inr (Some example_fake)"
        and checkTarget = "\<lambda>_. None" and uri = "''/hostedcluster-validation''" and encode = "\<lambda>_ _. None" and readBack = "Inr \<circ> hd"
        and parseURL = Inr and path = "''/hostedcluster-validation''" and hook = hostedcluster_Webhook
        and d = "[''/hostedcluster-validation'' \<mapsto> hostedcluster_Webhook]" and uid = "''7f2''" and gvk = example_kind
        and gvr = example_resource and operation = Delete and user = "''customer''" and userGroups = "[]"
        and namespace = "''clusters''" and obj = "''{}''" and oldObject = None and w = initial_world, folded example_fake_def]
    by auto
qed

end
