(* ===== verification/Spec2Isabelle.thy ===== *)
theory Spec2Isabelle
  imports Server Resources Documentation Namespace_Generator Test_Utils
begin

text \<open>
  Managed Cluster Validating Webhooks: the admission webhooks of OpenShift Dedicated and ROSA.

  \<^bold>\<open>The program.\<close> One process (\<open>cmd/main.go\<close>) serves 25 admission webhooks over HTTP. At start-up each file
  \<open>pkg/webhooks/add_*.go\<close> registers a hook (\<open>pkg/webhooks/register.go\<close>); \<open>main\<close> installs a handler for the
  URI of each. The API server posts an AdmissionReview to a URI; the dispatcher
  (\<open>pkg/dispatcher/dispatcher.go\<close>) takes its mutex, finds the hook, has the body parsed
  (\<open>pkg/webhooks/utils/utils.go\<close>), asks the hook's \<open>Validate\<close> and \<open>Authorized\<close>, and sends the answer
  (\<open>pkg/helpers/response.go\<close>). Two hooks change the object, the others only decide. Beside the server,
  \<open>build/resources.go\<close> with \<open>pkg/syncset\<close> generates the objects that deploy it and the webhook
  configurations that make the API server call it, \<open>pkg/config/generate\<close> writes the list of managed namespaces
  that is compiled in, and \<open>hack/documentation/document.go\<close> lists the hooks.

  \<^bold>\<open>How it is modelled.\<close> Definitions keep the names of the code; where packages share a name
  (\<open>authorized\<close>, \<open>rules\<close>, \<open>WebhookName\<close>) the package comes first, e.g. \<open>scc_authorized\<close>. A handler is a function of
  the request and of what it calls outside of the repository. A panic is a value (\<open>go_result\<close>); an error is
  the left of a sum. Parameters are: the decoders of Kubernetes objects, the deserializer of reviews,
  \<open>url.Parse\<close>, the encoder of the connection, the API server as the pod image hook sees it,
  \<open>Response.Complete\<close>, the functions that add API types to a scheme, HTTP and files for the generator of
  namespaces, and JSON and YAML encoding of objects. Text is ASCII.

  \<^bold>\<open>Theories.\<close>
  \<^item> \<open>Go_Base\<close>: results with panics, and the functions of \<open>strings\<close>, \<open>slices\<close> and \<open>fmt\<close> in use.
    \<open>Go_Regexp\<close>: \<open>regexp\<close> for the patterns in use. Patterns are read from their text by a state
    machine and matched with leftmost-first priority; the matcher is proved against a declarative
    semantics, and rewriting rules turn a concrete pattern into a statement about prefixes and words.
    \<open>Runtime_Scheme\<close>: how the \<open>NewWebhook\<close> functions build a scheme, step by step, and end the process on an error.
  \<^item> \<open>Webhook_Api\<close>: requests, responses, and the interface \<open>Webhook\<close> as a record. Its locales are the contracts:
    \<open>webhook_meta\<close> (well-formed registration), \<open>validating_webhook\<close> (decisions carry the UID of the request),
    \<open>authenticated_webhook\<close> (\<open>system:unauthenticated\<close> gets an answer, and no admission), \<open>delete_guard\<close> (refuses
    exactly guarded deletions). Each hook theory interprets the strongest that its hook meets. \<open>decides_by\<close> is the
    form of a complete description of a hook.
  \<^item> \<open>Webhook_Utils\<close>: package \<open>utils\<close> and the managed namespaces (\<open>pkg/config\<close>), with an exact description of what
    the two central patterns accept. \<open>Namespace_Generator\<close>: the generator of the list, from what it fetches to
    the text of the Go file, and what that file means when read back. \<open>K8s_Util\<close>: package \<open>k8sutil\<close>.
  \<^item> 25 theories \<open>Hook_...\<close>, one per package under \<open>pkg/webhooks\<close>: tables, handler, \<open>Validate\<close>, \<open>NewWebhook\<close>, the record of
    the hook, its interpretation, and a statement that says exactly which requests are refused, which end in
    an error and which panic. Deeper ones: \<open>Hook_RegularUser\<close> refines a specification; \<open>Hook_Namespace\<close> states what
    the label check detects; \<open>Hook_ClusterLogging\<close> keeps retention times at 64 bits; \<open>Hook_NetworkOperator\<close> keeps
    the addresses that a struct comparison compares; \<open>Hook_Service\<close> applies the patch it builds (JSON pointer
    included); \<open>Hook_PodImageSpec\<close> reads back the image references that it takes apart.
  \<^item> \<open>Dispatcher\<close>: \<open>HandleRequest\<close> and \<open>SendResponse\<close>, with the exact condition under which the latter returns; the mutex as a step relation over goroutines, with mutual
    exclusion, equivalence to a sequential run, and absence of deadlock. \<open>Registry\<close>: the 25 registrations, the
    contracts of all registered hooks, and the end-to-end theorem, which says what is sent however encoding goes.
    \<open>Go_Flag\<close>: the flags of \<open>cmd/main.go\<close> and how a command line is read. \<open>Server\<close>: the initialisation of the
    packages, the command line, the factories, start-up, signals, exit codes. \<open>Test_Utils\<close>: the helpers of the unit tests, which are shown to see what
    the dispatcher would send.
  \<^item> \<open>Sync_Set\<close>: resources grouped by label selector, against the locale \<open>grouping\<close>; corrections of encoded
    objects. \<open>Manifests\<close>, \<open>Resources\<close>: the generated objects and when they fit together (names, volumes, and the port
    that the command line of a pod makes the program listen on), what a whole run
    writes, and that configurations lead back to the hook they were made from. \<open>Documentation\<close>.
  \<^item> This theory: what spans the hooks and the dispatcher, and the complete descriptions of the smaller hooks side
    by side; which hooks can panic at all; what the unauthenticated user gets.

  \<^bold>\<open>Bounds and termination.\<close> All functions are total but \<open>SendResponse\<close>, which in the code calls itself without a
  bound; it is a partial function into \<open>option\<close>, where no result means that it does not return. It is
  proved to return exactly when one of its attempts is encoded. The matcher needs no fuel.

  \<^bold>\<open>Not modelled.\<close> The inside of a runtime scheme and its link to the decoders (both are parameters), logging
  inside the handlers, the HTTP server and TLS, a signal before the signal handler is installed, the Prometheus library beyond its configuration and the
  calls on its counter, the text of JSON and YAML; the end-to-end tests (\<open>test/e2e\<close>), a script of calls on a
  live cluster with no logic of the program in it; \<open>cmd/fips.go\<close>, generated, which prints one line.
\<close>

section \<open>Hooks that decide by the request alone\<close>

text \<open>
  (C24) The six hooks that decode nothing always decide, with the UID of the request in the answer, and
  refuse exactly: deleting a HostedCluster, unless by its one service account; deleting a ManifestWork,
  unless by one of its six; deleting a HostedControlPlane, unless by one of three accounts given in full
  or by a user whose name is \<open>cluster-api\<close> or \<open>control-plane-pki-operator\<close>, or ends in a colon and one of
  these (nothing requires the part before to be \<open>system:serviceaccount:\<close>); deleting a namespace of a hosted
  control plane, whose name starts with one of five words, unless by a listed user; everything, for the
  Ingress configuration, unless by a user with a privileged service account group or with \<open>system:admin\<close>
  anywhere in the name; and everything, for objects that Hive owns, unless by a listed user or the SRE group.
\<close>

theorem request_only_guards:
  "refuses_exactly hostedcluster_Webhook
     (\<lambda>req. reqOperation req = Delete \<and> username req \<noteq> allowedServiceAccount) \<and>
   refuses_exactly manifestworks_Webhook
     (\<lambda>req. reqOperation req = Delete \<and> username req \<notin> set allowedServiceAccounts) \<and>
   refuses_exactly hostedcontrolplane_Webhook
     (\<lambda>req. reqOperation req = Delete \<and> username req \<notin> set allowedServiceAccountsUsernames \<and>
        \<not> named_account ''cluster-api'' (username req) \<and>
        \<not> named_account ''control-plane-pki-operator'' (username req)) \<and>
   refuses_exactly hcpnamespace_Webhook
     (\<lambda>req. reqOperation req = Delete \<and> hcp_protected_name (reqName req) \<and>
        username req \<notin> set hcpnamespace_allowedUsers) \<and>
   refuses_exactly ingressconfig_Webhook
     (\<lambda>req. \<not> list_ex privileged_sa_group (groups req) \<and> \<not> strings_Contains (username req) ''system:admin'') \<and>
   refuses_exactly hiveownership_Webhook
     (\<lambda>req. username req \<notin> set hiveownership_privilegedUsers \<and>
        ''system:serviceaccounts:openshift-backplane-srep'' \<notin> set (groups req))"
  using hostedcluster.guard_exact manifestworks.guard_exact hostedcontrolplane.guard_exact
    hcpnamespace.guard_exact ingressconfig_exact hiveownership_exact
  by (simp add: hcp_deleter_def)

section \<open>Hooks that decide by one object\<close>

text \<open>
  (C25) Four hooks that decode an object answer every request without a panic, in exactly one of three
  ways. Security context constraints: an error when the stored object is present and does not decode, a
  refusal when it is a default one, the operation is an update or a deletion and the user is not one of the
  platform's. Custom resource definitions: an error when the object does not decode, a refusal when it bears
  a protected name, for users and groups that are not privileged. Feature gates: an error when the new
  object does not decode, a refusal when it sets \<open>TechPreviewNoUpgrade\<close>, whoever the user is. The network
  configuration, for customers: an error when one of the two objects of an update does not decode, a
  refusal when the type asked for differs from the one in the status of the stored object, which has no
  override annotation with the value \<open>true\<close>, and of every other operation.
\<close>

theorem object_guards:
  "decides_by (scc_Webhook sccDecoder)
     (\<lambda>req. reqOldObject req \<noteq> [] \<and> (\<exists>err. DecodeRaw sccDecoder (reqOldObject req) = Inl err))
     (\<lambda>req. reqOldObject req \<noteq> [] \<and> reqOperation req \<in> {Update, Delete} \<and> username req \<notin> set scc_allowedUsers \<and>
        (\<exists>scc. DecodeRaw sccDecoder (reqOldObject req) = Inr scc \<and> metaName scc \<in> set scc_defaultSCCs)) \<and>
   decides_by (crd_Webhook crdDecoder)
     (\<lambda>req. \<exists>err. crd_object crdDecoder req = Inl err)
     (\<lambda>req. (\<exists>crd. crd_object crdDecoder req = Inr crd \<and> metaName crd \<in> set protectedNames) \<and>
        username req \<notin> set crd_allowedUsers \<and> \<not> list_ex privileged_sa_group (groups req)) \<and>
   decides_by (techpreview_Webhook gateDecoder)
     (\<lambda>req. \<exists>err. DecodeRaw gateDecoder (reqObject req) = Inl err)
     (\<lambda>req. \<exists>fg. DecodeRaw gateDecoder (reqObject req) = Inr fg \<and> FeatureSet fg = ''TechPreviewNoUpgrade'') \<and>
   decides_by (sdn_Webhook networkDecoder)
     (\<lambda>req. sdn_customer req \<and> reqOperation req = Update \<and>
        (\<exists>err. Decode networkDecoder req = Inl err \<or> DecodeRaw networkDecoder (reqOldObject req) = Inl err))
     (\<lambda>req. sdn_customer req \<and>
        (if reqOperation req = Update
         then \<exists>n s. Decode networkDecoder req = Inr n \<and> DecodeRaw networkDecoder (reqOldObject req) = Inr s \<and>
            specNetworkType n \<noteq> statusNetworkType s \<and>
            metaAnnotations (netMeta s) ''unsupported-red-hat-internal-testing'' \<noteq> Some ''true''
         else True))"
  by (intro conjI scc_exact crd_exact techpreview_exact sdn_exact)

text \<open>
  (C26) The two RBAC hooks, for every request, without a panic: an error exactly when a user who has to be
  checked sends a stored object that does not decode; a refusal of \<open>system:unauthenticated\<close>, and otherwise
  exactly of deletions of a guarded stored object by a user who has to be checked and is neither the
  backplane administrator nor a member of the SRE backplane group. Not checked are \<open>kube:\<close> users and
  authenticated \<open>system:\<close> users; but for ClusterRoles \<open>system:admin\<close> is checked like everybody else, and for
  ClusterRoleBindings it is not. Of ClusterRoles, those on the protected list and the backplane roles are
  guarded; of ClusterRoleBindings, those with a service account of a managed namespace outside of the
  exceptions among their subjects, except that \<open>cluster-admin\<close> may clean up after \<open>oc adm must-gather\<close>.
\<close>

theorem rbac_guards:
  "decides_by (clusterrole_Webhook roleDecoder)
     (\<lambda>req. \<not> system_or_kube_user (username req) \<and> username req \<noteq> ''system:unauthenticated'' \<and> reqOldObject req \<noteq> [] \<and>
        (\<exists>err. DecodeRaw roleDecoder (reqOldObject req) = Inl err))
     (\<lambda>req. username req = ''system:unauthenticated'' \<or>
        (checked_deletion req \<and> \<not> system_or_kube_user (username req) \<and>
         (\<exists>cr. DecodeRaw roleDecoder (reqOldObject req) = Inr cr \<and>
            (metaName cr \<in> set protectedClusterRoles \<or> prefix ''backplane-'' (metaName cr))))) \<and>
   decides_by (crb_Webhook bindingDecoder)
     (\<lambda>req. \<not> prefix ''system:'' (username req) \<and> \<not> prefix ''kube:'' (username req) \<and> reqOldObject req \<noteq> [] \<and>
        (\<exists>err. DecodeRaw bindingDecoder (reqOldObject req) = Inl err))
     (\<lambda>req. username req = ''system:unauthenticated'' \<or>
        (checked_deletion req \<and> \<not> prefix ''system:'' (username req) \<and> \<not> prefix ''kube:'' (username req) \<and>
         (\<exists>crb. DecodeRaw bindingDecoder (reqOldObject req) = Inr crb \<and> list_ex protected_subject (Subjects crb) \<and>
            \<not> (username req = ''cluster-admin'' \<and>
               metaAnnotations (crbMeta crb) ''oc.openshift.io/command'' = Some ''oc adm must-gather''))))"
  by (intro conjI clusterrole_exact crb_exact)

section \<open>Panics\<close>

lemma loop_free_never_panic:
  "never_panics (networkpolicies_Webhook d1)" "never_panics (node_Webhook d2)" "never_panics (pod_Webhook d3)"
  "never_panics (prometheusrule_Webhook d4)" "never_panics (serviceaccount_Webhook d5)"
  "never_panics (networkoperator_Webhook d6)" "never_panics (service_Webhook complete d7)"
  unfolding never_panics_def
  by (auto simp: Let_def networkpolicies_Webhook_def networkpolicies_authorized_def networkpolicies_isAllowedNamespace_def
      node_Webhook_def node_authorized_def pod_Webhook_def pod_authorized_def prometheusrule_Webhook_def
      prometheusrule_authorized_def serviceaccount_Webhook_def serviceaccount_authorized_def
      networkoperator_Webhook_def service_Webhook_def split: sum.split option.split)

lemma regularuser_never_panics: "never_panics (regularuser_Webhook order ds)"
  unfolding never_panics_def using regularuser_decided [of ds]
  by (auto simp: regularuser_decides_def regularuser_Webhook_def)

lemmas never_panic_hooks = loop_free_never_panic regularuser_never_panics
  scc_exact [THEN decides_by_never_panics] crd_exact [THEN decides_by_never_panics]
  techpreview_exact [THEN decides_by_never_panics] sdn_exact [THEN decides_by_never_panics]
  clusterrole_exact [THEN decides_by_never_panics] crb_exact [THEN decides_by_never_panics]
  ingressconfig_exact [THEN decides_by_never_panics] hiveownership_exact [THEN decides_by_never_panics]
  hostedcluster.guard_exact [THEN decides_by_never_panics] manifestworks.guard_exact [THEN decides_by_never_panics]
  hostedcontrolplane.guard_exact [THEN decides_by_never_panics] hcpnamespace.guard_exact [THEN decides_by_never_panics]

definition panicking_paths :: "string list" where
  "panicking_paths = [''/clusterlogging-validation'', ''/imagecontentpolicies-validation'', ''/ingresscontroller-validation'',
     ''/namespace-validation'', ''/podimagespec-mutation'']"

lemma panicking_uris:
  "GetURI (clusterlogging_Webhook d1) \<in> set panicking_paths" "GetURI (icp_Webhook d2) \<in> set panicking_paths"
  "GetURI (ingresscontroller_Webhook d3) \<in> set panicking_paths" "GetURI (namespace_Webhook d4) \<in> set panicking_paths"
  "GetURI (podimagespec_Webhook complete kube marshal d5) \<in> set panicking_paths"
  by (simp_all add: panicking_paths_def hook_defs)

lemma hooks_panic: "list_all (\<lambda>h. never_panics h \<or> GetURI h \<in> set panicking_paths) (hook_table ds)"
  by (simp add: hook_table_def never_panic_hooks panicking_uris)

lemma dispatched_panic:
  assumes "HandleRequest parseURL decodeReview encode d r w = (Panic m, w')"
  obtains path hook where "parseURL (RequestURI r) = Inr path" and "d path = Some hook" and "\<not> never_panics hook"
proof -
  from assms obtain path hook req where "parseURL (RequestURI r) = Inr path" "d path = Some hook"
      "Authorized hook req (new_instance w) = (Panic m, w')"
    by (auto simp: HandleRequest_def Let_def split: sum.splits option.splits prod.splits if_splits go_result.splits)
  with that show thesis unfolding never_panics_def by (metis Pair_inject go_result.distinct(1))
qed

text \<open>
  (C30) Panics are confined: whatever the request, the decoders and the API server do, a request handler
  panics only on the paths of five hooks, which dereference pointers of the objects or of the request; the
  other twenty return for every request.
\<close>

theorem panics_confined:
  assumes "HandleRequest parseURL decodeReview encode (NewDispatcher (Webhooks ds)) r w = (Panic m, w')"
  shows "\<exists>path. parseURL (RequestURI r) = Inr path \<and>
     path \<in> {''/clusterlogging-validation'', ''/imagecontentpolicies-validation'', ''/ingresscontroller-validation'',
       ''/namespace-validation'', ''/podimagespec-mutation''}"
proof -
  obtain path hook where path: "parseURL (RequestURI r) = Inr path" "NewDispatcher (Webhooks ds) path = Some hook"
    and panics: "\<not> never_panics hook"
    using dispatched_panic [OF assms] .
  from NewDispatcher_Some [OF path(2)] obtain name where "(name, hook) \<in> set (Webhooks ds)" and uri: "GetURI hook = path"
    by blast
  then have "hook \<in> set (hook_table ds)" by (auto simp: Webhooks_table)
  with hooks_panic [of ds] panics uri path(1) show ?thesis by (auto simp: list_all_iff panicking_paths_def)
qed

definition example_mirror_request :: admission_request where
  "example_mirror_request = zero_request\<lparr>reqObject := ''{}'',
     reqKind := \<lparr>gvkGroup = ''config.openshift.io'', gvkVersion = ''v1'', gvkKind = ''ImageTagMirrorSet''\<rparr>\<rparr>"

theorem panics_confined_witness:
  "(\<exists>m w'. HandleRequest Inr (\<lambda>_. Inr (Some example_mirror_request)) (\<lambda>_ _. None) (NewDispatcher (Webhooks blind_dependencies))
       \<lparr>RequestURI = ''/imagecontentpolicies-validation'', Body = Some (Inr ''{}''), ContentType = ''application/json''\<rparr>
       initial_world = (Panic m, w')) \<and>
   ''/imagecontentpolicies-validation'' \<in> {''/clusterlogging-validation'', ''/imagecontentpolicies-validation'',
     ''/ingresscontroller-validation'', ''/namespace-validation'', ''/podimagespec-mutation''}"
proof -
  let ?icp = "icp_Webhook (icp_d blind_dependencies)"
  let ?r = "\<lparr>RequestURI = ''/imagecontentpolicies-validation'', Body = Some (Inr ''{}''), ContentType = ''application/json''\<rparr>"
  have "(Name ?icp, ?icp) \<in> set (Webhooks blind_dependencies)"
    unfolding Webhooks_table by (simp add: hook_table_def)
  note found = registered_lookup [OF this]
  have uri: "GetURI ?icp = ''/imagecontentpolicies-validation''" by (simp add: hook_defs)
  have "Validate ?icp example_mirror_request" "Authorized ?icp example_mirror_request v = (nil_deref, v)" for v
    by (simp_all add: hook_defs icp_Authorized_def example_mirror_request_def zero_request_def)
  then have panic: "HandleRequest Inr (\<lambda>_. Inr (Some example_mirror_request)) (\<lambda>_ _. None)
      (NewDispatcher (Webhooks blind_dependencies)) ?r initial_world = (nil_deref, new_instance initial_world)"
    using found by (simp add: uri HandleRequest_def ParseHTTPRequest_def validContentType_def)
  from panics_confined [OF this] panic show ?thesis by auto
qed

section \<open>Metrics\<close>

text \<open>
  The ServiceMonitor of the template, built for the namespace the server assumes, finds the service that the
  server asks the metrics library for: it looks in that namespace, and all its labels are on the service.
\<close>

lemma metrics_service_monitored:
  "bfNamespace fl = OperatorNamespace \<Longrightarrow>
     (case mBody (createServiceMonitor fl) of
        MonitorSpec ms \<Rightarrow> mcNamespace metricsServer \<in> set (msNamespaces ms) \<and>
          set (msSelector ms) \<subseteq> set (mcServiceLabel metricsServer)
      | _ \<Rightarrow> False)"
  by (simp add: createServiceMonitor_def metricsServer_def serviceName_def)

section \<open>Unauthenticated users\<close>

text \<open>The hooks whose code looks for the user \<open>system:unauthenticated\<close>.\<close>

definition authenticated_hooks :: "dependencies \<Rightarrow> webhook list" where
  "authenticated_hooks ds =
     [clusterrole_Webhook (clusterrole_d ds), crb_Webhook (crb_d ds), ingresscontroller_Webhook (ingresscontroller_d ds),
      node_Webhook (node_d ds), regularuser_Webhook (order_d ds) (regularuser_d ds),
      serviceaccount_Webhook (serviceaccount_d ds)]"

lemmas authenticated_contracts =
  clusterrole.authenticated_webhook_axioms crb.authenticated_webhook_axioms
  ingresscontroller.authenticated_webhook_axioms node.authenticated_webhook_axioms
  regularuser.authenticated_webhook_axioms serviceaccount.authenticated_webhook_axioms

lemma authenticated_hooks_contract: "hook \<in> set (authenticated_hooks ds) \<Longrightarrow> authenticated_webhook hook"
  by (auto simp: authenticated_hooks_def intro: authenticated_contracts)

lemma authenticated_hooks_registered: "hook \<in> set (authenticated_hooks ds) \<Longrightarrow> (Name hook, hook) \<in> set (Webhooks ds)"
proof -
  assume hook: "hook \<in> set (authenticated_hooks ds)"
  have "set (authenticated_hooks ds) \<subseteq> set (hook_table ds)"
    by (simp add: authenticated_hooks_def hook_table_def)
  with hook have "hook \<in> set (hook_table ds)" by blast
  then show ?thesis unfolding Webhooks_table by (metis (no_types, lifting) image_eqI list.set_map)
qed

text \<open>
  (C29) None of the hooks that look for the user \<open>system:unauthenticated\<close> lets a request of that user
  through. When its AdmissionReview arrives at the hook's path over HTTP, the handler does not panic, and
  the response it has to send is a refusal or an error. If it returns, it has sent exactly one review, and
  that review is a refusal or an error (an error with code 500 if the first encoding failed); it does not
  return only if no attempt to send is ever encoded.
\<close>

theorem unauthenticated_never_allowed:
  assumes "hook \<in> set (authenticated_hooks ds)"
    and "parseURL (RequestURI r) = Inr (GetURI hook)"
    and "ParseHTTPRequest decodeReview r = Inr (req, uid)"
    and "username req = ''system:unauthenticated''"
  shows "\<exists>resp.
     (if Validate hook req then Authorized hook req (new_instance w) =
        (Return resp, snd (HandleRequest parseURL decodeReview encode (NewDispatcher (Webhooks ds)) r w))
      else resp = new_response (Errored 400 ''not a valid webhook request'')) \<and>
     (refuses (respVerdict resp) \<or> errs (respVerdict resp)) \<and>
     (case HandleRequest parseURL decodeReview encode (NewDispatcher (Webhooks ds)) r w of
        (Panic m, w') \<Rightarrow> False
      | (Return None, w') \<Rightarrow> (\<forall>k r. attempted encode 0 resp k = Some r \<longrightarrow> encode k (owned r) \<noteq> None)
      | (Return (Some wr), w') \<Rightarrow> status_code wr = 200 \<and>
          (\<exists>review. wReviews wr = [review] \<and>
             (refuses (respVerdict (reviewResponse review)) \<or> errs (respVerdict (reviewResponse review))) \<and>
             (if encode 0 (owned resp) = None then review = review_of (owned resp)
              else \<exists>err. respVerdict (reviewResponse review) = Errored 500 err)))"
proof -
  obtain resp sent w' where handled:
      "HandleRequest parseURL decodeReview encode (NewDispatcher (Webhooks ds)) r w = (Return sent, w')"
    and resp: "if Validate hook req then Authorized hook req (new_instance w) = (Return resp, w')
        else resp = new_response (Errored 400 ''not a valid webhook request'')"
    and bad: "refuses (respVerdict resp) \<or> errs (respVerdict resp)" and sent: "delivered encode resp sent"
    using authenticated_webhook.dispatched_unauthenticated
      [OF authenticated_hooks_contract [OF assms(1)], of parseURL r _ "NewDispatcher (Webhooks ds)" decodeReview]
      registered_lookup [OF authenticated_hooks_registered [OF assms(1)]] assms(2-4) by blast
  show ?thesis
  proof (cases sent)
    case None
    with handled resp bad sent show ?thesis by (intro exI [of _ resp]) (simp add: delivered_def)
  next
    case (Some wr)
    then show ?thesis
      using handled resp bad delivered_review [OF sent [unfolded Some]]
      by (intro exI [of _ resp]) (auto simp: review_of_def split: if_splits)
  qed
qed

definition example_anonymous :: admission_request where
  "example_anonymous = zero_request\<lparr>reqOperation := Delete, reqUserInfo := \<lparr>Username = ''system:unauthenticated'', Groups = []\<rparr>\<rparr>"

definition example_node_http :: http_request where
  "example_node_http = \<lparr>RequestURI = ''/node-validation-osd'', Body = Some (Inr ''{}''), ContentType = ''application/json''\<rparr>"

theorem unauthenticated_never_allowed_witness:
  "username example_anonymous = ''system:unauthenticated'' \<and>
   (case HandleRequest Inr (\<lambda>_. Inr (Some example_anonymous)) (\<lambda>_ _. None)
       (NewDispatcher (Webhooks blind_dependencies)) example_node_http initial_world of
     (Return (Some wr), w') \<Rightarrow> (\<exists>review. wReviews wr = [review] \<and> \<not> allows (respVerdict (reviewResponse review)))
   | (Return None, w') \<Rightarrow> False
   | (Panic m, w') \<Rightarrow> False)"
proof
  show user: "username example_anonymous = ''system:unauthenticated''"
    by (simp add: example_anonymous_def)
  have hook: "node_Webhook (node_d blind_dependencies) \<in> set (authenticated_hooks blind_dependencies)"
    by (simp add: authenticated_hooks_def)
  have parsed: "Inr (RequestURI example_node_http) = Inr (GetURI (node_Webhook d))"
      "ParseHTTPRequest (\<lambda>_. Inr (Some example_anonymous)) example_node_http = Inr (example_anonymous, [])" for d
    by (simp_all add: example_node_http_def example_anonymous_def ParseHTTPRequest_def validContentType_def
        zero_request_def hook_defs)
  have attempts: "\<not> (\<forall>k. attempted encode 0 resp k = None)" for encode resp
    by (metis attempted.simps(1) option.distinct(1))
  let ?handled = "HandleRequest Inr (\<lambda>_. Inr (Some example_anonymous)) (\<lambda>_ _. None)
      (NewDispatcher (Webhooks blind_dependencies)) example_node_http initial_world"
  obtain out w' where handled: "?handled = (out, w')" by fastforce
  show "case ?handled of
     (Return (Some wr), w') \<Rightarrow> (\<exists>review. wReviews wr = [review] \<and> \<not> allows (respVerdict (reviewResponse review)))
   | (Return None, w') \<Rightarrow> False
   | (Panic m, w') \<Rightarrow> False"
    using unauthenticated_never_allowed [of _ _ Inr, OF hook parsed user, of initial_world "\<lambda>_ _. None",
        unfolded handled]
    unfolding handled verdict_trichotomy
    by (cases out; cases "returned out") (auto simp: attempts)
qed

end
